(* ===== verification/Vakil_Prelude.thy ===== *)
theory Vakil_Prelude
  imports Main "HOL-Library.Word" "HOL-Library.Monad_Syntax"
begin

text \<open>
  What every component of the model shares: the machine integers of the source, Rust's
  \<open>Result\<close>, the reading of a panic, the \<open>for\<close> loop, and the collections of simplification
  rules the component theories add to.

  A Rust computation that may panic is a HOL function into \<open>'a option\<close>: \<open>None\<close> is the panic,
  which ends the computation and loses the state it was changing. Sequencing is the bind of
  the option monad, so a panic propagates as it does in the code (the host catches none).
  Rust's own \<open>Option\<close> is HOL's \<open>option\<close> as well; where both occur the outer one is the panic.
\<close>

named_theorems exec_simps \<open>unfolding rules for panicking, world-passing computations\<close>
named_theorems default_simps \<open>the values of the source's Default impls\<close>

section \<open>Machine integers\<close>

type_synonym u8 = "8 word"
type_synonym u16 = "16 word"
type_synonym u32 = "32 word"
type_synonym u64 = "64 word"
type_synonym bytes = "u8 list"

section \<open>Result\<close>

datatype ('a, 'e) result = Ok 'a | Err 'e

primrec is_ok :: "('a, 'e) result \<Rightarrow> bool" where
  "is_ok (Ok _) = True"
| "is_ok (Err _) = False"

primrec unwrap_or :: "('a, 'e) result \<Rightarrow> 'a \<Rightarrow> 'a" where
  "unwrap_or (Ok a) d = a"
| "unwrap_or (Err _) d = d"

primrec result_ok :: "('a, 'e) result \<Rightarrow> 'a option" where
  "result_ok (Ok a) = Some a"
| "result_ok (Err _) = None"

primrec map_err :: "('e \<Rightarrow> 'f) \<Rightarrow> ('a, 'e) result \<Rightarrow> ('a, 'f) result" where
  "map_err f (Ok a) = Ok a"
| "map_err f (Err e) = Err (f e)"

primrec and_then :: "('a, 'e) result \<Rightarrow> ('a \<Rightarrow> ('b, 'e) result) \<Rightarrow> ('b, 'e) result" where
  "and_then (Ok a) f = f a"
| "and_then (Err e) f = Err e"

lemma is_ok_iff: "is_ok r \<longleftrightarrow> (\<exists>a. r = Ok a)"
  by (cases r) auto

lemma and_then_Ok_iff: "and_then r f = Ok b \<longleftrightarrow> (\<exists>a. r = Ok a \<and> f a = Ok b)"
  by (cases r) auto

lemma map_err_Ok_iff [simp]: "map_err f r = Ok a \<longleftrightarrow> r = Ok a"
  by (cases r) auto

text \<open>
  The \<open>?\<close> operator between two computations that thread a state: an error of the first is the
  error of the whole.
\<close>

definition try_then ::
  "(('a, 'e) result \<times> 's) option \<Rightarrow> ('a \<Rightarrow> 's \<Rightarrow> (('b, 'e) result \<times> 's) option) \<Rightarrow>
   (('b, 'e) result \<times> 's) option" where
  "try_then m f = do {
     (r, s) \<leftarrow> m;
     (case r of Ok a \<Rightarrow> f a s | Err e \<Rightarrow> Some (Err e, s))
   }"

lemma try_then_simps [simp]:
  "try_then None f = None"
  "try_then (Some (Ok a, s)) f = f a s"
  "try_then (Some (Err e, s)) f = Some (Err e, s)"
  by (simp_all add: try_then_def)

lemma try_then_Some_Ok:
  "try_then m f = Some (Ok b, s') \<longleftrightarrow> (\<exists>a s. m = Some (Ok a, s) \<and> f a s = Some (Ok b, s'))"
  by (auto simp: try_then_def split: Option.bind_splits result.splits)

lemma try_then_Some_Err:
  "try_then m f = Some (Err e, s') \<longleftrightarrow>
     m = Some (Err e, s') \<or> (\<exists>a s. m = Some (Ok a, s) \<and> f a s = Some (Err e, s'))"
  by (auto simp: try_then_def split: Option.bind_splits result.splits)

text \<open>A transitive relation between states that both parts keep is kept by the whole.\<close>

lemma try_then_rel:
  assumes "transp R"
    and "try_then m f = Some (r, s')"
    and "\<And>r s. m = Some (r, s) \<Longrightarrow> R s0 s"
    and "\<And>a s r'. f a s = Some (r', s') \<Longrightarrow> R s s'"
  shows "R s0 s'"
  using assms(2) by (auto simp: try_then_def split: Option.bind_splits result.splits
      intro: assms(3) transpD[OF assms(1) assms(3) assms(4)])

section \<open>Loops\<close>

text \<open>
  A \<open>for\<close> loop whose body has neither \<open>break\<close> nor \<open>return\<close>: the body runs on every element in
  order, threading the state; a panic of the body ends the loop. Loops that leave early are
  recursive functions of their own.
\<close>

primrec for_each :: "('a \<Rightarrow> 's \<Rightarrow> 's option) \<Rightarrow> 'a list \<Rightarrow> 's \<Rightarrow> 's option" where
  "for_each f [] s = Some s"
| "for_each f (x # xs) s = Option.bind (f x s) (for_each f xs)"

lemma for_each_append:
  "for_each f (xs @ ys) s = Option.bind (for_each f xs s) (for_each f ys)"
proof (induction xs arbitrary: s)
  case Nil
  then show ?case by simp
next
  case (Cons x xs)
  then show ?case by (cases "f x s") simp_all
qed

text \<open>A relation between the states before and after that every body step extends.\<close>

lemma for_each_induct:
  assumes "for_each f xs s = Some s'"
    and "P [] s"
    and "\<And>ys x t t'. x \<in> set xs \<Longrightarrow> P ys t \<Longrightarrow> f x t = Some t' \<Longrightarrow> P (ys @ [x]) t'"
  shows "P xs s'"
proof -
  have "P (ys @ xs) s'" if "for_each f xs t = Some s'" "P ys t"
    and "\<And>ys x t t'. x \<in> set xs \<Longrightarrow> P ys t \<Longrightarrow> f x t = Some t' \<Longrightarrow> P (ys @ [x]) t'" for ys t
    using that
  proof (induction xs arbitrary: ys t)
    case Nil
    then show ?case by simp
  next
    case (Cons x xs)
    from Cons.prems(1) obtain u where u: "f x t = Some u" "for_each f xs u = Some s'"
      by (auto split: Option.bind_splits)
    have "P (ys @ [x]) u"
      using Cons.prems(2,3) u(1) by simp
    with Cons.IH[OF u(2) this] Cons.prems(3) show ?case by simp
  qed
  from this[of s "[]"] assms show ?thesis by simp
qed

lemma for_each_invariant:
  assumes "for_each f xs s = Some s'" and "P s"
    and "\<And>x t t'. x \<in> set xs \<Longrightarrow> P t \<Longrightarrow> f x t = Some t' \<Longrightarrow> P t'"
  shows "P s'"
  using for_each_induct[of f xs s s' "\<lambda>_. P"] assms by blast

lemma for_each_total:
  assumes "P s" and "\<And>x t. x \<in> set xs \<Longrightarrow> P t \<Longrightarrow> \<exists>t'. f x t = Some t' \<and> P t'"
  shows "\<exists>s'. for_each f xs s = Some s' \<and> P s'"
  using assms
proof (induction xs arbitrary: s)
  case Nil
  then show ?case by simp
next
  case (Cons x xs)
  then obtain t where "f x s = Some t" "P t" by force
  moreover have "\<exists>s'. for_each f xs t = Some s' \<and> P s'"
    using Cons.IH[OF \<open>P t\<close>] Cons.prems(2) by simp
  ultimately show ?case by simp
qed

lemma for_each_noop:
  "(\<And>x. x \<in> set xs \<Longrightarrow> f x s = Some s) \<Longrightarrow> for_each f xs s = Some s"
  by (induction xs) simp_all

section \<open>Loops that leave early\<close>

text \<open>
  A \<open>for\<close> loop whose body may leave the loop with a value (\<open>break\<close> or \<open>return\<close>): \<open>Some d\<close> ends
  the loop with \<open>d\<close>, \<open>None\<close> goes on (\<open>continue\<close>, or the end of the body).
\<close>

primrec for_until ::
  "('a \<Rightarrow> 's \<Rightarrow> ('d option \<times> 's) option) \<Rightarrow> 'a list \<Rightarrow> 's \<Rightarrow> ('d option \<times> 's) option" where
  "for_until f [] s = Some (None, s)"
| "for_until f (x # xs) s = do {
     (d, s) \<leftarrow> f x s;
     (case d of None \<Rightarrow> for_until f xs s | Some _ \<Rightarrow> Some (d, s))
   }"

lemma for_until_append:
  "for_until f (xs @ ys) s = do {
     (d, s) \<leftarrow> for_until f xs s;
     (case d of None \<Rightarrow> for_until f ys s | Some _ \<Rightarrow> Some (d, s))
   }"
  by (induction xs arbitrary: s) (auto split: Option.bind_split option.split)

lemma for_until_None_Cons:
  "for_until f (x # xs) s = Some (None, s') \<longleftrightarrow>
     (\<exists>t. f x s = Some (None, t) \<and> for_until f xs t = Some (None, s'))"
  by (auto split: Option.bind_splits option.splits)

text \<open>The loop ends with a value exactly if some element gives it and all before it go on.\<close>

lemma for_until_Some_iff:
  "for_until f xs s = Some (Some d, s') \<longleftrightarrow>
     (\<exists>pre x post t. xs = pre @ x # post \<and> for_until f pre s = Some (None, t) \<and>
        f x t = Some (Some d, s'))"
proof
  show "for_until f xs s = Some (Some d, s') \<Longrightarrow>
     \<exists>pre x post t. xs = pre @ x # post \<and> for_until f pre s = Some (None, t) \<and>
        f x t = Some (Some d, s')"
  proof (induction xs arbitrary: s)
    case Nil
    then show ?case by simp
  next
    case (Cons x xs)
    from Cons.prems obtain e u where e: "f x s = Some (e, u)"
      by (auto split: Option.bind_splits)
    show ?case
    proof (cases e)
      case None
      with e Cons.prems have "for_until f xs u = Some (Some d, s')" by simp
      from Cons.IH[OF this] obtain pre y post t where
        "xs = pre @ y # post" "for_until f pre u = Some (None, t)" "f y t = Some (Some d, s')"
        by blast
      with e None have "x # xs = (x # pre) @ y # post \<and> for_until f (x # pre) s = Some (None, t) \<and>
          f y t = Some (Some d, s')" by simp
      then show ?thesis by blast
    next
      case (Some d')
      with e Cons.prems have "x # xs = [] @ x # xs \<and> for_until f [] s = Some (None, s) \<and>
          f x s = Some (Some d, s')" by simp
      then show ?thesis by blast
    qed
  qed
next
  assume "\<exists>pre x post t. xs = pre @ x # post \<and> for_until f pre s = Some (None, t) \<and>
        f x t = Some (Some d, s')"
  then show "for_until f xs s = Some (Some d, s')"
    by (auto simp: for_until_append)
qed

lemma for_until_rel:
  assumes "for_until f xs s = Some (d, s')" and "reflp R" and "transp R"
    and "\<And>x t e t'. x \<in> set xs \<Longrightarrow> f x t = Some (e, t') \<Longrightarrow> R t t'"
  shows "R s s'"
  using assms(1,4)
proof (induction xs arbitrary: s)
  case Nil
  then show ?case using assms(2) by (simp add: reflpD)
next
  case (Cons x xs)
  from Cons.prems(1) obtain e u where e: "f x s = Some (e, u)"
    by (auto split: Option.bind_splits)
  have "R s u" using Cons.prems(2)[OF _ e] by simp
  moreover have "R u s'" if "e = None"
  proof (rule Cons.IH)
    show "for_until f xs u = Some (d, s')" using Cons.prems(1) e that by simp
    show "R t t'" if "y \<in> set xs" "f y t = Some (e', t')" for y t e' t'
      using Cons.prems(2)[of y t e' t'] that by simp
  qed
  ultimately show ?case
    using Cons.prems(1) e assms(3) by (cases e) (auto dest: transpD)
qed

lemma for_until_passes:
  "(\<And>x t. x \<in> set xs \<Longrightarrow> P t \<Longrightarrow> \<exists>t'. f x t = Some (None, t') \<and> P t') \<Longrightarrow> P s \<Longrightarrow>
   \<exists>s'. for_until f xs s = Some (None, s') \<and> P s'"
proof (induction xs arbitrary: s)
  case Nil
  then show ?case by simp
next
  case (Cons x xs)
  from Cons.prems obtain t where t: "f x s = Some (None, t)" "P t" by force
  have "\<exists>s'. for_until f xs t = Some (None, s') \<and> P s'"
    using Cons.IH[OF _ t(2)] Cons.prems(1) by simp
  with t show ?case by simp
qed

section \<open>Fallible loops\<close>

text \<open>A \<open>for\<close> loop whose body ends in \<open>?\<close> and collects one value per element.\<close>

primrec try_map :: "('a \<Rightarrow> ('b, 'e) result) \<Rightarrow> 'a list \<Rightarrow> ('b list, 'e) result" where
  "try_map f [] = Ok []"
| "try_map f (x # xs) = and_then (f x) (\<lambda>y. and_then (try_map f xs) (\<lambda>ys. Ok (y # ys)))"

lemma try_map_Ok_iff:
  "try_map f xs = Ok ys \<longleftrightarrow> list_all2 (\<lambda>x y. f x = Ok y) xs ys"
  by (induction xs arbitrary: ys) (auto simp: and_then_Ok_iff list_all2_Cons1)

lemma try_map_Err_iff:
  "try_map f xs = Err e \<longleftrightarrow>
     (\<exists>as x bs. xs = as @ x # bs \<and> (\<forall>a \<in> set as. is_ok (f a)) \<and> f x = Err e)"
proof (induction xs)
  case Nil
  then show ?case by simp
next
  case (Cons x xs)
  show ?case
  proof (cases "f x")
    case (Ok y)
    have "try_map f (x # xs) = Err e \<longleftrightarrow> try_map f xs = Err e"
      using Ok by (cases "try_map f xs") simp_all
    also have "\<dots> \<longleftrightarrow> (\<exists>as z bs. xs = as @ z # bs \<and> (\<forall>a \<in> set as. is_ok (f a)) \<and> f z = Err e)"
      by (rule Cons.IH)
    also have "\<dots> \<longleftrightarrow> (\<exists>as z bs. x # xs = as @ z # bs \<and> (\<forall>a \<in> set as. is_ok (f a)) \<and> f z = Err e)"
      (is "?L \<longleftrightarrow> ?R")
    proof
      assume ?L
      then obtain as z bs where "xs = as @ z # bs" "\<forall>a \<in> set as. is_ok (f a)" "f z = Err e"
        by blast
      then have "x # xs = (x # as) @ z # bs \<and> (\<forall>a \<in> set (x # as). is_ok (f a)) \<and> f z = Err e"
        using Ok by simp
      then show ?R by blast
    next
      assume ?R
      then show ?L using Ok by (auto simp: Cons_eq_append_conv) blast
    qed
    finally show ?thesis .
  next
    case (Err e')
    then have "x # xs = [] @ x # xs \<and> (\<forall>a \<in> set []. is_ok (f a)) \<and> f x = Err e'"
      by simp
    with Err show ?thesis
      by (auto simp: Cons_eq_append_conv is_ok_iff intro: exI[of _ "[]"])
  qed
qed

end
