(* ===== verification/Rust_Str.thy ===== *)
theory Rust_Str
  imports Vakil_Prelude
begin

text \<open>
  The part of Rust's \<open>str\<close> the program uses: trimming, splitting, prefixes, lines, and the
  decimal printing and parsing of unsigned integers.

  A Rust string is modelled as a HOL \<open>string\<close> whose characters are Unicode scalar values below
  256 (\<open>of_char\<close> is the code point). Over that range \<open>utf8\<close> gives the bytes of the string.
\<close>

section \<open>Characters\<close>

definition is_whitespace :: "char \<Rightarrow> bool" where
  "is_whitespace c \<longleftrightarrow>
     (let n = (of_char c :: nat) in 9 \<le> n \<and> n \<le> 13 \<or> n = 32 \<or> n = 133 \<or> n = 160)"

definition utf8_char :: "char \<Rightarrow> bytes" where
  "utf8_char c =
     (let n = (of_char c :: nat)
      in if n < 128 then [of_nat n] else [of_nat (192 + n div 64), of_nat (128 + n mod 64)])"

definition utf8 :: "string \<Rightarrow> bytes" where
  "utf8 s = concat (map utf8_char s)"

definition to_digit :: "nat \<Rightarrow> char \<Rightarrow> nat option" where
  "to_digit radix c =
     (let n = (of_char c :: nat);
          d = (if 48 \<le> n \<and> n \<le> 57 then n - 48
               else if 97 \<le> n \<and> n \<le> 122 then n - 87
               else if 65 \<le> n \<and> n \<le> 90 then n - 55 else 36)
      in if d < radix then Some d else None)"

section \<open>Trimming, prefixes and suffixes\<close>

definition trim_start :: "string \<Rightarrow> string" where
  "trim_start s = dropWhile is_whitespace s"

definition trim_end :: "string \<Rightarrow> string" where
  "trim_end s = rev (dropWhile is_whitespace (rev s))"

definition trim :: "string \<Rightarrow> string" where
  "trim s = trim_end (trim_start s)"

definition starts_with :: "string \<Rightarrow> string \<Rightarrow> bool" where
  "starts_with p s \<longleftrightarrow> take (length p) s = p"

definition strip_prefix :: "char \<Rightarrow> string \<Rightarrow> string option" where
  "strip_prefix c s = (case s of [] \<Rightarrow> None | x # xs \<Rightarrow> if x = c then Some xs else None)"

definition strip_suffix :: "char \<Rightarrow> string \<Rightarrow> string option" where
  "strip_suffix c s = map_option rev (strip_prefix c (rev s))"

text \<open>A string without white space at either end: what \<open>trim\<close> leaves unchanged.\<close>

definition trimmed :: "string \<Rightarrow> bool" where
  "trimmed s \<longleftrightarrow> (s \<noteq> [] \<longrightarrow> \<not> is_whitespace (hd s) \<and> \<not> is_whitespace (last s))"

lemma trim_id: "trimmed s \<Longrightarrow> trim s = s"
proof (cases s)
  case (Cons c cs)
  assume "trimmed s"
  with Cons have "\<not> is_whitespace c" "\<not> is_whitespace (last (c # cs))"
    by (simp_all add: trimmed_def)
  moreover obtain d ds where "rev (c # cs) = d # ds" "d = last (c # cs)"
    by (metis Nil_is_rev_conv hd_rev list.collapse list.distinct(1))
  ultimately have "dropWhile is_whitespace (rev (c # cs)) = rev (c # cs)" by simp
  then show ?thesis
    using Cons \<open>\<not> is_whitespace c\<close> by (simp add: trim_def trim_start_def trim_end_def)
qed (simp add: trim_def trim_start_def trim_end_def)

lemma trim_end_hd: "trim_end s \<noteq> [] \<Longrightarrow> hd (trim_end s) = hd s"
proof -
  assume ne: "trim_end s \<noteq> []"
  have "rev s = takeWhile is_whitespace (rev s) @ dropWhile is_whitespace (rev s)" by simp
  then have "s = rev (dropWhile is_whitespace (rev s)) @ rev (takeWhile is_whitespace (rev s))"
    by (metis rev_append rev_rev_ident)
  then show ?thesis using ne by (metis trim_end_def hd_append2)
qed

lemma trimmed_trim: "trimmed (trim s)"
  unfolding trimmed_def
proof (intro impI conjI)
  assume ne: "trim s \<noteq> []"
  then have "trim_start s \<noteq> []" by (auto simp: trim_def trim_end_def)
  then show "\<not> is_whitespace (hd (trim s))"
    using ne by (simp add: trim_def trim_end_hd) (simp add: trim_start_def hd_dropWhile)
  show "\<not> is_whitespace (last (trim s))"
    using ne by (simp add: trim_def trim_end_def last_rev hd_dropWhile)
qed

lemma trim_idem [simp]: "trim (trim s) = trim s"
  by (rule trim_id) (rule trimmed_trim)

lemma trim_Nil [simp]: "trim [] = []"
  by (simp add: trim_def trim_start_def trim_end_def)

section \<open>Splitting\<close>

text \<open>
  \<open>split_aux sep cur s\<close>: the pieces of \<open>s\<close> between the leftmost non-overlapping matches of \<open>sep\<close>,
  where \<open>cur\<close> holds the characters of the current piece read so far. With an empty separator
  Rust's \<open>split\<close> matches at every character boundary instead.
\<close>

function split_aux :: "string \<Rightarrow> string \<Rightarrow> string \<Rightarrow> string list" where
  "split_aux sep cur [] = [cur]"
| "split_aux sep cur (c # cs) =
     (if sep \<noteq> [] \<and> starts_with sep (c # cs)
      then cur # split_aux sep [] (drop (length sep) (c # cs))
      else split_aux sep (cur @ [c]) cs)"
  by pat_completeness auto
termination
  by (relation "measure (\<lambda>(sep, cur, s). length s)") auto

definition split_str :: "string \<Rightarrow> string \<Rightarrow> string list" where
  "split_str sep s = (if sep = [] then [] # map (\<lambda>c. [c]) s @ [[]] else split_aux sep [] s)"

definition split_char :: "char \<Rightarrow> string \<Rightarrow> string list" where
  "split_char c s = split_str [c] s"

fun join :: "string \<Rightarrow> string list \<Rightarrow> string" where
  "join sep [] = []"
| "join sep [p] = p"
| "join sep (p # q # ps) = p @ sep @ join sep (q # ps)"

lemma split_aux_not_Nil [simp]: "split_aux sep cur s \<noteq> []"
  by (induction sep cur s rule: split_aux.induct) auto

lemma join_Cons: "ps \<noteq> [] \<Longrightarrow> join sep (p # ps) = p @ sep @ join sep ps"
  by (cases ps) auto

lemma join_split_aux: "join sep (split_aux sep cur s) = cur @ s"
proof (induction sep cur s rule: split_aux.induct)
  case (1 sep cur)
  then show ?case by simp
next
  case (2 sep cur c cs)
  show ?case
  proof (cases "sep \<noteq> [] \<and> starts_with sep (c # cs)")
    case True
    then have "sep @ drop (length sep) (c # cs) = c # cs"
      by (metis append_take_drop_id starts_with_def)
    with True 2 show ?thesis by (simp add: join_Cons)
  next
    case False
    with 2 show ?thesis by auto
  qed
qed

lemma join_split_char: "join [c] (split_char c s) = s"
  by (simp add: split_char_def split_str_def join_split_aux)

lemma split_aux_piece:
  "c \<notin> set p \<Longrightarrow> split_aux [c] cur (p @ s) = split_aux [c] (cur @ p) s"
  by (induction p arbitrary: cur) (auto simp: starts_with_def)

lemma split_aux_join:
  assumes "ps \<noteq> []" and "\<forall>p \<in> set ps. c \<notin> set p"
  shows "split_aux [c] [] (join [c] ps) = ps"
  using assms
proof (induction ps rule: induct_list012)
  case (2 p)
  then show ?case using split_aux_piece[of c p "[]" "[]"] by simp
next
  case (3 p q ps)
  then have "split_aux [c] [] (p @ [c] @ join [c] (q # ps)) = p # split_aux [c] [] (join [c] (q # ps))"
    using split_aux_piece[of c p "[]" "[c] @ join [c] (q # ps)"] by (simp add: starts_with_def)
  with 3 show ?case by simp
qed simp

lemma split_char_join:
  "ps \<noteq> [] \<Longrightarrow> \<forall>p \<in> set ps. c \<notin> set p \<Longrightarrow> split_char c (join [c] ps) = ps"
  by (simp add: split_char_def split_str_def split_aux_join)

lemma split_aux_no_sep:
  "c \<notin> set cur \<Longrightarrow> p \<in> set (split_aux [c] cur s) \<Longrightarrow> c \<notin> set p"
proof (induction s arbitrary: cur)
  case Nil
  then show ?case by simp
next
  case (Cons x xs)
  from Cons.prems show ?case
    by (cases "x = c") (auto simp: starts_with_def dest: Cons.IH[rotated])
qed

lemma split_char_no_sep: "p \<in> set (split_char c s) \<Longrightarrow> c \<notin> set p"
  using split_aux_no_sep[of c "[]" p s] by (simp add: split_char_def split_str_def)

text \<open>\<open>split_once\<close> and \<open>rsplit_once\<close> on a character.\<close>

fun split_once :: "char \<Rightarrow> string \<Rightarrow> (string \<times> string) option" where
  "split_once c [] = None"
| "split_once c (x # xs) =
     (if x = c then Some ([], xs) else map_option (\<lambda>(a, b). (x # a, b)) (split_once c xs))"

definition rsplit_once :: "char \<Rightarrow> string \<Rightarrow> (string \<times> string) option" where
  "rsplit_once c s = map_option (\<lambda>(a, b). (rev b, rev a)) (split_once c (rev s))"

lemma split_once_Some_iff: "split_once c s = Some (a, b) \<longleftrightarrow> s = a @ c # b \<and> c \<notin> set a"
proof (induction s arbitrary: a)
  case (Cons x xs)
  then show ?case by (cases a) auto
qed simp

lemma split_once_None_iff: "split_once c s = None \<longleftrightarrow> c \<notin> set s"
  by (induction s) auto

lemma rsplit_once_Some_iff: "rsplit_once c s = Some (a, b) \<longleftrightarrow> s = a @ c # b \<and> c \<notin> set b"
proof -
  have "rsplit_once c s = Some (a, b) \<longleftrightarrow> split_once c (rev s) = Some (rev b, rev a)"
    by (auto simp: rsplit_once_def)
  also have "\<dots> \<longleftrightarrow> rev s = rev b @ c # rev a \<and> c \<notin> set b"
    by (simp add: split_once_Some_iff)
  also have "rev s = rev b @ c # rev a \<longleftrightarrow> s = a @ c # b"
    by (metis append.assoc append_Cons append_Nil rev.simps(2) rev_append rev_rev_ident)
  finally show ?thesis .
qed

lemma rsplit_once_None_iff: "rsplit_once c s = None \<longleftrightarrow> c \<notin> set s"
  by (simp add: rsplit_once_def split_once_None_iff)

section \<open>Lines\<close>

text \<open>
  \<open>str::lines\<close>: pieces ended by a newline, without it and without a carriage return before it; a
  last piece without a newline is kept as it is unless it is empty.
\<close>

fun lines_aux :: "string \<Rightarrow> string \<Rightarrow> string list" where
  "lines_aux cur [] = (if cur = [] then [] else [cur])"
| "lines_aux cur (c # cs) =
     (if c = CHR 0x0A
      then (case strip_suffix (CHR 0x0D) cur of None \<Rightarrow> cur | Some l \<Rightarrow> l) # lines_aux [] cs
      else lines_aux (cur @ [c]) cs)"

definition str_lines :: "string \<Rightarrow> string list" where
  "str_lines s = lines_aux [] s"

section \<open>Decimal numbers\<close>

definition digit_char :: "nat \<Rightarrow> char" where
  "digit_char d = char_of (48 + d)"

fun show_nat :: "nat \<Rightarrow> string" where
  "show_nat n = (if n < 10 then [digit_char n] else show_nat (n div 10) @ [digit_char (n mod 10)])"

declare show_nat.simps [simp del]

text \<open>
  \<open>from_str\<close> of an unsigned integer type with largest value \<open>bound\<close>: an optional plus sign, then
  one or more digits, with checked multiplication and addition at every digit.
\<close>

fun parse_digits :: "nat \<Rightarrow> nat \<Rightarrow> string \<Rightarrow> nat option" where
  "parse_digits bound acc [] = Some acc"
| "parse_digits bound acc (c # cs) =
     (case to_digit 10 c of
        None \<Rightarrow> None
      | Some d \<Rightarrow> if acc * 10 + d \<le> bound then parse_digits bound (acc * 10 + d) cs else None)"

definition parse_unsigned :: "nat \<Rightarrow> string \<Rightarrow> nat option" where
  "parse_unsigned bound s =
     (case s of
        [] \<Rightarrow> None
      | c # cs \<Rightarrow>
          if c = CHR ''+'' then (if cs = [] then None else parse_digits bound 0 cs)
          else parse_digits bound 0 s)"

definition parse_u8 :: "string \<Rightarrow> u8 option" where
  "parse_u8 s = map_option of_nat (parse_unsigned 255 s)"

definition parse_u16 :: "string \<Rightarrow> u16 option" where
  "parse_u16 s = map_option of_nat (parse_unsigned 65535 s)"

lemma of_char_digit_char: "d < 10 \<Longrightarrow> of_char (digit_char d) = (48 + d :: nat)"
  by (simp add: digit_char_def)

lemma to_digit_digit_char [simp]: "d < 10 \<Longrightarrow> 10 \<le> r \<Longrightarrow> to_digit r (digit_char d) = Some d"
  by (simp add: to_digit_def of_char_digit_char)

lemma show_nat_not_Nil [simp]: "show_nat n \<noteq> []"
  by (subst show_nat.simps) simp

lemma show_nat_digits: "c \<in> set (show_nat n) \<Longrightarrow> \<exists>d < 10. c = digit_char d"
proof (induction n rule: show_nat.induct)
  case (1 n)
  show ?case
  proof (cases "n < 10")
    case True
    with 1 show ?thesis by (subst (asm) show_nat.simps) auto
  next
    case False
    with "1.prems" have "c \<in> set (show_nat (n div 10)) \<or> c = digit_char (n mod 10)"
      by (subst (asm) show_nat.simps) auto
    moreover have "n mod 10 < 10" by simp
    ultimately show ?thesis using "1.IH" False by blast
  qed
qed

lemma parse_digits_append:
  "parse_digits bound acc (xs @ ys) =
     Option.bind (parse_digits bound acc xs) (\<lambda>a. parse_digits bound a ys)"
  by (induction xs arbitrary: acc) (auto split: option.splits)

lemma parse_digits_show_nat:
  "n \<le> bound \<Longrightarrow> parse_digits bound 0 (show_nat n) = Some n"
proof (induction n rule: show_nat.induct)
  case (1 n)
  show ?case
  proof (cases "n < 10")
    case True
    with 1 show ?thesis by (subst show_nat.simps) simp
  next
    case False
    from "1.prems" have le: "n div 10 \<le> bound" by linarith
    from False have "show_nat n = show_nat (n div 10) @ [digit_char (n mod 10)]"
      by (subst show_nat.simps) simp
    then show ?thesis
      using "1.IH" False le "1.prems" by (simp add: parse_digits_append)
  qed
qed

lemma show_nat_hd_not_plus: "show_nat n \<noteq> CHR ''+'' # cs"
proof
  assume "show_nat n = CHR ''+'' # cs"
  then have "CHR ''+'' \<in> set (show_nat n)" by simp
  then obtain d where "d < 10" "CHR ''+'' = digit_char d" by (blast dest: show_nat_digits)
  then have "(of_char CHR ''+'' :: nat) = 48 + d" by (simp add: of_char_digit_char)
  then show False by simp
qed

lemma parse_unsigned_show_nat: "n \<le> bound \<Longrightarrow> parse_unsigned bound (show_nat n) = Some n"
  using parse_digits_show_nat[of n bound] show_nat_hd_not_plus[of n]
  by (auto simp: parse_unsigned_def split: list.split)

lemma parse_u16_show: "parse_u16 (show_nat (unat (w :: u16))) = Some w"
proof -
  have "unat w < 2 ^ 16" using unsigned_less[of w] by simp
  then have "unat w \<le> 65535" by simp
  then show ?thesis by (simp add: parse_u16_def parse_unsigned_show_nat)
qed

lemma parse_u8_show: "parse_u8 (show_nat (unat (w :: u8))) = Some w"
proof -
  have "unat w < 2 ^ 8" using unsigned_less[of w] by simp
  then have "unat w \<le> 255" by simp
  then show ?thesis by (simp add: parse_u8_def parse_unsigned_show_nat)
qed

lemma parse_digits_bound: "parse_digits bound acc s = Some v \<Longrightarrow> acc \<le> bound \<Longrightarrow> v \<le> bound"
  by (induction bound acc s rule: parse_digits.induct) (auto split: option.splits if_splits)

lemma parse_unsigned_bound: "parse_unsigned bound s = Some v \<Longrightarrow> v \<le> bound"
  unfolding parse_unsigned_def
  by (auto dest: parse_digits_bound simp del: parse_digits.simps split: list.splits if_splits)

end
