(* ===== verification/Rust_Net.thy ===== *)
theory Rust_Net
  imports Rust_Str
begin

text \<open>
  The part of Rust's \<open>std::net\<close> the program uses: IP addresses, socket addresses, their
  \<open>Display\<close> and their \<open>FromStr\<close>, written as the standard library's own recursive-descent parser
  (\<open>read_number\<close>, \<open>read_ipv4_addr\<close>, \<open>read_groups\<close>, ...). A parser takes the rest of the input and
  returns a value and what it left unread; \<open>parse_with\<close> accepts only if nothing is left.
\<close>

section \<open>Addresses\<close>

datatype ip_addr =
  V4 u8 u8 u8 u8
| V6 u16 u16 u16 u16 u16 u16 u16 u16

text \<open>\<open>SocketAddr\<close>; the scope id is 0 for IPv4, the flow label is always 0 here.\<close>

record std_socket_addr =
  sock_ip :: ip_addr
  sock_port :: u16
  sock_scope :: u32

definition socket_addr_new :: "ip_addr \<Rightarrow> u16 \<Rightarrow> std_socket_addr" where
  "socket_addr_new ip port = \<lparr>sock_ip = ip, sock_port = port, sock_scope = 0\<rparr>"

definition localhost_v4 :: ip_addr where
  "localhost_v4 = V4 127 0 0 1"

fun v6_segments :: "ip_addr \<Rightarrow> u16 list" where
  "v6_segments (V6 a b c d e f g h) = [a, b, c, d, e, f, g, h]"
| "v6_segments (V4 _ _ _ _) = []"

fun v6_of_segments :: "u16 list \<Rightarrow> ip_addr option" where
  "v6_of_segments [a, b, c, d, e, f, g, h] = Some (V6 a b c d e f g h)"
| "v6_of_segments _ = None"

definition be_bytes :: "u16 \<Rightarrow> u8 list" where
  "be_bytes w = [ucast (drop_bit 8 w), ucast w]"

fun octets :: "ip_addr \<Rightarrow> u8 list" where
  "octets (V4 a b c d) = [a, b, c, d]"
| "octets (V6 a b c d e f g h) = concat (map be_bytes [a, b, c, d, e, f, g, h])"

lemma length_octets: "length (octets ip) = (case ip of V4 _ _ _ _ \<Rightarrow> 4 | V6 _ _ _ _ _ _ _ _ \<Rightarrow> 16)"
  by (cases ip) (simp_all add: be_bytes_def)

section \<open>Printing\<close>

definition hex_char :: "nat \<Rightarrow> char" where
  "hex_char d = (if d < 10 then char_of (48 + d) else char_of (87 + d))"

fun show_hex :: "nat \<Rightarrow> string" where
  "show_hex n = (if n < 16 then [hex_char n] else show_hex (n div 16) @ [hex_char (n mod 16)])"

declare show_hex.simps [simp del]

text \<open>
  The longest run of zero segments, the first of them if there are several: the loop keeps the
  current run and the longest one, as start and length.
\<close>

fun longest_zeros :: "u16 list \<Rightarrow> nat \<Rightarrow> nat \<times> nat \<Rightarrow> nat \<times> nat \<Rightarrow> nat \<times> nat" where
  "longest_zeros [] i cur best = best"
| "longest_zeros (g # gs) i (cs, cl) (bs, bl) =
     (if g = 0
      then (let cs' = (if cl = 0 then i else cs); cl' = cl + 1
            in longest_zeros gs (i + 1) (cs', cl') (if cl' > bl then (cs', cl') else (bs, bl)))
      else longest_zeros gs (i + 1) (0, 0) (bs, bl))"

definition show_segments :: "u16 list \<Rightarrow> string" where
  "show_segments gs = join '':'' (map (\<lambda>g. show_hex (unat g)) gs)"

definition show_v4 :: "u8 \<Rightarrow> u8 \<Rightarrow> u8 \<Rightarrow> u8 \<Rightarrow> string" where
  "show_v4 a b c d =
     show_nat (unat a) @ ''.'' @ show_nat (unat b) @ ''.'' @ show_nat (unat c) @ ''.'' @
     show_nat (unat d)"

fun show_ip :: "ip_addr \<Rightarrow> string" where
  "show_ip (V4 a b c d) = show_v4 a b c d"
| "show_ip (V6 a b c d e f g h) =
     (let gs = [a, b, c, d, e, f, g, h]
      in if a = 0 \<and> b = 0 \<and> c = 0 \<and> d = 0 \<and> e = 0 \<and> f = 0xFFFF
         then ''::ffff:'' @ show_v4 (ucast (drop_bit 8 g)) (ucast g) (ucast (drop_bit 8 h)) (ucast h)
         else (let (s, l) = longest_zeros gs 0 (0, 0) (0, 0)
               in if l > 1
                  then show_segments (take s gs) @ ''::'' @ show_segments (drop (s + l) gs)
                  else show_segments gs))"

section \<open>Parsing\<close>

definition read_char :: "char \<Rightarrow> string \<Rightarrow> string option" where
  "read_char c s = strip_prefix c s"

text \<open>
  \<open>read_number\<close> with a largest value: it takes every digit of the radix that follows, and
  refuses an empty run, too many digits, a leading zero where it is not allowed, and overflow.
\<close>

definition read_number ::
  "nat \<Rightarrow> nat option \<Rightarrow> bool \<Rightarrow> nat \<Rightarrow> string \<Rightarrow> (nat \<times> string) option" where
  "read_number radix max_digits allow_zero_prefix bound s =
     (let ds = takeWhile (\<lambda>c. to_digit radix c \<noteq> None) s;
          rest = dropWhile (\<lambda>c. to_digit radix c \<noteq> None) s;
          v = foldl (\<lambda>acc c. acc * radix + (case to_digit radix c of Some d \<Rightarrow> d | None \<Rightarrow> 0)) 0 ds
      in if ds = [] then None
         else if (case max_digits of Some m \<Rightarrow> m < length ds | None \<Rightarrow> False) then None
         else if \<not> allow_zero_prefix \<and> hd ds = CHR ''0'' \<and> 1 < length ds then None
         else if bound < v then None
         else Some (v, rest))"

definition read_separator ::
  "char \<Rightarrow> nat \<Rightarrow> (string \<Rightarrow> ('a \<times> string) option) \<Rightarrow> string \<Rightarrow> ('a \<times> string) option" where
  "read_separator c i p s = (if 0 < i then Option.bind (read_char c s) p else p s)"

definition read_octet :: "nat \<Rightarrow> string \<Rightarrow> (u8 \<times> string) option" where
  "read_octet i s =
     map_option (\<lambda>(n, r). (of_nat n, r))
       (read_separator (CHR ''.'') i (read_number 10 (Some 3) False 255) s)"

definition read_ipv4 :: "string \<Rightarrow> ((u8 \<times> u8 \<times> u8 \<times> u8) \<times> string) option" where
  "read_ipv4 s = do {
     (a, s) \<leftarrow> read_octet 0 s;
     (b, s) \<leftarrow> read_octet 1 s;
     (c, s) \<leftarrow> read_octet 2 s;
     (d, s) \<leftarrow> read_octet 3 s;
     Some ((a, b, c, d), s)
   }"

definition from_be_bytes :: "u8 \<Rightarrow> u8 \<Rightarrow> u16" where
  "from_be_bytes hi lo = of_nat (unat hi * 256 + unat lo)"

text \<open>
  \<open>read_groups k i s\<close> reads at most \<open>k\<close> more groups, the next one being group number \<open>i\<close>; the
  boolean says that it ended with an embedded IPv4 address, which fills two groups.
\<close>

primrec read_groups :: "nat \<Rightarrow> nat \<Rightarrow> string \<Rightarrow> u16 list \<times> bool \<times> string" where
  "read_groups 0 i s = ([], False, s)"
| "read_groups (Suc k) i s =
     (case (if 0 < k then read_separator (CHR '':'') i read_ipv4 s else None) of
        Some ((a, b, c, d), r) \<Rightarrow> ([from_be_bytes a b, from_be_bytes c d], True, r)
      | None \<Rightarrow>
          (case read_separator (CHR '':'') i (read_number 16 (Some 4) True 65535) s of
             None \<Rightarrow> ([], False, s)
           | Some (g, r) \<Rightarrow>
               (let (gs, v4, r') = read_groups k (i + 1) r in (of_nat g # gs, v4, r'))))"

definition read_ipv6 :: "string \<Rightarrow> (u16 list \<times> string) option" where
  "read_ipv6 s =
     (let (front, v4, r) = read_groups 8 0 s
      in if length front = 8 then Some (front, r)
         else if v4 then None
         else do {
           r \<leftarrow> read_char (CHR '':'') r;
           r \<leftarrow> read_char (CHR '':'') r;
           let (back, _, r) = read_groups (8 - (length front + 1)) 0 r;
           Some (front @ replicate (8 - length front - length back) 0 @ back, r)
         })"

definition parse_with :: "(string \<Rightarrow> ('a \<times> string) option) \<Rightarrow> string \<Rightarrow> 'a option" where
  "parse_with p s = Option.bind (p s) (\<lambda>(a, r). if r = [] then Some a else None)"

definition read_ip :: "string \<Rightarrow> (ip_addr \<times> string) option" where
  "read_ip s =
     (case read_ipv4 s of
        Some ((a, b, c, d), r) \<Rightarrow> Some (V4 a b c d, r)
      | None \<Rightarrow> do { (gs, r) \<leftarrow> read_ipv6 s; ip \<leftarrow> v6_of_segments gs; Some (ip, r) })"

definition parse_ip :: "string \<Rightarrow> ip_addr option" where
  "parse_ip s = parse_with read_ip s"

definition read_port :: "string \<Rightarrow> (u16 \<times> string) option" where
  "read_port s = do {
     s \<leftarrow> read_char (CHR '':'') s;
     (p, s) \<leftarrow> read_number 10 None True 65535 s;
     Some (of_nat p, s)
   }"

definition read_scope_id :: "string \<Rightarrow> (u32 \<times> string) option" where
  "read_scope_id s = do {
     s \<leftarrow> read_char (CHR ''%'') s;
     (n, s) \<leftarrow> read_number 10 None True (2 ^ 32 - 1) s;
     Some (of_nat n, s)
   }"

definition read_socket_addr_v4 :: "string \<Rightarrow> (std_socket_addr \<times> string) option" where
  "read_socket_addr_v4 s = do {
     ((a, b, c, d), s) \<leftarrow> read_ipv4 s;
     (port, s) \<leftarrow> read_port s;
     Some (socket_addr_new (V4 a b c d) port, s)
   }"

definition read_socket_addr_v6 :: "string \<Rightarrow> (std_socket_addr \<times> string) option" where
  "read_socket_addr_v6 s = do {
     s \<leftarrow> read_char (CHR ''['') s;
     (gs, s) \<leftarrow> read_ipv6 s;
     ip \<leftarrow> v6_of_segments gs;
     let (scope, s) = (case read_scope_id s of Some (n, s') \<Rightarrow> (n, s') | None \<Rightarrow> (0, s));
     s \<leftarrow> read_char (CHR '']'') s;
     (port, s) \<leftarrow> read_port s;
     Some (\<lparr>sock_ip = ip, sock_port = port, sock_scope = scope\<rparr>, s)
   }"

definition read_socket_addr :: "string \<Rightarrow> (std_socket_addr \<times> string) option" where
  "read_socket_addr s =
     (case read_socket_addr_v4 s of Some x \<Rightarrow> Some x | None \<Rightarrow> read_socket_addr_v6 s)"

definition parse_socket_addr :: "string \<Rightarrow> std_socket_addr option" where
  "parse_socket_addr s = parse_with read_socket_addr s"

section \<open>Parsing what was printed\<close>

lemma show_nat_takeWhile:
  assumes "rest = [] \<or> to_digit 10 (hd rest) = None"
  shows "takeWhile (\<lambda>c. to_digit 10 c \<noteq> None) (show_nat n @ rest) = show_nat n"
    and "dropWhile (\<lambda>c. to_digit 10 c \<noteq> None) (show_nat n @ rest) = rest"
proof -
  have all: "\<forall>c \<in> set (show_nat n). to_digit 10 c \<noteq> None"
    by (auto dest: show_nat_digits)
  have "takeWhile (\<lambda>c. to_digit 10 c \<noteq> None) rest = []"
    and "dropWhile (\<lambda>c. to_digit 10 c \<noteq> None) rest = rest"
    using assms by (cases rest; simp)+
  with all show "takeWhile (\<lambda>c. to_digit 10 c \<noteq> None) (show_nat n @ rest) = show_nat n"
    and "dropWhile (\<lambda>c. to_digit 10 c \<noteq> None) (show_nat n @ rest) = rest"
    by (simp_all add: takeWhile_append2 dropWhile_append2)
qed

lemma foldl_show_nat:
  "foldl (\<lambda>acc c. acc * 10 + (case to_digit 10 c of Some d \<Rightarrow> d | None \<Rightarrow> 0)) 0 (show_nat n) = n"
proof (induction n rule: show_nat.induct)
  case (1 n)
  then show ?case by (cases "n < 10") (subst show_nat.simps, simp)+
qed

lemma length_show_nat: "n < 10 ^ k \<Longrightarrow> 0 < k \<Longrightarrow> length (show_nat n) \<le> k"
proof (induction n arbitrary: k rule: show_nat.induct)
  case (1 n)
  show ?case
  proof (cases "n < 10")
    case True
    with 1 show ?thesis by (subst show_nat.simps) simp
  next
    case False
    with "1.prems" obtain j where j: "k = Suc j" "0 < j"
      by (cases k; cases "k - 1") auto
    with "1.prems" have "n div 10 < 10 ^ j" by (simp add: div_less_iff_less_mult mult.commute)
    with "1.IH" False j have "length (show_nat (n div 10)) \<le> j" by simp
    with False j show ?thesis by (subst show_nat.simps) simp
  qed
qed

lemma digit_char_0: "d < 10 \<Longrightarrow> digit_char d = CHR ''0'' \<longleftrightarrow> d = 0"
proof -
  assume d: "d < 10"
  have "d = 0" if "digit_char d = CHR ''0''"
  proof -
    have "(of_char (digit_char d) :: nat) = of_char CHR ''0''" using that by simp
    with d show ?thesis by (simp add: of_char_digit_char)
  qed
  moreover have "digit_char 0 = CHR ''0''"
    unfolding digit_char_def by code_simp
  ultimately show ?thesis by auto
qed

lemma hd_show_nat: "0 < n \<Longrightarrow> hd (show_nat n) \<noteq> CHR ''0''"
proof (induction n rule: show_nat.induct)
  case (1 n)
  show ?case
  proof (cases "n < 10")
    case True
    with "1.prems" show ?thesis by (subst show_nat.simps) (simp add: digit_char_0)
  next
    case False
    then have "0 < n div 10" by (simp add: div_greater_zero_iff)
    with "1.IH" False have "hd (show_nat (n div 10)) \<noteq> CHR ''0''" by simp
    with False show ?thesis by (subst show_nat.simps) simp
  qed
qed

lemma show_nat_no_leading_zero: "hd (show_nat n) = CHR ''0'' \<Longrightarrow> length (show_nat n) = 1"
  using hd_show_nat[of n] by (cases "n = 0") (simp_all add: show_nat.simps)

lemma read_number_show_nat:
  assumes "rest = [] \<or> to_digit 10 (hd rest) = None" and "n \<le> bound"
    and "case m of Some k \<Rightarrow> n < 10 ^ k \<and> 0 < k | None \<Rightarrow> True"
  shows "read_number 10 m z bound (show_nat n @ rest) = Some (n, rest)"
proof -
  have "(case m of Some k \<Rightarrow> k < length (show_nat n) | None \<Rightarrow> False) = False"
    using assms(3) length_show_nat[of n] by (auto split: option.splits simp: not_less)
  moreover have "(\<not> z \<and> hd (show_nat n) = CHR ''0'' \<and> 1 < length (show_nat n)) = False"
    using show_nat_no_leading_zero[of n] by auto
  ultimately show ?thesis
    using assms(2)
    by (simp only: read_number_def Let_def show_nat_takeWhile[OF assms(1)] foldl_show_nat
        show_nat_not_Nil if_False not_less if_not_P)
qed

lemma read_char_Cons [simp]: "read_char c (c # s) = Some s"
  by (simp add: read_char_def strip_prefix_def)

lemma u8_le_255: "unat (w :: u8) \<le> 255"
proof -
  have "unat w < 2 ^ 8" using unsigned_less[of w] by simp
  then show ?thesis by simp
qed

lemma read_octet_show:
  assumes "rest = [] \<or> to_digit 10 (hd rest) = None"
  shows "read_octet 0 (show_nat (unat (w :: u8)) @ rest) = Some (w, rest)"
    and "0 < i \<Longrightarrow> read_octet i (CHR ''.'' # show_nat (unat w) @ rest) = Some (w, rest)"
  using read_number_show_nat[OF assms, of "unat w" 255 "Some 3" False] u8_le_255[of w]
  by (simp_all add: read_octet_def read_separator_def)

lemma to_digit_dot [simp]: "to_digit 10 (CHR ''.'') = None"
  by (simp add: to_digit_def)

lemma to_digit_colon [simp]: "to_digit 10 (CHR '':'') = None"
  by (simp add: to_digit_def)

lemma read_ipv4_show:
  assumes "rest = [] \<or> to_digit 10 (hd rest) = None"
  shows "read_ipv4 (show_v4 a b c d @ rest) = Some ((a, b, c, d), rest)"
  using assms by (simp add: read_ipv4_def show_v4_def read_octet_show)

lemma parse_ip_show_v4: "parse_ip (show_ip (V4 a b c d)) = Some (V4 a b c d)"
  using read_ipv4_show[of "[]" a b c d] by (simp add: parse_ip_def parse_with_def read_ip_def)

lemma read_port_show: "read_port (CHR '':'' # show_nat (unat (p :: u16))) = Some (p, [])"
proof -
  have "unat p < 2 ^ 16" using unsigned_less[of p] by simp
  then show ?thesis
    using read_number_show_nat[of "[]" "unat p" 65535 None True] by (simp add: read_port_def)
qed

text \<open>The printed form of an IPv4 socket address, as \<open>SocketAddr\<close>'s \<open>Display\<close> gives it.\<close>

definition show_socket_v4 :: "u8 \<Rightarrow> u8 \<Rightarrow> u8 \<Rightarrow> u8 \<Rightarrow> u16 \<Rightarrow> string" where
  "show_socket_v4 a b c d p = show_v4 a b c d @ '':'' @ show_nat (unat p)"

lemma parse_socket_addr_show:
  "parse_socket_addr (show_socket_v4 a b c d p) = Some (socket_addr_new (V4 a b c d) p)"
  using read_ipv4_show[of "CHR '':'' # show_nat (unat p)" a b c d] read_port_show[of p]
  by (simp add: parse_socket_addr_def parse_with_def read_socket_addr_def read_socket_addr_v4_def
      show_socket_v4_def)

end
