(* ===== verification/Rust_Net_Text.thy ===== *)
theory Rust_Net_Text
  imports Rust_Net
begin

text \<open>
  The text forms of addresses read back: every IP address, IPv6 with its compressed run of zeros and
  its embedded IPv4 form included, and every socket address, from what \<open>Display\<close> prints.
\<close>

section \<open>Hexadecimal groups\<close>

lemma of_char_hex_char: "d < 16 \<Longrightarrow> of_char (hex_char d) = (if d < 10 then 48 + d else 87 + d :: nat)"
  by (simp add: hex_char_def)

lemma to_digit_hex_char [simp]: "d < 16 \<Longrightarrow> to_digit 16 (hex_char d) = Some d"
  by (simp add: to_digit_def of_char_hex_char)

lemma show_hex_not_Nil [simp]: "show_hex n \<noteq> []"
  by (subst show_hex.simps) simp

lemma show_hex_digits: "c \<in> set (show_hex n) \<Longrightarrow> to_digit 16 c \<noteq> None"
proof (induction n rule: show_hex.induct)
  case (1 n)
  then show ?case
    by (cases "n < 16") (auto simp: show_hex.simps[of n])
qed

lemma hex_digit_plain: "to_digit 16 c \<noteq> None \<Longrightarrow> c \<noteq> CHR ''.'' \<and> c \<noteq> CHR '':'' \<and> c \<noteq> CHR ''%'' \<and> c \<noteq> CHR '']''"
  by (auto simp: to_digit_def)

lemma to_digit_10_16: "to_digit 16 c = None \<Longrightarrow> to_digit 10 c = None"
  by (auto simp: to_digit_def Let_def split: if_splits)

lemma foldl_show_hex:
  "foldl (\<lambda>acc c. acc * 16 + (case to_digit 16 c of Some d \<Rightarrow> d | None \<Rightarrow> 0)) 0 (show_hex n) = n"
proof (induction n rule: show_hex.induct)
  case (1 n)
  then show ?case by (cases "n < 16") (subst show_hex.simps, simp)+
qed

lemma length_show_hex: "n < 16 ^ k \<Longrightarrow> 0 < k \<Longrightarrow> length (show_hex n) \<le> k"
proof (induction n arbitrary: k rule: show_hex.induct)
  case (1 n)
  show ?case
  proof (cases "n < 16")
    case True
    with 1 show ?thesis by (subst show_hex.simps) simp
  next
    case False
    with "1.prems" obtain j where j: "k = Suc j" "0 < j"
      by (cases k; cases "k - 1") auto
    with "1.prems" have "n div 16 < 16 ^ j" by (simp add: div_less_iff_less_mult mult.commute)
    with "1.IH" False j have "length (show_hex (n div 16)) \<le> j" by simp
    with False j show ?thesis by (subst show_hex.simps) simp
  qed
qed

lemma read_number_show_hex:
  assumes "rest = [] \<or> to_digit 16 (hd rest) = None"
  shows "read_number 16 (Some 4) True 65535 (show_hex (unat (g :: u16)) @ rest) = Some (unat g, rest)"
proof -
  have lt: "unat g < 16 ^ 4" using unsigned_less[of g] by simp
  have all: "\<forall>c \<in> set (show_hex (unat g)). to_digit 16 c \<noteq> None"
    by (blast dest: show_hex_digits)
  have "takeWhile (\<lambda>c. to_digit 16 c \<noteq> None) rest = []" "dropWhile (\<lambda>c. to_digit 16 c \<noteq> None) rest = rest"
    using assms by (cases rest; simp)+
  with all have "takeWhile (\<lambda>c. to_digit 16 c \<noteq> None) (show_hex (unat g) @ rest) = show_hex (unat g)"
    "dropWhile (\<lambda>c. to_digit 16 c \<noteq> None) (show_hex (unat g) @ rest) = rest"
    by (simp_all add: takeWhile_append2 dropWhile_append2)
  moreover have "length (show_hex (unat g)) \<le> 4" using length_show_hex[OF lt] by simp
  ultimately show ?thesis
    using lt by (simp add: read_number_def Let_def foldl_show_hex)
qed

lemma read_number_None:
  "s = [] \<or> to_digit radix (hd s) = None \<Longrightarrow> read_number radix m z bound s = None"
  by (cases s) (auto simp: read_number_def)

lemma read_char_None: "s = [] \<or> hd s \<noteq> c \<Longrightarrow> read_char c s = None"
  by (cases s) (auto simp: read_char_def strip_prefix_def)

section \<open>Where no IPv4 address can be read\<close>

lemma read_octet_0_rest:
  "read_octet 0 s = Some (a, r) \<Longrightarrow> r = dropWhile (\<lambda>c. to_digit 10 c \<noteq> None) s"
  by (auto simp: read_octet_def read_separator_def read_number_def Let_def split: if_splits)

lemma read_ipv4_None:
  assumes "CHR ''.'' \<notin> set xs"
    and "rest = [] \<or> to_digit 10 (hd rest) = None \<and> hd rest \<noteq> CHR ''.''"
  shows "read_ipv4 (xs @ rest) = None"
proof -
  let ?r = "dropWhile (\<lambda>c. to_digit 10 c \<noteq> None) (xs @ rest)"
  have "?r = [] \<or> hd ?r \<noteq> CHR ''.''"
    using assms by (induction xs) (auto, cases rest, auto)
  then have "read_octet 1 ?r = None" by (simp add: read_octet_def read_separator_def read_char_None)
  then show ?thesis
    by (auto simp: read_ipv4_def dest!: read_octet_0_rest split: Option.bind_split)
qed

section \<open>Runs of groups\<close>

text \<open>The text of groups from number \<open>i\<close> on, with the separator before all but the first.\<close>

fun groups_text :: "nat \<Rightarrow> u16 list \<Rightarrow> string" where
  "groups_text i [] = []"
| "groups_text i (g # gs) = (if 0 < i then '':'' else []) @ show_hex (unat g) @ groups_text (i + 1) gs"

lemma groups_text_Suc: "groups_text (Suc i) gs = (if gs = [] then [] else CHR '':'' # show_segments gs)"
  by (induction gs arbitrary: i) (auto simp: show_segments_def join_Cons)

lemma show_segments_text: "show_segments gs = groups_text 0 gs"
  by (cases gs) (auto simp: groups_text_Suc show_segments_def join_Cons)

text \<open>A rest at which a run of groups ends.\<close>

definition ends :: "string \<Rightarrow> bool" where
  "ends rest \<longleftrightarrow>
     rest = [] \<or> to_digit 16 (hd rest) = None \<and> hd rest \<noteq> CHR ''.'' \<and>
       (hd rest = CHR '':'' \<longrightarrow> (\<exists>r. rest = CHR '':'' # CHR '':'' # r))"

lemma read_groups_stop:
  assumes "ends rest"
  shows "read_groups k i rest = ([], False, rest)"
proof -
  have v: "read_ipv4 rest = None" "read_number 16 (Some 4) True 65535 rest = None"
    using assms read_ipv4_None[of "[]" rest] by (auto simp: ends_def read_number_None to_digit_10_16)
  have c: "read_char (CHR '':'') rest = None \<or>
      (\<exists>r. read_char (CHR '':'') rest = Some (CHR '':'' # r))"
    using assms by (auto simp: ends_def read_char_None)
  have x: "read_ipv4 (CHR '':'' # r) = None" "read_number 16 (Some 4) True 65535 (CHR '':'' # r) = None" for r
    using read_ipv4_None[of "[]" "CHR '':'' # r"] by (auto simp: read_number_None to_digit_def)
  show ?thesis
    using v c x by (cases k) (auto simp: read_separator_def)
qed

lemma read_groups_text:
  assumes "length gs \<le> k" and "ends rest"
  shows "read_groups k i (groups_text i gs @ rest) = (gs, False, rest)"
  using assms(1)
proof (induction gs arbitrary: k i)
  case Nil
  then show ?case by (simp add: read_groups_stop[OF assms(2)])
next
  case (Cons g gs)
  then obtain j where k: "k = Suc j" "length gs \<le> j" by (cases k) auto
  let ?t = "groups_text (i + 1) gs @ rest"
  have t: "?t = [] \<or> to_digit 16 (hd ?t) = None \<and> hd ?t \<noteq> CHR ''.''"
    using assms(2) by (auto simp: groups_text_Suc ends_def to_digit_def)
  have dot: "CHR ''.'' \<notin> set (show_hex (unat g))" using show_hex_digits hex_digit_plain by blast
  have "read_ipv4 (show_hex (unat g) @ ?t) = None"
    using t by (intro read_ipv4_None[OF dot]) (auto simp: to_digit_10_16)
  moreover have "read_number 16 (Some 4) True 65535 (show_hex (unat g) @ ?t) = Some (unat g, ?t)"
    using t by (intro read_number_show_hex) auto
  ultimately show ?case
    using Cons.IH[OF k(2), of "i + 1"]
    by (cases "i = 0"; cases "j = 0") (simp_all add: k(1) read_separator_def)
qed

section \<open>The compressed run\<close>

lemma longest_zeros_spec:
  assumes "drop i all = gs" and "i + length gs = length all"
    and "cl = 0 \<or> cs + cl = i" and "\<forall>j < cl. all ! (cs + j) = 0"
    and "bs + bl \<le> i" and "\<forall>j < bl. all ! (bs + j) = 0"
    and "longest_zeros gs i (cs, cl) (bs, bl) = (s, l)"
  shows "s + l \<le> length all \<and> (\<forall>j < l. all ! (s + j) = 0)"
  using assms
proof (induction gs arbitrary: i cs cl bs bl)
  case Nil
  then show ?case by auto
next
  case (Cons g gs)
  from Cons.prems(1) have g: "all ! i = g" "drop (Suc i) all = gs"
    by (metis hd_drop_conv_nth list.distinct(1) list.sel(1) drop_eq_Nil not_le_imp_less, metis drop_Suc list.sel(3) tl_drop)
  let ?cs = "if cl = 0 then i else cs"
  show ?case
  proof (cases "g = 0")
    case True
    have cur: "?cs + (cl + 1) = Suc i" "\<forall>j < cl + 1. all ! (?cs + j) = 0"
      using Cons.prems(3,4) g(1) True by (auto simp: less_Suc_eq)
    show ?thesis
    proof (cases "cl + 1 > bl")
      case gt: True
      show ?thesis
        by (rule Cons.IH[of "Suc i" "cl + 1" ?cs ?cs "cl + 1"])
          (use Cons.prems g True cur gt in \<open>auto simp: Let_def\<close>)
    next
      case False
      show ?thesis
        by (rule Cons.IH[of "Suc i" "cl + 1" ?cs bs bl])
          (use Cons.prems g True cur False in \<open>auto simp: Let_def\<close>)
    qed
  next
    case False
    show ?thesis
      by (rule Cons.IH[of "Suc i" 0 0 bs bl]) (use Cons.prems g False in auto)
  qed
qed

lemma compressed_run:
  assumes "longest_zeros gs 0 (0, 0) (0, 0) = (s, l)"
  shows "s + l \<le> length gs" and "gs = take s gs @ replicate l 0 @ drop (s + l) gs"
proof -
  from longest_zeros_spec[OF _ _ _ _ _ _ assms, of gs]
  have sp: "s + l \<le> length gs" "\<forall>j < l. gs ! (s + j) = 0" by auto
  then have "take l (drop s gs) = replicate l 0"
    by (intro nth_equalityI) auto
  then have "drop s gs = replicate l 0 @ drop (s + l) gs"
    by (metis append_take_drop_id drop_drop add.commute)
  then show "gs = take s gs @ replicate l 0 @ drop (s + l) gs"
    by (metis append_take_drop_id)
  from sp(1) show "s + l \<le> length gs" .
qed

section \<open>Reading IPv6 addresses back\<close>

lemma read_ipv6_groups:
  assumes "length front \<le> 7" and "length back \<le> 7 - length front" and "ends rest"
  shows "read_ipv6 (show_segments front @ ''::'' @ show_segments back @ rest) =
    Some (front @ replicate (8 - length front - length back) 0 @ back, rest)"
proof -
  have e: "ends (''::'' @ show_segments back @ rest)" by (simp add: ends_def to_digit_def)
  have "read_groups 8 0 (show_segments front @ ''::'' @ show_segments back @ rest) =
      (front, False, ''::'' @ show_segments back @ rest)"
    unfolding show_segments_text[of front] by (rule read_groups_text[OF _ e]) (use assms(1) in simp)
  moreover have "read_groups (8 - (length front + 1)) 0 (show_segments back @ rest) = (back, False, rest)"
    unfolding show_segments_text by (rule read_groups_text[OF _ assms(3)]) (use assms(1,2) in linarith)
  ultimately show ?thesis using assms(1) by (simp add: read_ipv6_def)
qed

lemma read_ipv6_plain:
  assumes "length gs = 8" and "ends rest"
  shows "read_ipv6 (show_segments gs @ rest) = Some (gs, rest)"
  using read_groups_text[OF _ assms(2), of gs 8 0] assms(1)
  by (simp add: read_ipv6_def show_segments_text)

text \<open>An embedded IPv4 address takes two groups.\<close>

lemma from_be_bytes_halves: "from_be_bytes (ucast (drop_bit 8 g)) (ucast g) = g"
proof -
  have lt: "unat g div 256 < 256" using unsigned_less[of g] by (simp add: div_less_iff_less_mult)
  have "unat (ucast (drop_bit 8 g) :: u8) = unat g div 256"
    using lt by (simp add: unsigned_ucast_eq unsigned_drop_bit_eq drop_bit_eq_div take_bit_eq_mod unat_div)
  moreover have "unat (ucast g :: u8) = unat g mod 256"
    by (simp add: unsigned_ucast_eq take_bit_eq_mod)
  ultimately show ?thesis by (simp add: from_be_bytes_def)
qed

lemma ffff_hex: "show_hex 65535 = ''ffff''"
proof -
  have "hex_char 15 = CHR ''f''" by code_simp
  then show ?thesis
    by (simp add: show_hex.simps[of 65535] show_hex.simps[of 4095] show_hex.simps[of 255]
        show_hex.simps[of 15])
qed

lemma read_ffff:
  "read_number 16 (Some 4) True 65535 (''ffff'' @ CHR '':'' # v) = Some (65535, CHR '':'' # v)"
  using read_number_show_hex[of "CHR '':'' # v" "0xFFFF"] by (simp add: ffff_hex to_digit_def)

lemma read_groups_ipv4:
  assumes "rest = [] \<or> to_digit 10 (hd rest) = None"
  shows "read_groups (Suc (Suc k)) (Suc i) (CHR '':'' # show_v4 a b c d @ rest) =
    ([from_be_bytes a b, from_be_bytes c d], True, rest)"
  by (subst read_groups.simps(2)) (simp only: read_separator_def zero_less_Suc if_True read_char_Cons
    bind.bind_lunit read_ipv4_show[OF assms] option.case prod.case)

lemma read_ipv6_mapped:
  assumes "rest = [] \<or> to_digit 10 (hd rest) = None"
  shows "read_ipv6 (''::ffff:'' @ show_v4 a b c d @ rest) =
    Some ([0, 0, 0, 0, 0, 0xFFFF, from_be_bytes a b, from_be_bytes c d], rest)"
proof -
  define v where "v = show_v4 a b c d @ rest"
  have n7: "7 = Suc (Suc (Suc 4))" by simp
  have "read_ipv4 (''ffff'' @ CHR '':'' # v) = None" by (rule read_ipv4_None) simp_all
  with read_ffff[of v] read_groups_ipv4[OF assms, of 4 0 a b c d, folded v_def]
  have "read_groups 7 0 (''ffff'' @ CHR '':'' # v) =
      ([0xFFFF, from_be_bytes a b, from_be_bytes c d], True, rest)"
    unfolding n7 read_groups.simps(2)[of "Suc (Suc 4)"] by (simp add: read_separator_def del: read_groups.simps)
  moreover have "read_groups 8 0 (''::'' @ s) = ([], False, ''::'' @ s)" for s
    by (rule read_groups_stop) (simp add: ends_def to_digit_def)
  moreover have "replicate 5 (0 :: u16) = [0, 0, 0, 0, 0]"
    by (simp add: eval_nat_numeral)
  ultimately show ?thesis by (simp add: read_ipv6_def v_def del: read_groups.simps)
qed

text \<open>The texts of IPv6 addresses hold no IPv4 address.\<close>

lemma show_segments_dot: "CHR ''.'' \<notin> set (show_segments gs)"
proof (induction gs rule: induct_list012)
  case (2 g)
  then show ?case using show_hex_digits hex_digit_plain by (simp add: show_segments_def) blast
next
  case (3 g h gs)
  then show ?case using show_hex_digits hex_digit_plain by (simp add: show_segments_def) blast
qed (simp add: show_segments_def)

definition stops :: "string \<Rightarrow> bool" where
  "stops rest \<longleftrightarrow> rest = [] \<or> to_digit 16 (hd rest) = None \<and> hd rest \<noteq> CHR ''.'' \<and> hd rest \<noteq> CHR '':''"

lemma stops_ends: "stops rest \<Longrightarrow> ends rest"
  by (auto simp: stops_def ends_def)

lemma read_ipv6_show:
  assumes "stops rest" and "ip = V6 a b c d e f g h"
  shows "read_ipv6 (show_ip ip @ rest) = Some (v6_segments ip, rest) \<and> read_ipv4 (show_ip ip @ rest) = None"
proof -
  let ?gs = "[a, b, c, d, e, f, g, h]"
  have r: "rest = [] \<or> to_digit 10 (hd rest) = None" "rest = [] \<or> to_digit 10 (hd rest) = None \<and> hd rest \<noteq> CHR ''.''"
    using assms(1) by (auto simp: stops_def to_digit_10_16)
  show ?thesis
  proof (cases "a = 0 \<and> b = 0 \<and> c = 0 \<and> d = 0 \<and> e = 0 \<and> f = 0xFFFF")
    case True
    have "read_ipv4 ([] @ ''::ffff:'' @ t) = None" for t by (rule read_ipv4_None) simp_all
    with True assms(2) read_ipv6_mapped[OF r(1)] show ?thesis
      by (simp add: from_be_bytes_halves)
  next
    case False
    obtain s l where z: "longest_zeros ?gs 0 (0, 0) (0, 0) = (s, l)" by fastforce
    show ?thesis
    proof (cases "1 < l")
      case True
      from compressed_run[OF z] have sl: "s + l \<le> 8" and gs: "?gs = take s ?gs @ replicate l 0 @ drop (s + l) ?gs"
        by simp_all
      let ?f = "take s ?gs" and ?b = "drop (s + l) ?gs"
      have t: "show_ip ip = show_segments ?f @ ''::'' @ show_segments ?b"
        unfolding assms(2) show_ip.simps Let_def if_not_P[OF False] z prod.case if_P[OF True] ..
      have len: "length ?f = s" "length ?b = 8 - (s + l)" using sl by simp_all
      have "read_ipv6 (show_segments ?f @ ''::'' @ show_segments ?b @ rest) =
          Some (?f @ replicate (8 - length ?f - length ?b) 0 @ ?b, rest)"
        by (rule read_ipv6_groups) (use len sl True stops_ends[OF assms(1)] in auto)
      moreover have "8 - length ?f - length ?b = l" unfolding len using sl by simp
      ultimately have "read_ipv6 (show_ip ip @ rest) = Some (?gs, rest)"
        unfolding t using gs by simp
      moreover have "read_ipv4 ((show_segments ?f @ ''::'' @ show_segments ?b) @ rest) = None"
        by (rule read_ipv4_None[OF _ r(2)]) (simp add: show_segments_dot)
      ultimately show ?thesis using assms(2) unfolding t by simp
    next
      case neg: False
      have t: "show_ip ip = show_segments ?gs"
        unfolding assms(2) show_ip.simps Let_def if_not_P[OF False] z prod.case if_not_P[OF neg] ..
      show ?thesis
        unfolding t using read_ipv6_plain[of ?gs rest] stops_ends[OF assms(1)] assms(2)
          read_ipv4_None[OF show_segments_dot r(2)] by simp
    qed
  qed
qed

lemma read_ip_show:
  assumes "stops rest"
  shows "read_ip (show_ip ip @ rest) = Some (ip, rest)"
proof (cases ip)
  case (V4 a b c d)
  have "rest = [] \<or> to_digit 10 (hd rest) = None" using assms by (auto simp: stops_def to_digit_10_16)
  from read_ipv4_show[OF this] V4 show ?thesis by (simp add: read_ip_def)
next
  case (V6 a b c d e f g h)
  from read_ipv6_show[OF assms V6] V6 show ?thesis by (simp add: read_ip_def del: show_ip.simps)
qed

lemma parse_ip_show: "parse_ip (show_ip ip) = Some ip"
  using read_ip_show[of "[]" ip] by (simp add: parse_ip_def parse_with_def stops_def del: show_ip.simps)

section \<open>Socket addresses\<close>

text \<open>\<open>Display\<close> of \<open>SocketAddr\<close>: IPv6 in brackets, with the scope id if there is one.\<close>

definition show_socket :: "std_socket_addr \<Rightarrow> string" where
  "show_socket a =
     (case sock_ip a of
        V4 _ _ _ _ \<Rightarrow> show_ip (sock_ip a) @ '':'' @ show_nat (unat (sock_port a))
      | V6 _ _ _ _ _ _ _ _ \<Rightarrow>
          ''['' @ show_ip (sock_ip a) @ (if sock_scope a \<noteq> 0 then ''%'' @ show_nat (unat (sock_scope a)) else []) @
          '']:'' @ show_nat (unat (sock_port a)))"

lemma read_scope_show:
  "read_scope_id (CHR ''%'' # show_nat (unat (n :: u32)) @ CHR '']'' # r) = Some (n, CHR '']'' # r)"
proof -
  have "unat n < 2 ^ 32" using unsigned_less[of n] by simp
  then show ?thesis
    using read_number_show_nat[of "CHR '']'' # r" "unat n" "2 ^ 32 - 1" None True]
    by (simp add: read_scope_id_def to_digit_def)
qed

lemma parse_socket_show:
  assumes "\<forall>a b c d. sock_ip s = V4 a b c d \<longrightarrow> sock_scope s = 0"
  shows "parse_socket_addr (show_socket s) = Some s"
proof (cases "sock_ip s")
  case (V4 a b c d)
  with assms have "s = socket_addr_new (V4 a b c d) (sock_port s)"
    by (cases s) (simp add: socket_addr_new_def)
  with V4 parse_socket_addr_show[of a b c d "sock_port s"] show ?thesis
    by (simp add: show_socket_def show_socket_v4_def)
next
  case (V6 a b c d e f g h)
  define p where "p = CHR '']'' # CHR '':'' # show_nat (unat (sock_port s))"
  define z where "z = (if sock_scope s \<noteq> 0 then ''%'' @ show_nat (unat (sock_scope s)) else [])"
  have "stops (z @ p)" by (simp add: stops_def to_digit_def z_def p_def)
  from read_ipv6_show[OF this V6]
  have ip: "read_ipv6 (show_ip (sock_ip s) @ z @ p) = Some ([a, b, c, d, e, f, g, h], z @ p)"
    by (simp add: V6 del: show_ip.simps)
  have z: "(case read_scope_id (z @ p) of Some (n, s') \<Rightarrow> (n, s') | None \<Rightarrow> (0, z @ p)) = (sock_scope s, p)"
    using read_scope_show[of "sock_scope s" "CHR '':'' # show_nat (unat (sock_port s))"]
    by (simp add: z_def p_def read_scope_id_def read_char_None)
  have t: "show_socket s = CHR ''['' # show_ip (sock_ip s) @ z @ p"
    by (simp add: show_socket_def V6 z_def p_def del: show_ip.simps)
  have "read_socket_addr_v4 (show_socket s) = None"
    unfolding t using read_ipv4_None[of "[]" "CHR ''['' # show_ip (sock_ip s) @ z @ p"]
    by (simp add: read_socket_addr_v4_def to_digit_def del: show_ip.simps)
  moreover have "read_socket_addr_v6 (show_socket s) = Some (s, [])"
    unfolding t read_socket_addr_v6_def Let_def read_char_Cons bind.bind_lunit ip prod.case z
    using V6 by (simp add: p_def read_port_show)
  ultimately show ?thesis by (simp add: parse_socket_addr_def parse_with_def read_socket_addr_def)
qed

end
