(* ===== verification/Vakil_Sys.thy ===== *)
theory Vakil_Sys
  imports Rust_Net_Text
begin

text \<open>
  The shared data model of the host and its plugins: \<open>crates/vakil-plugin-sys/src/lib.rs\<close>.
  Every struct is a record with the source's fields (prefixed where two structs share a field
  name), every enum a datatype with the source's variants, every \<open>From\<close> impl a function.

  The \<open>pingora\<close> conversions read types of the pingora and http crates. What the program reads of
  them is a record (\<open>request_header\<close>, \<open>http_uri\<close>, \<open>session\<close>); the functions of those crates
  that it calls are the fields of \<open>pingora\<close>, an argument of every definition that uses them.
\<close>

section \<open>Identifiers, buffers, versions\<close>

datatype id = ID u64

definition bytes_new :: bytes where
  "bytes_new = []"

record semver =
  major :: u8
  minor :: u8
  patch :: u8

text \<open>
  \<open>SemVer::from_string\<close> splits lazily: only the first three pieces are parsed, and each of the
  six \<open>unwrap\<close>s may panic.
\<close>

definition semver_from_string :: "string \<Rightarrow> semver option" where
  "semver_from_string input =
     (case split_char (CHR ''.'') input of
        a # b # c # _ \<Rightarrow> do {
          ma \<leftarrow> parse_u8 a;
          mi \<leftarrow> parse_u8 b;
          pa \<leftarrow> parse_u8 c;
          Some \<lparr>major = ma, minor = mi, patch = pa\<rparr>
        }
      | _ \<Rightarrow> None)"

record kv_pair =
  kv_name :: string
  kv_value :: string

type_synonym headers = "kv_pair list"

definition headers_new :: headers where
  "headers_new = []"

record env_snapshot =
  entries :: "kv_pair list"

record plugin_manifest =
  man_name :: string
  man_version :: semver

record plugin_init_context =
  library_path :: string
  plugin_dir :: "string option"
  host_version :: semver
  env :: env_snapshot

record plugin_error =
  message :: "string option"

section \<open>Endpoints\<close>

record socket_address =
  sa_host :: string
  sa_port :: u16

definition socket_address_from_std :: "std_socket_addr \<Rightarrow> socket_address" where
  "socket_address_from_std addr = \<lparr>sa_host = show_ip (sock_ip addr), sa_port = sock_port addr\<rparr>"

definition std_from_socket_address :: "socket_address \<Rightarrow> std_socket_addr" where
  "std_from_socket_address value =
     socket_addr_new
       (case parse_ip (sa_host value) of Some ip \<Rightarrow> ip | None \<Rightarrow> V4 127 0 0 1)
       (sa_port value)"

definition string_from_socket_address :: "socket_address \<Rightarrow> string" where
  "string_from_socket_address value = sa_host value @ '':'' @ show_nat (unat (sa_port value))"

section \<open>Connections and routes\<close>

datatype transport_protocol = Tcp | Udp

record connection_info =
  conn_id :: id
  local_addr :: socket_address
  peer_addr :: "socket_address option"
  protocol :: transport_protocol

datatype flow_direction = Inbound | Outbound

datatype route_action = Keep | ReplaceUpstream | Reject | SyntheticResponse

fun route_action_u8 :: "route_action \<Rightarrow> u8" where
  "route_action_u8 Keep = 0"
| "route_action_u8 ReplaceUpstream = 1"
| "route_action_u8 Reject = 2"
| "route_action_u8 SyntheticResponse = 3"

record route_decision =
  route_action :: route_action
  upstream_to_set :: "socket_address option"
  http_path :: "string option"

definition route_decision_default :: route_decision where
  "route_decision_default = \<lparr>route_action = Keep, upstream_to_set = None, http_path = None\<rparr>"

record transport_context =
  connection :: connection_info
  direction :: "flow_direction option"
  route :: route_decision

section \<open>HTTP messages\<close>

datatype http_version = Http10 | Http11 | Http2 | Http3

text \<open>The variants of the http crate's \<open>Version\<close> the program names, and any other.\<close>

datatype pg_version = HTTP_09 | HTTP_10 | HTTP_11 | HTTP_2 | HTTP_3 | HTTP_other

fun http_version_from :: "pg_version \<Rightarrow> http_version" where
  "http_version_from HTTP_09 = Http10"
| "http_version_from HTTP_10 = Http10"
| "http_version_from HTTP_11 = Http11"
| "http_version_from HTTP_2 = Http2"
| "http_version_from HTTP_3 = Http3"
| "http_version_from _ = Http11"

record http_request =
  req_stream_id :: id
  req_version :: http_version
  is_tls :: bool
  req_method :: string
  authority :: string
  req_path :: string
  req_headers :: headers
  req_body :: bytes

record http_response =
  resp_stream_id :: id
  resp_version :: http_version
  status :: u16
  resp_headers :: headers
  resp_body :: bytes

record http_context =
  request :: "http_request option"
  response :: "http_response option"
  transport :: "transport_context option"

definition http_context_default :: http_context where
  "http_context_default = \<lparr>request = None, response = None, transport = None\<rparr>"

section \<open>What the program reads of pingora's types\<close>

record http_uri =
  uri_scheme :: "string option"
  uri_authority :: "string option"
  uri_path :: string
  uri_query :: "string option"

record request_header =
  rh_method :: string
  rh_uri :: http_uri
  rh_version :: pg_version
  rh_headers :: "(string \<times> bytes) list"

record response_header =
  rsp_status :: u16
  rsp_headers :: "(string \<times> bytes) list"

text \<open>
  A proxy session: its request header, its two addresses (of pingora's own address type \<open>'a\<close>)
  and \<open>'s\<close>, everything else of it, such as what was written to the client.
\<close>

record ('a, 's) session =
  s_req_header :: request_header
  s_server_addr :: "'a option"
  s_client_addr :: "'a option"
  s_io :: 's

text \<open>
  The functions of pingora and the http crate that the program calls:
  \<open>HeaderValue::to_str\<close> (\<open>None\<close>: an error), \<open>ToSocketAddrs\<close> of pingora's address (\<open>None\<close>: an
  error), \<open>Uri::builder().path_and_query(p).build()\<close> (\<open>None\<close>: an error), \<open>insert_header\<close>
  of requests and of responses (\<open>None\<close>: an error), \<open>HttpPeer::new\<close> (\<open>None\<close>: a panic) and \<open>respond_error_with_body\<close>.
\<close>

record ('a, 's, 'p, 'e) pingora =
  to_str :: "bytes \<Rightarrow> string option"
  to_socket_addrs :: "'a \<Rightarrow> std_socket_addr list option"
  build_uri :: "string \<Rightarrow> http_uri option"
  insert_header :: "string \<Rightarrow> string \<Rightarrow> request_header \<Rightarrow> request_header option"
  insert_response_header :: "string \<Rightarrow> string \<Rightarrow> response_header \<Rightarrow> response_header option"
  http_peer_new :: "string \<times> u16 \<Rightarrow> bool \<Rightarrow> string \<Rightarrow> 'p option"
  respond_error_with_body :: "u16 \<Rightarrow> bytes \<Rightarrow> 's \<Rightarrow> (unit, 'e) result \<times> 's"

section \<open>Conversions from pingora\<close>

definition headers_from ::
  "('a, 's, 'p, 'e) pingora \<Rightarrow> request_header \<Rightarrow> headers" where
  "headers_from X req =
     map (\<lambda>(name, value).
           \<lparr>kv_name = name, kv_value = (case to_str X value of Some v \<Rightarrow> v | None \<Rightarrow> '''')\<rparr>)
       (rh_headers req)"

definition http_request_from ::
  "('a, 's, 'p, 'e) pingora \<Rightarrow> u64 \<Rightarrow> request_header \<Rightarrow> http_request" where
  "http_request_from X rnd req =
     \<lparr>req_stream_id = ID rnd,
      req_version = http_version_from (rh_version req),
      is_tls = (uri_scheme (rh_uri req) = Some ''https''),
      req_method = rh_method req,
      authority = (case uri_authority (rh_uri req) of None \<Rightarrow> '''' | Some v \<Rightarrow> v),
      req_path = uri_path (rh_uri req),
      req_headers = headers_from X req,
      req_body = bytes_new\<rparr>"

text \<open>A Unix socket address panics (\<open>expect\<close>), as does an empty address list (\<open>unwrap\<close>).\<close>

definition socket_address_from_pingora ::
  "('a, 's, 'p, 'e) pingora \<Rightarrow> 'a \<Rightarrow> socket_address option" where
  "socket_address_from_pingora X addr = do {
     addrs \<leftarrow> to_socket_addrs X addr;
     (case addrs of [] \<Rightarrow> None | a # _ \<Rightarrow> Some (socket_address_from_std a))
   }"

text \<open>\<open>Option::map\<close> with a conversion that may panic.\<close>

definition map_addr ::
  "('a, 's, 'p, 'e) pingora \<Rightarrow> 'a option \<Rightarrow> socket_address option option" where
  "map_addr X a =
     (case a of
        None \<Rightarrow> Some None
      | Some addr \<Rightarrow> map_option Some (socket_address_from_pingora X addr))"

text \<open>
  \<open>HttpContext::from(session)\<close>; the two random numbers are those of the connection id and of the
  stream id, in that order.
\<close>

definition http_context_from ::
  "('a, 's, 'p, 'e) pingora \<Rightarrow> u64 \<Rightarrow> u64 \<Rightarrow> ('a, 's) session \<Rightarrow> http_context option" where
  "http_context_from X rnd_conn rnd_stream session = do {
     server \<leftarrow> map_addr X (s_server_addr session);
     client \<leftarrow> map_addr X (s_client_addr session);
     let transport =
       \<lparr>connection =
          \<lparr>conn_id = ID rnd_conn,
           local_addr = (case server of Some a \<Rightarrow> a | None \<Rightarrow> \<lparr>sa_host = '''', sa_port = 0\<rparr>),
           peer_addr = client,
           protocol = Tcp\<rparr>,
        direction = Some Inbound,
        route = route_decision_default\<rparr>;
     Some \<lparr>request = Some (http_request_from X rnd_stream (s_req_header session)),
           response = None,
           transport = Some transport\<rparr>
   }"

definition ctx_route :: "http_context \<Rightarrow> route_decision option" where
  "ctx_route self = map_option route (transport self)"

definition set_route :: "http_context \<Rightarrow> route_decision \<Rightarrow> bool \<times> http_context" where
  "set_route self r =
     (case transport self of
        None \<Rightarrow> (False, self)
      | Some t \<Rightarrow> (True, self\<lparr>transport := Some (t\<lparr>route := r\<rparr>)\<rparr>))"

section \<open>L4 contexts and hook results\<close>

record tcp_context =
  chunk :: "bytes option"
  tcp_meta :: transport_context

record udp_context =
  datagram :: "bytes option"
  udp_meta :: transport_context

datatype hook_action = Continue | Replace | Drop

record hook_outcome =
  action :: hook_action

definition hook_outcome_default :: hook_outcome where
  "hook_outcome_default = \<lparr>action = Continue\<rparr>"

text \<open>The enum's \<open>repr(u8)\<close> discriminant (\<open>as u8\<close>).\<close>

fun hook_action_u8 :: "hook_action \<Rightarrow> u8" where
  "hook_action_u8 Continue = 0"
| "hook_action_u8 Replace = 1"
| "hook_action_u8 Drop = 2"

lemmas sys_default_simps [default_simps] =
  route_decision_default_def http_context_default_def hook_outcome_default_def

section \<open>Facts about the data model\<close>

lemma hook_action_u8_inj [simp]: "hook_action_u8 a = hook_action_u8 b \<longleftrightarrow> a = b"
  by (cases a; cases b) simp_all

lemma hook_action_u8_one [simp]: "hook_action_u8 a = 1 \<longleftrightarrow> a = Replace"
  by (cases a) simp_all

lemma ctx_route_set_route [simp]:
  "ctx_route (snd (set_route ctx r)) = (if transport ctx = None then None else Some r)"
  by (simp add: ctx_route_def set_route_def split: option.splits)

lemma fst_set_route [simp]: "fst (set_route ctx r) \<longleftrightarrow> transport ctx \<noteq> None"
  by (simp add: set_route_def split: option.splits)

lemma set_route_frame [simp]:
  "request (snd (set_route ctx r)) = request ctx"
  "response (snd (set_route ctx r)) = response ctx"
  by (simp_all add: set_route_def split: option.splits)

lemma length_headers_from [simp]: "length (headers_from X req) = length (rh_headers req)"
  by (simp add: headers_from_def)

lemma show_nat_no_dot: "CHR ''.'' \<notin> set (show_nat n)"
  by (metis to_digit_digit_char to_digit_dot show_nat_digits option.distinct(1) order_refl)

definition show_semver :: "semver \<Rightarrow> string" where
  "show_semver v =
     show_nat (unat (major v)) @ ''.'' @ show_nat (unat (minor v)) @ ''.'' @
     show_nat (unat (patch v))"

lemma show_semver_join:
  "show_semver v = join [CHR ''.''] (map (\<lambda>w. show_nat (unat w)) [major v, minor v, patch v])"
  by (simp add: show_semver_def)

lemma semver_roundtrip: "semver_from_string (show_semver v) = Some v"
proof -
  have "split_char (CHR ''.'') (show_semver v) = map (\<lambda>w. show_nat (unat w)) [major v, minor v, patch v]"
    unfolding show_semver_join by (rule split_char_join) (auto simp: show_nat_no_dot)
  then show ?thesis by (simp add: semver_from_string_def parse_u8_show)
qed

lemma std_roundtrip_v4:
  "std_from_socket_address (socket_address_from_std (socket_addr_new (V4 a b c d) p)) =
     socket_addr_new (V4 a b c d) p"
  by (simp add: std_from_socket_address_def socket_address_from_std_def socket_addr_new_def
      parse_ip_show_v4 del: show_ip.simps)

section \<open>Properties\<close>

text \<open>C23: an address survives the plugin boundary. A socket address turned into the ABI's text form and
  back is the same IP address and port, for every IPv4 and IPv6 address, compressed and embedded
  forms included (the scope id of a link-local IPv6 address is lost); so two addresses have the same
  ABI form only if their IP addresses and ports agree.\<close>

theorem socket_address_roundtrip:
  "std_from_socket_address (socket_address_from_std a) = a\<lparr>sock_scope := 0\<rparr> \<and>
   (socket_address_from_std a = socket_address_from_std b \<longleftrightarrow>
      sock_ip a = sock_ip b \<and> sock_port a = sock_port b)"
proof -
  have r: "std_from_socket_address (socket_address_from_std c) = c\<lparr>sock_scope := 0\<rparr>" for c
    by (cases c) (simp add: std_from_socket_address_def socket_address_from_std_def socket_addr_new_def
        parse_ip_show del: show_ip.simps)
  have "sock_ip a = sock_ip b \<and> sock_port a = sock_port b"
    if "socket_address_from_std a = socket_address_from_std b"
  proof -
    have "a\<lparr>sock_scope := 0\<rparr> = b\<lparr>sock_scope := 0\<rparr>" using r[of a] r[of b] that by simp
    then show ?thesis by (cases a; cases b) simp
  qed
  with r show ?thesis by (auto simp: socket_address_from_std_def)
qed

end
