(* ===== verification/Vakil_Api.thy ===== *)
theory Vakil_Api
  imports Vakil_Sys
begin

text \<open>
  The plugin ABI: \<open>crates/vakil-plugin-api/src/lib.rs\<close>. A plugin is foreign code, so every
  callback is a parameter: a function from the raw instance pointer, the (nullable) context
  pointer and the plugin-owned state \<open>'w\<close> to the pointee after the call, the callback's
  \<open>Result\<close> and the new plugin-owned state; \<open>None\<close> is a panic.

  The host reaches plugin code only through the \<open>call_*\<close> functions below. Beside the plugin
  state they keep the list of calls made so far, so that the order in which the host calls a
  plugin can be stated for any plugin; no definition of the program reads that list.
\<close>

section \<open>Callbacks\<close>

datatype inst_ptr = Null | Ptr u64

type_synonym 'w init_fn =
  "inst_ptr \<Rightarrow> plugin_init_context option \<Rightarrow> 'w \<Rightarrow> ((unit, plugin_error) result \<times> 'w) option"

type_synonym ('c, 'w) hook_fn =
  "inst_ptr \<Rightarrow> 'c option \<Rightarrow> 'w \<Rightarrow> ('c option \<times> (hook_outcome, plugin_error) result \<times> 'w) option"

type_synonym 'w http_hook_fn = "(http_context, 'w) hook_fn"
type_synonym 'w tcp_hook_fn = "(tcp_context, 'w) hook_fn"
type_synonym 'w udp_hook_fn = "(udp_context, 'w) hook_fn"

type_synonym 'w shutdown_fn = "inst_ptr \<Rightarrow> 'w \<Rightarrow> ((unit, plugin_error) result \<times> 'w) option"

type_synonym ('m, 'w) factory_fn = "'w \<Rightarrow> (('m, plugin_error) result \<times> 'w) option"

type_synonym priority = u8

section \<open>Modules\<close>

record 'w plugin_tcp_module =
  tcp_instance :: inst_ptr
  tcp_priority :: priority
  tcp_init :: "'w init_fn"
  tcp_shutdown :: "'w shutdown_fn"
  tcp_on_route :: "'w tcp_hook_fn option"
  on_connect :: "'w tcp_hook_fn option"
  on_data :: "'w tcp_hook_fn option"
  on_half_close :: "'w tcp_hook_fn option"
  on_close :: "'w tcp_hook_fn option"

record 'w plugin_udp_module =
  udp_instance :: inst_ptr
  udp_priority :: priority
  udp_init :: "'w init_fn"
  udp_shutdown :: "'w shutdown_fn"
  udp_on_route :: "'w udp_hook_fn option"
  on_datagram :: "'w udp_hook_fn option"
  on_session_start :: "'w udp_hook_fn option"
  on_session_end :: "'w udp_hook_fn option"

record 'w plugin_http_module =
  http_instance :: inst_ptr
  http_priority :: priority
  http_init :: "'w init_fn"
  http_shutdown :: "'w shutdown_fn"
  http_on_route :: "'w http_hook_fn option"
  on_request_headers :: "'w http_hook_fn option"
  on_request_body :: "'w http_hook_fn option"
  on_response_headers :: "'w http_hook_fn option"
  on_response_body :: "'w http_hook_fn option"
  on_trailers :: "'w http_hook_fn option"
  on_local_reply :: "'w http_hook_fn option"

definition vakil_default_init :: "'w init_fn" where
  "vakil_default_init inst ctx w = Some (Ok (), w)"

definition vakil_default_shutdown :: "'w shutdown_fn" where
  "vakil_default_shutdown inst w = Some (Ok (), w)"

definition tcp_module_default :: "'w plugin_tcp_module" where
  "tcp_module_default =
     \<lparr>tcp_instance = Null, tcp_priority = 0, tcp_init = vakil_default_init,
      tcp_shutdown = vakil_default_shutdown, tcp_on_route = None, on_connect = None,
      on_data = None, on_half_close = None, on_close = None\<rparr>"

definition udp_module_default :: "'w plugin_udp_module" where
  "udp_module_default =
     \<lparr>udp_instance = Null, udp_priority = 0, udp_init = vakil_default_init,
      udp_shutdown = vakil_default_shutdown, udp_on_route = None, on_datagram = None,
      on_session_start = None, on_session_end = None\<rparr>"

definition http_module_default :: "'w plugin_http_module" where
  "http_module_default =
     \<lparr>http_instance = Null, http_priority = 0, http_init = vakil_default_init,
      http_shutdown = vakil_default_shutdown, http_on_route = None, on_request_headers = None,
      on_request_body = None, on_response_headers = None, on_response_body = None,
      on_trailers = None, on_local_reply = None\<rparr>"

record 'w plugin_root_module =
  manifest :: plugin_manifest
  create_http :: "('w plugin_http_module, 'w) factory_fn option"
  create_tcp :: "('w plugin_tcp_module, 'w) factory_fn option"
  create_udp :: "('w plugin_udp_module, 'w) factory_fn option"

section \<open>The calls the host makes\<close>

datatype proto = HttpProto | TcpProto | UdpProto

text \<open>The protocols in the order the host loads and shuts them down.\<close>

fun proto_rank :: "proto \<Rightarrow> nat" where
  "proto_rank HttpProto = 0"
| "proto_rank TcpProto = 1"
| "proto_rank UdpProto = 2"

lemma proto_rank_inj [simp]: "proto_rank p = proto_rank q \<longleftrightarrow> p = q"
  by (cases p; cases q) simp_all

instantiation proto :: linorder
begin

definition less_eq_proto :: "proto \<Rightarrow> proto \<Rightarrow> bool" where
  "less_eq_proto p q \<longleftrightarrow> proto_rank p \<le> proto_rank q"

definition less_proto :: "proto \<Rightarrow> proto \<Rightarrow> bool" where
  "less_proto p q \<longleftrightarrow> proto_rank p < proto_rank q"

instance
  by standard (auto simp: less_eq_proto_def less_proto_def)

end

lemmas proto_order = less_eq_proto_def less_proto_def

datatype phase =
  OnRoute
| OnRequestHeaders | OnRequestBody | OnResponseHeaders | OnResponseBody | OnTrailers | OnLocalReply
| OnConnect | OnData | OnHalfClose | OnClose
| OnDatagram | OnSessionStart | OnSessionEnd

datatype call =
  OpenLibrary string
| GetLibrary
| Factory proto
| Init proto inst_ptr
| Hook proto phase inst_ptr
| Shutdown proto inst_ptr
| CloseLibrary

record 'w world =
  plugins :: 'w
  calls :: "call list"

definition log_call :: "call \<Rightarrow> 'w world \<Rightarrow> 'w world" where
  "log_call c W = W\<lparr>calls := calls W @ [c]\<rparr>"

definition call_factory ::
  "proto \<Rightarrow> ('m, 'w) factory_fn \<Rightarrow> 'w world \<Rightarrow> (('m, plugin_error) result \<times> 'w world) option" where
  "call_factory k f W = do {
     (r, w) \<leftarrow> f (plugins W);
     Some (r, \<lparr>plugins = w, calls = calls W @ [Factory k]\<rparr>)
   }"

definition call_init ::
  "proto \<Rightarrow> inst_ptr \<Rightarrow> 'w init_fn \<Rightarrow> plugin_init_context option \<Rightarrow> 'w world \<Rightarrow>
   ((unit, plugin_error) result \<times> 'w world) option" where
  "call_init k inst f ctx W = do {
     (r, w) \<leftarrow> f inst ctx (plugins W);
     Some (r, \<lparr>plugins = w, calls = calls W @ [Init k inst]\<rparr>)
   }"

definition call_shutdown ::
  "proto \<Rightarrow> inst_ptr \<Rightarrow> 'w shutdown_fn \<Rightarrow> 'w world \<Rightarrow>
   ((unit, plugin_error) result \<times> 'w world) option" where
  "call_shutdown k inst f W = do {
     (r, w) \<leftarrow> f inst (plugins W);
     Some (r, \<lparr>plugins = w, calls = calls W @ [Shutdown k inst]\<rparr>)
   }"

text \<open>
  A hook gets a pointer to the host's own context (never null). The pointer is passed by value,
  so the host's context is the pointee after the call.
\<close>

definition call_hook ::
  "proto \<Rightarrow> phase \<Rightarrow> inst_ptr \<Rightarrow> ('c, 'w) hook_fn \<Rightarrow> 'c \<times> 'w world \<Rightarrow>
   ((hook_outcome, plugin_error) result \<times> 'c \<times> 'w world) option" where
  "call_hook k ph inst f = (\<lambda>(ctx, W). do {
     (p, r, w) \<leftarrow> f inst (Some ctx) (plugins W);
     Some (r, (case p of Some ctx' \<Rightarrow> ctx' | None \<Rightarrow> ctx),
           \<lparr>plugins = w, calls = calls W @ [Hook k ph inst]\<rparr>)
   })"

section \<open>\<open>PluginModuleTrait\<close>\<close>

definition tcp_module_init ::
  "'w plugin_tcp_module \<Rightarrow> plugin_init_context option \<Rightarrow> 'w world \<Rightarrow>
   ((unit, plugin_error) result \<times> 'w world) option" where
  "tcp_module_init self ctx W = call_init TcpProto (tcp_instance self) (tcp_init self) ctx W"

definition tcp_module_shutdown ::
  "'w plugin_tcp_module \<Rightarrow> 'w world \<Rightarrow> ((unit, plugin_error) result \<times> 'w world) option" where
  "tcp_module_shutdown self W = call_shutdown TcpProto (tcp_instance self) (tcp_shutdown self) W"

definition udp_module_init ::
  "'w plugin_udp_module \<Rightarrow> plugin_init_context option \<Rightarrow> 'w world \<Rightarrow>
   ((unit, plugin_error) result \<times> 'w world) option" where
  "udp_module_init self ctx W = call_init UdpProto (udp_instance self) (udp_init self) ctx W"

definition udp_module_shutdown ::
  "'w plugin_udp_module \<Rightarrow> 'w world \<Rightarrow> ((unit, plugin_error) result \<times> 'w world) option" where
  "udp_module_shutdown self W = call_shutdown UdpProto (udp_instance self) (udp_shutdown self) W"

definition http_module_init ::
  "'w plugin_http_module \<Rightarrow> plugin_init_context option \<Rightarrow> 'w world \<Rightarrow>
   ((unit, plugin_error) result \<times> 'w world) option" where
  "http_module_init self ctx W = call_init HttpProto (http_instance self) (http_init self) ctx W"

definition http_module_shutdown ::
  "'w plugin_http_module \<Rightarrow> 'w world \<Rightarrow> ((unit, plugin_error) result \<times> 'w world) option" where
  "http_module_shutdown self W = call_shutdown HttpProto (http_instance self) (http_shutdown self) W"

lemmas module_trait_defs =
  tcp_module_init_def tcp_module_shutdown_def udp_module_init_def udp_module_shutdown_def
  http_module_init_def http_module_shutdown_def

lemmas module_default_defs [default_simps] =
  tcp_module_default_def udp_module_default_def http_module_default_def
  vakil_default_init_def vakil_default_shutdown_def

section \<open>What a call leaves behind\<close>

lemma call_hook_calls:
  "call_hook k ph inst f (ctx, W) = Some (r, ctx', W') \<Longrightarrow> calls W' = calls W @ [Hook k ph inst]"
  by (auto simp: call_hook_def split: Option.bind_splits)

lemma call_factory_calls:
  "call_factory k f W = Some (r, W') \<Longrightarrow> calls W' = calls W @ [Factory k]"
  by (auto simp: call_factory_def split: Option.bind_splits)

text \<open>
  The contract the host relies on for every kind of module: \<open>init\<close> and \<open>shutdown\<close> each make the
  one call they are for, on the module's own instance, and the default module's two callbacks
  succeed without touching the plugin state.
\<close>

locale plugin_module =
  fixes kind :: proto
    and inst_of :: "'m \<Rightarrow> inst_ptr"
    and m_init :: "'m \<Rightarrow> plugin_init_context option \<Rightarrow> 'w world \<Rightarrow>
                   ((unit, plugin_error) result \<times> 'w world) option"
    and m_shutdown :: "'m \<Rightarrow> 'w world \<Rightarrow> ((unit, plugin_error) result \<times> 'w world) option"
    and m_default :: 'm
  assumes init_calls: "m_init m ctx W = Some (r, W') \<Longrightarrow> calls W' = calls W @ [Init kind (inst_of m)]"
    and shutdown_calls: "m_shutdown m W = Some (r, W') \<Longrightarrow> calls W' = calls W @ [Shutdown kind (inst_of m)]"
    and default_inst: "inst_of m_default = Null"
    and default_init: "m_init m_default ctx W = Some (Ok (), log_call (Init kind Null) W)"
    and default_shutdown: "m_shutdown m_default W = Some (Ok (), log_call (Shutdown kind Null) W)"
begin

text \<open>The life of a default module: started, stopped, nothing changed.\<close>

lemma default_lifecycle:
  "do { (r, W1) \<leftarrow> m_init m_default ctx W; m_shutdown m_default W1 } =
     Some (Ok (), W\<lparr>calls := calls W @ [Init kind (inst_of m_default), Shutdown kind (inst_of m_default)]\<rparr>)"
  by (simp add: default_init default_shutdown default_inst log_call_def)

lemma lifecycle_calls:
  assumes "m_init m ctx W = Some (r, W1)" and "m_shutdown m W1 = Some (r', W2)"
  shows "calls W2 = calls W @ [Init kind (inst_of m), Shutdown kind (inst_of m)]"
  using init_calls[OF assms(1)] shutdown_calls[OF assms(2)] by simp

end

interpretation http_mod: plugin_module HttpProto http_instance http_module_init
  http_module_shutdown http_module_default
  by unfold_locales
    (auto simp: module_trait_defs call_init_def call_shutdown_def log_call_def default_simps
      split: Option.bind_splits)

interpretation tcp_mod: plugin_module TcpProto tcp_instance tcp_module_init
  tcp_module_shutdown tcp_module_default
  by unfold_locales
    (auto simp: module_trait_defs call_init_def call_shutdown_def log_call_def default_simps
      split: Option.bind_splits)

interpretation udp_mod: plugin_module UdpProto udp_instance udp_module_init
  udp_module_shutdown udp_module_default
  by unfold_locales
    (auto simp: module_trait_defs call_init_def call_shutdown_def log_call_def default_simps
      split: Option.bind_splits)

end
