(* ===== verification/Rust_Path.thy ===== *)
theory Rust_Path
  imports Rust_Str
begin

text \<open>
  The part of Rust's \<open>std::path\<close> (on Unix) the program uses. A path is its string; its last
  component is found after dropping what \<open>Components\<close> ignores at the end: repeated separators
  and \<open>.\<close> components that are not at the beginning.
\<close>

text \<open>The characters of a path, last first, without ignored trailing parts.\<close>

fun trim_rev_path :: "string \<Rightarrow> string" where
  "trim_rev_path [] = []"
| "trim_rev_path [c] = [c]"
| "trim_rev_path (c # d # cs) =
     (if c = CHR ''/'' then trim_rev_path (d # cs)
      else if c = CHR ''.'' \<and> d = CHR ''/'' then trim_rev_path (d # cs)
      else c # d # cs)"

definition trim_path :: "string \<Rightarrow> string" where
  "trim_path s = rev (trim_rev_path (rev s))"

text \<open>What precedes the last component and the last component, if there is one.\<close>

definition split_last :: "string \<Rightarrow> (string \<times> string) option" where
  "split_last s =
     (let t = trim_path s
      in if t = [] \<or> t = ''/'' then None
         else (case rsplit_once (CHR ''/'') t of
                 None \<Rightarrow> Some ([], t)
               | Some (before, seg) \<Rightarrow> Some (trim_path (before @ ''/''), seg)))"

definition path_parent :: "string \<Rightarrow> string option" where
  "path_parent s = map_option fst (split_last s)"

definition file_name :: "string \<Rightarrow> string option" where
  "file_name s =
     (case split_last s of
        None \<Rightarrow> None
      | Some (_, seg) \<Rightarrow> if seg = ''.'' \<or> seg = ''..'' then None else Some seg)"

definition path_extension :: "string \<Rightarrow> string option" where
  "path_extension s = do {
     file \<leftarrow> file_name s;
     (stem, ext) \<leftarrow> rsplit_once (CHR ''.'') file;
     (if stem = [] then None else Some ext)
   }"

definition path_join :: "string \<Rightarrow> string \<Rightarrow> string" where
  "path_join base p =
     (if starts_with ''/'' p then p
      else if base \<noteq> [] \<and> last base \<noteq> CHR ''/'' then base @ ''/'' @ p
      else base @ p)"

lemma trim_path_plain:
  assumes "s \<noteq> []" "last s \<noteq> CHR ''/''" "last s \<noteq> CHR ''.''"
  shows "trim_path s = s"
proof (cases "rev s")
  case Nil
  with assms show ?thesis by simp
next
  case (Cons c cs)
  then have "c = last s" using assms(1) by (metis hd_rev list.sel(1))
  with assms have "trim_rev_path (c # cs) = c # cs" by (cases cs) simp_all
  with Cons have "trim_rev_path (rev s) = rev s" by simp
  then show ?thesis by (simp add: trim_path_def)
qed

lemma trim_path_slash: "s \<noteq> [] \<Longrightarrow> trim_path (s @ ''/'') = trim_path s"
  by (cases "rev s") (simp_all add: trim_path_def)

lemma path_parent_file:
  assumes "d \<noteq> []" "last d \<noteq> CHR ''/''" "last d \<noteq> CHR ''.''"
    and "f \<noteq> []" "CHR ''/'' \<notin> set f" "last f \<noteq> CHR ''.''"
  shows "path_parent (d @ ''/'' @ f) = Some d"
proof -
  let ?p = "d @ ''/'' @ f"
  have "last f \<noteq> CHR ''/''" using assms(4,5) by (metis last_in_set)
  then have "trim_path ?p = ?p" using assms by (intro trim_path_plain) simp_all
  moreover have "rsplit_once (CHR ''/'') ?p = Some (d, f)"
    using assms(5) by (simp add: rsplit_once_Some_iff)
  moreover have "?p \<noteq> ''/''" using assms(1) by (cases d) simp_all
  ultimately show ?thesis
    using assms(1-3) by (simp add: path_parent_def split_last_def trim_path_slash trim_path_plain)
qed

end
