(* ===== verification/Vakil_Host.thy ===== *)
theory Vakil_Host
  imports Vakil_Api Rust_Path
begin

text \<open>
  The plugin loader: \<open>crates/vakil-plugin-host/src\<close> (\<open>lib.rs\<close>, \<open>version.rs\<close>). It opens a library,
  checks the manifest, creates and initialises the protocol modules, and shuts them down.

  Opening a dynamic library and looking up its \<open>get_library\<close> symbol are the libloading crate's:
  the argument \<open>dlopen\<close> maps a path to a library or an error message.
\<close>

section \<open>State\<close>

record 'w dylib =
  get_library_symbol :: "('w \<Rightarrow> ('w plugin_root_module \<times> 'w) option, string) result"

record 'w loaded_plugin_modules =
  http :: "'w plugin_http_module option"
  tcp :: "'w plugin_tcp_module option"
  udp :: "'w plugin_udp_module option"

definition modules_default :: "'w loaded_plugin_modules" where
  "modules_default = \<lparr>http = None, tcp = None, udp = None\<rparr>"

record 'w loaded_plugin =
  root :: "'w plugin_root_module"
  modules :: "'w loaded_plugin_modules"
  library :: "'w dylib"

definition host_abi_version :: semver where
  "host_abi_version = \<lparr>major = 0, minor = 1, patch = 0\<rparr>"

text \<open>\<open>env!("CARGO_PKG_VERSION")\<close>: the version in \<open>crates/vakil-plugin-host/Cargo.toml\<close>.\<close>

definition cargo_pkg_version :: string where
  "cargo_pkg_version = ''0.1.0''"

section \<open>Manifest and init context\<close>

definition validate_manifest :: "plugin_manifest \<Rightarrow> (unit, string) result" where
  "validate_manifest m =
     (if major (man_version m) \<noteq> major host_abi_version
      then Err (''plugin major version '' @ show_nat (unat (major (man_version m))) @
                '' is incompatible with host ABI '' @ show_nat (unat (major host_abi_version)))
      else if minor host_abi_version < minor (man_version m)
      then Err (''plugin minor version '' @ show_nat (unat (minor (man_version m))) @
                '' is newer than host ABI '' @ show_nat (unat (minor host_abi_version)))
      else Ok ())"

definition collect_env_snapshot :: "(string \<times> string) list \<Rightarrow> env_snapshot" where
  "collect_env_snapshot vars =
     \<lparr>entries = map (\<lambda>(name, value). \<lparr>kv_name = name, kv_value = value\<rparr>) vars\<rparr>"

definition build_init_context ::
  "string \<Rightarrow> (string \<times> string) list \<Rightarrow> (plugin_init_context, string) result option" where
  "build_init_context path vars = do {
     v \<leftarrow> semver_from_string cargo_pkg_version;
     Some (Ok \<lparr>library_path = path,
               plugin_dir = path_parent path,
               host_version = v,
               env = collect_env_snapshot vars\<rparr>)
   }"

section \<open>Loading and shutting down modules\<close>

text \<open>
  The macro \<open>load_block!\<close>, with the module's trait functions and the setter of its field as
  arguments. An early return drops the modules loaded so far; \<open>LoadedPluginModules\<close> has no
  \<open>Drop\<close>, so that makes no call.
\<close>

definition load_block ::
  "string \<Rightarrow> proto \<Rightarrow>
   ('m \<Rightarrow> plugin_init_context option \<Rightarrow> 'w world \<Rightarrow> ((unit, plugin_error) result \<times> 'w world) option) \<Rightarrow>
   ('m option \<Rightarrow> 'w loaded_plugin_modules \<Rightarrow> 'w loaded_plugin_modules) \<Rightarrow>
   ('m, 'w) factory_fn option \<Rightarrow> plugin_init_context \<Rightarrow>
   'w loaded_plugin_modules \<Rightarrow> 'w world \<Rightarrow>
   (('w loaded_plugin_modules, string) result \<times> 'w world) option" where
  "load_block name k m_init put create ctx mods W =
     (case create of
        None \<Rightarrow> Some (Ok mods, W)
      | Some factory \<Rightarrow> do {
          (r, W) \<leftarrow> call_factory k factory W;
          (case result_ok r of
             Some m \<Rightarrow> do {
               (init_res, W) \<leftarrow> m_init m (Some ctx) W;
               Some (if is_ok init_res then Ok (put (Some m) mods)
                     else Err (name @ '' module init failed''), W)
             }
           | None \<Rightarrow> Some (Err (name @ '' module factory failed''), W))
        })"

abbreviation put_http ::
  "'w plugin_http_module option \<Rightarrow> 'w loaded_plugin_modules \<Rightarrow> 'w loaded_plugin_modules" where
  "put_http m mods \<equiv> mods\<lparr>http := m\<rparr>"

abbreviation put_tcp ::
  "'w plugin_tcp_module option \<Rightarrow> 'w loaded_plugin_modules \<Rightarrow> 'w loaded_plugin_modules" where
  "put_tcp m mods \<equiv> mods\<lparr>tcp := m\<rparr>"

abbreviation put_udp ::
  "'w plugin_udp_module option \<Rightarrow> 'w loaded_plugin_modules \<Rightarrow> 'w loaded_plugin_modules" where
  "put_udp m mods \<equiv> mods\<lparr>udp := m\<rparr>"

definition load_modules ::
  "'w plugin_root_module \<Rightarrow> plugin_init_context \<Rightarrow> 'w world \<Rightarrow>
   (('w loaded_plugin_modules, string) result \<times> 'w world) option" where
  "load_modules rt ctx W =
     try_then (load_block ''http'' HttpProto http_module_init put_http (create_http rt) ctx modules_default W)
       (\<lambda>mods W.
     try_then (load_block ''tcp'' TcpProto tcp_module_init put_tcp (create_tcp rt) ctx mods W)
       (\<lambda>mods W.
     load_block ''udp'' UdpProto udp_module_init put_udp (create_udp rt) ctx mods W))"

text \<open>One \<open>if let Some(module) = self.x.take()\<close> of \<open>LoadedPluginModules::shutdown\<close>.\<close>

definition shutdown_slot ::
  "('w loaded_plugin_modules \<Rightarrow> 'm option) \<Rightarrow>
   ('m option \<Rightarrow> 'w loaded_plugin_modules \<Rightarrow> 'w loaded_plugin_modules) \<Rightarrow>
   ('m \<Rightarrow> 'w world \<Rightarrow> ((unit, plugin_error) result \<times> 'w world) option) \<Rightarrow>
   'w loaded_plugin_modules \<Rightarrow> 'w world \<Rightarrow> ('w loaded_plugin_modules \<times> 'w world) option" where
  "shutdown_slot slot put m_shutdown mods W =
     (case slot mods of
        None \<Rightarrow> Some (mods, W)
      | Some m \<Rightarrow> do { (_, W) \<leftarrow> m_shutdown m W; Some (put None mods, W) })"

definition modules_shutdown ::
  "'w loaded_plugin_modules \<Rightarrow> 'w world \<Rightarrow> ('w loaded_plugin_modules \<times> 'w world) option" where
  "modules_shutdown self W = do {
     (self, W) \<leftarrow> shutdown_slot http put_http http_module_shutdown self W;
     (self, W) \<leftarrow> shutdown_slot tcp put_tcp tcp_module_shutdown self W;
     shutdown_slot udp put_udp udp_module_shutdown self W
   }"

section \<open>Loading and dropping a plugin\<close>

text \<open>Leaving \<open>load\<close> with an error drops the local \<open>library\<close>, which closes it.\<close>

definition close_on_err :: "(('a, string) result \<times> 'w world) option \<Rightarrow> (('a, string) result \<times> 'w world) option" where
  "close_on_err m = do {
     (r, W) \<leftarrow> m;
     Some (r, if is_ok r then W else log_call CloseLibrary W)
   }"

text \<open>\<open>library.get("get_library")\<close> and the call of the symbol.\<close>

definition get_root ::
  "'w dylib \<Rightarrow> 'w world \<Rightarrow> (('w plugin_root_module, string) result \<times> 'w world) option" where
  "get_root lib W =
     (case get_library_symbol lib of
        Err e \<Rightarrow> Some (Err (''failed to load plugin root symbol: '' @ e), W)
      | Ok f \<Rightarrow> do {
          (rt, w) \<leftarrow> f (plugins W);
          Some (Ok rt, \<lparr>plugins = w, calls = calls W @ [GetLibrary]\<rparr>)
        })"

definition plugin_load ::
  "(string \<Rightarrow> ('w dylib, string) result) \<Rightarrow> (string \<times> string) list \<Rightarrow> string \<Rightarrow> 'w world \<Rightarrow>
   (('w loaded_plugin, string) result \<times> 'w world) option" where
  "plugin_load dlopen vars path W =
     (case dlopen path of
        Err e \<Rightarrow> Some (Err (''failed to open plugin library: '' @ e), W)
      | Ok lib \<Rightarrow>
          close_on_err
            (try_then (get_root lib (log_call (OpenLibrary path) W)) (\<lambda>rt W.
             try_then (Some (validate_manifest (manifest rt), W)) (\<lambda>_ W.
             try_then (do { ctx \<leftarrow> build_init_context path vars; Some (ctx, W) }) (\<lambda>init_context W.
             try_then (load_modules rt init_context W) (\<lambda>mods W.
             Some (Ok \<lparr>root = rt, modules = mods, library = lib\<rparr>, W)))))))"

definition plugin_name :: "'w loaded_plugin \<Rightarrow> string" where
  "plugin_name self = man_name (manifest (root self))"

definition has_http :: "'w loaded_plugin \<Rightarrow> bool" where
  "has_http self \<longleftrightarrow> http (modules self) \<noteq> None"

definition has_tcp :: "'w loaded_plugin \<Rightarrow> bool" where
  "has_tcp self \<longleftrightarrow> tcp (modules self) \<noteq> None"

definition has_udp :: "'w loaded_plugin \<Rightarrow> bool" where
  "has_udp self \<longleftrightarrow> udp (modules self) \<noteq> None"

definition plugin_shutdown ::
  "'w loaded_plugin \<Rightarrow> 'w world \<Rightarrow> ('w loaded_plugin \<times> 'w world) option" where
  "plugin_shutdown self W = do {
     (mods, W) \<leftarrow> modules_shutdown (modules self) W;
     Some (self\<lparr>modules := mods\<rparr>, W)
   }"

text \<open>
  \<open>Drop\<close>: shutdown, then the fields in the order they are declared: \<open>root\<close>, \<open>modules\<close>, and the
  library last.
\<close>

definition plugin_drop :: "'w loaded_plugin \<Rightarrow> 'w world \<Rightarrow> 'w world option" where
  "plugin_drop self W = do {
     (self, W) \<leftarrow> plugin_shutdown self W;
     Some (log_call CloseLibrary W)
   }"

section \<open>The slots of \<open>LoadedPluginModules\<close>\<close>

text \<open>The calls of start-up: none of them shuts a module down.\<close>

definition startup_call :: "call \<Rightarrow> bool" where
  "startup_call c \<longleftrightarrow> (\<exists>k i. c = Factory k \<or> c = Init k i) \<or> c = GetLibrary"

definition startup_ext :: "'w world \<Rightarrow> 'w world \<Rightarrow> bool" where
  "startup_ext W W' \<longleftrightarrow> (\<exists>cs. calls W' = calls W @ cs \<and> (\<forall>c \<in> set cs. startup_call c))"

lemma startup_ext_refl [simp]: "startup_ext W W"
  by (simp add: startup_ext_def)

lemma startup_ext_trans: "transp startup_ext"
  unfolding startup_ext_def transp_def by (metis append.assoc Un_iff set_append)

text \<open>
  What the loader needs of a module kind and of the field that holds it: writing and reading the
  field agree. Loading and shutting down one slot are then described once, for all protocols.
\<close>

locale module_slot = plugin_module kind inst_of m_init m_shutdown m_default
  for kind :: proto
    and inst_of :: "'m \<Rightarrow> inst_ptr"
    and m_init :: "'m \<Rightarrow> plugin_init_context option \<Rightarrow> 'w world \<Rightarrow>
                   ((unit, plugin_error) result \<times> 'w world) option"
    and m_shutdown :: "'m \<Rightarrow> 'w world \<Rightarrow> ((unit, plugin_error) result \<times> 'w world) option"
    and m_default :: 'm +
  fixes slot :: "'w loaded_plugin_modules \<Rightarrow> 'm option"
    and put :: "'m option \<Rightarrow> 'w loaded_plugin_modules \<Rightarrow> 'w loaded_plugin_modules"
  assumes slot_put: "slot (put m mods) = m"
    and put_slot: "put (slot mods) mods = mods"
    and put_put: "put m (put m' mods) = put m mods"
begin

lemma load_block_Ok:
  assumes "load_block name kind m_init put create ctx mods W = Some (Ok mods', W')"
  shows "create = None \<and> mods' = mods \<and> W' = W \<or>
         (\<exists>m. create \<noteq> None \<and> mods' = put (Some m) mods \<and> slot mods' = Some m \<and>
              calls W' = calls W @ [Factory kind, Init kind (inst_of m)])"
proof (cases create)
  case None
  with assms show ?thesis by (simp add: load_block_def)
next
  case (Some factory)
  with assms obtain r W1 where f: "call_factory kind factory W = Some (r, W1)"
    by (auto simp: load_block_def split: Option.bind_splits)
  with assms Some obtain m where r: "r = Ok m"
    by (cases r) (auto simp: load_block_def)
  with assms Some f obtain ir W2 where i: "m_init m (Some ctx) W1 = Some (ir, W2)"
    by (auto simp: load_block_def split: Option.bind_splits)
  with assms Some f r have "mods' = put (Some m) mods" "W' = W2"
    by (auto simp: load_block_def split: if_splits)
  with Some call_factory_calls[OF f] init_calls[OF i] show ?thesis
    by (simp add: slot_put)
qed

lemma load_block_Err:
  assumes "load_block name kind m_init put create ctx mods W = Some (Err e, W')"
  shows "create \<noteq> None \<and> (calls W' = calls W @ [Factory kind] \<or>
           (\<exists>m. calls W' = calls W @ [Factory kind, Init kind (inst_of m)]))"
proof (cases create)
  case None
  with assms show ?thesis by (simp add: load_block_def)
next
  case (Some factory)
  with assms obtain r W1 where f: "call_factory kind factory W = Some (r, W1)"
    by (auto simp: load_block_def split: Option.bind_splits)
  show ?thesis
  proof (cases r)
    case (Err e')
    with assms Some f call_factory_calls[OF f] show ?thesis by (auto simp: load_block_def)
  next
    case (Ok m)
    with assms Some f obtain ir W2 where i: "m_init m (Some ctx) W1 = Some (ir, W2)"
      by (auto simp: load_block_def split: Option.bind_splits)
    with assms Some f Ok have "W' = W2" by (auto simp: load_block_def split: if_splits)
    with Some call_factory_calls[OF f] init_calls[OF i] show ?thesis by auto
  qed
qed

lemma load_block_startup:
  assumes "load_block name kind m_init put create ctx mods W = Some (r, W')"
  shows "startup_ext W W'"
proof (cases r)
  case (Ok mods')
  with load_block_Ok[OF assms[unfolded Ok]] show ?thesis
    by (auto simp: startup_ext_def startup_call_def)
next
  case (Err e)
  with load_block_Err[OF assms[unfolded Err]] show ?thesis
    by (auto simp: startup_ext_def startup_call_def)
qed

lemma shutdown_slot_Some:
  assumes "shutdown_slot slot put m_shutdown mods W = Some (mods', W')"
  shows "mods' = put None mods"
    and "calls W' = calls W @ (case slot mods of None \<Rightarrow> [] | Some m \<Rightarrow> [Shutdown kind (inst_of m)])"
proof -
  have "mods' = put None mods \<and>
    calls W' = calls W @ (case slot mods of None \<Rightarrow> [] | Some m \<Rightarrow> [Shutdown kind (inst_of m)])"
  proof (cases "slot mods")
    case None
    then have "put None mods = mods" using put_slot[of mods] by simp
    with None assms show ?thesis by (simp add: shutdown_slot_def)
  next
    case (Some m)
    with assms show ?thesis
      by (auto simp: shutdown_slot_def dest: shutdown_calls split: Option.bind_splits)
  qed
  then show "mods' = put None mods"
    and "calls W' = calls W @ (case slot mods of None \<Rightarrow> [] | Some m \<Rightarrow> [Shutdown kind (inst_of m)])"
    by simp_all
qed

text \<open>Shutting a slot down twice calls the module once.\<close>

lemma shutdown_slot_empty: "slot mods = None \<Longrightarrow> shutdown_slot slot put m_shutdown mods W = Some (mods, W)"
  by (simp add: shutdown_slot_def)

end

interpretation http_slot: module_slot HttpProto http_instance http_module_init
  http_module_shutdown http_module_default http put_http
  by unfold_locales simp_all

interpretation tcp_slot: module_slot TcpProto tcp_instance tcp_module_init
  tcp_module_shutdown tcp_module_default tcp put_tcp
  by unfold_locales simp_all

interpretation udp_slot: module_slot UdpProto udp_instance udp_module_init
  udp_module_shutdown udp_module_default udp put_udp
  by unfold_locales simp_all

section \<open>The calls of a plugin's life\<close>

definition load_trace :: "'w loaded_plugin_modules \<Rightarrow> call list" where
  "load_trace mods =
     (case http mods of None \<Rightarrow> [] | Some m \<Rightarrow> [Factory HttpProto, Init HttpProto (http_instance m)]) @
     (case tcp mods of None \<Rightarrow> [] | Some m \<Rightarrow> [Factory TcpProto, Init TcpProto (tcp_instance m)]) @
     (case udp mods of None \<Rightarrow> [] | Some m \<Rightarrow> [Factory UdpProto, Init UdpProto (udp_instance m)])"

definition shutdown_trace :: "'w loaded_plugin_modules \<Rightarrow> call list" where
  "shutdown_trace mods =
     (case http mods of None \<Rightarrow> [] | Some m \<Rightarrow> [Shutdown HttpProto (http_instance m)]) @
     (case tcp mods of None \<Rightarrow> [] | Some m \<Rightarrow> [Shutdown TcpProto (tcp_instance m)]) @
     (case udp mods of None \<Rightarrow> [] | Some m \<Rightarrow> [Shutdown UdpProto (udp_instance m)])"

lemma load_modules_calls:
  assumes "load_modules rt ctx W = Some (Ok mods, W')"
  shows "calls W' = calls W @ load_trace mods"
    and "http mods = None \<longleftrightarrow> create_http rt = None"
    and "tcp mods = None \<longleftrightarrow> create_tcp rt = None"
    and "udp mods = None \<longleftrightarrow> create_udp rt = None"
proof -
  from assms obtain m1 W1 m2 W2 where
      1: "load_block ''http'' HttpProto http_module_init put_http (create_http rt) ctx modules_default W = Some (Ok m1, W1)"
    and 2: "load_block ''tcp'' TcpProto tcp_module_init put_tcp (create_tcp rt) ctx m1 W1 = Some (Ok m2, W2)"
    and 3: "load_block ''udp'' UdpProto udp_module_init put_udp (create_udp rt) ctx m2 W2 = Some (Ok mods, W')"
    unfolding load_modules_def try_then_Some_Ok by blast
  have "calls W' = calls W @ load_trace mods \<and> (http mods = None \<longleftrightarrow> create_http rt = None) \<and>
     (tcp mods = None \<longleftrightarrow> create_tcp rt = None) \<and> (udp mods = None \<longleftrightarrow> create_udp rt = None)"
    using http_slot.load_block_Ok[OF 1] tcp_slot.load_block_Ok[OF 2] udp_slot.load_block_Ok[OF 3]
    by (elim disjE exE conjE) (simp_all add: load_trace_def modules_default_def)
  then show "calls W' = calls W @ load_trace mods"
    and "http mods = None \<longleftrightarrow> create_http rt = None"
    and "tcp mods = None \<longleftrightarrow> create_tcp rt = None"
    and "udp mods = None \<longleftrightarrow> create_udp rt = None"
    by simp_all
qed

lemma load_modules_startup:
  assumes "load_modules rt ctx W = Some (r, W')"
  shows "startup_ext W W'"
proof (rule try_then_rel[where R = startup_ext, OF startup_ext_trans assms[unfolded load_modules_def]])
  fix mods V r
  assume "try_then (load_block ''tcp'' TcpProto tcp_module_init put_tcp (create_tcp rt) ctx mods V)
      (\<lambda>mods W. load_block ''udp'' UdpProto udp_module_init put_udp (create_udp rt) ctx mods W) =
    Some (r, W')"
  then show "startup_ext V W'"
    by (rule try_then_rel[where R = startup_ext, OF startup_ext_trans])
      (auto intro: tcp_slot.load_block_startup udp_slot.load_block_startup)
qed (auto intro: http_slot.load_block_startup)

lemma modules_shutdown_Some:
  assumes "modules_shutdown mods W = Some (mods', W')"
  shows "mods' = modules_default" and "calls W' = calls W @ shutdown_trace mods"
proof -
  from assms obtain m1 W1 m2 W2 where
      1: "shutdown_slot http put_http http_module_shutdown mods W = Some (m1, W1)"
    and 2: "shutdown_slot tcp put_tcp tcp_module_shutdown m1 W1 = Some (m2, W2)"
    and 3: "shutdown_slot udp put_udp udp_module_shutdown m2 W2 = Some (mods', W')"
    by (auto simp: modules_shutdown_def split: Option.bind_splits)
  note s = http_slot.shutdown_slot_Some[OF 1] tcp_slot.shutdown_slot_Some[OF 2]
    udp_slot.shutdown_slot_Some[OF 3]
  from s(1,3,5) show "mods' = modules_default" by (simp add: modules_default_def)
  from s show "calls W' = calls W @ shutdown_trace mods" by (simp add: shutdown_trace_def)
qed

lemma modules_shutdown_default: "modules_shutdown modules_default W = Some (modules_default, W)"
  by (simp add: modules_shutdown_def modules_default_def http_slot.shutdown_slot_empty
      tcp_slot.shutdown_slot_empty udp_slot.shutdown_slot_empty)

lemma build_init_context_eq:
  "build_init_context path vars =
     Some (Ok \<lparr>library_path = path, plugin_dir = path_parent path, host_version = host_abi_version,
               env = collect_env_snapshot vars\<rparr>)"
proof -
  have "cargo_pkg_version = show_semver host_abi_version"
    unfolding cargo_pkg_version_def show_semver_def host_abi_version_def by code_simp
  then have "semver_from_string cargo_pkg_version = Some host_abi_version"
    by (metis semver_roundtrip)
  then show ?thesis by (simp add: build_init_context_def)
qed

lemma get_root_Some:
  assumes "get_root lib W = Some (r, W')"
  shows "case r of Ok rt \<Rightarrow> calls W' = calls W @ [GetLibrary] | Err _ \<Rightarrow> W' = W"
  using assms by (auto simp: get_root_def split: result.splits Option.bind_splits)

lemma get_root_startup: "get_root lib W = Some (r, W') \<Longrightarrow> startup_ext W W'"
  using get_root_Some[of lib W r W']
  by (cases r) (auto simp: startup_ext_def startup_call_def)

lemma plugin_load_Ok:
  assumes "plugin_load dlopen vars path W = Some (Ok p, W')"
  obtains lib ctx V where "dlopen path = Ok lib"
    and "get_root lib (log_call (OpenLibrary path) W) = Some (Ok (root p), V)"
    and "validate_manifest (manifest (root p)) = Ok ()"
    and "build_init_context path vars = Some (Ok ctx)"
    and "load_modules (root p) ctx V = Some (Ok (modules p), W')"
    and "library p = lib"
proof -
  from assms obtain lib where lib: "dlopen path = Ok lib"
    by (auto simp: plugin_load_def split: result.splits)
  with assms obtain rt V mods where
      "get_root lib (log_call (OpenLibrary path) W) = Some (Ok rt, V)"
      "validate_manifest (manifest rt) = Ok ()"
      "load_modules rt \<lparr>library_path = path, plugin_dir = path_parent path,
         host_version = host_abi_version, env = collect_env_snapshot vars\<rparr> V = Some (Ok mods, W')"
      "p = \<lparr>root = rt, modules = mods, library = lib\<rparr>"
    by (auto simp: plugin_load_def close_on_err_def try_then_Some_Ok build_init_context_eq
        split: Option.bind_splits if_splits)
  with lib that show thesis by (simp add: build_init_context_eq)
qed

lemma plugin_load_calls:
  assumes "plugin_load dlopen vars path W = Some (Ok p, W')"
  shows "calls W' = calls W @ [OpenLibrary path, GetLibrary] @ load_trace (modules p)"
proof -
  from assms obtain lib ctx U where
      r: "get_root lib (log_call (OpenLibrary path) W) = Some (Ok (root p), U)"
    and l: "load_modules (root p) ctx U = Some (Ok (modules p), W')"
    by (rule plugin_load_Ok) auto
  from get_root_Some[OF r] load_modules_calls(1)[OF l] show ?thesis by (simp add: log_call_def)
qed

lemma plugin_load_modules:
  assumes "plugin_load dlopen vars path W = Some (Ok p, W')"
  shows "has_http p \<longleftrightarrow> create_http (root p) \<noteq> None"
    and "has_tcp p \<longleftrightarrow> create_tcp (root p) \<noteq> None"
    and "has_udp p \<longleftrightarrow> create_udp (root p) \<noteq> None"
proof -
  from assms obtain ctx U where l: "load_modules (root p) ctx U = Some (Ok (modules p), W')"
    by (rule plugin_load_Ok) auto
  from load_modules_calls(2-4)[OF l] show "has_http p \<longleftrightarrow> create_http (root p) \<noteq> None"
    and "has_tcp p \<longleftrightarrow> create_tcp (root p) \<noteq> None"
    and "has_udp p \<longleftrightarrow> create_udp (root p) \<noteq> None"
    by (simp_all add: has_http_def has_tcp_def has_udp_def)
qed

lemma plugin_drop_calls:
  "plugin_drop p V = Some V' \<Longrightarrow> calls V' = calls V @ shutdown_trace (modules p) @ [CloseLibrary]"
  by (auto simp: plugin_drop_def plugin_shutdown_def log_call_def modules_shutdown_Some(2)
      split: Option.bind_splits)

lemma plugin_load_Err:
  assumes "plugin_load dlopen vars path W = Some (Err e, W')"
  shows "W' = W \<or> (\<exists>V. startup_ext (log_call (OpenLibrary path) W) V \<and> W' = log_call CloseLibrary V)"
proof (cases "dlopen path")
  case (Err e')
  with assms show ?thesis by (auto simp: plugin_load_def)
next
  case (Ok lib)
  let ?W0 = "log_call (OpenLibrary path) W"
  from assms Ok obtain V where W': "W' = log_call CloseLibrary V"
    and m: "try_then (get_root lib ?W0) (\<lambda>rt W.
       try_then (Some (validate_manifest (manifest rt), W)) (\<lambda>_ W.
       try_then (do { ctx \<leftarrow> build_init_context path vars; Some (ctx, W) }) (\<lambda>init_context W.
       try_then (load_modules rt init_context W) (\<lambda>mods W.
       Some (Ok \<lparr>root = rt, modules = mods, library = lib\<rparr>, W))))) = Some (Err e, V)"
    by (auto simp: plugin_load_def close_on_err_def split: Option.bind_splits if_splits)
  have "startup_ext ?W0 V"
    by (rule try_then_rel[OF startup_ext_trans m])
      (auto dest!: get_root_startup load_modules_startup
        simp: try_then_def build_init_context_eq split: Option.bind_splits result.splits)
  with W' show ?thesis by blast
qed

section \<open>Properties\<close>

text \<open>C11: a plugin whose manifest is incompatible (another major version, or a newer minor version,
  than the host's ABI version 0.1) is refused with an error before any of its modules is created or
  initialised: the library is opened, its root module is read, and the library is closed again.\<close>

theorem incompatible_manifest_refused:
  assumes "dlopen path = Ok lib" and "get_library_symbol lib = Ok f"
    and "f (plugins W) = Some (rt, w)"
    and "major (man_version (manifest rt)) \<noteq> 0 \<or> 1 < minor (man_version (manifest rt))"
  shows "\<exists>e. plugin_load dlopen vars path W =
    Some (Err e, \<lparr>plugins = w, calls = calls W @ [OpenLibrary path, GetLibrary, CloseLibrary]\<rparr>)"
proof -
  have "\<exists>e. validate_manifest (manifest rt) = Err e"
    using assms(4) by (auto simp: validate_manifest_def host_abi_version_def)
  then show ?thesis
    using assms(1-3)
    by (auto simp: plugin_load_def get_root_def close_on_err_def log_call_def)
qed

theorem incompatible_manifest_refused_witness:
  "\<exists>e. plugin_load
     (\<lambda>_. Ok \<lparr>get_library_symbol = Ok (\<lambda>w. Some (\<lparr>manifest = \<lparr>man_name = ''old'',
        man_version = \<lparr>major = 1, minor = 0, patch = 0\<rparr>\<rparr>, create_http = None, create_tcp = None,
        create_udp = None\<rparr>, w))\<rparr>) [] ''/p.so'' \<lparr>plugins = (), calls = []\<rparr> =
     Some (Err e, \<lparr>plugins = (), calls = [OpenLibrary ''/p.so'', GetLibrary, CloseLibrary]\<rparr>)"
  using incompatible_manifest_refused[of
      "\<lambda>_. Ok \<lparr>get_library_symbol = Ok (\<lambda>w. Some (\<lparr>manifest = \<lparr>man_name = ''old'',
        man_version = \<lparr>major = 1, minor = 0, patch = 0\<rparr>\<rparr>, create_http = None, create_tcp = None,
        create_udp = None\<rparr>, w))\<rparr>" "''/p.so''" _ _ "\<lparr>plugins = (), calls = []\<rparr>" _ "()" "[]"]
  by simp

text \<open>C10: the life of a loaded plugin, for any plugin. A successful load opens the library, reads
  the root module and creates and initialises exactly the modules the root module has factories
  for, HTTP before TCP before UDP. Dropping it shuts down exactly those modules once, in the same
  order, and closes the library after the last of them.\<close>

theorem plugin_lifecycle:
  assumes "plugin_load dlopen vars path W = Some (Ok p, W1)" and "plugin_drop p V = Some V1"
  shows "calls W1 = calls W @ [OpenLibrary path, GetLibrary] @ load_trace (modules p) \<and>
    calls V1 = calls V @ shutdown_trace (modules p) @ [CloseLibrary] \<and>
    (has_http p \<longleftrightarrow> create_http (root p) \<noteq> None) \<and>
    (has_tcp p \<longleftrightarrow> create_tcp (root p) \<noteq> None) \<and>
    (has_udp p \<longleftrightarrow> create_udp (root p) \<noteq> None)"
  using plugin_load_calls[OF assms(1)] plugin_drop_calls[OF assms(2)] plugin_load_modules[OF assms(1)]
  by simp

text \<open>A plugin with a default HTTP module and nothing else.\<close>

definition sample_root :: "unit plugin_root_module" where
  "sample_root =
     \<lparr>manifest = \<lparr>man_name = ''sample'', man_version = host_abi_version\<rparr>,
      create_http = Some (\<lambda>w. Some (Ok http_module_default, w)), create_tcp = None, create_udp = None\<rparr>"

definition sample_lib :: "unit dylib" where
  "sample_lib = \<lparr>get_library_symbol = Ok (\<lambda>w. Some (sample_root, w))\<rparr>"

definition sample_plugin :: "unit loaded_plugin" where
  "sample_plugin = \<lparr>root = sample_root, modules = modules_default\<lparr>http := Some http_module_default\<rparr>,
     library = sample_lib\<rparr>"

lemma sample_plugin_load:
  "plugin_load (\<lambda>_. Ok sample_lib) [] ''/p.so'' \<lparr>plugins = (), calls = []\<rparr> =
     Some (Ok sample_plugin, \<lparr>plugins = (), calls = [OpenLibrary ''/p.so'', GetLibrary,
       Factory HttpProto, Init HttpProto Null]\<rparr>)"
  by (simp add: plugin_load_def sample_lib_def sample_root_def sample_plugin_def get_root_def
      close_on_err_def log_call_def validate_manifest_def build_init_context_eq load_modules_def
      load_block_def call_factory_def http_module_init_def call_init_def default_simps
      modules_default_def)

lemma sample_plugin_drop:
  "plugin_drop sample_plugin \<lparr>plugins = (), calls = []\<rparr> =
     Some \<lparr>plugins = (), calls = [Shutdown HttpProto Null, CloseLibrary]\<rparr>"
  by (simp add: plugin_drop_def plugin_shutdown_def sample_plugin_def modules_shutdown_def
      shutdown_slot_def http_module_shutdown_def call_shutdown_def default_simps log_call_def
      modules_default_def)

theorem plugin_lifecycle_witness:
  "[OpenLibrary ''/p.so'', GetLibrary, Factory HttpProto, Init HttpProto Null] =
     [] @ [OpenLibrary ''/p.so'', GetLibrary] @ load_trace (modules sample_plugin) \<and>
   has_http sample_plugin"
  using plugin_lifecycle[OF sample_plugin_load sample_plugin_drop]
  by (simp add: sample_plugin_def sample_root_def)

text \<open>Shutting a plugin's modules down empties every slot, so doing it again (as \<open>Drop\<close> does
  after an explicit shutdown) makes no further call: no module is shut down twice.\<close>

lemma shutdown_idempotent:
  assumes "modules_shutdown mods W = Some (mods', W')"
  shows "modules_shutdown mods' V = Some (mods', V)"
    and "calls W' = calls W @ shutdown_trace mods"
    and "distinct (shutdown_trace mods)"
  using modules_shutdown_Some[OF assms]
  by (auto simp: modules_shutdown_default shutdown_trace_def split: option.splits)

lemma shutdown_idempotent_example:
  "modules_shutdown (modules_default :: unit loaded_plugin_modules) \<lparr>plugins = (), calls = []\<rparr> =
     Some (modules_default, \<lparr>plugins = (), calls = []\<rparr>)"
  by (rule shutdown_idempotent(1)[of "modules_default\<lparr>http := Some http_module_default\<rparr>"
        "\<lparr>plugins = (), calls = []\<rparr>" _
        "\<lparr>plugins = (), calls = [Shutdown HttpProto Null]\<rparr>"])
    (simp add: modules_shutdown_def shutdown_slot_def http_module_shutdown_def call_shutdown_def
      default_simps modules_default_def)

text \<open>C29: a load that fails never shuts a module down, whatever it had already initialised: after
  the root module is read every call is a factory or an init, and the library is closed.\<close>

theorem failed_load_leaks:
  assumes "plugin_load dlopen vars path W = Some (Err e, W')"
  shows "\<exists>cs. calls W' = calls W @ cs \<and> (\<forall>k i. Shutdown k i \<notin> set cs) \<and>
    (cs = [] \<or> last cs = CloseLibrary)"
  using plugin_load_Err[OF assms]
proof (elim disjE exE conjE)
  fix V
  assume "startup_ext (log_call (OpenLibrary path) W) V" and W': "W' = log_call CloseLibrary V"
  then obtain cs where "calls V = calls W @ OpenLibrary path # cs" "\<forall>c \<in> set cs. startup_call c"
    by (auto simp: startup_ext_def log_call_def)
  with W' show ?thesis
    by (intro exI[of _ "OpenLibrary path # cs @ [CloseLibrary]"])
      (auto simp: log_call_def startup_call_def)
qed simp

text \<open>The leak at work: the HTTP module is initialised, the TCP factory fails.\<close>

definition leaking_lib :: "unit dylib" where
  "leaking_lib = \<lparr>get_library_symbol = Ok (\<lambda>w. Some (sample_root\<lparr>create_tcp :=
     Some (\<lambda>w. Some (Err \<lparr>message = None\<rparr>, w))\<rparr>, w))\<rparr>"

lemma leaking_load:
  "plugin_load (\<lambda>_. Ok leaking_lib) [] ''/p.so'' \<lparr>plugins = (), calls = []\<rparr> =
     Some (Err ''tcp module factory failed'', \<lparr>plugins = (), calls = [OpenLibrary ''/p.so'',
       GetLibrary, Factory HttpProto, Init HttpProto Null, Factory TcpProto, CloseLibrary]\<rparr>)"
  by (simp add: plugin_load_def leaking_lib_def sample_root_def get_root_def
      close_on_err_def log_call_def validate_manifest_def build_init_context_eq load_modules_def
      load_block_def call_factory_def http_module_init_def call_init_def default_simps
      modules_default_def)

theorem failed_load_leaks_witness:
  "\<exists>cs. [OpenLibrary ''/p.so'', GetLibrary, Factory HttpProto, Init HttpProto Null,
      Factory TcpProto, CloseLibrary] = cs \<and> (\<forall>k i. Shutdown k i \<notin> set cs)"
  using failed_load_leaks[OF leaking_load] by simp

end
