(* ===== verification/Vakil_Runtime.thy ===== *)
theory Vakil_Runtime
  imports Vakil_Host "HOL-Library.Multiset"
begin

text \<open>
  Startup: \<open>crates/vakil-runtime/src/lib.rs\<close>. The configuration from environment variables and
  the optional config file, the loading of the configured plugins, the module chains sorted by
  priority, and which servers are started.

  The environment is a function from names to values; the file system is a record of the
  functions of \<open>std::fs\<close> and \<open>std::path\<close> the code calls. An error is the text of its outermost
  context, as anyhow's \<open>Display\<close> prints it.
\<close>

section \<open>Configuration\<close>

record runtime_config =
  http_listen_addr :: string
  tcp_listen_addr :: string
  udp_listen_addr :: string
  plugin_paths :: "string list"

record runtime_overrides =
  o_http_listen_addr :: "string option"
  o_plugin_paths :: "string list option"

record filesystem =
  read_to_string :: "string \<Rightarrow> (string, string) result"
  is_dir :: "string \<Rightarrow> bool"
  is_file :: "string \<Rightarrow> bool"
  read_dir :: "string \<Rightarrow> ((string, string) result list, string) result"

type_synonym environment = "string \<Rightarrow> string option"

definition env_or :: "environment \<Rightarrow> string \<Rightarrow> string \<Rightarrow> string" where
  "env_or e name d = (case e name of Some v \<Rightarrow> v | None \<Rightarrow> d)"

definition parse_plugin_paths :: "string \<Rightarrow> string \<Rightarrow> string list" where
  "parse_plugin_paths raw separator =
     (if trim raw = [] then []
      else filter (\<lambda>entry. entry \<noteq> []) (map trim (split_str separator raw)))"

text \<open>The loop of \<open>parse_plugin_paths_strict\<close>, from the entry with the given index.\<close>

fun strict_entries :: "nat \<Rightarrow> string list \<Rightarrow> (string list, string) result" where
  "strict_entries index [] = Ok []"
| "strict_entries index (e # es) =
     (let entry = trim e
      in if entry = []
         then Err (''invalid empty plugin path entry at position '' @ show_nat (index + 1))
         else and_then (strict_entries (index + 1) es) (\<lambda>paths. Ok (entry # paths)))"

definition parse_plugin_paths_strict :: "string \<Rightarrow> (string list, string) result" where
  "parse_plugin_paths_strict raw =
     (if trim raw = [] then Ok [] else strict_entries 0 (split_char (CHR '';'') raw))"

definition quote :: char where
  "quote = CHR 0x22"

definition parse_config_value :: "string \<Rightarrow> (string, string) result" where
  "parse_config_value input =
     (case Option.bind (strip_prefix quote input) (strip_suffix quote) of
        None \<Rightarrow> Err (''config values must be quoted strings: '' @ input)
      | Some stripped \<Rightarrow> Ok stripped)"

text \<open>The body of the loop of \<open>parse_config_file\<close> for one line.\<close>

definition config_line ::
  "string \<Rightarrow> string \<Rightarrow> runtime_overrides \<Rightarrow> (runtime_overrides, string) result" where
  "config_line path raw_line overrides =
     (let line = trim raw_line
      in if line = [] \<or> starts_with ''#'' line then Ok overrides
         else case split_once (CHR ''='') line of
           None \<Rightarrow> Err (''invalid config line: '' @ line)
         | Some (k, v) \<Rightarrow>
             (let key = trim k
              in and_then (parse_config_value (trim v)) (\<lambda>value.
                if key = ''http_listen_addr'' then
                  (if o_http_listen_addr overrides \<noteq> None
                   then Err (''duplicate http_listen_addr in config file: '' @ path)
                   else case parse_socket_addr value of
                     None \<Rightarrow> Err (''invalid http_listen_addr value in '' @ path)
                   | Some _ \<Rightarrow> Ok (overrides\<lparr>o_http_listen_addr := Some value\<rparr>))
                else if key = ''plugin_paths'' then
                  (if o_plugin_paths overrides \<noteq> None
                   then Err (''duplicate plugin_paths in config file: '' @ path)
                   else and_then (parse_plugin_paths_strict value) (\<lambda>paths.
                     Ok (overrides\<lparr>o_plugin_paths := Some paths\<rparr>)))
                else Err (''unknown config key '' @ key @ '' in '' @ path))))"

fun config_lines ::
  "string \<Rightarrow> string list \<Rightarrow> runtime_overrides \<Rightarrow> (runtime_overrides, string) result" where
  "config_lines path [] overrides = Ok overrides"
| "config_lines path (l # ls) overrides =
     and_then (config_line path l overrides) (config_lines path ls)"

definition no_overrides :: runtime_overrides where
  "no_overrides = \<lparr>o_http_listen_addr = None, o_plugin_paths = None\<rparr>"

definition parse_config_file :: "filesystem \<Rightarrow> string \<Rightarrow> (runtime_overrides, string) result" where
  "parse_config_file fs path =
     (case read_to_string fs path of
        Err _ \<Rightarrow> Err (''read runtime config file '' @ path)
      | Ok content \<Rightarrow> config_lines path (str_lines content) no_overrides)"

definition config_from_env :: "environment \<Rightarrow> filesystem \<Rightarrow> (runtime_config, string) result" where
  "config_from_env e fs =
     (let config =
        \<lparr>http_listen_addr = env_or e ''VAKIL_HTTP_LISTEN_ADDR'' ''127.0.0.1:12345'',
         tcp_listen_addr = env_or e ''VAKIL_TCP_LISTEN_ADDR'' ''127.0.0.1:12346'',
         udp_listen_addr = env_or e ''VAKIL_UDP_LISTEN_ADDR'' ''127.0.0.1:12347'',
         plugin_paths = parse_plugin_paths (env_or e ''VAKIL_PLUGIN_PATHS'' '''')
                          (env_or e ''VAKIL_PATH_SEP'' '';'')\<rparr>
      in case e ''VAKIL_CONFIG'' of
           None \<Rightarrow> Ok config
         | Some config_path \<Rightarrow>
             and_then (parse_config_file fs config_path) (\<lambda>overrides.
               (let config = (case o_http_listen_addr overrides of
                                None \<Rightarrow> config
                              | Some a \<Rightarrow> config\<lparr>http_listen_addr := a\<rparr>);
                    config = (case o_plugin_paths overrides of
                                None \<Rightarrow> config
                              | Some ps \<Rightarrow> config\<lparr>plugin_paths := ps\<rparr>)
                in Ok config)))"

section \<open>Loading the configured plugins\<close>

text \<open>\<open>DLL_EXTENSION\<close> is \<open>so\<close> on Linux.\<close>

definition is_plugin_library :: "string \<Rightarrow> bool" where
  "is_plugin_library path \<longleftrightarrow> path_extension path = Some ''so''"

text \<open>
  \<open>load_plugins\<close> collects plugins in a vector; leaving it with an error drops the vector, and so
  every plugin loaded so far, in order.
\<close>

fun drop_plugins :: "'w loaded_plugin list \<Rightarrow> 'w world \<Rightarrow> 'w world option" where
  "drop_plugins [] W = Some W"
| "drop_plugins (p # ps) W = Option.bind (plugin_drop p W) (drop_plugins ps)"

definition fail_dropping ::
  "'w loaded_plugin list \<Rightarrow> string \<Rightarrow> 'w world \<Rightarrow>
   (('w loaded_plugin list, string) result \<times> 'w world) option" where
  "fail_dropping acc e W = map_option (\<lambda>W. (Err e, W)) (drop_plugins acc W)"

definition load_push ::
  "(string \<Rightarrow> ('w dylib, string) result) \<Rightarrow> (string \<times> string) list \<Rightarrow> string \<Rightarrow>
   'w loaded_plugin list \<Rightarrow> 'w world \<Rightarrow> (('w loaded_plugin list, string) result \<times> 'w world) option" where
  "load_push dlopen vars path acc W = do {
     (r, W) \<leftarrow> plugin_load dlopen vars path W;
     (case r of Ok p \<Rightarrow> Some (Ok (acc @ [p]), W) | Err e \<Rightarrow> fail_dropping acc e W)
   }"

text \<open>The loop over the entries of a directory.\<close>

fun load_entries ::
  "filesystem \<Rightarrow> (string \<Rightarrow> ('w dylib, string) result) \<Rightarrow> (string \<times> string) list \<Rightarrow>
   (string, string) result list \<Rightarrow> 'w loaded_plugin list \<Rightarrow> 'w world \<Rightarrow>
   (('w loaded_plugin list, string) result \<times> 'w world) option" where
  "load_entries fs dlopen vars [] acc W = Some (Ok acc, W)"
| "load_entries fs dlopen vars (entry # es) acc W =
     (case entry of
        Err e \<Rightarrow> fail_dropping acc e W
      | Ok candidate \<Rightarrow>
          if is_file fs candidate \<and> is_plugin_library candidate
          then try_then (load_push dlopen vars candidate acc W) (load_entries fs dlopen vars es)
          else load_entries fs dlopen vars es acc W)"

text \<open>The body of the loop over the configured paths.\<close>

definition load_path ::
  "filesystem \<Rightarrow> (string \<Rightarrow> ('w dylib, string) result) \<Rightarrow> (string \<times> string) list \<Rightarrow> string \<Rightarrow>
   'w loaded_plugin list \<Rightarrow> 'w world \<Rightarrow> (('w loaded_plugin list, string) result \<times> 'w world) option" where
  "load_path fs dlopen vars path acc W =
     (if is_dir fs path
      then (case read_dir fs path of
              Err _ \<Rightarrow> fail_dropping acc (''read plugin directory '' @ path) W
            | Ok es \<Rightarrow> load_entries fs dlopen vars es acc W)
      else if is_file fs path then load_push dlopen vars path acc W
      else Some (Ok acc, W))"

fun load_paths ::
  "filesystem \<Rightarrow> (string \<Rightarrow> ('w dylib, string) result) \<Rightarrow> (string \<times> string) list \<Rightarrow> string list \<Rightarrow>
   'w loaded_plugin list \<Rightarrow> 'w world \<Rightarrow> (('w loaded_plugin list, string) result \<times> 'w world) option" where
  "load_paths fs dlopen vars [] acc W = Some (Ok acc, W)"
| "load_paths fs dlopen vars (p # ps) acc W =
     try_then (load_path fs dlopen vars p acc W) (load_paths fs dlopen vars ps)"

definition load_plugins ::
  "filesystem \<Rightarrow> (string \<Rightarrow> ('w dylib, string) result) \<Rightarrow> (string \<times> string) list \<Rightarrow> string list \<Rightarrow>
   'w world \<Rightarrow> (('w loaded_plugin list, string) result \<times> 'w world) option" where
  "load_plugins fs dlopen vars paths W = load_paths fs dlopen vars paths [] W"

section \<open>The runtime\<close>

record 'w runtime =
  rt_config :: runtime_config
  rt_plugins :: "'w loaded_plugin list"

definition runtime_build ::
  "filesystem \<Rightarrow> (string \<Rightarrow> ('w dylib, string) result) \<Rightarrow> (string \<times> string) list \<Rightarrow>
   runtime_config \<Rightarrow> 'w world \<Rightarrow> (('w runtime, string) result \<times> 'w world) option" where
  "runtime_build fs dlopen vars config W =
     try_then (load_plugins fs dlopen vars (plugin_paths config) W)
       (\<lambda>ps W. Some (Ok \<lparr>rt_config = config, rt_plugins = ps\<rparr>, W))"

record 'w plugin_proxy_hooks =
  http_modules :: "'w plugin_http_module list"
  tcp_modules :: "'w plugin_tcp_module list"
  udp_modules :: "'w plugin_udp_module list"

text \<open>\<open>sort_by_key\<close> is stable, as \<open>sort_key\<close> is.\<close>

definition hooks_from_loaded :: "'w loaded_plugin list \<Rightarrow> 'w plugin_proxy_hooks" where
  "hooks_from_loaded ps =
     \<lparr>http_modules = sort_key http_priority (List.map_filter (\<lambda>p. http (modules p)) ps),
      tcp_modules = sort_key tcp_priority (List.map_filter (\<lambda>p. tcp (modules p)) ps),
      udp_modules = sort_key udp_priority (List.map_filter (\<lambda>p. udp (modules p)) ps)\<rparr>"

datatype 'w service =
  HttpService string "'w plugin_proxy_hooks"
| TcpService std_socket_addr "'w plugin_proxy_hooks"
| UdpService std_socket_addr "'w plugin_proxy_hooks"

text \<open>
  The services \<open>run\<close> starts, given the result of pingora's \<open>Server::new\<close>. An address that does
  not parse is logged and its server is left out.
\<close>

definition runtime_run ::
  "(unit, string) result \<Rightarrow> 'w runtime \<Rightarrow> ('w service list, string) result" where
  "runtime_run server_new self =
     (case server_new of
        Err _ \<Rightarrow> Err ''create pingora server''
      | Ok _ \<Rightarrow>
          (let hooks = hooks_from_loaded (rt_plugins self)
           in Ok ([HttpService (http_listen_addr (rt_config self)) hooks] @
               (case parse_socket_addr (tcp_listen_addr (rt_config self)) of
                  Some a \<Rightarrow> [TcpService a hooks] | None \<Rightarrow> []) @
               (case parse_socket_addr (udp_listen_addr (rt_config self)) of
                  Some a \<Rightarrow> [UdpService a hooks] | None \<Rightarrow> []))))"

section \<open>Plugin paths\<close>

lemma trim_eq_Nil: "trim s = [] \<longleftrightarrow> (\<forall>c \<in> set s. is_whitespace c)"
proof -
  have "trim s = [] \<longleftrightarrow> (\<forall>c \<in> set (dropWhile is_whitespace s). is_whitespace c)"
    by (auto simp: trim_def trim_end_def trim_start_def dropWhile_eq_Nil_conv)
  also have "\<dots> \<longleftrightarrow> dropWhile is_whitespace s = []"
    by (metis dropWhile_eq_Nil_conv dropWhile_idem)
  finally show ?thesis by (simp add: dropWhile_eq_Nil_conv)
qed

lemma parse_plugin_paths_entries:
  "p \<in> set (parse_plugin_paths raw sep) \<Longrightarrow> p \<noteq> [] \<and> trimmed p"
  by (auto simp: parse_plugin_paths_def trimmed_trim split: if_splits)

lemma strict_entries_eq:
  "strict_entries i es = Ok ps \<longleftrightarrow> (\<forall>e \<in> set es. trim e \<noteq> []) \<and> ps = map trim es"
  by (induction i es arbitrary: ps rule: strict_entries.induct) (auto simp: Let_def and_then_Ok_iff)

lemma strict_entries_ok:
  assumes "parse_plugin_paths_strict raw = Ok ps"
  shows "parse_plugin_paths raw '';'' = ps"
  using assms
  by (auto simp: parse_plugin_paths_strict_def parse_plugin_paths_def strict_entries_eq split_char_def
      filter_id_conv split: if_splits)

lemma trimmed_not_blank: "p \<noteq> [] \<Longrightarrow> trimmed p \<Longrightarrow> trim p \<noteq> []"
  by (simp add: trim_id)

lemma join_not_blank:
  assumes "ps \<noteq> []" and "\<forall>p \<in> set ps. p \<noteq> [] \<and> trimmed p"
  shows "trim (join sep ps) \<noteq> []"
proof -
  obtain p qs where ps: "ps = p # qs" using assms(1) by (cases ps) auto
  then have "set p \<subseteq> set (join sep ps)" by (cases qs) auto
  moreover have "\<exists>c \<in> set p. \<not> is_whitespace c"
    using assms(2) ps trimmed_not_blank[of p] by (auto simp: trim_eq_Nil)
  ultimately show ?thesis by (auto simp: trim_eq_Nil)
qed

lemma strict_join:
  assumes "ps \<noteq> []" and "\<forall>p \<in> set ps. p \<noteq> [] \<and> trimmed p \<and> CHR '';'' \<notin> set p"
  shows "parse_plugin_paths_strict (join '';'' ps) = Ok ps"
proof -
  have "split_char (CHR '';'') (join '';'' ps) = ps"
    using assms by (intro split_char_join) auto
  moreover have "map trim ps = ps" using assms(2) by (intro map_idI) (simp add: trim_id)
  moreover have "\<forall>p \<in> set ps. trim p \<noteq> []" using assms(2) by (simp add: trim_id)
  ultimately show ?thesis
    using join_not_blank[of ps "'';''"] assms
    by (simp add: parse_plugin_paths_strict_def strict_entries_eq)
qed

section \<open>The config file\<close>

text \<open>The key of a line that is neither blank nor a comment.\<close>

definition line_key :: "string \<Rightarrow> string option" where
  "line_key raw =
     (let line = trim raw
      in if line = [] \<or> starts_with ''#'' line then None
         else map_option (\<lambda>(k, v). trim k) (split_once (CHR ''='') line))"

definition file_keys :: "string list \<Rightarrow> string list" where
  "file_keys ls = List.map_filter line_key ls"

lemma file_keys_simps [simp]:
  "file_keys [] = []"
  "file_keys (l # ls) = (case line_key l of None \<Rightarrow> file_keys ls | Some k \<Rightarrow> k # file_keys ls)"
  by (simp_all add: file_keys_def List.map_filter_simps split: option.split)

text \<open>What a config line can do: nothing, or set one field that was not set yet.\<close>

definition line_effect :: "string \<Rightarrow> runtime_overrides \<Rightarrow> runtime_overrides \<Rightarrow> bool" where
  "line_effect l ov ov' \<longleftrightarrow>
     line_key l = None \<and> ov' = ov \<or>
     line_key l = Some ''http_listen_addr'' \<and> o_http_listen_addr ov = None \<and>
       (\<exists>v. parse_socket_addr v \<noteq> None \<and> ov' = ov\<lparr>o_http_listen_addr := Some v\<rparr>) \<or>
     line_key l = Some ''plugin_paths'' \<and> o_plugin_paths ov = None \<and>
       (\<exists>raw ps. parse_plugin_paths_strict raw = Ok ps \<and> ov' = ov\<lparr>o_plugin_paths := Some ps\<rparr>)"

lemma config_line_Ok:
  assumes "config_line path l ov = Ok ov'"
  shows "line_effect l ov ov'"
proof (cases "trim l = [] \<or> starts_with ''#'' (trim l)")
  case True
  with assms show ?thesis by (auto simp: config_line_def line_key_def line_effect_def)
next
  case False
  with assms obtain k v where sp: "split_once (CHR ''='') (trim l) = Some (k, v)"
    by (cases "split_once (CHR ''='') (trim l)") (auto simp: config_line_def Let_def)
  with False have key: "line_key l = Some (trim k)" by (simp add: line_key_def)
  consider "trim k = ''http_listen_addr''" | "trim k = ''plugin_paths''"
    | "trim k \<noteq> ''http_listen_addr''" "trim k \<noteq> ''plugin_paths''" by blast
  then show ?thesis
  proof cases
    case 1
    with assms False sp show ?thesis
      unfolding line_effect_def key
      by (auto simp: config_line_def and_then_Ok_iff split: if_splits option.splits)
  next
    case 2
    with assms False sp show ?thesis
      unfolding line_effect_def key
      by (auto simp: config_line_def and_then_Ok_iff split: if_splits)
  next
    case 3
    with assms False sp show ?thesis
      by (auto simp: config_line_def and_then_Ok_iff)
  qed
qed

definition overrides_ok :: "runtime_overrides \<Rightarrow> bool" where
  "overrides_ok ov \<longleftrightarrow>
     (\<forall>a. o_http_listen_addr ov = Some a \<longrightarrow> parse_socket_addr a \<noteq> None) \<and>
     (\<forall>ps. o_plugin_paths ov = Some ps \<longrightarrow> (\<forall>p \<in> set ps. p \<noteq> [] \<and> trimmed p))"

lemma config_line_overrides_ok:
  "config_line path l ov = Ok ov' \<Longrightarrow> overrides_ok ov \<Longrightarrow> overrides_ok ov'"
  by (drule config_line_Ok)
    (auto simp: overrides_ok_def line_effect_def dest!: strict_entries_ok
      dest: parse_plugin_paths_entries)

lemma config_lines_overrides_ok:
  "config_lines path ls ov = Ok ov' \<Longrightarrow> overrides_ok ov \<Longrightarrow> overrides_ok ov'"
  by (induction path ls ov rule: config_lines.induct)
    (auto simp: and_then_Ok_iff dest: config_line_overrides_ok)

lemma config_lines_keys:
  assumes "config_lines path ls ov = Ok ov'"
  shows "distinct (file_keys ls) \<and> set (file_keys ls) \<subseteq> {''http_listen_addr'', ''plugin_paths''} \<and>
    (''http_listen_addr'' \<in> set (file_keys ls) \<longrightarrow> o_http_listen_addr ov = None) \<and>
    (''plugin_paths'' \<in> set (file_keys ls) \<longrightarrow> o_plugin_paths ov = None) \<and>
    (o_http_listen_addr ov' \<noteq> None \<longleftrightarrow>
       o_http_listen_addr ov \<noteq> None \<or> ''http_listen_addr'' \<in> set (file_keys ls)) \<and>
    (o_plugin_paths ov' \<noteq> None \<longleftrightarrow>
       o_plugin_paths ov \<noteq> None \<or> ''plugin_paths'' \<in> set (file_keys ls))"
  using assms
proof (induction ls arbitrary: ov)
  case Nil
  then show ?case by simp
next
  case (Cons l ls)
  then obtain ov1 where 1: "config_line path l ov = Ok ov1" "config_lines path ls ov1 = Ok ov'"
    by (auto simp: and_then_Ok_iff)
  note IH = Cons.IH[OF 1(2)]
  from config_line_Ok[OF 1(1)] show ?case
    unfolding line_effect_def by (elim disjE exE conjE) (use IH in auto)
qed

section \<open>Libraries opened and closed\<close>

definition opened :: "call list \<Rightarrow> nat" where
  "opened cs = length (filter (\<lambda>c. \<exists>p. c = OpenLibrary p) cs)"

definition closed :: "call list \<Rightarrow> nat" where
  "closed cs = length (filter (\<lambda>c. c = CloseLibrary) cs)"

lemma opened_closed_simps [simp]:
  "opened [] = 0" "closed [] = 0"
  "opened (xs @ ys) = opened xs + opened ys" "closed (xs @ ys) = closed xs + closed ys"
  "opened (c # cs) = (if \<exists>p. c = OpenLibrary p then 1 else 0) + opened cs"
  "closed (c # cs) = (if c = CloseLibrary then 1 else 0) + closed cs"
  by (simp_all add: opened_def closed_def)

text \<open>The libraries that are open, as the calls tell.\<close>

definition open_libs :: "'w world \<Rightarrow> int" where
  "open_libs W = int (opened (calls W)) - int (closed (calls W))"

lemma startup_no_open: "\<forall>c \<in> set cs. startup_call c \<Longrightarrow> opened cs = 0 \<and> closed cs = 0"
  by (induction cs) (auto simp: startup_call_def)

lemma startup_ext_open_libs: "startup_ext W W' \<Longrightarrow> open_libs W' = open_libs W"
  by (auto simp: startup_ext_def open_libs_def dest!: startup_no_open)

lemma load_trace_no_open: "opened (load_trace mods) = 0" "closed (load_trace mods) = 0"
  by (simp_all add: load_trace_def split: option.splits)

lemma shutdown_trace_no_open: "opened (shutdown_trace mods) = 0" "closed (shutdown_trace mods) = 0"
  by (simp_all add: shutdown_trace_def split: option.splits)

lemma plugin_load_open_libs:
  "plugin_load dlopen vars path W = Some (r, W') \<Longrightarrow> open_libs W' = open_libs W + (if is_ok r then 1 else 0)"
proof (cases r)
  case (Ok p)
  assume "plugin_load dlopen vars path W = Some (r, W')"
  with Ok have "calls W' = calls W @ [OpenLibrary path, GetLibrary] @ load_trace (modules p)"
    using plugin_load_calls by blast
  with Ok show ?thesis by (simp add: open_libs_def load_trace_no_open)
next
  case (Err e)
  assume "plugin_load dlopen vars path W = Some (r, W')"
  with Err obtain V where "W' = W \<or> (startup_ext (log_call (OpenLibrary path) W) V \<and> W' = log_call CloseLibrary V)"
    using plugin_load_Err by blast
  with Err show ?thesis
    by (auto dest!: startup_ext_open_libs) (simp add: open_libs_def log_call_def)
qed

lemma plugin_drop_open_libs: "plugin_drop p W = Some W' \<Longrightarrow> open_libs W' = open_libs W - 1"
  using plugin_drop_calls[of p W W'] by (simp add: open_libs_def shutdown_trace_no_open)

lemma drop_plugins_open_libs:
  "drop_plugins ps W = Some W' \<Longrightarrow> open_libs W' = open_libs W - int (length ps)"
  by (induction ps W rule: drop_plugins.induct)
    (auto dest: plugin_drop_open_libs split: Option.bind_splits)

text \<open>Every open library belongs to a plugin that was kept.\<close>

definition libs_kept ::
  "'w loaded_plugin list \<Rightarrow> 'w world \<Rightarrow> (('w loaded_plugin list, string) result) \<times> 'w world \<Rightarrow> bool" where
  "libs_kept acc W = (\<lambda>(r, W').
     open_libs W' = open_libs W - int (length acc) +
       (case r of Ok ps \<Rightarrow> int (length ps) | Err _ \<Rightarrow> 0))"

lemma fail_dropping_kept: "fail_dropping acc e W = Some x \<Longrightarrow> libs_kept acc W x"
  by (auto simp: fail_dropping_def libs_kept_def dest: drop_plugins_open_libs)

lemma load_push_kept: "load_push dlopen vars path acc W = Some x \<Longrightarrow> libs_kept acc W x"
  by (auto simp: load_push_def libs_kept_def split: Option.bind_splits result.splits
      dest!: plugin_load_open_libs fail_dropping_kept)

lemma try_then_kept:
  assumes "try_then m f = Some x" and "\<And>y. m = Some y \<Longrightarrow> libs_kept acc W y"
    and "\<And>ps V x. f ps V = Some x \<Longrightarrow> libs_kept ps V x"
  shows "libs_kept acc W x"
proof -
  from assms(1) obtain r V where m: "m = Some (r, V)"
    by (auto simp: try_then_def split: Option.bind_splits)
  note y = assms(2)[OF m]
  show ?thesis
  proof (cases r)
    case (Ok ps)
    with assms(1) m have "f ps V = Some x" by simp
    from assms(3)[OF this] y Ok show ?thesis by (simp add: libs_kept_def split: prod.splits)
  next
    case (Err e)
    with assms(1) m y show ?thesis by (auto simp: libs_kept_def)
  qed
qed

lemma load_entries_kept:
  "load_entries fs dlopen vars es acc W = Some x \<Longrightarrow> libs_kept acc W x"
proof (induction es arbitrary: acc W x)
  case Nil
  then show ?case by (auto simp: libs_kept_def)
next
  case (Cons e es)
  show ?case
  proof (cases "\<exists>c. e = Ok c \<and> is_file fs c \<and> is_plugin_library c")
    case True
    with Cons.prems show ?thesis
      by (auto intro: try_then_kept load_push_kept Cons.IH)
  next
    case False
    with Cons show ?thesis
      by (auto split: result.splits if_splits intro: fail_dropping_kept)
  qed
qed

lemma load_path_kept: "load_path fs dlopen vars p acc W = Some x \<Longrightarrow> libs_kept acc W x"
  by (auto simp: load_path_def split: if_splits result.splits
      intro: fail_dropping_kept load_entries_kept load_push_kept)
    (simp add: libs_kept_def)

lemma load_paths_kept:
  "load_paths fs dlopen vars ps acc W = Some x \<Longrightarrow> libs_kept acc W x"
proof (induction ps arbitrary: acc W x)
  case Nil
  then show ?case by (auto simp: libs_kept_def)
next
  case (Cons p ps)
  then show ?case by (auto intro: try_then_kept load_path_kept)
qed

lemma load_paths_append:
  "load_paths fs dlopen vars (ps @ qs) acc W =
     try_then (load_paths fs dlopen vars ps acc W) (load_paths fs dlopen vars qs)"
proof (induction ps arbitrary: acc W)
  case Nil
  then show ?case by simp
next
  case (Cons p ps)
  then show ?case
    by (auto simp: try_then_def Option.bind_assoc split: Option.bind_split result.split prod.split)
qed

section \<open>The text of a config file\<close>

lemma lines_aux_line:
  "CHR 0x0A \<notin> set l \<Longrightarrow>
   lines_aux cur (l @ CHR 0x0A # rest) =
     (case strip_suffix (CHR 0x0D) (cur @ l) of None \<Rightarrow> cur @ l | Some x \<Rightarrow> x) # lines_aux [] rest"
  by (induction l arbitrary: cur) (auto split: option.split)

lemma strip_suffix_None: "l \<noteq> [] \<Longrightarrow> last l \<noteq> c \<Longrightarrow> strip_suffix c l = None"
  by (cases l rule: rev_cases) (auto simp: strip_suffix_def strip_prefix_def)

text \<open>A setting as the config file of the documentation writes it.\<close>

definition config_text :: "string \<Rightarrow> string \<Rightarrow> string" where
  "config_text key value = key @ '' = '' @ [quote] @ value @ [quote]"

definition plain_key :: "string \<Rightarrow> bool" where
  "plain_key key \<longleftrightarrow> key \<noteq> [] \<and> trimmed key \<and> hd key \<noteq> CHR ''#'' \<and>
     CHR ''='' \<notin> set key \<and> CHR 0x0A \<notin> set key"

lemma config_text_trimmed: "plain_key key \<Longrightarrow> trimmed (config_text key value)"
  by (auto simp: plain_key_def config_text_def trimmed_def quote_def is_whitespace_def)

lemma trim_snoc_space: "trimmed s \<Longrightarrow> trim (s @ '' '') = s"
proof (cases s)
  case (Cons c cs)
  assume t: "trimmed s"
  with Cons have "\<not> is_whitespace c" by (simp add: trimmed_def)
  then have "trim_start (s @ '' '') = s @ '' ''" by (simp add: trim_start_def Cons)
  moreover have "trim_end (s @ '' '') = trim_end s"
    by (simp add: trim_end_def is_whitespace_def)
  moreover have "trim_end s = s"
    using trim_id[OF t] \<open>\<not> is_whitespace c\<close> Cons by (simp add: trim_def trim_start_def)
  ultimately show ?thesis by (simp add: trim_def)
qed (simp add: trim_def trim_start_def trim_end_def is_whitespace_def)

lemma trim_Cons_space: "trim (CHR '' '' # s) = trim s"
  by (simp add: trim_def trim_start_def is_whitespace_def)

lemma split_once_found: "c \<notin> set a \<Longrightarrow> split_once c (a @ c # b) = Some (a, b)"
  by (simp add: split_once_Some_iff)

lemma config_text_split:
  "plain_key key \<Longrightarrow> split_once (CHR ''='') (config_text key value) =
     Some (key @ '' '', '' '' @ [quote] @ value @ [quote])"
  using split_once_found[of "CHR ''=''" "key @ '' ''" "'' '' @ [quote] @ value @ [quote]"]
  by (simp add: plain_key_def config_text_def)

lemma trim_quoted: "trim ([quote] @ value @ [quote]) = [quote] @ value @ [quote]"
  by (rule trim_id) (simp add: trimmed_def quote_def is_whitespace_def)

lemma parse_config_value_quoted: "parse_config_value ([quote] @ value @ [quote]) = Ok value"
  by (simp add: parse_config_value_def strip_prefix_def strip_suffix_def)

lemma config_line_text:
  assumes "plain_key key"
  shows "config_line path (config_text key value) ov =
    (if key = ''http_listen_addr'' then
       (if o_http_listen_addr ov \<noteq> None
        then Err (''duplicate http_listen_addr in config file: '' @ path)
        else case parse_socket_addr value of
          None \<Rightarrow> Err (''invalid http_listen_addr value in '' @ path)
        | Some _ \<Rightarrow> Ok (ov\<lparr>o_http_listen_addr := Some value\<rparr>))
     else if key = ''plugin_paths'' then
       (if o_plugin_paths ov \<noteq> None
        then Err (''duplicate plugin_paths in config file: '' @ path)
        else and_then (parse_plugin_paths_strict value) (\<lambda>paths.
          Ok (ov\<lparr>o_plugin_paths := Some paths\<rparr>)))
     else Err (''unknown config key '' @ key @ '' in '' @ path))"
proof -
  have t: "trim (config_text key value) = config_text key value"
    by (rule trim_id) (rule config_text_trimmed[OF assms])
  have "config_text key value \<noteq> []" by (simp add: config_text_def)
  moreover have "\<not> starts_with ''#'' (config_text key value)"
    using assms by (cases key) (auto simp: starts_with_def config_text_def plain_key_def)
  moreover have "trim (key @ '' '') = key"
    using assms by (intro trim_snoc_space) (simp add: plain_key_def)
  moreover have "trim ('' '' @ [quote] @ value @ [quote]) = [quote] @ value @ [quote]"
    by (simp only: append_Cons append_Nil trim_Cons_space)
      (use trim_quoted[of "value"] in simp)
  ultimately show ?thesis
    by (simp only: config_line_def t config_text_split[OF assms] Let_def if_False option.case
        prod.case parse_config_value_quoted and_then.simps simp_thms)
qed

lemma str_lines_config:
  assumes "\<forall>(k, v) \<in> set kvs. CHR 0x0A \<notin> set k \<and> CHR 0x0A \<notin> set v"
  shows "str_lines (concat (map (\<lambda>(k, v). config_text k v @ [CHR 0x0A]) kvs)) =
    map (\<lambda>(k, v). config_text k v) kvs"
  using assms
proof (induction kvs)
  case Nil
  then show ?case by (simp add: str_lines_def)
next
  case (Cons kv kvs)
  obtain k v where kv: "kv = (k, v)" by (cases kv)
  with Cons.prems have "CHR 0x0A \<notin> set (config_text k v)"
    by (auto simp: config_text_def quote_def)
  moreover have "strip_suffix (CHR 0x0D) (config_text k v) = None"
    by (rule strip_suffix_None) (simp_all add: config_text_def quote_def)
  ultimately show ?case
    using Cons by (simp add: str_lines_def kv lines_aux_line)
qed

section \<open>Which libraries are loaded\<close>

text \<open>
  The library files the configured paths name, in the order they are loaded: a directory stands for
  the plugin libraries among its entries, a file for itself, and anything else for nothing. There is
  no answer when a directory or one of its entries cannot be read.
\<close>

fun entry_libraries :: "filesystem \<Rightarrow> (string, string) result list \<Rightarrow> string list option" where
  "entry_libraries fs [] = Some []"
| "entry_libraries fs (Err e # es) = None"
| "entry_libraries fs (Ok candidate # es) =
     map_option (\<lambda>files. if is_file fs candidate \<and> is_plugin_library candidate then candidate # files else files)
       (entry_libraries fs es)"

definition path_libraries :: "filesystem \<Rightarrow> string \<Rightarrow> string list option" where
  "path_libraries fs path =
     (if is_dir fs path
      then (case read_dir fs path of Err _ \<Rightarrow> None | Ok es \<Rightarrow> entry_libraries fs es)
      else if is_file fs path then Some [path]
      else Some [])"

fun library_files :: "filesystem \<Rightarrow> string list \<Rightarrow> string list option" where
  "library_files fs [] = Some []"
| "library_files fs (p # ps) = do {
     files \<leftarrow> path_libraries fs p;
     more \<leftarrow> library_files fs ps;
     Some (files @ more)
   }"

text \<open>Every file was loaded, in order, each in the world the one before left, and gave a plugin.\<close>

inductive loads ::
  "(string \<Rightarrow> ('w dylib, string) result) \<Rightarrow> (string \<times> string) list \<Rightarrow> string list \<Rightarrow> 'w world \<Rightarrow>
   'w loaded_plugin list \<Rightarrow> 'w world \<Rightarrow> bool" for dlopen vars where
  loads_nil: "loads dlopen vars [] W [] W"
| loads_cons:
    "plugin_load dlopen vars path W = Some (Ok p, V) \<Longrightarrow> loads dlopen vars paths V ps W' \<Longrightarrow>
     loads dlopen vars (path # paths) W (p # ps) W'"

inductive_simps loads_Nil_iff [simp]: "loads dlopen vars [] W ps W'"
inductive_simps loads_Cons_iff: "loads dlopen vars (path # paths) W ps W'"

lemma loads_append:
  "loads dlopen vars fs W ps V \<Longrightarrow> loads dlopen vars gs V qs W' \<Longrightarrow> loads dlopen vars (fs @ gs) W (ps @ qs) W'"
  by (induction rule: loads.induct) (auto intro: loads_cons)

lemma loads_length: "loads dlopen vars fs W ps W' \<Longrightarrow> length ps = length fs"
  by (induction rule: loads.induct) simp_all

lemma try_then_Ok:
  "try_then m f = Some (Ok y, W') \<longleftrightarrow> (\<exists>x V. m = Some (Ok x, V) \<and> f x V = Some (Ok y, W'))"
  by (auto simp: try_then_def split: Option.bind_splits result.splits)

lemma fail_dropping_not_Ok [simp]: "fail_dropping acc e W \<noteq> Some (Ok ps, W')"
  by (auto simp: fail_dropping_def)

lemma load_push_Ok:
  "load_push dlopen vars path acc W = Some (Ok ps, W') \<longleftrightarrow>
     (\<exists>p. plugin_load dlopen vars path W = Some (Ok p, W') \<and> ps = acc @ [p])"
  by (auto simp: load_push_def split: Option.bind_splits result.splits)

lemma load_entries_Ok:
  "load_entries fs dlopen vars es acc W = Some (Ok ps, W') \<Longrightarrow>
   \<exists>files new. entry_libraries fs es = Some files \<and> loads dlopen vars files W new W' \<and> ps = acc @ new"
proof (induction fs es arbitrary: acc W rule: entry_libraries.induct)
  case (3 fs candidate es)
  show ?case
  proof (cases "is_file fs candidate \<and> is_plugin_library candidate")
    case True
    with 3 obtain p V where p: "plugin_load dlopen vars candidate W = Some (Ok p, V)"
      and "load_entries fs dlopen vars es (acc @ [p]) V = Some (Ok ps, W')"
      by (auto simp: try_then_Ok load_push_Ok)
    from 3(1)[OF this(2)] True p show ?thesis by (fastforce intro: loads_cons)
  next
    case False
    with 3(2) have "load_entries fs dlopen vars es acc W = Some (Ok ps, W')" by (auto split: if_splits)
    from 3(1)[OF this] False show ?thesis by auto
  qed
qed simp_all

lemma load_path_Ok:
  "load_path fs dlopen vars path acc W = Some (Ok ps, W') \<Longrightarrow>
   \<exists>files new. path_libraries fs path = Some files \<and> loads dlopen vars files W new W' \<and> ps = acc @ new"
  by (auto simp: load_path_def path_libraries_def load_push_Ok dest: load_entries_Ok
      intro: loads_cons loads_nil split: if_splits result.splits)

lemma load_paths_Ok:
  "load_paths fs dlopen vars paths acc W = Some (Ok ps, W') \<Longrightarrow>
   \<exists>files new. library_files fs paths = Some files \<and> loads dlopen vars files W new W' \<and> ps = acc @ new"
proof (induction paths arbitrary: acc W)
  case (Cons p paths)
  then obtain qs V where "load_path fs dlopen vars p acc W = Some (Ok qs, V)"
    "load_paths fs dlopen vars paths qs V = Some (Ok ps, W')"
    by (auto simp: try_then_Ok)
  from load_path_Ok[OF this(1)] Cons.IH[OF this(2)] show ?case by (fastforce intro: loads_append)
qed simp

section \<open>Properties\<close>

text \<open>C24: the environment format of the plugin paths round trips. Any list of non-blank trimmed
  paths without a semicolon, joined by semicolons, is parsed back into itself, by the lenient
  parser of \<open>VAKIL_PLUGIN_PATHS\<close> and by the strict one of the config file alike.\<close>

theorem plugin_paths_roundtrip:
  assumes "ps \<noteq> []" and "\<forall>p \<in> set ps. p \<noteq> [] \<and> trimmed p \<and> CHR '';'' \<notin> set p"
  shows "parse_plugin_paths_strict (join '';'' ps) = Ok ps \<and>
    parse_plugin_paths (join '';'' ps) '';'' = ps"
  using strict_join[OF assms] strict_entries_ok[OF strict_join[OF assms]] by simp

theorem plugin_paths_roundtrip_witness:
  "parse_plugin_paths_strict ''./one;./two'' = Ok [''./one'', ''./two'']"
  using plugin_paths_roundtrip[of "[''./one'', ''./two'']"]
  by (simp add: trimmed_def is_whitespace_def)

text \<open>What the strict parser accepts. A blank value is the empty list; otherwise the value is
  accepted exactly if no piece between semicolons is blank, and the paths are the trimmed pieces,
  which is also what the lenient parser gives.\<close>

lemma strict_plugin_paths_spec:
  "parse_plugin_paths_strict raw = Ok ps \<longleftrightarrow>
     ps = parse_plugin_paths raw '';'' \<and>
     (trim raw = [] \<or> [] \<notin> trim ` set (split_char (CHR '';'') raw))"
proof (cases "trim raw = []")
  case True
  then show ?thesis by (auto simp: parse_plugin_paths_strict_def parse_plugin_paths_def)
next
  case False
  have "(\<forall>e \<in> set es. trim e \<noteq> []) \<Longrightarrow> filter (\<lambda>e. e \<noteq> []) (map trim es) = map trim es" for es
    by (simp add: filter_id_conv)
  with False show ?thesis
    by (auto simp: parse_plugin_paths_strict_def parse_plugin_paths_def strict_entries_eq
        split_char_def filter_id_conv image_iff eq_commute[of "[]" "trim e" for e])
qed

lemma strict_plugin_paths_spec_example:
  "parse_plugin_paths_strict ''./one; ./two '' = Ok [''./one'', ''./two''] \<and>
   (\<forall>ps. parse_plugin_paths_strict ''./one;;./two'' \<noteq> Ok ps)"
proof -
  have a: "parse_plugin_paths ''./one; ./two '' '';'' = [''./one'', ''./two'']"
    "[] \<notin> trim ` set (split_char (CHR '';'') ''./one; ./two '')"
    "trim ''./one;;./two'' \<noteq> []" "[] \<in> trim ` set (split_char (CHR '';'') ''./one;;./two'')"
    by code_simp+
  show ?thesis
    using strict_plugin_paths_spec[of "''./one; ./two ''"] strict_plugin_paths_spec[of "''./one;;./two''"] a by auto
qed

text \<open>C17: a config file that is accepted has each of the two known keys at most once and no other;
  a setting is overridden exactly if its key is present; the listen address is then one
  \<open>SocketAddr\<close> parses, and no plugin path is blank or has white space around it.\<close>

theorem config_file_valid:
  assumes "parse_config_file fs path = Ok ov" and "read_to_string fs path = Ok content"
  shows "distinct (file_keys (str_lines content)) \<and>
    set (file_keys (str_lines content)) \<subseteq> {''http_listen_addr'', ''plugin_paths''} \<and>
    (o_http_listen_addr ov \<noteq> None \<longleftrightarrow> ''http_listen_addr'' \<in> set (file_keys (str_lines content))) \<and>
    (o_plugin_paths ov \<noteq> None \<longleftrightarrow> ''plugin_paths'' \<in> set (file_keys (str_lines content))) \<and>
    overrides_ok ov"
proof -
  from assms have c: "config_lines path (str_lines content) no_overrides = Ok ov"
    by (simp add: parse_config_file_def)
  have "overrides_ok ov"
    by (rule config_lines_overrides_ok[OF c]) (simp add: overrides_ok_def no_overrides_def)
  with config_lines_keys[OF c] show ?thesis by (simp add: no_overrides_def)
qed

text \<open>A file system whose only file has the given content.\<close>

definition text_fs :: "string \<Rightarrow> filesystem" where
  "text_fs content =
     \<lparr>read_to_string = (\<lambda>_. Ok content), is_dir = (\<lambda>_. False), is_file = (\<lambda>_. True),
      read_dir = (\<lambda>_. Err ''not a directory'')\<rparr>"

lemma plain_keys: "plain_key ''http_listen_addr''" "plain_key ''plugin_paths''"
  by (simp_all add: plain_key_def trimmed_def is_whitespace_def)

lemma config_file_text:
  assumes "parse_socket_addr addr \<noteq> None" and "CHR 0x0A \<notin> set addr"
    and "ps \<noteq> []"
    and "\<forall>p \<in> set ps. p \<noteq> [] \<and> trimmed p \<and> CHR '';'' \<notin> set p \<and> CHR 0x0A \<notin> set p"
  shows "parse_config_file
      (text_fs (config_text ''http_listen_addr'' addr @ [CHR 0x0A] @
                config_text ''plugin_paths'' (join '';'' ps) @ [CHR 0x0A])) path =
    Ok \<lparr>o_http_listen_addr = Some addr, o_plugin_paths = Some ps\<rparr>"
proof -
  have "CHR 0x0A \<notin> set (join '';'' ps)"
    using assms(4) by (induction ps rule: induct_list012) auto
  with str_lines_config[of "[(''http_listen_addr'', addr), (''plugin_paths'', join '';'' ps)]"] assms(2)
  have "str_lines (config_text ''http_listen_addr'' addr @ [CHR 0x0A] @
      config_text ''plugin_paths'' (join '';'' ps) @ [CHR 0x0A]) =
    [config_text ''http_listen_addr'' addr, config_text ''plugin_paths'' (join '';'' ps)]"
    by simp
  moreover have "parse_plugin_paths_strict (join '';'' ps) = Ok ps"
    using assms by (intro strict_join) auto
  ultimately show ?thesis
    using assms(1)
    by (auto simp: parse_config_file_def text_fs_def no_overrides_def config_line_text plain_keys)
qed

lemma sample_addr_newline: "CHR 0x0A \<notin> set (show_socket_v4 127 0 0 1 9090)"
  by (simp add: show_socket_v4_def show_v4_def show_nat.simps digit_char_def char_of_def)

lemma sample_config_parse:
  "parse_config_file
      (text_fs (config_text ''http_listen_addr'' (show_socket_v4 127 0 0 1 9090) @ [CHR 0x0A] @
                config_text ''plugin_paths'' ''./alpha;./beta'' @ [CHR 0x0A])) path =
    Ok \<lparr>o_http_listen_addr = Some (show_socket_v4 127 0 0 1 9090),
        o_plugin_paths = Some [''./alpha'', ''./beta'']\<rparr>"
  using config_file_text[of "show_socket_v4 127 0 0 1 9090" "[''./alpha'', ''./beta'']" path]
  by (simp add: parse_socket_addr_show sample_addr_newline trimmed_def is_whitespace_def)

theorem config_file_valid_witness:
  "overrides_ok \<lparr>o_http_listen_addr = Some (show_socket_v4 127 0 0 1 9090),
        o_plugin_paths = Some [''./alpha'', ''./beta'']\<rparr>"
  using config_file_valid[OF sample_config_parse[of "''vakil.conf''"]]
  by (simp add: text_fs_def)

text \<open>C8: a config file that sets both keys in the documented form is parsed into exactly those
  settings, and they win over the environment variables of the same settings; the TCP and UDP
  addresses, which have no key in the file, still come from the environment or the defaults.\<close>

theorem config_file_wins:
  assumes "parse_socket_addr addr \<noteq> None" and "CHR 0x0A \<notin> set addr"
    and "ps \<noteq> []"
    and "\<forall>p \<in> set ps. p \<noteq> [] \<and> trimmed p \<and> CHR '';'' \<notin> set p \<and> CHR 0x0A \<notin> set p"
    and "e ''VAKIL_CONFIG'' = Some path"
  shows "config_from_env e
      (text_fs (config_text ''http_listen_addr'' addr @ [CHR 0x0A] @
                config_text ''plugin_paths'' (join '';'' ps) @ [CHR 0x0A])) =
    Ok \<lparr>http_listen_addr = addr,
        tcp_listen_addr = env_or e ''VAKIL_TCP_LISTEN_ADDR'' ''127.0.0.1:12346'',
        udp_listen_addr = env_or e ''VAKIL_UDP_LISTEN_ADDR'' ''127.0.0.1:12347'',
        plugin_paths = ps\<rparr>"
  using config_file_text[OF assms(1-4), of path] assms(5) by (simp add: config_from_env_def)

theorem config_file_wins_witness:
  "config_from_env
      [''VAKIL_CONFIG'' \<mapsto> ''vakil.conf'', ''VAKIL_HTTP_LISTEN_ADDR'' \<mapsto> ''0.0.0.0:80'',
       ''VAKIL_PLUGIN_PATHS'' \<mapsto> ''./ignored'', ''VAKIL_UDP_LISTEN_ADDR'' \<mapsto> ''[::1]:53'']
      (text_fs (config_text ''http_listen_addr'' (show_socket_v4 127 0 0 1 9090) @ [CHR 0x0A] @
                config_text ''plugin_paths'' ''./alpha;./beta'' @ [CHR 0x0A])) =
    Ok \<lparr>http_listen_addr = show_socket_v4 127 0 0 1 9090, tcp_listen_addr = ''127.0.0.1:12346'',
        udp_listen_addr = ''[::1]:53'', plugin_paths = [''./alpha'', ''./beta'']\<rparr>"
  using config_file_wins[of "show_socket_v4 127 0 0 1 9090" "[''./alpha'', ''./beta'']"
      "[''VAKIL_CONFIG'' \<mapsto> ''vakil.conf'', ''VAKIL_HTTP_LISTEN_ADDR'' \<mapsto> ''0.0.0.0:80'',
       ''VAKIL_PLUGIN_PATHS'' \<mapsto> ''./ignored'', ''VAKIL_UDP_LISTEN_ADDR'' \<mapsto> ''[::1]:53'']"]
  by (simp add: parse_socket_addr_show sample_addr_newline trimmed_def is_whitespace_def env_or_def)

text \<open>C19: no plugin library stays open without an owner. When loading succeeds there is one more
  open library for every plugin returned; when it fails, every library opened on the way has been
  closed again.\<close>

theorem load_plugins_no_leaked_library:
  assumes "load_plugins fs dlopen vars paths W = Some (r, W')"
  shows "open_libs W' = open_libs W + (case r of Ok ps \<Rightarrow> int (length ps) | Err _ \<Rightarrow> 0)"
  using load_paths_kept[OF assms[unfolded load_plugins_def]] by (simp add: libs_kept_def)

lemma sample_load_plugins:
  "load_plugins (text_fs '''') (\<lambda>_. Ok sample_lib) [] [''/p.so''] \<lparr>plugins = (), calls = []\<rparr> =
     Some (Ok [sample_plugin], \<lparr>plugins = (), calls = [OpenLibrary ''/p.so'', GetLibrary,
       Factory HttpProto, Init HttpProto Null]\<rparr>)"
  by (simp add: load_plugins_def load_path_def text_fs_def load_push_def sample_plugin_load)

theorem load_plugins_no_leaked_library_witness:
  "open_libs \<lparr>plugins = (), calls = [OpenLibrary ''/p.so'', GetLibrary,
       Factory HttpProto, Init HttpProto Null]\<rparr> = 1"
  using load_plugins_no_leaked_library[OF sample_load_plugins]
  by (simp add: open_libs_def)

text \<open>A configured path that is neither a directory nor a file is skipped without an error,
  wherever it stands in the list.\<close>

lemma missing_path_skipped:
  assumes "\<not> is_dir fs path" and "\<not> is_file fs path"
  shows "load_plugins fs dlopen vars (ps @ path # qs) W = load_plugins fs dlopen vars (ps @ qs) W"
proof -
  have "load_paths fs dlopen vars (path # qs) acc V = load_paths fs dlopen vars qs acc V" for acc V
    using assms by (simp add: load_path_def)
  then have "load_paths fs dlopen vars (path # qs) = load_paths fs dlopen vars qs" by blast
  then show ?thesis by (simp only: load_plugins_def load_paths_append)
qed

lemma missing_path_skipped_example:
  "load_plugins (text_fs ''''\<lparr>is_file := (\<lambda>_. False)\<rparr>) (\<lambda>_. Ok sample_lib) [] [''/none.so'']
     \<lparr>plugins = (), calls = []\<rparr> = Some (Ok [], \<lparr>plugins = (), calls = []\<rparr>)"
  using missing_path_skipped[of "text_fs ''''\<lparr>is_file := (\<lambda>_. False)\<rparr>" "''/none.so''"
      "\<lambda>_. Ok sample_lib" "[]" "[]" "[]" "\<lparr>plugins = (), calls = []\<rparr>"]
  by (simp add: text_fs_def load_plugins_def)

end
