(* ===== verification/Vakil_Cli.thy ===== *)
theory Vakil_Cli
  imports Vakil_Runtime "HOL-Library.AList"
begin

text \<open>
  The command line runner: \<open>crates/vakil-cli/src/main.rs\<close>. The parsed command line (clap) is an
  argument. Logging itself is left out; \<open>log_filter\<close> is the filter the logger is started with. Paths
  and arguments are Unicode strings, so \<open>to_string_lossy\<close> is the identity.
\<close>

datatype commands = Run

record cli =
  cli_config :: "string option"
  cli_verbose :: "8 word"
  cli_command :: "commands option"

definition log_filter :: "8 word \<Rightarrow> (string \<times> string) list \<Rightarrow> string" where
  "log_filter verbose vars =
     (let log_level = (if verbose = 0 then ''info'' else if verbose = 1 then ''debug'' else ''trace'')
      in env_or (map_of vars) ''RUST_LOG'' log_level)"

text \<open>The environment is a list of variables in the order the process lists them; a value with a NUL
  panics.\<close>

definition set_var :: "string \<Rightarrow> string \<Rightarrow> (string \<times> string) list \<Rightarrow> (string \<times> string) list option" where
  "set_var name val vars = (if CHR 0x00 \<in> set val then None else Some (AList.update name val vars))"

text \<open>\<open>main\<close>. A runtime whose \<open>run\<close> fails is dropped, and its plugins with it.\<close>

definition cli_main ::
  "filesystem \<Rightarrow> (string \<Rightarrow> ('w dylib, string) result) \<Rightarrow> (unit, string) result \<Rightarrow>
   (string \<times> string) list \<Rightarrow> cli \<Rightarrow> 'w world \<Rightarrow>
   (('w service list, string) result \<times> 'w world) option" where
  "cli_main fs dlopen server_new vars args W = do {
     vars \<leftarrow> (case cli_config args of
               Some path \<Rightarrow> set_var ''VAKIL_CONFIG'' path vars
             | None \<Rightarrow> Some vars);
     (case (case cli_command args of Some command \<Rightarrow> command | None \<Rightarrow> Run) of
        Run \<Rightarrow>
          (case config_from_env (map_of vars) fs of
             Err e \<Rightarrow> Some (Err e, W)
           | Ok config \<Rightarrow>
               try_then (runtime_build fs dlopen vars config W) (\<lambda>runtime W.
                 (case runtime_run server_new runtime of
                    Err e \<Rightarrow> map_option (\<lambda>W. (Err e, W)) (drop_plugins (rt_plugins runtime) W)
                  | Ok services \<Rightarrow> Some (Ok services, W)))))
   }"

section \<open>Lemmas\<close>

lemma set_var_again: "set_var name y (AList.update name x vars) = set_var name y vars"
  by (simp add: set_var_def)

lemma runtime_run_Ok:
  "runtime_run sn rt = Ok services \<longleftrightarrow>
     (\<exists>u. sn = Ok u) \<and>
     services = HttpService (http_listen_addr (rt_config rt)) (hooks_from_loaded (rt_plugins rt)) #
       (case parse_socket_addr (tcp_listen_addr (rt_config rt)) of
          Some a \<Rightarrow> [TcpService a (hooks_from_loaded (rt_plugins rt))] | None \<Rightarrow> []) @
       (case parse_socket_addr (udp_listen_addr (rt_config rt)) of
          Some a \<Rightarrow> [UdpService a (hooks_from_loaded (rt_plugins rt))] | None \<Rightarrow> [])"
  by (auto simp: runtime_run_def Let_def split: result.splits)

lemma runtime_build_open_libs:
  assumes "runtime_build fs dlopen vars config W = Some (r, W')"
  shows "case r of
      Err _ \<Rightarrow> open_libs W' = open_libs W
    | Ok rt \<Rightarrow> open_libs W' = open_libs W + int (length (rt_plugins rt)) \<and> rt_config rt = config"
proof -
  obtain q V where l: "load_paths fs dlopen vars (plugin_paths config) [] W = Some (q, V)"
    using assms by (auto simp: runtime_build_def load_plugins_def try_then_def split: Option.bind_splits)
  from load_paths_kept[OF l] assms l show ?thesis
    by (cases q) (auto simp: runtime_build_def load_plugins_def libs_kept_def)
qed

lemma runtime_build_loads:
  assumes "runtime_build fs dlopen vars config W = Some (Ok rt, W')"
  shows "rt_config rt = config \<and> (\<exists>files. library_files fs (plugin_paths config) = Some files \<and>
    loads dlopen vars files W (rt_plugins rt) W')"
  using assms by (auto simp: runtime_build_def load_plugins_def try_then_Some_Ok dest!: load_paths_Ok)

text \<open>The environment \<open>main\<close> goes on with, and what it then does.\<close>

definition main_vars :: "cli \<Rightarrow> (string \<times> string) list \<Rightarrow> (string \<times> string) list" where
  "main_vars args vars =
     (case cli_config args of Some path \<Rightarrow> AList.update ''VAKIL_CONFIG'' path vars | None \<Rightarrow> vars)"

lemma cli_main_run:
  assumes "cli_main fs dlopen sn vars args W = Some (r, W')"
  shows "(case config_from_env (map_of (main_vars args vars)) fs of
      Err e \<Rightarrow> Some (Err e, W)
    | Ok config \<Rightarrow>
        try_then (runtime_build fs dlopen (main_vars args vars) config W) (\<lambda>runtime W.
          (case runtime_run sn runtime of
             Err e \<Rightarrow> map_option (\<lambda>W. (Err e, W)) (drop_plugins (rt_plugins runtime) W)
           | Ok services \<Rightarrow> Some (Ok services, W)))) = Some (r, W')"
proof -
  from assms have v: "(case cli_config args of
      Some path \<Rightarrow> set_var ''VAKIL_CONFIG'' path vars | None \<Rightarrow> Some vars) = Some (main_vars args vars)"
    by (cases "cli_config args") (simp_all add: cli_main_def main_vars_def set_var_def split: if_splits)
  have run: "(case cli_command args of Some command \<Rightarrow> command | None \<Rightarrow> Run) = Run"
    by (cases "case cli_command args of Some command \<Rightarrow> command | None \<Rightarrow> Run")
  from assms show ?thesis unfolding cli_main_def v run by simp
qed

lemma config_unreadable:
  "e ''VAKIL_CONFIG'' = Some path \<Longrightarrow> read_to_string fs path = Err x \<Longrightarrow>
    config_from_env e fs = Err (''read runtime config file '' @ path)"
  by (simp add: config_from_env_def parse_config_file_def Let_def)

section \<open>Properties\<close>

text \<open>The config flag overrides the environment. With \<open>--config\<close>, whatever the variable \<open>VAKIL_CONFIG\<close>
  held before is irrelevant, and the runtime starts exactly as it does without the flag in an
  environment where the variable holds the flag's path; if that file cannot be read, nothing starts
  and no plugin has been touched.\<close>

lemma cli_config_flag_wins:
  assumes "cli_config args = Some path" and "CHR 0x00 \<notin> set path"
  shows "cli_main fs dlopen sn (AList.update ''VAKIL_CONFIG'' other vars) args W = cli_main fs dlopen sn vars args W \<and>
    cli_main fs dlopen sn vars args W =
      cli_main fs dlopen sn (AList.update ''VAKIL_CONFIG'' path vars) (args\<lparr>cli_config := None\<rparr>) W \<and>
    (\<forall>e. read_to_string fs path = Err e \<longrightarrow>
      cli_main fs dlopen sn vars args W = Some (Err (''read runtime config file '' @ path), W))"
  using assms
  by (auto simp: cli_main_def set_var_def update_conv' config_unreadable split: commands.splits)

lemma cli_config_flag_wins_example:
  "cli_main (text_fs ''''\<lparr>read_to_string := (\<lambda>p. if p = ''/run/b.conf'' then Err ''not found'' else Ok '''')\<rparr>)
     (\<lambda>_. Ok sample_lib) (Ok ()) [(''VAKIL_CONFIG'', ''/etc/a.conf'')]
     \<lparr>cli_config = Some ''/run/b.conf'', cli_verbose = 0, cli_command = None\<rparr> \<lparr>plugins = (), calls = []\<rparr> =
   Some (Err ''read runtime config file /run/b.conf'', \<lparr>plugins = (), calls = []\<rparr>)"
  using cli_config_flag_wins[of "\<lparr>cli_config = Some ''/run/b.conf'', cli_verbose = 0, cli_command = None\<rparr>"
      "''/run/b.conf''"
      "text_fs ''''\<lparr>read_to_string := (\<lambda>p. if p = ''/run/b.conf'' then Err ''not found'' else Ok '''')\<rparr>"
      "\<lambda>_. Ok sample_lib" "Ok ()" "''/etc/a.conf''" "[(''VAKIL_CONFIG'', ''/etc/a.conf'')]" "\<lparr>plugins = (), calls = []\<rparr>"]
  by auto

text \<open>C9: starting is all or nothing. If the command fails without a panic, every plugin library it
  opened has been closed again. If it succeeds, the config is the one of the environment in which the
  flag, when given, has replaced \<open>VAKIL_CONFIG\<close>; the libraries its plugin paths name were loaded, all of
  them, each once, in order; as many libraries are open; and HTTP is served on the configured
  address, TCP and UDP on theirs when these are socket addresses, and nothing else, all with the
  hooks made from exactly the plugins loaded.\<close>

theorem startup_all_or_nothing:
  assumes "cli_main fs dlopen sn vars args W = Some (r, W')"
  shows "case r of
      Err _ \<Rightarrow> open_libs W' = open_libs W
    | Ok services \<Rightarrow> \<exists>vars' config files ps.
        vars' = (case cli_config args of
                   Some path \<Rightarrow> AList.update ''VAKIL_CONFIG'' path vars | None \<Rightarrow> vars) \<and>
        config_from_env (map_of vars') fs = Ok config \<and>
        library_files fs (plugin_paths config) = Some files \<and> loads dlopen vars' files W ps W' \<and>
        open_libs W' = open_libs W + int (length files) \<and>
        services = HttpService (http_listen_addr config) (hooks_from_loaded ps) #
          (case parse_socket_addr (tcp_listen_addr config) of
             Some a \<Rightarrow> [TcpService a (hooks_from_loaded ps)] | None \<Rightarrow> []) @
          (case parse_socket_addr (udp_listen_addr config) of
             Some a \<Rightarrow> [UdpService a (hooks_from_loaded ps)] | None \<Rightarrow> [])"
proof -
  define vars' where "vars' = main_vars args vars"
  note m = cli_main_run[OF assms, folded vars'_def]
  show ?thesis
  proof (cases "config_from_env (map_of vars') fs")
    case (Err e)
    with m show ?thesis by auto
  next
    case (Ok config)
    with m obtain q V where b: "runtime_build fs dlopen vars' config W = Some (q, V)"
      by (auto simp: try_then_def split: Option.bind_splits)
    note libs = runtime_build_open_libs[OF b]
    show ?thesis
    proof (cases q)
      case (Err e)
      with m Ok b libs show ?thesis by auto
    next
      case q: (Ok rt)
      from runtime_build_loads[OF b[unfolded q]] obtain files where
        l: "rt_config rt = config" "library_files fs (plugin_paths config) = Some files"
          "loads dlopen vars' files W (rt_plugins rt) V" by blast
      show ?thesis
      proof (cases "runtime_run sn rt")
        case (Err e)
        with m Ok b q have "r = Err e" "drop_plugins (rt_plugins rt) V = Some W'" by auto
        with libs q show ?thesis by (auto dest: drop_plugins_open_libs)
      next
        case run: (Ok services)
        with m Ok b q have "r = Ok services" "W' = V" by auto
        with run libs q l Ok loads_length[OF l(3)] show ?thesis
          by (auto simp: runtime_run_Ok vars'_def main_vars_def)
      qed
    qed
  qed
qed

lemma sample_plugin_load_vars:
  "plugin_load (\<lambda>_. Ok sample_lib) vars ''/p.so'' \<lparr>plugins = (), calls = []\<rparr> =
     Some (Ok sample_plugin, \<lparr>plugins = (), calls = [OpenLibrary ''/p.so'', GetLibrary,
       Factory HttpProto, Init HttpProto Null]\<rparr>)"
  by (simp add: plugin_load_def sample_lib_def sample_root_def sample_plugin_def get_root_def
      close_on_err_def log_call_def validate_manifest_def build_init_context_eq load_modules_def
      load_block_def call_factory_def http_module_init_def call_init_def default_simps
      modules_default_def)

lemma sample_startup:
  "\<exists>services. cli_main (text_fs '''') (\<lambda>_. Ok sample_lib) (Ok ()) [(''VAKIL_PLUGIN_PATHS'', ''/p.so'')]
     \<lparr>cli_config = None, cli_verbose = 0, cli_command = None\<rparr> \<lparr>plugins = (), calls = []\<rparr> =
   Some (Ok services, \<lparr>plugins = (), calls = [OpenLibrary ''/p.so'', GetLibrary, Factory HttpProto, Init HttpProto Null]\<rparr>)"
proof -
  have "parse_plugin_paths ''/p.so'' '';'' = [''/p.so'']" by code_simp
  then show ?thesis
    by (simp add: cli_main_def config_from_env_def env_or_def Let_def runtime_build_def load_plugins_def
        load_path_def text_fs_def load_push_def sample_plugin_load_vars runtime_run_def)
qed

theorem startup_all_or_nothing_witness:
  "\<exists>rest W'. cli_main (text_fs '''') (\<lambda>_. Ok sample_lib) (Ok ()) [(''VAKIL_PLUGIN_PATHS'', ''/p.so'')]
     \<lparr>cli_config = None, cli_verbose = 0, cli_command = None\<rparr> \<lparr>plugins = (), calls = []\<rparr> =
   Some (Ok (HttpService ''127.0.0.1:12345'' (hooks_from_loaded [sample_plugin]) # rest), W') \<and>
   open_libs W' = 1"
proof -
  obtain services where c: "cli_main (text_fs '''') (\<lambda>_. Ok sample_lib) (Ok ()) [(''VAKIL_PLUGIN_PATHS'', ''/p.so'')]
     \<lparr>cli_config = None, cli_verbose = 0, cli_command = None\<rparr> \<lparr>plugins = (), calls = []\<rparr> =
   Some (Ok services, \<lparr>plugins = (), calls = [OpenLibrary ''/p.so'', GetLibrary, Factory HttpProto, Init HttpProto Null]\<rparr>)"
    using sample_startup by blast
  have "parse_plugin_paths ''/p.so'' '';'' = [''/p.so'']" by code_simp
  with startup_all_or_nothing[OF c] c show ?thesis
    by (auto simp: config_from_env_def env_or_def Let_def path_libraries_def text_fs_def loads_Cons_iff
        sample_plugin_load_vars open_libs_def)
qed

end
