(* ===== verification/Vakil_Http.thy ===== *)
theory Vakil_Http
  imports Vakil_Runtime
begin

text \<open>
  The HTTP proxy: the hook trait, its no-op implementation and the proxy that delegates to it
  (\<open>crates/vakil-http/src/lib.rs\<close>), and the implementation that runs the plugins' HTTP modules
  (\<open>crates/vakil-runtime/src/http.rs\<close>).

  pingora calls one method per phase of a request. A method threads the session, the request's
  \<open>HttpContext\<close> and the world the plugins live in; a trait object is a record of its methods.
  A body is passed as \<open>Option<Bytes>\<close> by mutable reference and no implementation writes to it,
  so methods take it as a plain argument. \<open>set_uri\<close> replaces the \<open>uri\<close> of the request header.
\<close>

section \<open>The hook trait\<close>

text \<open>
  The errors of the two explained statuses the program makes, and those of pingora's own calls.
\<close>

datatype 'e proxy_error = HTTPStatus u16 string | Pingora 'e

text \<open>What a method changes: the session, the context, the plugins' world.\<close>

type_synonym ('a, 's, 'w) flow = "('a, 's) session \<times> http_context \<times> 'w world"

type_synonym ('r, 'a, 's, 'w, 'e) http_method =
  "('a, 's, 'w) flow \<Rightarrow> (('r, 'e proxy_error) result \<times> ('a, 's, 'w) flow) option"

text \<open>
  \<open>early_request_filter\<close> draws two random numbers (see \<open>http_context_from\<close>), its first argument.
  The duration \<open>response_body_filter\<close> may ask for is a number; \<open>logging\<close> returns nothing and can
  only panic.
\<close>

record ('a, 's, 'w, 'p, 'e) http_proxy_hooks =
  early_request_filter :: "u64 \<times> u64 \<Rightarrow> (unit, 'a, 's, 'w, 'e) http_method"
  upstream_peer :: "('p, 'a, 's, 'w, 'e) http_method"
  request_filter :: "(bool, 'a, 's, 'w, 'e) http_method"
  request_body_filter :: "bytes option \<Rightarrow> bool \<Rightarrow> (unit, 'a, 's, 'w, 'e) http_method"
  upstream_request_filter ::
    "request_header \<Rightarrow> ('a, 's, 'w) flow \<Rightarrow>
     ((unit, 'e proxy_error) result \<times> request_header \<times> ('a, 's, 'w) flow) option"
  response_filter ::
    "response_header \<Rightarrow> ('a, 's, 'w) flow \<Rightarrow>
     ((unit, 'e proxy_error) result \<times> response_header \<times> ('a, 's, 'w) flow) option"
  response_body_filter :: "bytes option \<Rightarrow> bool \<Rightarrow> (nat option, 'a, 's, 'w, 'e) http_method"
  logging :: "bool \<Rightarrow> ('a, 's, 'w) flow \<Rightarrow> unit option"

text \<open>The trait's default bodies; \<open>NoopProxyHooks\<close> overrides none of them.\<close>

definition default_logging :: "bool \<Rightarrow> ('a, 's, 'w) flow \<Rightarrow> unit option" where
  "default_logging failed = (\<lambda>(session, ctx, W).
     if failed \<and> s_client_addr session = None then None else Some ())"

definition noop_proxy_hooks :: "('a, 's, 'w, 'p, 'e) http_proxy_hooks" where
  "noop_proxy_hooks =
     \<lparr>early_request_filter = (\<lambda>_ s. Some (Ok (), s)),
      upstream_peer = (\<lambda>s. Some (Err (HTTPStatus 500 ''no upstream selected''), s)),
      request_filter = (\<lambda>s. Some (Ok False, s)),
      request_body_filter = (\<lambda>_ _ s. Some (Ok (), s)),
      upstream_request_filter = (\<lambda>up s. Some (Ok (), up, s)),
      response_filter = (\<lambda>up s. Some (Ok (), up, s)),
      response_body_filter = (\<lambda>_ _ s. Some (Ok None, s)),
      logging = default_logging\<rparr>"

section \<open>The proxy\<close>

record proxy_settings =
  listen_addr :: string

definition proxy_settings_new :: "string \<Rightarrow> proxy_settings" where
  "proxy_settings_new addr = \<lparr>listen_addr = addr\<rparr>"

record ('a, 's, 'w, 'p, 'e) vakil_http_proxy =
  settings :: proxy_settings
  hooks :: "('a, 's, 'w, 'p, 'e) http_proxy_hooks"

definition proxy_with_hooks ::
  "proxy_settings \<Rightarrow> ('a, 's, 'w, 'p, 'e) http_proxy_hooks \<Rightarrow> ('a, 's, 'w, 'p, 'e) vakil_http_proxy" where
  "proxy_with_hooks s h = \<lparr>settings = s, hooks = h\<rparr>"

definition proxy_new :: "proxy_settings \<Rightarrow> ('a, 's, 'w, 'p, 'e) vakil_http_proxy" where
  "proxy_new s = proxy_with_hooks s noop_proxy_hooks"

definition new_ctx :: "('a, 's, 'w, 'p, 'e) vakil_http_proxy \<Rightarrow> http_context" where
  "new_ctx self = http_context_default"

text \<open>
  \<open>impl ProxyHttp for VakilHttpProxy\<close>: every method of pingora's trait calls the method of the
  same name of the hooks with the arguments it got.
\<close>

definition proxy_http ::
  "('a, 's, 'w, 'p, 'e) vakil_http_proxy \<Rightarrow> ('a, 's, 'w, 'p, 'e) http_proxy_hooks" where
  "proxy_http self =
     \<lparr>early_request_filter = (\<lambda>rnd s. early_request_filter (hooks self) rnd s),
      upstream_peer = (\<lambda>s. upstream_peer (hooks self) s),
      request_filter = (\<lambda>s. request_filter (hooks self) s),
      request_body_filter = (\<lambda>body eos s. request_body_filter (hooks self) body eos s),
      upstream_request_filter = (\<lambda>up s. upstream_request_filter (hooks self) up s),
      response_filter = (\<lambda>up s. response_filter (hooks self) up s),
      response_body_filter = (\<lambda>body eos s. response_body_filter (hooks self) body eos s),
      logging = (\<lambda>failed s. logging (hooks self) failed s)\<rparr>"

text \<open>\<open>attach_proxy_service\<close>: the address it listens on and the proxy it serves there.\<close>

definition attach_proxy_service ::
  "proxy_settings \<Rightarrow> ('a, 's, 'w, 'p, 'e) http_proxy_hooks \<Rightarrow>
   string \<times> ('a, 's, 'w, 'p, 'e) http_proxy_hooks" where
  "attach_proxy_service s h = (listen_addr s, proxy_http (proxy_with_hooks s h))"

section \<open>Running the HTTP modules\<close>

text \<open>
  \<open>(*cb)(module.instance, ctx).match_owned(|outcome| outcome, |_| HookOutcome::default())\<close>: an
  error of the callback reads as the default outcome.
\<close>

definition run_hook ::
  "proto \<Rightarrow> phase \<Rightarrow> inst_ptr \<Rightarrow> ('c, 'w) hook_fn \<Rightarrow> 'c \<times> 'w world \<Rightarrow>
   (hook_outcome \<times> 'c \<times> 'w world) option" where
  "run_hook k ph inst cb s = do {
     (r, s) \<leftarrow> call_hook k ph inst cb s;
     Some (unwrap_or r hook_outcome_default, s)
   }"

text \<open>\<open>if let Some(cb) = module.hook { let _ = ... }\<close>: the outcome is dropped.\<close>

definition run_ignored ::
  "proto \<Rightarrow> phase \<Rightarrow> inst_ptr \<Rightarrow> ('c, 'w) hook_fn option \<Rightarrow> 'c \<times> 'w world \<Rightarrow> ('c \<times> 'w world) option" where
  "run_ignored k ph inst hook s =
     (case hook of
        None \<Rightarrow> Some s
      | Some cb \<Rightarrow> map_option snd (run_hook k ph inst cb s))"

definition is_port_https :: "u16 \<Rightarrow> bool" where
  "is_port_https port \<longleftrightarrow> port = 443"

definition set_uri :: "http_uri \<Rightarrow> ('a, 's) session \<Rightarrow> ('a, 's) session" where
  "set_uri uri ses = ses\<lparr>s_req_header := (s_req_header ses)\<lparr>rh_uri := uri\<rparr>\<rparr>"

definition plugin_early_request_filter ::
  "('a, 's, 'p, 'e) pingora \<Rightarrow> u64 \<times> u64 \<Rightarrow> (unit, 'a, 's, 'w, 'e) http_method" where
  "plugin_early_request_filter X = (\<lambda>(rnd_conn, rnd_stream) (ses, ctx, W). do {
     ctx \<leftarrow> http_context_from X rnd_conn rnd_stream ses;
     Some (Ok (), ses, ctx, W)
   })"

text \<open>The body of the loop of \<open>upstream_peer\<close> for one module, and the loop.\<close>

definition route_module ::
  "('a, 's, 'p, 'e) pingora \<Rightarrow> 'w plugin_http_module \<Rightarrow> ('a, 's, 'w) flow \<Rightarrow>
   (('p, 'e proxy_error) result option \<times> ('a, 's, 'w) flow) option" where
  "route_module X module = (\<lambda>(ses, ctx, W).
     (case http_on_route module of
        None \<Rightarrow> Some (None, ses, ctx, W)
      | Some route_cb \<Rightarrow> do {
          (decision, ctx, W) \<leftarrow> run_hook HttpProto OnRoute (http_instance module) route_cb (ctx, W);
          (case ctx_route ctx of
             None \<Rightarrow> Some (None, ses, ctx, W)
           | Some rt \<Rightarrow>
               (case action decision of
                  Continue \<Rightarrow> Some (None, ses, ctx, W)
                | Replace \<Rightarrow>
                    (case upstream_to_set rt of
                       None \<Rightarrow> Some (None, ses, ctx, W)
                     | Some upstream \<Rightarrow> do {
                         path \<leftarrow> http_path rt;
                         new_uri \<leftarrow> build_uri X path;
                         peer \<leftarrow> http_peer_new X (sa_host upstream, sa_port upstream)
                                  (is_port_https (sa_port upstream)) (sa_host upstream);
                         Some (Some (Ok peer), set_uri new_uri ses, ctx, W)
                       })
                | Drop \<Rightarrow>
                    Some (Some (Err (HTTPStatus 503 ''plugin rejected request'')), ses, ctx, W)))
        }))"

definition plugin_upstream_peer ::
  "('a, 's, 'p, 'e) pingora \<Rightarrow> 'w plugin_http_module list \<Rightarrow> ('p, 'a, 's, 'w, 'e) http_method" where
  "plugin_upstream_peer X mods s = do {
     (d, s) \<leftarrow> for_until (route_module X) mods s;
     Some (case d of
             Some r \<Rightarrow> r
           | None \<Rightarrow> Err (HTTPStatus 500 ''no upstream was selected by plugins''), s)
   }"

text \<open>The path of the route, if there is one, replaces the request's path (\<open>format!("{}{}", path, q)\<close>
  puts the query right behind it).\<close>

definition rewrite_path ::
  "('a, 's, 'p, 'e) pingora \<Rightarrow> http_context \<Rightarrow> ('a, 's) session \<Rightarrow> ('a, 's) session option" where
  "rewrite_path X ctx ses =
     (case ctx_route ctx of
        None \<Rightarrow> Some ses
      | Some rt \<Rightarrow>
          (case http_path rt of
             None \<Rightarrow> Some ses
           | Some path \<Rightarrow>
               (let path = (case uri_query (rh_uri (s_req_header ses)) of
                              Some q \<Rightarrow> path @ q | None \<Rightarrow> path)
                in map_option (\<lambda>new_uri. set_uri new_uri ses) (build_uri X path))))"

text \<open>
  The body of the loop over \<open>on_request_headers\<close>, the same text in \<open>request_filter\<close> and
  \<open>upstream_request_filter\<close>: it leaves the loop with the status and body of the local reply.
\<close>

definition headers_module ::
  "'w plugin_http_module \<Rightarrow> http_context \<times> 'w world \<Rightarrow>
   ((u16 \<times> bytes) option \<times> http_context \<times> 'w world) option" where
  "headers_module module s =
     (case on_request_headers module of
        None \<Rightarrow> Some (None, s)
      | Some request_cb \<Rightarrow> do {
          (outcome, ctx, W) \<leftarrow> run_hook HttpProto OnRequestHeaders (http_instance module) request_cb s;
          if response ctx \<noteq> None \<or> hook_action_u8 (action outcome) = hook_action_u8 Replace
          then do {
            (ctx, W) \<leftarrow> run_ignored HttpProto OnLocalReply (http_instance module)
                          (on_local_reply module) (ctx, W);
            Some (map_option (\<lambda>r. (status r, resp_body r)) (response ctx), ctx, W)
          }
          else Some (None, ctx, W)
        })"

definition respond ::
  "('a, 's, 'p, 'e) pingora \<Rightarrow> u16 \<times> bytes \<Rightarrow> ('a, 's) session \<Rightarrow>
   (unit, 'e proxy_error) result \<times> ('a, 's) session" where
  "respond X = (\<lambda>(st, body) ses.
     (let (r, io) = respond_error_with_body X st body (s_io ses)
      in (map_err Pingora r, ses\<lparr>s_io := io\<rparr>)))"

definition plugin_request_filter ::
  "('a, 's, 'p, 'e) pingora \<Rightarrow> 'w plugin_http_module list \<Rightarrow> (bool, 'a, 's, 'w, 'e) http_method" where
  "plugin_request_filter X mods = (\<lambda>(ses, ctx, W). do {
     ses \<leftarrow> rewrite_path X ctx ses;
     (short_circuit, ctx, W) \<leftarrow> for_until headers_module mods (ctx, W);
     (case short_circuit of
        None \<Rightarrow> Some (Ok False, ses, ctx, W)
      | Some reply \<Rightarrow>
          (let (r, ses) = respond X reply ses
           in Some (and_then r (\<lambda>_. Ok True), ses, ctx, W)))
   })"

definition populate_resp_body_into_ctx :: "bytes option \<Rightarrow> http_context \<Rightarrow> http_context" where
  "populate_resp_body_into_ctx body ctx =
     (case (body, response ctx) of
        (Some c, Some resp) \<Rightarrow> ctx\<lparr>response := Some (resp\<lparr>resp_body := resp_body resp @ c\<rparr>)\<rparr>
      | _ \<Rightarrow> ctx)"

definition populate_req_body_into_ctx :: "bytes option \<Rightarrow> http_context \<Rightarrow> http_context" where
  "populate_req_body_into_ctx body ctx =
     (case (body, request ctx) of
        (Some c, Some req) \<Rightarrow> ctx\<lparr>request := Some (req\<lparr>req_body := req_body req @ c\<rparr>)\<rparr>
      | _ \<Rightarrow> ctx)"

definition plugin_request_body_filter ::
  "'w plugin_http_module list \<Rightarrow> bytes option \<Rightarrow> bool \<Rightarrow> (unit, 'a, 's, 'w, 'e) http_method" where
  "plugin_request_body_filter mods body end_of_stream = (\<lambda>(ses, ctx, W). do {
     (ctx, W) \<leftarrow> for_each
       (\<lambda>module. run_ignored HttpProto OnRequestBody (http_instance module) (on_request_body module))
       mods (populate_req_body_into_ctx body ctx, W);
     Some (Ok (), ses, ctx, W)
   })"

text \<open>The \<open>Host\<close> header is set only when the route has a path; the upstream is then unwrapped.\<close>

definition set_host_header ::
  "('a, 's, 'p, 'e) pingora \<Rightarrow> http_context \<Rightarrow> request_header \<Rightarrow> request_header option" where
  "set_host_header X ctx upstream_request =
     (case ctx_route ctx of
        None \<Rightarrow> Some upstream_request
      | Some rt \<Rightarrow>
          if http_path rt \<noteq> None
          then do {
            upstream \<leftarrow> upstream_to_set rt;
            insert_header X ''Host'' (sa_host upstream) upstream_request
          }
          else Some upstream_request)"

definition plugin_upstream_request_filter ::
  "('a, 's, 'p, 'e) pingora \<Rightarrow> 'w plugin_http_module list \<Rightarrow> request_header \<Rightarrow> ('a, 's, 'w) flow \<Rightarrow>
   ((unit, 'e proxy_error) result \<times> request_header \<times> ('a, 's, 'w) flow) option" where
  "plugin_upstream_request_filter X mods upstream_request = (\<lambda>(ses, ctx, W). do {
     upstream_request \<leftarrow> set_host_header X ctx upstream_request;
     (short_circuit, ctx, W) \<leftarrow> for_until headers_module mods (ctx, W);
     (case short_circuit of
        None \<Rightarrow> Some (Ok (), upstream_request, ses, ctx, W)
      | Some reply \<Rightarrow>
          (let (r, ses) = respond X reply ses
           in Some (and_then r (\<lambda>_. Ok ()), upstream_request, ses, ctx, W)))
   })"

definition plugin_response_filter ::
  "'w plugin_http_module list \<Rightarrow> response_header \<Rightarrow> ('a, 's, 'w) flow \<Rightarrow>
   ((unit, 'e proxy_error) result \<times> response_header \<times> ('a, 's, 'w) flow) option" where
  "plugin_response_filter mods upstream_response = (\<lambda>(ses, ctx, W). do {
     (ctx, W) \<leftarrow> for_each
       (\<lambda>module. run_ignored HttpProto OnResponseHeaders (http_instance module)
                   (on_response_headers module))
       mods (ctx, W);
     Some (Ok (), upstream_response, ses, ctx, W)
   })"

definition response_body_module ::
  "bool \<Rightarrow> 'w plugin_http_module \<Rightarrow> http_context \<times> 'w world \<Rightarrow> (http_context \<times> 'w world) option" where
  "response_body_module end_of_stream module s = do {
     s \<leftarrow> run_ignored HttpProto OnResponseBody (http_instance module) (on_response_body module) s;
     if end_of_stream
     then run_ignored HttpProto OnTrailers (http_instance module) (on_trailers module) s
     else Some s
   }"

definition plugin_response_body_filter ::
  "'w plugin_http_module list \<Rightarrow> bytes option \<Rightarrow> bool \<Rightarrow> (nat option, 'a, 's, 'w, 'e) http_method" where
  "plugin_response_body_filter mods body end_of_stream = (\<lambda>(ses, ctx, W). do {
     (ctx, W) \<leftarrow> for_each (response_body_module end_of_stream) mods
                  (populate_resp_body_into_ctx body ctx, W);
     Some (Ok None, ses, ctx, W)
   })"

text \<open>\<open>impl HttpProxyHooks for PluginProxyHooks\<close>.\<close>

definition plugin_http_hooks ::
  "('a, 's, 'p, 'e) pingora \<Rightarrow> 'w plugin_proxy_hooks \<Rightarrow> ('a, 's, 'w, 'p, 'e) http_proxy_hooks" where
  "plugin_http_hooks X self =
     \<lparr>early_request_filter = plugin_early_request_filter X,
      upstream_peer = plugin_upstream_peer X (http_modules self),
      request_filter = plugin_request_filter X (http_modules self),
      request_body_filter = plugin_request_body_filter (http_modules self),
      upstream_request_filter = plugin_upstream_request_filter X (http_modules self),
      response_filter = plugin_response_filter (http_modules self),
      response_body_filter = plugin_response_body_filter (http_modules self),
      logging = default_logging\<rparr>"

section \<open>The calls the filters make\<close>

definition hook_trace :: "proto \<Rightarrow> phase \<Rightarrow> inst_ptr \<Rightarrow> 'f option \<Rightarrow> call list" where
  "hook_trace k ph inst hook = (case hook of None \<Rightarrow> [] | Some _ \<Rightarrow> [Hook k ph inst])"

lemma hook_trace_simps [simp]:
  "hook_trace k ph inst None = []"
  "hook_trace k ph inst (Some cb) = [Hook k ph inst]"
  by (simp_all add: hook_trace_def)

text \<open>A step that calls nothing but hooks of the given protocol.\<close>

definition hooks_ext :: "proto \<Rightarrow> 'w world \<Rightarrow> 'w world \<Rightarrow> bool" where
  "hooks_ext k W W' \<longleftrightarrow> (\<exists>cs. calls W' = calls W @ cs \<and> (\<forall>c \<in> set cs. \<exists>ph i. c = Hook k ph i))"

lemma hooks_ext_refl [simp, intro]: "hooks_ext k W W"
  by (simp add: hooks_ext_def)

lemma hooks_ext_trans: "hooks_ext k W V \<Longrightarrow> hooks_ext k V U \<Longrightarrow> hooks_ext k W U"
  by (fastforce simp: hooks_ext_def)

lemma hooks_ext_trace:
  "calls W' = calls W @ cs \<Longrightarrow> \<forall>c \<in> set cs. \<exists>ph i. c = Hook k ph i \<Longrightarrow> hooks_ext k W W'"
  by (auto simp: hooks_ext_def)

lemma hook_trace_hooks: "c \<in> set (hook_trace k ph inst h) \<Longrightarrow> c = Hook k ph inst"
  by (cases h) simp_all

lemma run_hook_calls:
  "run_hook k ph inst cb (ctx, W) = Some (r, ctx', W') \<Longrightarrow> calls W' = calls W @ [Hook k ph inst]"
  by (auto simp: run_hook_def dest!: call_hook_calls split: Option.bind_splits)

lemma run_ignored_calls:
  "run_ignored k ph inst h (ctx, W) = Some (ctx', W') \<Longrightarrow>
   calls W' = calls W @ hook_trace k ph inst h"
  by (auto simp: run_ignored_def dest: run_hook_calls split: option.splits)

text \<open>Running one hook of every module leaves the trace of the modules that have it, in order.\<close>

lemma for_each_calls:
  assumes "for_each f ms (ctx, W) = Some (ctx', W')"
    and "\<And>m c V c' V'. m \<in> set ms \<Longrightarrow> f m (c, V) = Some (c', V') \<Longrightarrow> calls V' = calls V @ tr m"
  shows "calls W' = calls W @ concat (map tr ms)"
proof -
  have "case (ctx', W') of (c, V) \<Rightarrow> calls V = calls W @ concat (map tr ms)"
    by (rule for_each_induct[OF assms(1), where P = "\<lambda>ys (c, V). calls V = calls W @ concat (map tr ys)"])
      (auto dest: assms(2))
  then show ?thesis by simp
qed

section \<open>Choosing the upstream\<close>

text \<open>What a module's route hook decided, from its outcome and the context it left.\<close>

datatype verdict = Undecided | Selected socket_address "string option" | Rejected

definition verdict_of :: "hook_outcome \<Rightarrow> http_context \<Rightarrow> verdict" where
  "verdict_of outcome ctx =
     (case ctx_route ctx of
        None \<Rightarrow> Undecided
      | Some rt \<Rightarrow>
          (case action outcome of
             Continue \<Rightarrow> Undecided
           | Drop \<Rightarrow> Rejected
           | Replace \<Rightarrow>
               (case upstream_to_set rt of
                  None \<Rightarrow> Undecided
                | Some u \<Rightarrow> Selected u (http_path rt))))"

text \<open>All the modules were asked in order, each in the state the one before left, and none decided.\<close>

inductive consulted ::
  "'w plugin_http_module list \<Rightarrow> http_context \<times> 'w world \<Rightarrow> http_context \<times> 'w world \<Rightarrow> bool" where
  consulted_nil: "consulted [] s s"
| consulted_skip: "http_on_route m = None \<Longrightarrow> consulted ms s s' \<Longrightarrow> consulted (m # ms) s s'"
| consulted_ask:
    "http_on_route m = Some cb \<Longrightarrow>
     run_hook HttpProto OnRoute (http_instance m) cb s = Some (outcome, ctx, W) \<Longrightarrow>
     verdict_of outcome ctx = Undecided \<Longrightarrow> consulted ms (ctx, W) s' \<Longrightarrow> consulted (m # ms) s s'"

inductive_simps consulted_Nil_iff [simp]: "consulted [] s s'"
inductive_cases consulted_ConsE: "consulted (m # ms) s s'"

text \<open>A module passes, decides, or panics; \<open>route_module\<close> case by case.\<close>

lemma route_module_ask:
  assumes "http_on_route m = Some cb"
    and "run_hook HttpProto OnRoute (http_instance m) cb s = Some (outcome, ctx, W)"
  shows "route_module X m (ses, s) =
    (case verdict_of outcome ctx of
       Undecided \<Rightarrow> Some (None, ses, ctx, W)
     | Rejected \<Rightarrow> Some (Some (Err (HTTPStatus 503 ''plugin rejected request'')), ses, ctx, W)
     | Selected u path \<Rightarrow>
         Option.bind path (\<lambda>path. Option.bind (build_uri X path) (\<lambda>uri.
           Option.bind (http_peer_new X (sa_host u, sa_port u) (sa_port u = 443) (sa_host u))
             (\<lambda>peer. Some (Some (Ok peer), set_uri uri ses, ctx, W)))))"
proof (cases "ctx_route ctx")
  case None
  with assms show ?thesis by (cases s) (simp add: route_module_def verdict_of_def)
next
  case (Some rt)
  note rt = this
  show ?thesis
  proof (cases "action outcome")
    case Replace
    with rt assms show ?thesis
      by (cases s; cases "upstream_to_set rt")
        (simp_all add: route_module_def verdict_of_def is_port_https_def)
  qed (use rt assms in \<open>cases s, simp add: route_module_def verdict_of_def\<close>)+
qed

lemma route_module_undecided:
  "http_on_route m = Some cb \<Longrightarrow>
   run_hook HttpProto OnRoute (http_instance m) cb s = Some (outcome, ctx, W) \<Longrightarrow>
   verdict_of outcome ctx = Undecided \<Longrightarrow> route_module X m (ses, s) = Some (None, ses, ctx, W)"
  by (simp add: route_module_ask)

lemma route_module_skip [simp]:
  "http_on_route m = None \<Longrightarrow> route_module X m (ses, s) = Some (None, ses, s)"
  by (cases s) (simp add: route_module_def)

lemma route_module_cases:
  assumes "route_module X m (ses, s) = Some (d, t)"
  obtains "http_on_route m = None" "d = None" "t = (ses, s)"
  | cb outcome ctx W where "http_on_route m = Some cb"
      "run_hook HttpProto OnRoute (http_instance m) cb s = Some (outcome, ctx, W)"
proof (cases "http_on_route m")
  case None
  with assms that(1) show ?thesis by simp
next
  case (Some cb)
  with assms show ?thesis
    using that(2) by (cases s) (auto simp: route_module_def split: Option.bind_splits)
qed

lemma route_module_None_iff:
  "route_module X m (ses, s) = Some (None, ses', s') \<longleftrightarrow> ses' = ses \<and>
     (http_on_route m = None \<and> s' = s \<or>
      (\<exists>cb outcome. http_on_route m = Some cb \<and>
         run_hook HttpProto OnRoute (http_instance m) cb s = Some (outcome, s') \<and>
         verdict_of outcome (fst s') = Undecided))" (is "?L \<longleftrightarrow> ?R")
proof
  assume L: ?L
  then show ?R
  proof (cases rule: route_module_cases)
    case (2 cb outcome ctx W)
    with L show ?thesis by (auto simp: route_module_ask split: verdict.splits Option.bind_splits)
  qed simp
qed (cases s', auto simp: route_module_ask)

lemma route_module_Some_iff:
  "route_module X m (ses, s) = Some (Some r, ses', ctx', W') \<longleftrightarrow>
     (\<exists>cb outcome. http_on_route m = Some cb \<and>
        run_hook HttpProto OnRoute (http_instance m) cb s = Some (outcome, ctx', W') \<and>
        (verdict_of outcome ctx' = Rejected \<and> r = Err (HTTPStatus 503 ''plugin rejected request'') \<and>
           ses' = ses \<or>
         (\<exists>u path uri peer. verdict_of outcome ctx' = Selected u (Some path) \<and>
            build_uri X path = Some uri \<and>
            http_peer_new X (sa_host u, sa_port u) (sa_port u = 443) (sa_host u) = Some peer \<and>
            r = Ok peer \<and> ses' = set_uri uri ses)))" (is "?L \<longleftrightarrow> ?R")
proof
  assume L: ?L
  then show ?R
  proof (cases rule: route_module_cases)
    case (2 cb outcome ctx W)
    with L show ?thesis by (auto simp: route_module_ask split: verdict.splits Option.bind_splits)
  qed simp
qed (auto simp: route_module_ask)

lemma route_module_panics:
  "http_on_route m = Some cb \<Longrightarrow>
   run_hook HttpProto OnRoute (http_instance m) cb s = Some (outcome, s') \<Longrightarrow>
   verdict_of outcome (fst s') = Selected u None \<Longrightarrow> route_module X m (ses, s) = None"
  by (cases s') (simp add: route_module_ask)

lemma route_loop_None_iff:
  "for_until (route_module X) ms (ses, s) = Some (None, ses', s') \<longleftrightarrow> ses' = ses \<and> consulted ms s s'"
proof (induction ms arbitrary: s)
  case Nil
  then show ?case by auto
next
  case (Cons m ms)
  show ?case (is "?L \<longleftrightarrow> ?R")
  proof
    assume ?L
    then obtain t where t: "route_module X m (ses, s) = Some (None, t)"
      "for_until (route_module X) ms t = Some (None, ses', s')"
      unfolding for_until_None_Cons by blast
    obtain ses1 s1 where ts: "t = (ses1, s1)" by (cases t)
    with t have "ses1 = ses" by (simp add: route_module_None_iff)
    with t ts have "ses' = ses" "consulted ms s1 s'" by (simp_all add: Cons.IH)
    moreover have "consulted (m # ms) s s'"
      using t(1) \<open>consulted ms s1 s'\<close> unfolding ts route_module_None_iff
      by (cases s1) (auto intro: consulted_skip consulted_ask)
    ultimately show ?R by simp
  next
    assume ?R
    then have ses: "ses' = ses" and c: "consulted (m # ms) s s'" by auto
    show ?L
    proof (rule consulted_ConsE[OF c])
      assume skip: "http_on_route m = None" "consulted ms s s'"
      then have "for_until (route_module X) ms (ses, s) = Some (None, ses', s')"
        using ses Cons.IH[of s] by simp
      moreover have "route_module X m (ses, s) = Some (None, ses, s)"
        by (rule route_module_skip) (rule skip(1))
      ultimately show ?L unfolding for_until_None_Cons by blast
    next
      fix cb outcome ctx W
      assume ask: "http_on_route m = Some cb" "verdict_of outcome ctx = Undecided"
        "run_hook HttpProto OnRoute (http_instance m) cb s = Some (outcome, ctx, W)"
        "consulted ms (ctx, W) s'"
      then have "for_until (route_module X) ms (ses, ctx, W) = Some (None, ses', s')"
        using ses Cons.IH[of "(ctx, W)"] by simp
      moreover have "route_module X m (ses, s) = Some (None, ses, ctx, W)"
        using ask by (simp add: route_module_ask)
      ultimately show ?L unfolding for_until_None_Cons by blast
    qed
  qed
qed

lemma route_loop_Some_iff:
  "for_until (route_module X) ms (ses, s) = Some (Some r, t) \<longleftrightarrow>
     (\<exists>pre m post s1. ms = pre @ m # post \<and> consulted pre s s1 \<and>
        route_module X m (ses, s1) = Some (Some r, t))" (is "?L \<longleftrightarrow> ?R")
proof
  assume ?L
  then obtain pre m post u where "ms = pre @ m # post"
    "for_until (route_module X) pre (ses, s) = Some (None, u)" "route_module X m u = Some (Some r, t)"
    unfolding for_until_Some_iff by blast
  then show ?R by (cases u) (auto simp: route_loop_None_iff)
next
  assume ?R
  then obtain pre m post s1 where "ms = pre @ m # post" "consulted pre s s1"
    "route_module X m (ses, s1) = Some (Some r, t)" by blast
  then have "for_until (route_module X) pre (ses, s) = Some (None, ses, s1)"
    by (simp add: route_loop_None_iff)
  with \<open>ms = _\<close> \<open>route_module X m _ = _\<close> show ?L unfolding for_until_Some_iff by blast
qed

text \<open>The trace of the route hooks.\<close>

definition route_trace :: "'w plugin_http_module list \<Rightarrow> call list" where
  "route_trace ms = concat (map (\<lambda>m. hook_trace HttpProto OnRoute (http_instance m) (http_on_route m)) ms)"

lemma consulted_calls:
  "consulted ms s s' \<Longrightarrow> calls (snd s') = calls (snd s) @ route_trace ms"
proof (induction rule: consulted.induct)
  case (consulted_ask m cb s outcome ctx W ms s')
  then show ?case
    using run_hook_calls[of HttpProto OnRoute "http_instance m" cb "fst s" "snd s"]
    by (auto simp: route_trace_def)
qed (simp_all add: route_trace_def)

section \<open>Local replies\<close>

text \<open>
  All the modules were asked for a local reply and let the request pass: a module that neither
  leaves a response in the context nor asks for \<open>Replace\<close> is not called back; one that does is,
  and passes when there is no response in the context even then.
\<close>

inductive passed ::
  "'w plugin_http_module list \<Rightarrow> http_context \<times> 'w world \<Rightarrow> http_context \<times> 'w world \<Rightarrow> bool" where
  passed_nil: "passed [] s s"
| passed_skip: "on_request_headers m = None \<Longrightarrow> passed ms s s' \<Longrightarrow> passed (m # ms) s s'"
| passed_silent:
    "on_request_headers m = Some cb \<Longrightarrow>
     run_hook HttpProto OnRequestHeaders (http_instance m) cb s = Some (outcome, ctx, W) \<Longrightarrow>
     response ctx = None \<Longrightarrow> action outcome \<noteq> Replace \<Longrightarrow>
     passed ms (ctx, W) s' \<Longrightarrow> passed (m # ms) s s'"
| passed_unanswered:
    "on_request_headers m = Some cb \<Longrightarrow>
     run_hook HttpProto OnRequestHeaders (http_instance m) cb s = Some (outcome, ctx, W) \<Longrightarrow>
     response ctx \<noteq> None \<or> action outcome = Replace \<Longrightarrow>
     run_ignored HttpProto OnLocalReply (http_instance m) (on_local_reply m) (ctx, W) = Some (ctx1, W1) \<Longrightarrow>
     response ctx1 = None \<Longrightarrow> passed ms (ctx1, W1) s' \<Longrightarrow> passed (m # ms) s s'"

inductive_simps passed_Nil_iff [simp]: "passed [] s s'"
inductive_simps passed_Cons_iff: "passed (m # ms) s s'"

text \<open>A module left a reply: a response is in its context after its headers hook, or it asked for
  \<open>Replace\<close>, and after its \<open>on_local_reply\<close> hook the context holds the response.\<close>

definition left_reply ::
  "'w plugin_http_module \<Rightarrow> http_context \<times> 'w world \<Rightarrow> http_response \<Rightarrow> http_context \<times> 'w world \<Rightarrow> bool" where
  "left_reply m s rep s' \<longleftrightarrow>
     (\<exists>cb outcome ctx W. on_request_headers m = Some cb \<and>
        run_hook HttpProto OnRequestHeaders (http_instance m) cb s = Some (outcome, ctx, W) \<and>
        (response ctx \<noteq> None \<or> action outcome = Replace) \<and>
        run_ignored HttpProto OnLocalReply (http_instance m) (on_local_reply m) (ctx, W) = Some s' \<and>
        response (fst s') = Some rep)"

lemma headers_module_ask:
  assumes "on_request_headers m = Some cb"
    and "run_hook HttpProto OnRequestHeaders (http_instance m) cb s = Some (outcome, ctx, W)"
  shows "headers_module m s =
    (if response ctx \<noteq> None \<or> action outcome = Replace
     then map_option (\<lambda>s. (map_option (\<lambda>r. (status r, resp_body r)) (response (fst s)), s))
       (run_ignored HttpProto OnLocalReply (http_instance m) (on_local_reply m) (ctx, W))
     else Some (None, ctx, W))"
  using assms by (auto simp: headers_module_def map_option_case split: Option.bind_splits option.splits)

lemma headers_module_cases:
  assumes "headers_module m s = Some (d, t)"
  obtains "on_request_headers m = None" "d = None" "t = s"
  | cb outcome ctx W where "on_request_headers m = Some cb"
      "run_hook HttpProto OnRequestHeaders (http_instance m) cb s = Some (outcome, ctx, W)"
  using assms by (cases "on_request_headers m") (auto simp: headers_module_def split: Option.bind_splits)

lemma headers_module_Some_iff:
  "headers_module m s = Some (Some x, s') \<longleftrightarrow>
     (\<exists>rep. left_reply m s rep s' \<and> x = (status rep, resp_body rep))" (is "?L \<longleftrightarrow> ?R")
proof
  assume L: ?L
  then show ?R
  proof (cases rule: headers_module_cases)
    case (2 cb outcome ctx W)
    with L show ?thesis by (auto simp: headers_module_ask left_reply_def split: if_splits)
  qed simp
next
  assume ?R
  then show ?L by (auto simp: left_reply_def headers_module_ask)
qed

lemma headers_module_None_iff:
  "headers_module m s = Some (None, s') \<longleftrightarrow> passed [m] s s'" (is "?L \<longleftrightarrow> ?R")
proof
  assume L: ?L
  then show ?R
  proof (cases rule: headers_module_cases)
    case 1
    then show ?thesis by (auto intro: passed_nil passed_skip)
  next
    case (2 cb outcome ctx W)
    with L show ?thesis
      by (cases s') (auto simp: headers_module_ask passed_Cons_iff split: if_splits)
  qed
next
  assume ?R
  then show ?L
    by (auto simp: passed_Cons_iff headers_module_ask) (simp_all add: headers_module_def)
qed

lemma passed_Cons_split: "passed (m # ms) s s' \<longleftrightarrow> (\<exists>t. passed [m] s t \<and> passed ms t s')"
proof (cases "on_request_headers m")
  case None
  then show ?thesis by (simp add: passed_Cons_iff)
next
  case (Some cb)
  then show ?thesis by (cases s') (simp add: passed_Cons_iff, blast)
qed

lemma headers_loop_None_iff: "for_until headers_module ms s = Some (None, s') \<longleftrightarrow> passed ms s s'"
proof (induction ms arbitrary: s)
  case Nil
  show ?case by auto
next
  case (Cons m ms)
  then show ?case
    by (simp only: for_until_None_Cons passed_Cons_split[of m ms] headers_module_None_iff)
qed

text \<open>The first module that leaves a reply ends the loop.\<close>

lemma headers_loop_Some_iff:
  "for_until headers_module ms s = Some (Some x, s') \<longleftrightarrow>
     (\<exists>pre m post t rep. ms = pre @ m # post \<and> passed pre s t \<and> left_reply m t rep s' \<and>
        x = (status rep, resp_body rep))"
  unfolding for_until_Some_iff headers_loop_None_iff headers_module_Some_iff by blast

lemma headers_loop_outcomes:
  "(\<exists>d. for_until headers_module ms s = Some (d, s') \<and> P d) \<longleftrightarrow>
     passed ms s s' \<and> P None \<or>
     (\<exists>pre m post t rep. ms = pre @ m # post \<and> passed pre s t \<and> left_reply m t rep s' \<and>
        P (Some (status rep, resp_body rep)))"
  by (simp add: split_option_ex headers_loop_None_iff headers_loop_Some_iff) blast

text \<open>What is written for a reply, and what is returned.\<close>

lemma respond_iff:
  "respond X (st, body) ses = (r, ses') \<longleftrightarrow>
     (\<exists>w io. respond_error_with_body X st body (s_io ses) = (w, io) \<and> ses' = ses\<lparr>s_io := io\<rparr> \<and>
        r = map_err Pingora w)"
  by (auto simp: respond_def split: prod.split)

text \<open>The calls of \<open>on_request_headers\<close> among all calls, and those of a list of modules.\<close>

definition asked :: "call list \<Rightarrow> call list" where
  "asked cs = filter (\<lambda>c. \<exists>i. c = Hook HttpProto OnRequestHeaders i) cs"

lemma asked_simps [simp]:
  "asked [] = []"
  "asked (xs @ ys) = asked xs @ asked ys"
  "asked (Hook HttpProto OnRequestHeaders i # cs) = Hook HttpProto OnRequestHeaders i # asked cs"
  "asked (hook_trace HttpProto OnLocalReply i h) = []"
  by (simp_all add: asked_def hook_trace_def split: option.split)

definition headers_trace :: "'w plugin_http_module list \<Rightarrow> call list" where
  "headers_trace ms =
     concat (map (\<lambda>m. hook_trace HttpProto OnRequestHeaders (http_instance m) (on_request_headers m)) ms)"

lemma headers_trace_simps [simp]:
  "headers_trace [] = []"
  "headers_trace (m # ms) =
     hook_trace HttpProto OnRequestHeaders (http_instance m) (on_request_headers m) @ headers_trace ms"
  by (simp_all add: headers_trace_def)

text \<open>The reply a context holds.\<close>

definition reply_of :: "http_context \<Rightarrow> (u16 \<times> bytes) option" where
  "reply_of ctx = map_option (\<lambda>r. (status r, resp_body r)) (response ctx)"

lemma reply_of_None_iff [simp]: "reply_of ctx = None \<longleftrightarrow> response ctx = None"
  by (simp add: reply_of_def)

lemma headers_module_step:
  assumes "headers_module m (ctx, W) = Some (d, ctx', W')"
  shows "asked (calls W') =
      asked (calls W) @ hook_trace HttpProto OnRequestHeaders (http_instance m) (on_request_headers m)"
    and "hooks_ext HttpProto W W'"
    and "d = (if on_request_headers m = None then None else reply_of ctx')"
proof -
  have "asked (calls W') = asked (calls W) @
          hook_trace HttpProto OnRequestHeaders (http_instance m) (on_request_headers m) \<and>
        hooks_ext HttpProto W W' \<and> d = (if on_request_headers m = None then None else reply_of ctx')"
  proof (cases "on_request_headers m")
    case None
    with assms show ?thesis by (simp add: headers_module_def)
  next
    case (Some cb)
    with assms obtain outcome ctx1 W1 where 1:
      "run_hook HttpProto OnRequestHeaders (http_instance m) cb (ctx, W) = Some (outcome, ctx1, W1)"
      by (auto simp: headers_module_def split: Option.bind_splits)
    note c1 = run_hook_calls[OF 1]
    show ?thesis
    proof (cases "response ctx1 \<noteq> None \<or> action outcome = Replace")
      case True
      with Some 1 assms obtain ctx2 W2 where 2:
        "run_ignored HttpProto OnLocalReply (http_instance m) (on_local_reply m) (ctx1, W1) = Some (ctx2, W2)"
        and d: "d = reply_of ctx2" "ctx' = ctx2" "W' = W2"
        by (auto simp: headers_module_def reply_of_def split: Option.bind_splits)
      from c1 run_ignored_calls[OF 2] Some d show ?thesis
        by (auto intro!: hooks_ext_trace dest!: hook_trace_hooks)
    next
      case False
      with Some 1 assms have "d = None" "ctx' = ctx1" "W' = W1" by (auto simp: headers_module_def)
      with c1 Some False show ?thesis by (auto intro!: hooks_ext_trace simp: reply_of_def)
    qed
  qed
  then show "asked (calls W') =
      asked (calls W) @ hook_trace HttpProto OnRequestHeaders (http_instance m) (on_request_headers m)"
    and "hooks_ext HttpProto W W'"
    and "d = (if on_request_headers m = None then None else reply_of ctx')" by simp_all
qed

text \<open>
  The loop asks a prefix of the modules, all of them when there is no reply; a reply is the one
  the last module asked left in the context.
\<close>

lemma headers_loop:
  assumes "for_until headers_module ms (ctx, W) = Some (d, ctx', W')"
  shows "hooks_ext HttpProto W W' \<and>
    (\<exists>pre post. ms = pre @ post \<and> asked (calls W') = asked (calls W) @ headers_trace pre \<and>
       (if d = None then post = []
        else d = reply_of ctx' \<and> pre \<noteq> [] \<and> on_request_headers (last pre) \<noteq> None))"
  using assms
proof (induction ms arbitrary: ctx W)
  case Nil
  then show ?case by simp
next
  case (Cons m ms)
  then obtain e ctx1 W1 where 1: "headers_module m (ctx, W) = Some (e, ctx1, W1)"
    by (auto split: Option.bind_splits)
  note step = headers_module_step[OF 1]
  show ?case
  proof (cases e)
    case None
    with 1 Cons.prems have "for_until headers_module ms (ctx1, W1) = Some (d, ctx', W')" by simp
    from Cons.IH[OF this] obtain pre post where
      h: "hooks_ext HttpProto W1 W'" "ms = pre @ post"
        "asked (calls W') = asked (calls W1) @ headers_trace pre"
        "if d = None then post = [] else d = reply_of ctx' \<and> pre \<noteq> [] \<and> on_request_headers (last pre) \<noteq> None"
      by blast
    from h(4) have "if d = None then post = [] else d = reply_of ctx' \<and> m # pre \<noteq> [] \<and>
        on_request_headers (last (m # pre)) \<noteq> None"
      by (auto split: if_splits)
    with h step(1) have "m # ms = (m # pre) @ post \<and>
        asked (calls W') = asked (calls W) @ headers_trace (m # pre) \<and>
        (if d = None then post = [] else d = reply_of ctx' \<and> m # pre \<noteq> [] \<and>
          on_request_headers (last (m # pre)) \<noteq> None)"
      by simp
    with hooks_ext_trans[OF step(2) h(1)] show ?thesis by blast
  next
    case (Some rep)
    with 1 Cons.prems have d: "d = e" "ctx' = ctx1" "W' = W1" by auto
    with Some step have "m # ms = [m] @ ms \<and> asked (calls W') = asked (calls W) @ headers_trace [m] \<and>
        (if d = None then ms = [] else d = reply_of ctx' \<and> [m] \<noteq> [] \<and>
          on_request_headers (last [m]) \<noteq> None)"
      by (auto split: if_splits)
    with d step(2) show ?thesis by blast
  qed
qed

section \<open>The contract of a hook implementation\<close>

text \<open>The stream of body chunks pingora feeds a body filter, one call per chunk.\<close>

fun feed ::
  "(bytes option \<Rightarrow> bool \<Rightarrow> ('r, 'a, 's, 'w, 'e) http_method) \<Rightarrow> (bytes option \<times> bool) list \<Rightarrow>
   ('a, 's, 'w) flow \<Rightarrow> (('r, 'e proxy_error) result list \<times> ('a, 's, 'w) flow) option" where
  "feed f [] s = Some ([], s)"
| "feed f ((body, eos) # cs) s = do {
     (r, s) \<leftarrow> f body eos s;
     (rs, s) \<leftarrow> feed f cs s;
     Some (r # rs, s)
   }"

lemma feed_law:
  assumes law: "\<And>body eos ses ctx W r ses' ctx' W'. f body eos (ses, ctx, W) = Some (r, ses', ctx', W') \<Longrightarrow>
      r = v \<and> ses' = ses \<and> hooks_ext HttpProto W W'"
    and "feed f cs (ses, ctx, W) = Some (rs, ses', ctx', W')"
  shows "rs = replicate (length cs) v \<and> ses' = ses \<and> hooks_ext HttpProto W W'"
  using assms(2)
proof (induction cs arbitrary: ctx W rs ses)
  case Nil
  then show ?case by simp
next
  case (Cons c cs)
  obtain body eos where c: "c = (body, eos)" by (cases c)
  with Cons.prems obtain r ses1 ctx1 W1 rs1 where
    1: "f body eos (ses, ctx, W) = Some (r, ses1, ctx1, W1)"
    and 2: "feed f cs (ses1, ctx1, W1) = Some (rs1, ses', ctx', W')"
    and rs: "rs = r # rs1"
    by (auto split: Option.bind_splits)
  from law[OF 1] Cons.IH[OF 2] show ?case
    by (auto simp: rs intro: hooks_ext_trans)
qed

text \<open>
  What the proxy can count on for any hooks: body and response filters never fail and leave the
  session alone, choosing a peer writes nothing to the client, a request filter that does not
  claim the request has written nothing, and nothing but HTTP hooks of plugins is called.
\<close>

locale http_hooks =
  fixes H :: "('a, 's, 'w, 'p, 'e) http_proxy_hooks"
  assumes request_body_law:
      "request_body_filter H body eos (ses, ctx, W) = Some (r, ses', ctx', W') \<Longrightarrow>
       r = Ok () \<and> ses' = ses \<and> hooks_ext HttpProto W W'"
    and response_law:
      "response_filter H up (ses, ctx, W) = Some (r, up', ses', ctx', W') \<Longrightarrow>
       r = Ok () \<and> ses' = ses \<and> hooks_ext HttpProto W W'"
    and response_body_law:
      "response_body_filter H body eos (ses, ctx, W) = Some (d, ses', ctx', W') \<Longrightarrow>
       d = Ok None \<and> ses' = ses \<and> hooks_ext HttpProto W W'"
    and upstream_peer_law:
      "upstream_peer H (ses, ctx, W) = Some (p, ses', ctx', W') \<Longrightarrow>
       s_io ses' = s_io ses \<and> hooks_ext HttpProto W W'"
    and request_filter_law:
      "request_filter H (ses, ctx, W) = Some (b, ses', ctx', W') \<Longrightarrow>
       (b = Ok False \<longrightarrow> s_io ses' = s_io ses) \<and> hooks_ext HttpProto W W'"
begin

lemma request_stream:
  "feed (request_body_filter H) cs (ses, ctx, W) = Some (rs, ses', ctx', W') \<Longrightarrow>
   rs = replicate (length cs) (Ok ()) \<and> ses' = ses \<and> hooks_ext HttpProto W W'"
  by (rule feed_law[of "request_body_filter H"]) (rule request_body_law)

lemma response_stream:
  "feed (response_body_filter H) cs (ses, ctx, W) = Some (rs, ses', ctx', W') \<Longrightarrow>
   rs = replicate (length cs) (Ok None) \<and> ses' = ses \<and> hooks_ext HttpProto W W'"
  by (rule feed_law[of "response_body_filter H"]) (rule response_body_law)

end

interpretation noop_hooks: http_hooks noop_proxy_hooks
  by unfold_locales (auto simp: noop_proxy_hooks_def)

text \<open>\<open>PluginProxyHooks\<close> keeps the contract for any plugins.\<close>

lemma run_ignored_ext:
  "run_ignored k ph inst h (ctx, W) = Some (ctx', W') \<Longrightarrow> hooks_ext k W W'"
  by (rule hooks_ext_trace[OF run_ignored_calls]) (auto dest: hook_trace_hooks)

lemma for_each_ext:
  assumes "for_each f ms (ctx, W) = Some (ctx', W')"
    and "\<And>m c V c' V'. f m (c, V) = Some (c', V') \<Longrightarrow> hooks_ext k V V'"
  shows "hooks_ext k W W'"
proof -
  have "case (ctx', W') of (c, V) \<Rightarrow> hooks_ext k W V"
    by (rule for_each_invariant[OF assms(1), where P = "\<lambda>(c, V). hooks_ext k W V"])
      (auto intro: hooks_ext_trans assms(2))
  then show ?thesis by simp
qed

lemma response_body_module_calls:
  "response_body_module eos m (ctx, W) = Some (ctx', W') \<Longrightarrow>
   calls W' = calls W @ hook_trace HttpProto OnResponseBody (http_instance m) (on_response_body m) @
     (if eos then hook_trace HttpProto OnTrailers (http_instance m) (on_trailers m) else [])"
  by (auto simp: response_body_module_def dest!: run_ignored_calls split: Option.bind_splits if_splits)

lemma response_body_module_ext:
  "response_body_module eos m (ctx, W) = Some (ctx', W') \<Longrightarrow> hooks_ext HttpProto W W'"
  by (rule hooks_ext_trace[OF response_body_module_calls]) (auto dest: hook_trace_hooks split: if_splits)

lemma consulted_ext:
  assumes "consulted ms s s'"
  shows "hooks_ext HttpProto (snd s) (snd s')"
  by (rule hooks_ext_trace[OF consulted_calls[OF assms]])
    (auto simp: route_trace_def dest: hook_trace_hooks)

lemma plugin_upstream_peer_ext:
  assumes "plugin_upstream_peer X ms (ses, ctx, W) = Some (p, ses', ctx', W')"
  shows "s_io ses' = s_io ses \<and> hooks_ext HttpProto W W'"
proof -
  from assms obtain d where d: "for_until (route_module X) ms (ses, ctx, W) = Some (d, ses', ctx', W')"
    by (auto simp: plugin_upstream_peer_def split: Option.bind_splits)
  show ?thesis
  proof (cases d)
    case None
    with d have "ses' = ses \<and> consulted ms (ctx, W) (ctx', W')" by (simp add: route_loop_None_iff)
    then show ?thesis by (auto dest: consulted_ext)
  next
    case (Some r)
    from d[unfolded Some for_until_Some_iff] obtain pre m post t where
      "for_until (route_module X) pre (ses, ctx, W) = Some (None, t)"
      "route_module X m t = Some (Some r, ses', ctx', W')" by blast
    moreover obtain ses1 c1 V where t: "t = (ses1, c1, V)" by (cases t)
    ultimately have c: "ses1 = ses" "consulted pre (ctx, W) (c1, V)"
      and m: "route_module X m (ses, c1, V) = Some (Some r, ses', ctx', W')"
      by (simp_all add: route_loop_None_iff)
    from m obtain cb outcome where
      r: "run_hook HttpProto OnRoute (http_instance m) cb (c1, V) = Some (outcome, ctx', W')"
      and s: "ses' = ses \<or> (\<exists>uri. ses' = set_uri uri ses)"
      unfolding route_module_Some_iff by blast
    from run_hook_calls[OF r] have "hooks_ext HttpProto V W'" by (rule hooks_ext_trace) simp
    with consulted_ext[OF c(2)] s show ?thesis by (auto simp: set_uri_def intro: hooks_ext_trans)
  qed
qed

lemma rewrite_path_io: "rewrite_path X ctx ses = Some ses' \<Longrightarrow> s_io ses' = s_io ses"
  by (auto simp: rewrite_path_def set_uri_def Let_def split: option.splits)

text \<open>The two places that answer a request: what is written, and what is returned.\<close>

lemma plugin_request_filter_cases:
  assumes "plugin_request_filter X ms (ses, ctx, W) = Some (r, ses', ctx', W')"
  obtains d ses1 where "rewrite_path X ctx ses = Some ses1"
    "for_until headers_module ms (ctx, W) = Some (d, ctx', W')"
    "case d of None \<Rightarrow> r = Ok False \<and> ses' = ses1
     | Some rep \<Rightarrow> r = and_then (fst (respond X rep ses1)) (\<lambda>_. Ok True) \<and> ses' = snd (respond X rep ses1)"
  using assms
  by (auto simp: plugin_request_filter_def split: Option.bind_splits option.splits prod.splits)

lemma plugin_request_filter_law:
  assumes "plugin_request_filter X ms (ses, ctx, W) = Some (b, ses', ctx', W')"
  shows "(b = Ok False \<longrightarrow> s_io ses' = s_io ses) \<and> hooks_ext HttpProto W W'"
  using assms
proof (cases rule: plugin_request_filter_cases)
  case (1 d ses1)
  with headers_loop[OF 1(2)] show ?thesis
    by (auto simp: and_then_Ok_iff dest: rewrite_path_io split: option.splits)
qed

interpretation plugin_hooks: http_hooks "plugin_http_hooks X self" for X self
proof unfold_locales
  fix body eos ses ctx W r ses' ctx' W'
  show "request_body_filter (plugin_http_hooks X self) body eos (ses, ctx, W) = Some (r, ses', ctx', W') \<Longrightarrow>
       r = Ok () \<and> ses' = ses \<and> hooks_ext HttpProto W W'"
    by (auto simp: plugin_http_hooks_def plugin_request_body_filter_def split: Option.bind_splits
        dest!: for_each_ext intro: run_ignored_ext)
next
  fix up ses ctx W r up' ses' ctx' W'
  show "response_filter (plugin_http_hooks X self) up (ses, ctx, W) = Some (r, up', ses', ctx', W') \<Longrightarrow>
       r = Ok () \<and> ses' = ses \<and> hooks_ext HttpProto W W'"
    by (auto simp: plugin_http_hooks_def plugin_response_filter_def split: Option.bind_splits
        dest!: for_each_ext intro: run_ignored_ext)
next
  fix body eos ses ctx W d ses' ctx' W'
  show "response_body_filter (plugin_http_hooks X self) body eos (ses, ctx, W) = Some (d, ses', ctx', W') \<Longrightarrow>
       d = Ok None \<and> ses' = ses \<and> hooks_ext HttpProto W W'"
    by (auto simp: plugin_http_hooks_def plugin_response_body_filter_def split: Option.bind_splits
        dest!: for_each_ext intro: response_body_module_ext)
next
  fix ses ctx W p ses' ctx' W'
  show "upstream_peer (plugin_http_hooks X self) (ses, ctx, W) = Some (p, ses', ctx', W') \<Longrightarrow>
       s_io ses' = s_io ses \<and> hooks_ext HttpProto W W'"
    by (simp add: plugin_http_hooks_def plugin_upstream_peer_ext)
next
  fix ses ctx W b ses' ctx' W'
  show "request_filter (plugin_http_hooks X self) (ses, ctx, W) = Some (b, ses', ctx', W') \<Longrightarrow>
       (b = Ok False \<longrightarrow> s_io ses' = s_io ses) \<and> hooks_ext HttpProto W W'"
    by (simp add: plugin_http_hooks_def plugin_request_filter_law)
qed

text \<open>The proxy serves the hooks it was attached with, whatever they are.\<close>

lemma proxy_http_delegates: "proxy_http (proxy_with_hooks s h) = h"
  by (simp add: proxy_http_def proxy_with_hooks_def)

section \<open>Properties\<close>

text \<open>A concrete pingora: URIs are built from any path, every peer is made, replies are recorded.\<close>

definition sample_pingora :: "(unit, (u16 \<times> bytes) list, string \<times> u16 \<times> bool, unit) pingora" where
  "sample_pingora =
     \<lparr>to_str = (\<lambda>_. Some ''''), to_socket_addrs = (\<lambda>_. None),
      build_uri = (\<lambda>p. Some \<lparr>uri_scheme = None, uri_authority = None, uri_path = p, uri_query = None\<rparr>),
      insert_header = (\<lambda>n v h. Some (h\<lparr>rh_headers := (n, utf8 v) # rh_headers h\<rparr>)),
      insert_response_header = (\<lambda>n v h. Some (h\<lparr>rsp_headers := (n, utf8 v) # rsp_headers h\<rparr>)),
      http_peer_new = (\<lambda>(h, p) tls sni. Some (h, p, tls)),
      respond_error_with_body = (\<lambda>st body io. (Ok (), io @ [(st, body)]))\<rparr>"

definition sample_header :: request_header where
  "sample_header =
     \<lparr>rh_method = ''GET'', rh_uri = \<lparr>uri_scheme = None, uri_authority = None, uri_path = ''/'',
        uri_query = None\<rparr>, rh_version = HTTP_11, rh_headers = []\<rparr>"

definition sample_session :: "(unit, (u16 \<times> bytes) list) session" where
  "sample_session =
     \<lparr>s_req_header = sample_header, s_server_addr = None, s_client_addr = None, s_io = []\<rparr>"

definition sample_transport :: "route_decision \<Rightarrow> transport_context" where
  "sample_transport rt =
     \<lparr>connection = \<lparr>conn_id = ID 7, local_addr = \<lparr>sa_host = ''127.0.0.1'', sa_port = 12345\<rparr>,
        peer_addr = None, protocol = Tcp\<rparr>, direction = Some Inbound, route = rt\<rparr>"

definition sample_ctx :: http_context where
  "sample_ctx = http_context_default\<lparr>transport := Some (sample_transport route_decision_default)\<rparr>"

definition sample_world :: "unit world" where
  "sample_world = \<lparr>plugins = (), calls = []\<rparr>"

definition sample_request :: http_request where
  "sample_request = http_request_from sample_pingora 1 sample_header"

text \<open>A hook that puts a value into the context and returns a fixed result.\<close>

definition constant_hook ::
  "('c \<Rightarrow> 'c) \<Rightarrow> (hook_outcome, plugin_error) result \<Rightarrow> ('c, 'w) hook_fn" where
  "constant_hook f r inst c w = Some (map_option f c, r, w)"

lemma run_constant_hook [simp]:
  "run_hook k ph inst (constant_hook f r) (ctx, W) =
     Some (unwrap_or r hook_outcome_default, f ctx, W\<lparr>calls := calls W @ [Hook k ph inst]\<rparr>)"
  by (simp add: run_hook_def call_hook_def constant_hook_def)

lemma run_ignored_constant_hook [simp]:
  "run_ignored k ph inst (Some (constant_hook f r)) (ctx, W) =
     Some (f ctx, W\<lparr>calls := calls W @ [Hook k ph inst]\<rparr>)"
  by (simp add: run_ignored_def)

lemmas sample_defs = sample_pingora_def sample_header_def sample_session_def sample_transport_def
  sample_ctx_def sample_world_def sample_request_def

text \<open>C2: every way \<open>upstream_peer\<close> can end without a panic. Either every module was asked and none
  decided, and the answer is 500; or the first module that decides is the last one asked, and the
  answer is 503 if its outcome was \<open>Drop\<close>, or the peer for the upstream and the path it put in the
  route (over TLS exactly for port 443) if its outcome was \<open>Replace\<close>; the request's URI is then the
  route's path. Modules after the deciding one are not called.\<close>

theorem upstream_peer_outcomes:
  "plugin_upstream_peer X ms (ses, ctx, W) = Some (r, ses', ctx', W') \<longleftrightarrow>
     ses' = ses \<and> consulted ms (ctx, W) (ctx', W') \<and>
       r = Err (HTTPStatus 500 ''no upstream was selected by plugins'') \<or>
     (\<exists>pre m post s cb outcome.
        ms = pre @ m # post \<and> consulted pre (ctx, W) s \<and> http_on_route m = Some cb \<and>
        run_hook HttpProto OnRoute (http_instance m) cb s = Some (outcome, ctx', W') \<and>
        (verdict_of outcome ctx' = Rejected \<and> r = Err (HTTPStatus 503 ''plugin rejected request'') \<and>
           ses' = ses \<or>
         (\<exists>u path uri peer. verdict_of outcome ctx' = Selected u (Some path) \<and>
            build_uri X path = Some uri \<and>
            http_peer_new X (sa_host u, sa_port u) (sa_port u = 443) (sa_host u) = Some peer \<and>
            r = Ok peer \<and> ses' = set_uri uri ses)))" (is "?L \<longleftrightarrow> ?N \<or> ?D")
proof -
  have "?L \<longleftrightarrow>
      (for_until (route_module X) ms (ses, ctx, W) = Some (None, ses', ctx', W') \<and>
         r = Err (HTTPStatus 500 ''no upstream was selected by plugins'')) \<or>
      for_until (route_module X) ms (ses, ctx, W) = Some (Some r, ses', ctx', W')"
    by (auto simp: plugin_upstream_peer_def split: Option.bind_splits option.splits)
  then show ?thesis
    by (simp only: route_loop_None_iff route_loop_Some_iff route_module_Some_iff)
      (simp only: ex_simps conj_assoc)
qed

lemma consulted_all:
  assumes "\<And>x cb s. x \<in> set ms \<Longrightarrow> http_on_route x = Some cb \<Longrightarrow>
      \<exists>outcome s'. run_hook HttpProto OnRoute (http_instance x) cb s = Some (outcome, s') \<and>
        verdict_of outcome (fst s') = Undecided"
  shows "\<exists>s'. consulted ms s s'"
  using assms
proof (induction ms arbitrary: s)
  case Nil
  show ?case by (auto intro: consulted_nil)
next
  case (Cons m ms)
  show ?case
  proof (cases "http_on_route m")
    case None
    with Cons show ?thesis by (fastforce intro: consulted_skip)
  next
    case (Some cb)
    then obtain outcome ctx1 W1 where
      "run_hook HttpProto OnRoute (http_instance m) cb s = Some (outcome, ctx1, W1)"
      "verdict_of outcome ctx1 = Undecided"
      using Cons.prems[of m cb s] by auto
    moreover obtain s' where "consulted ms (ctx1, W1) s'"
      using Cons.IH[of "(ctx1, W1)"] Cons.prems by fastforce
    ultimately show ?thesis using Some by (blast intro: consulted_ask)
  qed
qed

text \<open>C16: the errors of route hooks are ignored. If every module's route hook returns an error, each
  of them is still called, in order, and the request ends with the host's 500 whatever the hooks
  left in the context - a route, an upstream or a response of their own.\<close>

theorem route_errors_ignored:
  assumes "\<And>m cb inst c w. m \<in> set ms \<Longrightarrow> http_on_route m = Some cb \<Longrightarrow>
      \<exists>c' e w'. cb inst c w = Some (c', Err e, w')"
  shows "\<exists>ctx' W'. plugin_upstream_peer X ms (ses, ctx, W) =
      Some (Err (HTTPStatus 500 ''no upstream was selected by plugins''), ses, ctx', W') \<and>
    calls W' = calls W @ route_trace ms"
proof -
  have "\<exists>s'. consulted ms (ctx, W) s'"
  proof (rule consulted_all)
    fix m cb and s :: "http_context \<times> 'a world"
    assume "m \<in> set ms" "http_on_route m = Some cb"
    then obtain c' e w' where
      "cb (http_instance m) (Some (fst s)) (plugins (snd s)) = Some (c', Err e, w')"
      using assms by blast
    then show "\<exists>outcome s'. run_hook HttpProto OnRoute (http_instance m) cb s = Some (outcome, s') \<and>
        verdict_of outcome (fst s') = Undecided"
      by (cases s) (auto simp: run_hook_def call_hook_def verdict_of_def hook_outcome_default_def
          split: option.split)
  qed
  then obtain ctx' W' where c: "consulted ms (ctx, W) (ctx', W')" by fastforce
  then have "for_until (route_module X) ms (ses, ctx, W) = Some (None, ses, ctx', W')"
    by (simp add: route_loop_None_iff)
  with consulted_calls[OF c] show ?thesis by (simp add: plugin_upstream_peer_def)
qed

text \<open>A module that prepares a reply of its own and then fails.\<close>

definition failing_module :: "unit plugin_http_module" where
  "failing_module = http_module_default\<lparr>http_on_route := Some (constant_hook
     (\<lambda>c. c\<lparr>response := Some \<lparr>resp_stream_id = ID 1, resp_version = Http11, status = 403,
        resp_headers = [], resp_body = utf8 ''denied''\<rparr>\<rparr>)
     (Err \<lparr>message = Some ''denied''\<rparr>))\<rparr>"

theorem route_errors_ignored_witness:
  "\<exists>ctx' W'. plugin_upstream_peer sample_pingora [failing_module] (sample_session, sample_ctx, sample_world) =
      Some (Err (HTTPStatus 500 ''no upstream was selected by plugins''), sample_session, ctx', W') \<and>
    calls W' = calls sample_world @ route_trace [failing_module]"
  by (rule route_errors_ignored) (auto simp: failing_module_def constant_hook_def)

section \<open>Priorities\<close>








text \<open>C28: a module that selects an upstream but leaves the path of the route empty makes the host
  panic, whatever modules come after it.\<close>

theorem replace_without_path_panics:
  assumes "consulted pre (ctx, W) s" and "http_on_route m = Some cb"
    and "run_hook HttpProto OnRoute (http_instance m) cb s = Some (outcome, ctx', W')"
    and "verdict_of outcome ctx' = Selected u None"
  shows "plugin_upstream_peer X (pre @ m # post) (ses, ctx, W) = None"
proof -
  have "for_until (route_module X) pre (ses, ctx, W) = Some (None, ses, s)"
    using assms(1) by (simp add: route_loop_None_iff)
  moreover have "route_module X m (ses, s) = None"
    using assms(2-4) by (simp add: route_module_ask)
  ultimately show ?thesis by (simp add: plugin_upstream_peer_def for_until_append)
qed

definition pathless_module :: "unit plugin_http_module" where
  "pathless_module = http_module_default\<lparr>http_on_route := Some (constant_hook
     (\<lambda>c. snd (set_route c \<lparr>route_action = ReplaceUpstream,
        upstream_to_set = Some \<lparr>sa_host = ''10.0.0.1'', sa_port = 80\<rparr>, http_path = None\<rparr>))
     (Ok \<lparr>action = Replace\<rparr>))\<rparr>"

theorem replace_without_path_panics_witness:
  "plugin_upstream_peer sample_pingora [pathless_module] (sample_session, sample_ctx, sample_world) = None"
  using replace_without_path_panics[of "[]" sample_ctx sample_world "(sample_ctx, sample_world)"
      pathless_module _ "\<lparr>action = Replace\<rparr>" _ _ "\<lparr>sa_host = ''10.0.0.1'', sa_port = 80\<rparr>"
      sample_pingora "[]" sample_session]
  by (simp add: pathless_module_def verdict_of_def sample_ctx_def)

lemma plugin_request_filter_iff:
  "plugin_request_filter X ms (ses, ctx, W) = Some (r, ses', ctx', W') \<longleftrightarrow>
     (\<exists>ses1. rewrite_path X ctx ses = Some ses1 \<and>
        (\<exists>d. for_until headers_module ms (ctx, W) = Some (d, ctx', W') \<and>
           (case d of None \<Rightarrow> r = Ok False \<and> ses' = ses1
            | Some x \<Rightarrow> \<exists>w. respond X x ses1 = (w, ses') \<and> r = and_then w (\<lambda>_. Ok True))))"
  by (auto simp: plugin_request_filter_def split: Option.bind_splits option.splits prod.splits)

lemma and_then_map_err:
  "r = and_then (map_err f w) (\<lambda>_. Ok x) \<longleftrightarrow> r = (case w of Ok _ \<Rightarrow> Ok x | Err e \<Rightarrow> Err (f e))"
  by (cases w) simp_all

lemma and_then_map_err_unit:
  "r = and_then (map_err f w) Ok \<longleftrightarrow> r = (case w of Ok _ \<Rightarrow> Ok () | Err e \<Rightarrow> Err (f e))"
  by (cases w) simp_all

text \<open>C13: every way the request filter can end without a panic. After the path of the request is
  rewritten, either every module was asked and let the request pass, and the request is not claimed
  and nothing is written; or the modules before some module passed, that module left a reply, no
  later one was asked, and exactly that reply is written to the client: the request is claimed when
  writing works, and the error of writing is returned when it does not.\<close>

theorem request_filter_reply:
  "plugin_request_filter X ms (ses, ctx, W) = Some (r, ses', ctx', W') \<longleftrightarrow>
     (\<exists>ses1. rewrite_path X ctx ses = Some ses1 \<and>
        (passed ms (ctx, W) (ctx', W') \<and> r = Ok False \<and> ses' = ses1 \<or>
         (\<exists>pre m post s rep.
            ms = pre @ m # post \<and> passed pre (ctx, W) s \<and> left_reply m s rep (ctx', W') \<and>
            (\<exists>w io. respond_error_with_body X (status rep) (resp_body rep) (s_io ses1) = (w, io) \<and>
               ses' = ses1\<lparr>s_io := io\<rparr> \<and>
               r = (case w of Ok _ \<Rightarrow> Ok True | Err e \<Rightarrow> Err (Pingora e))))))"
  unfolding plugin_request_filter_iff headers_loop_outcomes
  by (simp add: respond_iff ex_simps(1)[symmetric] and_then_map_err del: ex_simps)

text \<open>A module that asks for a local reply and fills it in when called back.\<close>

definition sample_response :: http_response where
  "sample_response = \<lparr>resp_stream_id = ID 1, resp_version = Http11, status = 418, resp_headers = [],
     resp_body = utf8 ''teapot''\<rparr>"

definition replying_module :: "unit plugin_http_module" where
  "replying_module = http_module_default\<lparr>
     on_request_headers := Some (constant_hook id (Ok \<lparr>action = Replace\<rparr>)),
     on_local_reply := Some (constant_hook (\<lambda>c. c\<lparr>response := Some sample_response\<rparr>)
                              (Ok \<lparr>action = Continue\<rparr>))\<rparr>"

text \<open>A module that only looks at the request headers.\<close>

definition looking_module :: "unit plugin_http_module" where
  "looking_module = http_module_default\<lparr>
     on_request_headers := Some (constant_hook id (Ok \<lparr>action = Continue\<rparr>))\<rparr>"

text \<open>The calls of a chain that lets the first module pass and replies with the second.\<close>

definition replied_world :: "unit world" where
  "replied_world = \<lparr>plugins = (), calls = [Hook HttpProto OnRequestHeaders Null,
     Hook HttpProto OnRequestHeaders Null, Hook HttpProto OnLocalReply Null]\<rparr>"

lemma looking_passes:
  "passed [looking_module] (sample_ctx, sample_world)
     (sample_ctx, \<lparr>plugins = (), calls = [Hook HttpProto OnRequestHeaders Null]\<rparr>)"
  by (simp add: passed_Cons_iff looking_module_def sample_defs default_simps)

lemma replying_leaves_reply:
  "left_reply replying_module (sample_ctx, \<lparr>plugins = (), calls = [Hook HttpProto OnRequestHeaders Null]\<rparr>)
     sample_response (sample_ctx\<lparr>response := Some sample_response\<rparr>, replied_world)"
  by (simp add: left_reply_def replying_module_def default_simps replied_world_def)

lemma sample_respond:
  "respond_error_with_body sample_pingora (status sample_response) (resp_body sample_response)
     (s_io sample_session) = (Ok (), [(418, utf8 ''teapot'')])"
  by (simp add: sample_defs sample_response_def)

theorem request_filter_reply_witness:
  "plugin_request_filter sample_pingora [looking_module, replying_module, looking_module]
     (sample_session, sample_ctx, sample_world) =
   Some (Ok True, sample_session\<lparr>s_io := [(418, utf8 ''teapot'')]\<rparr>,
     sample_ctx\<lparr>response := Some sample_response\<rparr>, replied_world)"
proof (rule request_filter_reply[THEN iffD2], intro exI conjI disjI2)
  show "rewrite_path sample_pingora sample_ctx sample_session = Some sample_session"
    by (simp add: rewrite_path_def ctx_route_def sample_defs default_simps)
  show "[looking_module, replying_module, looking_module] =
      [looking_module] @ replying_module # [looking_module]" by simp
qed (rule looking_passes replying_leaves_reply sample_respond | simp)+

lemma upstream_request_filter_cases:
  assumes "plugin_upstream_request_filter X ms up (ses, ctx, W) = Some (r, up', ses', ctx', W')"
  obtains d where "set_host_header X ctx up = Some up'"
    "for_until headers_module ms (ctx, W) = Some (d, ctx', W')"
    "case d of None \<Rightarrow> r = Ok () \<and> ses' = ses
     | Some rep \<Rightarrow> r = and_then (fst (respond X rep ses)) (\<lambda>_. Ok ()) \<and> ses' = snd (respond X rep ses)"
  using assms
  by (auto simp: plugin_upstream_request_filter_def split: Option.bind_splits option.splits prod.splits)

lemma and_then_unit [simp]: "and_then r (\<lambda>_. Ok ()) = r"
  by (cases r) simp_all

text \<open>C25: the request headers phase runs twice. After a request filter that let the request pass,
  which asked every module, the filter of the upstream request asks the same modules again from
  the first one on, up to the first that leaves a reply.\<close>

theorem request_headers_run_twice:
  assumes "plugin_request_filter X ms (ses, ctx, W) = Some (Ok False, ses1, ctx1, W1)"
    and "asked (calls W2) = asked (calls W1)"
    and "plugin_upstream_request_filter X ms up (ses2, ctx2, W2) = Some (r, up', ses', ctx', W')"
  shows "\<exists>pre post. ms = pre @ post \<and>
    asked (calls W') = asked (calls W) @ headers_trace ms @ headers_trace pre \<and>
    (post = [] \<or> response ctx' \<noteq> None)"
proof -
  from assms(1) have 1: "asked (calls W1) = asked (calls W) @ headers_trace ms"
  proof (cases rule: plugin_request_filter_cases)
    case (1 d ses1)
    then have "d = None" by (auto simp: and_then_Ok_iff dest: sym split: option.splits)
    with headers_loop[OF 1(2)] show ?thesis by auto
  qed
  from assms(3) show ?thesis
  proof (cases rule: upstream_request_filter_cases)
    case (1 d)
    from headers_loop[OF 1(2)] obtain pre post where
      "ms = pre @ post" "asked (calls W') = asked (calls W2) @ headers_trace pre"
      "if d = None then post = [] else d = reply_of ctx' \<and> pre \<noteq> [] \<and> on_request_headers (last pre) \<noteq> None"
      by blast
    moreover from this(3) have "post = [] \<or> response ctx' \<noteq> None"
      by (auto split: if_splits)
    ultimately show ?thesis
      using \<open>asked (calls W1) = _\<close> assms(2) by auto
  qed
qed

theorem request_headers_run_twice_witness:
  "\<exists>pre. asked (calls (\<lparr>plugins = (), calls =
        [Hook HttpProto OnRequestHeaders Null, Hook HttpProto OnRequestHeaders Null]\<rparr> :: unit world)) =
     asked (calls sample_world) @ headers_trace [looking_module] @
     headers_trace (pre :: unit plugin_http_module list)"
proof -
  have 1: "plugin_request_filter sample_pingora [looking_module] (sample_session, sample_ctx, sample_world) =
      Some (Ok False, sample_session, sample_ctx, \<lparr>plugins = (), calls = [Hook HttpProto OnRequestHeaders Null]\<rparr>)"
    by (simp add: plugin_request_filter_def rewrite_path_def sample_defs default_simps ctx_route_def
      headers_module_def looking_module_def)
  have 2: "plugin_upstream_request_filter sample_pingora [looking_module] sample_header
      (sample_session, sample_ctx, \<lparr>plugins = (), calls = [Hook HttpProto OnRequestHeaders Null]\<rparr>) =
      Some (Ok (), sample_header, sample_session, sample_ctx,
        \<lparr>plugins = (), calls = [Hook HttpProto OnRequestHeaders Null, Hook HttpProto OnRequestHeaders Null]\<rparr>)"
    by (simp add: plugin_upstream_request_filter_def set_host_header_def sample_defs default_simps
      ctx_route_def headers_module_def looking_module_def)
  show ?thesis
    by (rule exE[OF request_headers_run_twice[OF 1 refl 2]], elim exE conjE, rule exI)
qed

text \<open>C18: every way the filter of the upstream request can end without a panic. The \<open>Host\<close> header is
  set, then the modules are asked for a reply as in the request filter. A reply does not stop the
  request: it is written to the client, and what the filter returns is only whether writing it
  worked. When it did, that is \<open>Ok\<close>, the same as when every module passed, so the request goes
  upstream although the client has been answered.\<close>

theorem upstream_reply_not_reported:
  "plugin_upstream_request_filter X ms up (ses, ctx, W) = Some (r, up', ses', ctx', W') \<longleftrightarrow>
     set_host_header X ctx up = Some up' \<and>
     (passed ms (ctx, W) (ctx', W') \<and> r = Ok () \<and> ses' = ses \<or>
      (\<exists>pre m post s rep.
         ms = pre @ m # post \<and> passed pre (ctx, W) s \<and> left_reply m s rep (ctx', W') \<and>
         (\<exists>w io. respond_error_with_body X (status rep) (resp_body rep) (s_io ses) = (w, io) \<and>
            ses' = ses\<lparr>s_io := io\<rparr> \<and>
            r = (case w of Ok _ \<Rightarrow> Ok () | Err e \<Rightarrow> Err (Pingora e)))))"
proof -
  have "plugin_upstream_request_filter X ms up (ses, ctx, W) = Some (r, up', ses', ctx', W') \<longleftrightarrow>
      set_host_header X ctx up = Some up' \<and>
      (\<exists>d. for_until headers_module ms (ctx, W) = Some (d, ctx', W') \<and>
         (case d of None \<Rightarrow> r = Ok () \<and> ses' = ses
          | Some x \<Rightarrow> \<exists>w. respond X x ses = (w, ses') \<and> r = and_then w (\<lambda>_. Ok ())))"
    by (auto simp: plugin_upstream_request_filter_def split: Option.bind_splits option.splits prod.splits)
  then show ?thesis
    unfolding headers_loop_outcomes
    by (simp add: respond_iff ex_simps(1)[symmetric] and_then_map_err_unit del: ex_simps and_then_unit)
qed

theorem upstream_reply_not_reported_witness:
  "plugin_upstream_request_filter sample_pingora [looking_module, replying_module, looking_module]
     sample_header (sample_session, sample_ctx, sample_world) =
   Some (Ok (), sample_header, sample_session\<lparr>s_io := [(418, utf8 ''teapot'')]\<rparr>,
     sample_ctx\<lparr>response := Some sample_response\<rparr>, replied_world)"
proof (rule upstream_reply_not_reported[THEN iffD2], intro exI conjI disjI2)
  show "set_host_header sample_pingora sample_ctx sample_header = Some sample_header"
    by (simp add: set_host_header_def ctx_route_def sample_defs default_simps)
  show "[looking_module, replying_module, looking_module] =
      [looking_module] @ replying_module # [looking_module]" by simp
qed (rule looking_passes replying_leaves_reply sample_respond | simp)+

section \<open>Bodies\<close>

text \<open>The bytes of a stream of chunks.\<close>

fun stream_bytes :: "(bytes option \<times> bool) list \<Rightarrow> bytes" where
  "stream_bytes [] = []"
| "stream_bytes ((body, eos) # cs) = (case body of None \<Rightarrow> [] | Some c \<Rightarrow> c) @ stream_bytes cs"

text \<open>The context after a stream of chunks, each put into it by \<open>g\<close>.\<close>

fun absorb :: "(bytes option \<Rightarrow> 'c \<Rightarrow> 'c) \<Rightarrow> (bytes option \<times> bool) list \<Rightarrow> 'c \<Rightarrow> 'c" where
  "absorb g [] ctx = ctx"
| "absorb g ((body, eos) # cs) ctx = absorb g cs (g body ctx)"

lemma absorb_request:
  "request ctx = Some req \<Longrightarrow>
   absorb populate_req_body_into_ctx cs ctx =
     ctx\<lparr>request := Some (req\<lparr>req_body := req_body req @ stream_bytes cs\<rparr>)\<rparr>"
proof (induction populate_req_body_into_ctx cs ctx arbitrary: req rule: absorb.induct)
  case (2 body eos cs ctx)
  then show ?case by (cases body) (simp_all add: populate_req_body_into_ctx_def)
qed simp

lemma absorb_response:
  "response ctx = Some resp \<Longrightarrow>
   absorb populate_resp_body_into_ctx cs ctx =
     ctx\<lparr>response := Some (resp\<lparr>resp_body := resp_body resp @ stream_bytes cs\<rparr>)\<rparr>"
proof (induction populate_resp_body_into_ctx cs ctx arbitrary: resp rule: absorb.induct)
  case (2 body eos cs ctx)
  then show ?case by (cases body) (simp_all add: populate_resp_body_into_ctx_def)
qed simp

text \<open>A hook that only looks at its context.\<close>

definition observes :: "('c, 'w) hook_fn option \<Rightarrow> bool" where
  "observes hook \<longleftrightarrow>
     (\<forall>cb inst c w c' r w'. hook = Some cb \<longrightarrow> cb inst c w = Some (c', r, w') \<longrightarrow> c' = c)"

lemma observes_None [simp]: "observes None"
  by (simp add: observes_def)

lemma run_ignored_observes:
  "observes h \<Longrightarrow> run_ignored k ph inst h (ctx, W) = Some (ctx', W') \<Longrightarrow> ctx' = ctx"
  by (fastforce simp: run_ignored_def run_hook_def call_hook_def observes_def
      split: option.splits Option.bind_splits)

lemma for_each_observes:
  assumes "for_each f ms (ctx, W) = Some (ctx', W')"
    and "\<And>m V c' V'. m \<in> set ms \<Longrightarrow> f m (ctx, V) = Some (c', V') \<Longrightarrow> c' = ctx"
  shows "ctx' = ctx"
proof -
  have "fst (ctx', W') = ctx"
    by (rule for_each_invariant[OF assms(1), where P = "\<lambda>s. fst s = ctx"]) (auto dest: assms(2))
  then show ?thesis by simp
qed

text \<open>
  A hook that leaves the context as it is, with \<open>g\<close> the effect it has on the plugin's state for
  the context it is shown: from the final state one can tell which contexts the hook was shown.
\<close>

definition looks ::
  "inst_ptr \<Rightarrow> (http_context, 'w) hook_fn option \<Rightarrow> (http_context \<Rightarrow> 'w \<Rightarrow> 'w) \<Rightarrow> bool" where
  "looks inst hook g \<longleftrightarrow>
     (\<forall>cb c w. hook = Some cb \<longrightarrow> (\<exists>r. cb inst (Some c) w = Some (Some c, r, g c w)))"

definition shown :: "'f option \<Rightarrow> ('c \<Rightarrow> 'w \<Rightarrow> 'w) \<Rightarrow> 'c \<Rightarrow> 'w \<Rightarrow> 'w" where
  "shown hook g c = (if hook = None then id else g c)"

lemma run_ignored_looks:
  assumes "looks inst hook g"
  shows "run_ignored k ph inst hook (c, W) =
    Some (c, \<lparr>plugins = shown hook g c (plugins W), calls = calls W @ hook_trace k ph inst hook\<rparr>)"
proof (cases hook)
  case (Some cb)
  with assms obtain r where "cb inst (Some c) (plugins W) = Some (Some c, r, g c (plugins W))"
    unfolding looks_def by blast
  with Some show ?thesis by (simp add: run_ignored_def run_hook_def call_hook_def shown_def)
qed (simp add: run_ignored_def shown_def)

lemma for_each_looks:
  assumes "\<And>m W. m \<in> set ms \<Longrightarrow>
      f m (c, W) = Some (c, \<lparr>plugins = G m (plugins W), calls = calls W @ tr m\<rparr>)"
  shows "for_each f ms (c, W) =
    Some (c, \<lparr>plugins = fold G ms (plugins W), calls = calls W @ concat (map tr ms)\<rparr>)"
  using assms by (induction ms arbitrary: W) simp_all

lemma fold_Suc_upt: "fold f [0..<Suc n] = fold (\<lambda>k. f (Suc k)) [0..<n] \<circ> f 0"
  by (simp add: upt_conv_Cons map_Suc_upt[symmetric] fold_map comp_def del: upt_Suc)

text \<open>Feeding a stream to a filter all of whose hooks look at their context.\<close>

lemma feed_looks:
  assumes "\<And>body eos c W. f body eos (ses, c, W) =
      Some (v, ses, put body c, \<lparr>plugins = G eos (put body c) (plugins W), calls = calls W @ tr eos\<rparr>)"
  shows "feed f cs (ses, c, W) = Some (replicate (length cs) v, ses, absorb put cs c,
    \<lparr>plugins = fold (\<lambda>k. G (snd (cs ! k)) (absorb put (take (Suc k) cs) c)) [0..<length cs] (plugins W),
     calls = calls W @ concat (map (\<lambda>x. tr (snd x)) cs)\<rparr>)"
proof (induction cs arbitrary: c W)
  case Nil
  then show ?case by simp
next
  case (Cons x cs)
  obtain body eos where x: "x = (body, eos)" by (cases x)
  show ?case by (simp add: x assms Cons.IH fold_Suc_upt del: upt_Suc)
qed

definition body_trace :: "'w plugin_http_module list \<Rightarrow> call list" where
  "body_trace ms =
     concat (map (\<lambda>m. hook_trace HttpProto OnRequestBody (http_instance m) (on_request_body m)) ms)"

lemma request_body_filter_looks:
  assumes "\<And>m. m \<in> set ms \<Longrightarrow> looks (http_instance m) (on_request_body m) (g m)"
  shows "plugin_request_body_filter ms body eos (ses, c, V) =
    Some (Ok (), ses, populate_req_body_into_ctx body c,
      \<lparr>plugins = fold (\<lambda>m. shown (on_request_body m) (g m) (populate_req_body_into_ctx body c)) ms (plugins V),
       calls = calls V @ body_trace ms\<rparr>)"
  by (simp add: plugin_request_body_filter_def body_trace_def
      for_each_looks[OF run_ignored_looks[OF assms]])

lemma request_body_feed_looks:
  assumes "\<And>m. m \<in> set ms \<Longrightarrow> looks (http_instance m) (on_request_body m) (g m)"
  shows "feed (plugin_request_body_filter ms) cs (ses, c, W) =
    Some (replicate (length cs) (Ok ()), ses, absorb populate_req_body_into_ctx cs c,
      \<lparr>plugins = fold (\<lambda>k. fold (\<lambda>m. shown (on_request_body m) (g m)
           (absorb populate_req_body_into_ctx (take (Suc k) cs) c)) ms) [0..<length cs] (plugins W),
       calls = calls W @ concat (map (\<lambda>x. body_trace ms) cs)\<rparr>)"
  by (rule feed_looks[where G = "\<lambda>_ c. fold (\<lambda>m. shown (on_request_body m) (g m) c) ms" and
      tr = "\<lambda>_. body_trace ms"]) (rule request_body_filter_looks[OF assms])

text \<open>C26: what the plugins see of the request body. Take hooks that look at their context in any
  way. When chunk \<open>k\<close> of the body arrives, the hooks of all modules are shown, in chain order, a
  context whose body is the one it had before followed by all chunks up to and including the
  \<open>k\<close>-th, not that chunk alone; every call succeeds, and in the end the host holds the whole body.\<close>

theorem request_body_accumulates:
  assumes "\<And>m. m \<in> set ms \<Longrightarrow> looks (http_instance m) (on_request_body m) (g m)"
    and "request ctx = Some req"
  defines "ctx_of bs \<equiv> ctx\<lparr>request := Some (req\<lparr>req_body := req_body req @ bs\<rparr>)\<rparr>"
  shows "feed (plugin_request_body_filter ms) cs (ses, ctx, W) =
    Some (replicate (length cs) (Ok ()), ses, ctx_of (stream_bytes cs),
      \<lparr>plugins = fold (\<lambda>k. fold (\<lambda>m. shown (on_request_body m) (g m) (ctx_of (stream_bytes (take (Suc k) cs)))) ms)
         [0..<length cs] (plugins W),
       calls = calls W @ concat (replicate (length cs) (body_trace ms))\<rparr>)"
  by (simp add: request_body_feed_looks[OF assms(1)] absorb_request[OF assms(2)] ctx_of_def map_replicate_const)

text \<open>A module that writes down every request and response body it is shown.\<close>

definition note_bodies :: "(http_context, bytes list) hook_fn" where
  "note_bodies inst c w = Some (c, Ok \<lparr>action = Continue\<rparr>,
     w @ (case c of None \<Rightarrow> [] | Some c \<Rightarrow>
       (case request c of None \<Rightarrow> [] | Some r \<Rightarrow> [req_body r]) @
       (case response c of None \<Rightarrow> [] | Some r \<Rightarrow> [resp_body r])))"

definition noting_module :: "bytes list plugin_http_module" where
  "noting_module = http_module_default\<lparr>on_request_body := Some note_bodies,
     on_response_body := Some note_bodies, on_trailers := Some note_bodies\<rparr>"

lemma noting_looks:
  "looks inst (Some note_bodies) (\<lambda>c w. w @
     (case request c of None \<Rightarrow> [] | Some r \<Rightarrow> [req_body r]) @
     (case response c of None \<Rightarrow> [] | Some r \<Rightarrow> [resp_body r]))"
  by (simp add: looks_def note_bodies_def)

theorem request_body_accumulates_witness:
  "feed (plugin_request_body_filter [noting_module]) [(Some (utf8 ''one''), False), (Some (utf8 ''two''), True)]
     (sample_session, sample_ctx\<lparr>request := Some sample_request\<rparr>, \<lparr>plugins = [], calls = []\<rparr>) =
   Some ([Ok (), Ok () :: (unit, unit proxy_error) result], sample_session,
     sample_ctx\<lparr>request := Some (sample_request\<lparr>req_body := utf8 ''onetwo''\<rparr>)\<rparr>,
     \<lparr>plugins = [utf8 ''one'', utf8 ''onetwo''],
      calls = [Hook HttpProto OnRequestBody Null, Hook HttpProto OnRequestBody Null]\<rparr>)"
proof -
  have "looks (http_instance m) (on_request_body m) (\<lambda>c w. w @
      (case request c of None \<Rightarrow> [] | Some r \<Rightarrow> [req_body r]) @
      (case response c of None \<Rightarrow> [] | Some r \<Rightarrow> [resp_body r]))" if "m \<in> set [noting_module]" for m
    using that by (simp add: noting_module_def noting_looks)
  note run = request_body_accumulates[OF this, where ctx = "sample_ctx\<lparr>request := Some sample_request\<rparr>"
      and req = sample_request and cs = "[(Some (utf8 ''one''), False), (Some (utf8 ''two''), True)]"]
  show ?thesis
    by (subst run) (simp_all add: upt_rec shown_def body_trace_def noting_module_def default_simps
      sample_defs http_request_from_def bytes_new_def utf8_def)
qed

text \<open>What the response body filter does with one module whose hooks look at their context.\<close>

lemma response_body_module_looks:
  assumes "looks (http_instance m) (on_response_body m) g"
    and "looks (http_instance m) (on_trailers m) h"
  shows "response_body_module eos m (c, W) = Some (c,
    \<lparr>plugins = (if eos then shown (on_trailers m) h c else id) (shown (on_response_body m) g c (plugins W)),
     calls = calls W @ hook_trace HttpProto OnResponseBody (http_instance m) (on_response_body m) @
       (if eos then hook_trace HttpProto OnTrailers (http_instance m) (on_trailers m) else [])\<rparr>)"
  by (simp add: response_body_module_def run_ignored_looks[OF assms(1)] run_ignored_looks[OF assms(2)])

definition response_body_trace :: "'w plugin_http_module list \<Rightarrow> bool \<Rightarrow> call list" where
  "response_body_trace ms eos = concat (map (\<lambda>m.
      hook_trace HttpProto OnResponseBody (http_instance m) (on_response_body m) @
      (if eos then hook_trace HttpProto OnTrailers (http_instance m) (on_trailers m) else [])) ms)"

text \<open>The effect of showing a context to the body hooks, and at the end of the stream to the trailers
  hooks, of all modules.\<close>

definition shown_response ::
  "'w plugin_http_module list \<Rightarrow> ('w plugin_http_module \<Rightarrow> http_context \<Rightarrow> 'w \<Rightarrow> 'w) \<Rightarrow>
   ('w plugin_http_module \<Rightarrow> http_context \<Rightarrow> 'w \<Rightarrow> 'w) \<Rightarrow> bool \<Rightarrow> http_context \<Rightarrow> 'w \<Rightarrow> 'w" where
  "shown_response ms g h eos c = fold (\<lambda>m w.
     (if eos then shown (on_trailers m) (h m) c else id) (shown (on_response_body m) (g m) c w)) ms"

lemma response_body_filter_looks:
  assumes "\<And>m. m \<in> set ms \<Longrightarrow> looks (http_instance m) (on_response_body m) (g m)"
    and "\<And>m. m \<in> set ms \<Longrightarrow> looks (http_instance m) (on_trailers m) (h m)"
  shows "plugin_response_body_filter ms body eos (ses, c, V) =
    Some (Ok None, ses, populate_resp_body_into_ctx body c,
      \<lparr>plugins = shown_response ms g h eos (populate_resp_body_into_ctx body c) (plugins V),
       calls = calls V @ response_body_trace ms eos\<rparr>)"
  by (simp add: plugin_response_body_filter_def response_body_trace_def shown_response_def
      for_each_looks[OF response_body_module_looks[OF assms]])

lemma response_body_feed_looks:
  assumes "\<And>m. m \<in> set ms \<Longrightarrow> looks (http_instance m) (on_response_body m) (g m)"
    and "\<And>m. m \<in> set ms \<Longrightarrow> looks (http_instance m) (on_trailers m) (h m)"
  shows "feed (plugin_response_body_filter ms) cs (ses, c, W) =
    Some (replicate (length cs) (Ok None), ses, absorb populate_resp_body_into_ctx cs c,
      \<lparr>plugins = fold (\<lambda>k. shown_response ms g h (snd (cs ! k))
           (absorb populate_resp_body_into_ctx (take (Suc k) cs) c)) [0..<length cs] (plugins W),
       calls = calls W @ concat (map (\<lambda>x. response_body_trace ms (snd x)) cs)\<rparr>)"
  by (rule feed_looks[where G = "shown_response ms g h"]) (rule response_body_filter_looks[OF assms])

text \<open>C40: what becomes of a response a plugin created. Once a response is in the context, the body of
  the upstream's response is appended to its body: when chunk \<open>k\<close> arrives, the body hooks of all
  modules are shown the plugin's own body followed by the upstream's chunks up to the \<open>k\<close>-th, and
  with the last chunk the trailers hooks, each right after the body hook of its module. Every call
  succeeds without asking for a delay, and the mixed body stays in the context.\<close>

theorem own_response_absorbs_upstream:
  assumes "\<And>m. m \<in> set ms \<Longrightarrow> looks (http_instance m) (on_response_body m) (g m)"
    and "\<And>m. m \<in> set ms \<Longrightarrow> looks (http_instance m) (on_trailers m) (h m)"
    and "response ctx = Some resp"
  defines "ctx_of bs \<equiv> ctx\<lparr>response := Some (resp\<lparr>resp_body := resp_body resp @ bs\<rparr>)\<rparr>"
  shows "feed (plugin_response_body_filter ms) cs (ses, ctx, W) =
    Some (replicate (length cs) (Ok None), ses, ctx_of (stream_bytes cs),
      \<lparr>plugins = fold (\<lambda>k. shown_response ms g h (snd (cs ! k)) (ctx_of (stream_bytes (take (Suc k) cs))))
         [0..<length cs] (plugins W),
       calls = calls W @ concat (map (\<lambda>x. response_body_trace ms (snd x)) cs)\<rparr>)"
  by (simp add: response_body_feed_looks[OF assms(1,2)] absorb_response[OF assms(3)] ctx_of_def)

theorem own_response_absorbs_upstream_witness:
  "feed (plugin_response_body_filter [noting_module]) [(Some (utf8 ''!''), False), (None, True)]
     (sample_session, sample_ctx\<lparr>response := Some sample_response\<rparr>, \<lparr>plugins = [], calls = []\<rparr>) =
   Some ([Ok None, Ok None :: (nat option, unit proxy_error) result], sample_session,
     sample_ctx\<lparr>response := Some (sample_response\<lparr>resp_body := utf8 ''teapot!''\<rparr>)\<rparr>,
     \<lparr>plugins = [utf8 ''teapot!'', utf8 ''teapot!'', utf8 ''teapot!''],
      calls = [Hook HttpProto OnResponseBody Null, Hook HttpProto OnResponseBody Null,
        Hook HttpProto OnTrailers Null]\<rparr>)"
proof -
  let ?note = "\<lambda>c w. w @ (case request c of None \<Rightarrow> [] | Some r \<Rightarrow> [req_body r]) @
      (case response c of None \<Rightarrow> [] | Some r \<Rightarrow> [resp_body r])"
  have "looks (http_instance m) (on_response_body m) ?note" "looks (http_instance m) (on_trailers m) ?note"
    if "m \<in> set [noting_module]" for m
    using that by (simp_all add: noting_module_def noting_looks)
  note run = own_response_absorbs_upstream[OF this, where ctx = "sample_ctx\<lparr>response := Some sample_response\<rparr>"
      and resp = sample_response and cs = "[(Some (utf8 ''!''), False), (None, True)]"]
  show ?thesis
    by (subst run) (simp_all add: upt_rec shown_def shown_response_def response_body_trace_def
      noting_module_def default_simps sample_ctx_def sample_response_def utf8_def)
qed

section \<open>The upstream's response\<close>

text \<open>What the filters do with the response of an upstream: its header, then its body in chunks.\<close>

definition response_filters ::
  "'w plugin_http_module list \<Rightarrow> response_header \<Rightarrow> (bytes option \<times> bool) list \<Rightarrow> ('a, 's, 'w) flow \<Rightarrow>
   (response_header \<times> (unit, 'e proxy_error) result \<times> (nat option, 'e proxy_error) result list \<times>
      ('a, 's, 'w) flow) option" where
  "response_filters ms up cs s = do {
     (r, up, s) \<leftarrow> plugin_response_filter ms up s;
     (rs, s) \<leftarrow> feed (plugin_response_body_filter ms) cs s;
     Some (up, r, rs, s)
   }"

text \<open>A hook that does not create a response.\<close>

definition creates_no_response :: "(http_context, 'w) hook_fn option \<Rightarrow> bool" where
  "creates_no_response hook \<longleftrightarrow>
     (\<forall>cb inst c w c' r w'. hook = Some cb \<longrightarrow> response c = None \<longrightarrow>
        cb inst (Some c) w = Some (Some c', r, w') \<longrightarrow> response c' = None)"

lemma run_ignored_no_response:
  "creates_no_response h \<Longrightarrow> response c = None \<Longrightarrow> run_ignored k ph inst h (c, W) = Some (c', W') \<Longrightarrow>
   response c' = None"
  by (cases h) (auto simp: run_ignored_def run_hook_def call_hook_def creates_no_response_def
      split: option.splits Option.bind_splits, blast)

lemma for_each_no_response:
  assumes "for_each f ms (c, W) = Some (c', W')" and "response c = None"
    and "\<And>m c V c' V'. m \<in> set ms \<Longrightarrow> response c = None \<Longrightarrow> f m (c, V) = Some (c', V') \<Longrightarrow> response c' = None"
  shows "response c' = None"
proof -
  have "response (fst (c', W')) = None"
    by (rule for_each_invariant[OF assms(1), where P = "\<lambda>s. response (fst s) = None"])
      (auto simp: assms(2) dest: assms(3))
  then show ?thesis by simp
qed

text \<open>Feeding two streams with ends in the same places to a filter that cannot tell chunks apart.\<close>

lemma feed_blind:
  assumes "\<And>b b' eos s. P s \<Longrightarrow> f b eos s = f b' eos s"
    and "\<And>b eos s r s'. P s \<Longrightarrow> f b eos s = Some (r, s') \<Longrightarrow> P s'"
    and "map snd cs = map snd ds" and "P s"
  shows "feed f cs s = feed f ds s"
  using assms(3,4)
proof (induction cs arbitrary: ds s)
  case Nil
  then show ?case by simp
next
  case (Cons x cs)
  obtain b b' eos ds' where x: "x = (b, eos)" "ds = (b', eos) # ds'" "map snd cs = map snd ds'"
    using Cons.prems(1) by (cases x) (auto simp: Cons_eq_map_conv)
  have "(do { (rs, s) \<leftarrow> feed f cs s'; Some (r # rs, s) }) = (do { (rs, s) \<leftarrow> feed f ds' s'; Some (r # rs, s) })"
    if "f b' eos s = Some (r, s')" for r s'
    using Cons.IH[OF x(3) assms(2)[OF Cons.prems(2) that]] by simp
  then show ?case
    by (cases "f b' eos s") (auto simp: x assms(1)[OF Cons.prems(2), of b eos b'])
qed

lemma response_body_filter_blind:
  assumes "response (fst (snd s)) = None"
  shows "plugin_response_body_filter ms b eos s = plugin_response_body_filter ms b' eos s"
  using assms
  by (cases s) (simp add: plugin_response_body_filter_def populate_resp_body_into_ctx_def split: option.split)

lemma response_body_filter_no_response:
  assumes hooks: "\<forall>m \<in> set ms. creates_no_response (on_response_body m) \<and> creates_no_response (on_trailers m)"
    and none: "response (fst (snd s)) = None"
    and run: "plugin_response_body_filter ms b eos s = Some (r, s')"
  shows "response (fst (snd s')) = None"
proof -
  obtain ses c W ses' c' W' where s: "s = (ses, c, W)" "s' = (ses', c', W')"
    by (metis prod.collapse)
  with run have "for_each (response_body_module eos) ms (populate_resp_body_into_ctx b c, W) = Some (c', W')"
    by (auto simp: plugin_response_body_filter_def split: Option.bind_splits)
  moreover have "response (populate_resp_body_into_ctx b c) = None"
    using none s by (simp add: populate_resp_body_into_ctx_def split: option.split)
  moreover have "response d' = None" if "m \<in> set ms" "response d = None"
    "response_body_module eos m (d, V) = Some (d', V')" for m d V d' V'
    using that hooks
    by (auto simp: response_body_module_def split: Option.bind_splits if_splits
        dest: run_ignored_no_response)
  ultimately have "response c' = None" by (rule for_each_no_response)
  with s show ?thesis by simp
qed

lemma response_body_feed_blind:
  assumes "\<forall>m \<in> set ms. creates_no_response (on_response_body m) \<and> creates_no_response (on_trailers m)"
    and "response (fst (snd s)) = None" and "map snd cs = map snd ds"
  shows "feed (plugin_response_body_filter ms) cs s = feed (plugin_response_body_filter ms) ds s"
  by (rule feed_blind[where P = "\<lambda>s. response (fst (snd s)) = None"])
    (auto simp: assms intro: response_body_filter_blind response_body_filter_no_response[OF assms(1)])

text \<open>C27: plugins cannot observe the upstream's response unless they create a response themselves.
  Take any modules whose response hooks do not create a response in a context that has none, and
  a request without one. Then the runs of the response filters on two responses of an upstream
  whose bodies end after the same number of chunks, whatever their statuses, headers and bytes,
  panic alike or return the same results and leave the same context, the same plugin state and the
  same calls. Nor can plugins change the response: its header is passed on as it came.\<close>

theorem upstream_response_invisible:
  assumes "\<forall>m \<in> set ms. creates_no_response (on_response_headers m) \<and>
      creates_no_response (on_response_body m) \<and> creates_no_response (on_trailers m)"
    and "response ctx = None" and "map snd cs = map snd ds"
  shows "response_filters ms up cs (ses, ctx, W) =
    map_option (\<lambda>(h, res). (up, res)) (response_filters ms up2 ds (ses, ctx, W))"
proof (cases "for_each (\<lambda>module. run_ignored HttpProto OnResponseHeaders (http_instance module)
    (on_response_headers module)) ms (ctx, W)")
  case None
  then show ?thesis by (simp add: response_filters_def plugin_response_filter_def)
next
  case (Some s)
  obtain c V where s: "s = (c, V)" by (cases s)
  have none: "response (fst (snd (ses, c, V))) = None"
    using for_each_no_response[OF Some[unfolded s] assms(2)] assms(1) by (auto dest: run_ignored_no_response)
  note same = response_body_feed_blind[OF _ none assms(3)]
  with Some s show ?thesis
    using assms(1)
    by (simp add: response_filters_def plugin_response_filter_def same map_option_case
        split: Option.bind_split option.split)
qed

text \<open>The module that writes down what it is shown ends with the same notes for a success and an error.\<close>

theorem upstream_response_invisible_witness:
  "response_filters [noting_module] \<lparr>rsp_status = 200, rsp_headers = []\<rparr>
     [(Some (utf8 ''secret''), False), (None, True)] (sample_session, sample_ctx, \<lparr>plugins = [], calls = []\<rparr>) =
   map_option (\<lambda>(h, res :: (unit, unit proxy_error) result \<times> _). (\<lparr>rsp_status = 200, rsp_headers = []\<rparr>, res))
     (response_filters [noting_module] \<lparr>rsp_status = 500, rsp_headers = []\<rparr>
       [(Some (utf8 ''error''), False), (Some (utf8 ''!''), True)]
       (sample_session, sample_ctx, \<lparr>plugins = [], calls = []\<rparr>))"
  by (rule upstream_response_invisible)
    (simp_all add: noting_module_def note_bodies_def creates_no_response_def sample_ctx_def default_simps)

text \<open>A module that looks at bodies.\<close>

definition body_module :: "unit plugin_http_module" where
  "body_module = http_module_default\<lparr>
     on_request_body := Some (constant_hook id (Ok \<lparr>action = Continue\<rparr>)),
     on_response_body := Some (constant_hook id (Ok \<lparr>action = Continue\<rparr>)),
     on_trailers := Some (constant_hook id (Ok \<lparr>action = Continue\<rparr>))\<rparr>"

text \<open>The order of the calls of the response body filter. For every chunk the modules are called in
  chain order, each exactly once on its body hook; at the end of the stream the trailers hook of a
  module comes right after its own body hook, before the next module.\<close>

lemma response_body_calls:
  assumes "plugin_response_body_filter ms body eos (ses, ctx, W) = Some (r, ses', ctx', W')"
  shows "calls W' = calls W @ concat (map (\<lambda>m.
      hook_trace HttpProto OnResponseBody (http_instance m) (on_response_body m) @
      (if eos then hook_trace HttpProto OnTrailers (http_instance m) (on_trailers m) else [])) ms)"
proof -
  from assms have "for_each (response_body_module eos) ms
      (populate_resp_body_into_ctx body ctx, W) = Some (ctx', W')"
    by (auto simp: plugin_response_body_filter_def split: Option.bind_splits)
  then show ?thesis by (rule for_each_calls) (rule response_body_module_calls)
qed

lemma response_body_calls_example:
  "[Hook HttpProto OnResponseBody Null, Hook HttpProto OnTrailers Null,
    Hook HttpProto OnResponseBody (Ptr 1), Hook HttpProto OnTrailers (Ptr 1)] =
   concat (map (\<lambda>m.
      hook_trace HttpProto OnResponseBody (http_instance m) (on_response_body m) @
      hook_trace HttpProto OnTrailers (http_instance m) (on_trailers m))
     [body_module, body_module\<lparr>http_instance := Ptr 1\<rparr>])"
proof -
  have "plugin_response_body_filter [body_module, body_module\<lparr>http_instance := Ptr 1\<rparr>] (Some (utf8 ''x'')) True
      (sample_session, sample_ctx, sample_world) =
    Some (Ok None :: (nat option, unit proxy_error) result, sample_session, sample_ctx,
      \<lparr>plugins = (), calls = [Hook HttpProto OnResponseBody Null, Hook HttpProto OnTrailers Null,
         Hook HttpProto OnResponseBody (Ptr 1), Hook HttpProto OnTrailers (Ptr 1)]\<rparr>)"
    by (simp add: plugin_response_body_filter_def response_body_module_def populate_resp_body_into_ctx_def
        sample_world_def sample_ctx_def body_module_def default_simps)
  from response_body_calls[OF this] show ?thesis by (simp add: sample_world_def)
qed

text \<open>Body filters never fail and never touch the session. However many chunks of either body
  pingora feeds to the plugins, every call returns success (the response filter never asks for a
  delay), the session is unchanged, and nothing but HTTP hooks of plugins has been called.\<close>

lemma body_streams_never_fail:
  assumes "feed (request_body_filter (plugin_http_hooks X self)) cs (ses, ctx, W) = Some (rs, ses1, ctx1, W1)"
    and "feed (response_body_filter (plugin_http_hooks X self)) ds (ses1, ctx1, W1) =
      Some (ts, ses2, ctx2, W2)"
  shows "rs = replicate (length cs) (Ok ()) \<and> ts = replicate (length ds) (Ok None) \<and>
    ses2 = ses \<and> hooks_ext HttpProto W W2"
  using plugin_hooks.request_stream[OF assms(1)] plugin_hooks.response_stream[OF assms(2)]
  by (auto intro: hooks_ext_trans)

lemma body_streams_never_fail_example:
  "hooks_ext HttpProto sample_world \<lparr>plugins = (), calls = [Hook HttpProto OnRequestBody Null]\<rparr>"
proof -
  have 1: "feed (request_body_filter (plugin_http_hooks sample_pingora
      \<lparr>http_modules = [body_module], tcp_modules = [], udp_modules = []\<rparr>)) [(None, True)]
      (sample_session, sample_ctx, sample_world) =
    Some ([Ok ()], sample_session, sample_ctx,
      \<lparr>plugins = (), calls = [Hook HttpProto OnRequestBody Null]\<rparr>)"
    by (simp add: plugin_http_hooks_def plugin_request_body_filter_def populate_req_body_into_ctx_def
        sample_world_def body_module_def default_simps)
  have 2: "feed (response_body_filter (plugin_http_hooks sample_pingora
      \<lparr>http_modules = [body_module], tcp_modules = [], udp_modules = []\<rparr>)) []
      (sample_session, sample_ctx, \<lparr>plugins = (), calls = [Hook HttpProto OnRequestBody Null]\<rparr>) =
    Some ([], sample_session, sample_ctx, \<lparr>plugins = (), calls = [Hook HttpProto OnRequestBody Null]\<rparr>)"
    by simp
  from body_streams_never_fail[OF 1 2] show ?thesis by simp
qed

end
