(* ===== verification/Vakil_L4.thy ===== *)
theory Vakil_L4
  imports Vakil_Http
begin

text \<open>
  The TCP and UDP proxies (\<open>crates/vakil-l4/src/lib.rs\<close>) and the hooks that run the plugins' TCP
  and UDP modules (\<open>crates/vakil-runtime/src/l4.rs\<close>).

  The sockets are parameters: what is read from a socket is a list of results (an empty read is
  the end of the stream; at the end of the list the read is still waiting, which is the result
  \<open>None\<close>), and writing, sending and connecting are functions on an abstract output \<open>'o\<close>. An error
  is its text, as in startup.
\<close>

section \<open>The hook traits\<close>

type_synonym ('c, 'w) l4_method =
  "'c \<times> 'w world \<Rightarrow> ((unit, string) result \<times> 'c \<times> 'w world) option"

record 'w tcp_proxy_hooks =
  tcp_connection_init :: "(tcp_context, 'w) l4_method"
  tcp_data_received :: "(tcp_context, 'w) l4_method"
  tcp_connection_close :: "(tcp_context, 'w) l4_method"

record 'w udp_proxy_hooks =
  udp_session_start :: "(udp_context, 'w) l4_method"
  udp_datagram_received :: "(udp_context, 'w) l4_method"
  udp_session_close :: "(udp_context, 'w) l4_method"

definition l4_default :: "('c, 'w) l4_method" where
  "l4_default s = Some (Ok (), s)"

definition noop_tcp_hooks :: "'w tcp_proxy_hooks" where
  "noop_tcp_hooks =
     \<lparr>tcp_connection_init = l4_default, tcp_data_received = l4_default,
      tcp_connection_close = l4_default\<rparr>"

definition noop_udp_hooks :: "'w udp_proxy_hooks" where
  "noop_udp_hooks =
     \<lparr>udp_session_start = l4_default, udp_datagram_received = l4_default,
      udp_session_close = l4_default\<rparr>"

section \<open>The plugins' modules\<close>

text \<open>\<open>if let Some(cb) = hook { (*cb)(module.instance, ctx); }\<close> drops the callback's result.\<close>

definition plugin_tcp_connection_init ::
  "'w plugin_tcp_module list \<Rightarrow> (tcp_context, 'w) l4_method" where
  "plugin_tcp_connection_init mods s = map_option (\<lambda>s. (Ok (), s))
     (for_each (\<lambda>module s. do {
        s \<leftarrow> run_ignored TcpProto OnRoute (tcp_instance module) (tcp_on_route module) s;
        run_ignored TcpProto OnConnect (tcp_instance module) (on_connect module) s
      }) mods s)"

definition plugin_tcp_data_received ::
  "'w plugin_tcp_module list \<Rightarrow> (tcp_context, 'w) l4_method" where
  "plugin_tcp_data_received mods s = map_option (\<lambda>s. (Ok (), s))
     (for_each (\<lambda>module. run_ignored TcpProto OnData (tcp_instance module) (on_data module)) mods s)"

definition plugin_tcp_connection_close ::
  "'w plugin_tcp_module list \<Rightarrow> (tcp_context, 'w) l4_method" where
  "plugin_tcp_connection_close mods s = map_option (\<lambda>s. (Ok (), s))
     (for_each (\<lambda>module. run_ignored TcpProto OnClose (tcp_instance module) (on_close module)) mods s)"

definition plugin_tcp_hooks :: "'w plugin_proxy_hooks \<Rightarrow> 'w tcp_proxy_hooks" where
  "plugin_tcp_hooks self =
     \<lparr>tcp_connection_init = plugin_tcp_connection_init (tcp_modules self),
      tcp_data_received = plugin_tcp_data_received (tcp_modules self),
      tcp_connection_close = plugin_tcp_connection_close (tcp_modules self)\<rparr>"

definition plugin_udp_session_start ::
  "'w plugin_udp_module list \<Rightarrow> (udp_context, 'w) l4_method" where
  "plugin_udp_session_start mods s = map_option (\<lambda>s. (Ok (), s))
     (for_each (\<lambda>module. run_ignored UdpProto OnSessionStart (udp_instance module) (on_session_start module))
        mods s)"

definition plugin_udp_datagram_received ::
  "'w plugin_udp_module list \<Rightarrow> (udp_context, 'w) l4_method" where
  "plugin_udp_datagram_received mods s = map_option (\<lambda>s. (Ok (), s))
     (for_each (\<lambda>module. run_ignored UdpProto OnDatagram (udp_instance module) (on_datagram module)) mods s)"

definition plugin_udp_session_close ::
  "'w plugin_udp_module list \<Rightarrow> (udp_context, 'w) l4_method" where
  "plugin_udp_session_close mods s = map_option (\<lambda>s. (Ok (), s))
     (for_each (\<lambda>module. run_ignored UdpProto OnSessionEnd (udp_instance module) (on_session_end module))
        mods s)"

definition plugin_udp_hooks :: "'w plugin_proxy_hooks \<Rightarrow> 'w udp_proxy_hooks" where
  "plugin_udp_hooks self =
     \<lparr>udp_session_start = plugin_udp_session_start (udp_modules self),
      udp_datagram_received = plugin_udp_datagram_received (udp_modules self),
      udp_session_close = plugin_udp_session_close (udp_modules self)\<rparr>"

section \<open>Transferring one direction of a connection\<close>

text \<open>
  \<open>tcp_transfer\<close>: its local state, and where it stands between two await points. A read fills at
  most the buffer of 8192 bytes; slicing the buffer further panics.
\<close>

datatype transfer_pc = Reading | Writing bytes | Finished "(unit, string) result"

record 'o transfer =
  tr_ctx :: tcp_context
  tr_reads :: "(bytes, string) result list"
  tr_out :: 'o
  tr_pc :: transfer_pc

definition transfer_new ::
  "tcp_context \<Rightarrow> (bytes, string) result list \<Rightarrow> 'o \<Rightarrow> 'o transfer" where
  "transfer_new ctx reads out = \<lparr>tr_ctx = ctx, tr_reads = reads, tr_out = out, tr_pc = Reading\<rparr>"

definition set_chunk :: "flow_direction \<Rightarrow> bytes \<Rightarrow> tcp_context \<Rightarrow> tcp_context" where
  "set_chunk dir d ctx = ctx\<lparr>chunk := Some d, tcp_meta := (tcp_meta ctx)\<lparr>direction := Some dir\<rparr>\<rparr>"

definition transfer_step ::
  "'w tcp_proxy_hooks \<Rightarrow> (bytes \<Rightarrow> 'o \<Rightarrow> (unit, string) result \<times> 'o) \<Rightarrow> flow_direction \<Rightarrow>
   'o transfer \<times> 'w world \<Rightarrow> ('o transfer \<times> 'w world) option" where
  "transfer_step hook write_all dir = (\<lambda>(t, W).
     (case tr_pc t of
        Finished _ \<Rightarrow> Some (t, W)
      | Writing b \<Rightarrow>
          (let (r, out) = write_all b (tr_out t)
           in Some (t\<lparr>tr_out := out,
                tr_pc := (case r of Ok _ \<Rightarrow> Reading | Err e \<Rightarrow> Finished (Err e))\<rparr>, W))
      | Reading \<Rightarrow>
          (case tr_reads t of
             [] \<Rightarrow> Some (t, W)
           | Err e # rs \<Rightarrow> Some (t\<lparr>tr_reads := rs, tr_pc := Finished (Err e)\<rparr>, W)
           | Ok d # rs \<Rightarrow>
               if d = [] then Some (t\<lparr>tr_reads := rs, tr_pc := Finished (Ok ())\<rparr>, W)
               else if length d > 8192 then None
               else do {
                 (r, ctx, W) \<leftarrow> tcp_data_received hook (set_chunk dir d (tr_ctx t), W);
                 Some (t\<lparr>tr_reads := rs, tr_ctx := ctx,
                   tr_pc := (case r of
                      Err e \<Rightarrow> Finished (Err e)
                    | Ok _ \<Rightarrow> (case chunk ctx of None \<Rightarrow> Reading | Some b \<Rightarrow> Writing b))\<rparr>, W)
               })))"

text \<open>
  The same loop run on its own to its end: \<open>None\<close> as result when the reads run out first.
\<close>

fun tcp_transfer ::
  "'w tcp_proxy_hooks \<Rightarrow> (bytes \<Rightarrow> 'o \<Rightarrow> (unit, string) result \<times> 'o) \<Rightarrow> flow_direction \<Rightarrow>
   (bytes, string) result list \<Rightarrow> tcp_context \<times> 'o \<times> 'w world \<Rightarrow>
   ((unit, string) result option \<times> tcp_context \<times> 'o \<times> 'w world) option" where
  "tcp_transfer hook write_all dir [] s = Some (None, s)"
| "tcp_transfer hook write_all dir (Err e # rs) s = Some (Some (Err e), s)"
| "tcp_transfer hook write_all dir (Ok d # rs) (ctx, out, W) =
     (if d = [] then Some (Some (Ok ()), ctx, out, W)
      else if length d > 8192 then None
      else do {
        (r, ctx, W) \<leftarrow> tcp_data_received hook (set_chunk dir d ctx, W);
        (case r of
           Err e \<Rightarrow> Some (Some (Err e), ctx, out, W)
         | Ok _ \<Rightarrow>
             (case chunk ctx of
                None \<Rightarrow> tcp_transfer hook write_all dir rs (ctx, out, W)
              | Some b \<Rightarrow>
                  (case write_all b out of
                     (Err e, out) \<Rightarrow> Some (Some (Err e), ctx, out, W)
                   | (Ok _, out) \<Rightarrow> tcp_transfer hook write_all dir rs (ctx, out, W))))
      })"

section \<open>Both directions together\<close>

text \<open>
  \<open>tokio::try_join!\<close> polls both transfers until both have finished or one has failed; which of the
  two goes on at an await point is not determined. First the upstream's reads, then the
  downstream's.
\<close>

type_synonym ('o, 'w) joined = "'o transfer \<times> 'o transfer \<times> 'w world"

fun join_result :: "('o, 'w) joined \<Rightarrow> (unit, string) result option" where
  "join_result (a, b, W) =
     (case (tr_pc a, tr_pc b) of
        (Finished (Err e), _) \<Rightarrow> Some (Err e)
      | (_, Finished (Err e)) \<Rightarrow> Some (Err e)
      | (Finished (Ok _), Finished (Ok _)) \<Rightarrow> Some (Ok ())
      | _ \<Rightarrow> None)"

inductive join_step ::
  "'w tcp_proxy_hooks \<Rightarrow> (bytes \<Rightarrow> 'o \<Rightarrow> (unit, string) result \<times> 'o) \<Rightarrow>
   ('o, 'w) joined \<Rightarrow> ('o, 'w) joined \<Rightarrow> bool"
  for hook :: "'w tcp_proxy_hooks" and write_all :: "bytes \<Rightarrow> 'o \<Rightarrow> (unit, string) result \<times> 'o" where
  upstream_to_downstream:
    "join_result (a, b, W) = None \<Longrightarrow> transfer_step hook write_all Outbound (a, W) = Some (a', W') \<Longrightarrow>
     join_step hook write_all (a, b, W) (a', b, W')"
| downstream_to_upstream:
    "join_result (a, b, W) = None \<Longrightarrow> transfer_step hook write_all Inbound (b, W) = Some (b', W') \<Longrightarrow>
     join_step hook write_all (a, b, W) (a, b', W')"

inductive_cases join_stepE: "join_step hook write_all (a, b, W) s'"

text \<open>One schedule: \<open>True\<close> polls the first transfer.\<close>

fun try_join ::
  "'w tcp_proxy_hooks \<Rightarrow> (bytes \<Rightarrow> 'o \<Rightarrow> (unit, string) result \<times> 'o) \<Rightarrow> bool list \<Rightarrow>
   ('o, 'w) joined \<Rightarrow> ('o, 'w) joined option" where
  "try_join hook write_all [] s = Some s"
| "try_join hook write_all (p # ps) (a, b, W) =
     (if join_result (a, b, W) \<noteq> None then Some (a, b, W)
      else if p
      then do {
        (a, W) \<leftarrow> transfer_step hook write_all Outbound (a, W);
        try_join hook write_all ps (a, b, W)
      }
      else do {
        (b, W) \<leftarrow> transfer_step hook write_all Inbound (b, W);
        try_join hook write_all ps (a, b, W)
      })"

section \<open>Serving a TCP connection\<close>

definition tcp_ctx_new :: "u64 \<Rightarrow> std_socket_addr \<Rightarrow> tcp_context" where
  "tcp_ctx_new rnd local =
     \<lparr>chunk = None,
      tcp_meta =
        \<lparr>connection =
           \<lparr>conn_id = ID rnd, local_addr = socket_address_from_std local, peer_addr = None,
            protocol = Tcp\<rparr>,
         direction = None,
         route = route_decision_default\<rparr>\<rparr>"

text \<open>
  \<open>TcpProxyService::serve\<close>. The random number is that of the connection id; the local address and
  what connecting gives (the upstream's reads and output) are results of the sockets; the
  schedule is the one \<open>try_join!\<close> happens to follow. The hooks get clones of the context.
\<close>

definition tcp_serve ::
  "'w tcp_proxy_hooks \<Rightarrow> (bytes \<Rightarrow> 'o \<Rightarrow> (unit, string) result \<times> 'o) \<Rightarrow>
   (std_socket_addr \<Rightarrow> ((bytes, string) result list \<times> 'o, string) result) \<Rightarrow> bool list \<Rightarrow> u64 \<Rightarrow>
   (std_socket_addr, string) result \<Rightarrow> (bytes, string) result list \<Rightarrow> 'o \<Rightarrow> 'w world \<Rightarrow>
   ((unit, string) result option \<times> 'o \<times> 'w world) option" where
  "tcp_serve hook write_all connect schedule rnd local down_reads down_out W =
     (case local of
        Err e \<Rightarrow> Some (Some (Err e), down_out, W)
      | Ok laddr \<Rightarrow>
          (let tcp_ctx = tcp_ctx_new rnd laddr
           in do {
             (r, _, W) \<leftarrow> tcp_connection_init hook (tcp_ctx, W);
             (case r of
                Err e \<Rightarrow> Some (Some (Err e), down_out, W)
              | Ok _ \<Rightarrow>
                  (case upstream_to_set (route (tcp_meta tcp_ctx)) of
                     None \<Rightarrow> Some (Some (Err ''plugin did not select an upstream''), down_out, W)
                   | Some upstream_addr \<Rightarrow>
                       (case connect (std_from_socket_address upstream_addr) of
                          Err e \<Rightarrow> Some (Some (Err e), down_out, W)
                        | Ok (up_reads, up_out) \<Rightarrow> do {
                            (a, b, W) \<leftarrow> try_join hook write_all schedule
                              (transfer_new tcp_ctx up_reads down_out,
                               transfer_new tcp_ctx down_reads up_out, W);
                            (case join_result (a, b, W) of
                               None \<Rightarrow> Some (None, tr_out a, W)
                             | Some (Err e) \<Rightarrow> Some (Some (Err e), tr_out a, W)
                             | Some (Ok _) \<Rightarrow> do {
                                 (r, _, W) \<leftarrow> tcp_connection_close hook (tcp_ctx, W);
                                 Some (Some r, tr_out a, W)
                               })
                          })))
           }))"

section \<open>Serving a UDP socket\<close>

definition udp_ctx_new :: "u64 \<Rightarrow> std_socket_addr \<Rightarrow> udp_context" where
  "udp_ctx_new rnd local =
     \<lparr>datagram = None,
      udp_meta =
        \<lparr>connection =
           \<lparr>conn_id = ID rnd, local_addr = socket_address_from_std local, peer_addr = None,
            protocol = Udp\<rparr>,
         direction = None,
         route = route_decision_default\<rparr>\<rparr>"

definition set_datagram :: "bytes \<Rightarrow> std_socket_addr \<Rightarrow> udp_context \<Rightarrow> udp_context" where
  "set_datagram data peer ctx =
     ctx\<lparr>udp_meta := (udp_meta ctx)\<lparr>connection := (connection (udp_meta ctx))\<lparr>
           peer_addr := Some \<lparr>sa_host = show_ip (sock_ip peer), sa_port = sock_port peer\<rparr>\<rparr>\<rparr>,
         datagram := Some data\<rparr>"

text \<open>
  The receive loop. The buffer has 4096 bytes; \<open>udp_ctx\<close> is the context made before the session
  hook, \<open>curr_ctx\<close> the clone the datagram hooks get; \<open>expect\<close> panics when sending fails.
\<close>

fun udp_loop ::
  "'w udp_proxy_hooks \<Rightarrow> (bytes \<Rightarrow> std_socket_addr \<Rightarrow> 'o \<Rightarrow> (unit, string) result \<times> 'o) \<Rightarrow> udp_context \<Rightarrow>
   (bytes \<times> std_socket_addr, string) result list \<Rightarrow> udp_context \<times> 'o \<times> 'w world \<Rightarrow>
   ((unit, string) result option \<times> udp_context \<times> 'o \<times> 'w world) option" where
  "udp_loop hook send_to udp_ctx [] s = Some (None, s)"
| "udp_loop hook send_to udp_ctx (Err e # rs) s = Some (Some (Err e), s)"
| "udp_loop hook send_to udp_ctx (Ok (data, peer) # rs) (curr_ctx, out, W) =
     (if data = [] then Some (Some (Ok ()), curr_ctx, out, W)
      else if length data > 4096 then None
      else do {
        (r, curr_ctx, W) \<leftarrow> udp_datagram_received hook (set_datagram data peer curr_ctx, W);
        (case r of
           Err e \<Rightarrow> Some (Some (Err e), curr_ctx, out, W)
         | Ok _ \<Rightarrow>
             (case upstream_to_set (route (udp_meta udp_ctx)) of
                None \<Rightarrow> Some (Some (Err ''plugin did not select an upstream''), curr_ctx, out, W)
              | Some upstream_addr \<Rightarrow>
                  (case send_to data (std_from_socket_address upstream_addr) out of
                     (Err _, out) \<Rightarrow> None
                   | (Ok _, out) \<Rightarrow> udp_loop hook send_to udp_ctx rs (curr_ctx, out, W))))
      })"

definition udp_serve ::
  "'w udp_proxy_hooks \<Rightarrow> (bytes \<Rightarrow> std_socket_addr \<Rightarrow> 'o \<Rightarrow> (unit, string) result \<times> 'o) \<Rightarrow> u64 \<Rightarrow>
   (std_socket_addr, string) result \<Rightarrow> (bytes \<times> std_socket_addr, string) result list \<Rightarrow> 'o \<Rightarrow> 'w world \<Rightarrow>
   ((unit, string) result option \<times> 'o \<times> 'w world) option" where
  "udp_serve hook send_to rnd local recvs out W = do {
     laddr \<leftarrow> result_ok local;
     let udp_ctx = udp_ctx_new rnd laddr;
     (r, _, W) \<leftarrow> udp_session_start hook (udp_ctx, W);
     (case r of
        Err e \<Rightarrow> Some (Some (Err e), out, W)
      | Ok _ \<Rightarrow> do {
          (res, curr_ctx, out, W) \<leftarrow> udp_loop hook send_to udp_ctx recvs (udp_ctx, out, W);
          (case res of
             None \<Rightarrow> Some (None, out, W)
           | Some (Err e) \<Rightarrow> Some (Some (Err e), out, W)
           | Some (Ok _) \<Rightarrow> do {
               (r, _, W) \<leftarrow> udp_session_close hook (curr_ctx, W);
               Some (Some r, out, W)
             })
        })
   }"

section \<open>Launchers\<close>

text \<open>
  Binding is a parameter (failing to bind panics), and so is rama's \<open>listener.serve\<close>, which hands
  the accepted connections to the service and then returns.
\<close>

definition run_tcp_server ::
  "(std_socket_addr \<Rightarrow> ('l, string) result) \<Rightarrow> ('l \<Rightarrow> 'service \<Rightarrow> 'w world \<Rightarrow> 'w world option) \<Rightarrow>
   std_socket_addr \<Rightarrow> 'service \<Rightarrow> 'w world \<Rightarrow> ((unit, string) result \<times> 'w world) option" where
  "run_tcp_server bind_address serve listen service W = do {
     listener \<leftarrow> result_ok (bind_address listen);
     W \<leftarrow> serve listener service W;
     Some (Ok (), W)
   }"

definition run_udp_server ::
  "(std_socket_addr \<Rightarrow> (std_socket_addr, string) result) \<Rightarrow> 'w udp_proxy_hooks \<Rightarrow>
   (bytes \<Rightarrow> std_socket_addr \<Rightarrow> 'o \<Rightarrow> (unit, string) result \<times> 'o) \<Rightarrow> u64 \<Rightarrow> std_socket_addr \<Rightarrow>
   (bytes \<times> std_socket_addr, string) result list \<Rightarrow> 'o \<Rightarrow> 'w world \<Rightarrow>
   ((unit, string) result option \<times> 'o \<times> 'w world) option" where
  "run_udp_server bind_socket hook send_to rnd listen recvs out W = do {
     bound \<leftarrow> result_ok (bind_socket listen);
     udp_serve hook send_to rnd (Ok bound) recvs out W
   }"

section \<open>The contract of the hooks\<close>

text \<open>
  What the services rely on: a hook never fails, and it calls nothing but hooks of its protocol.
\<close>

locale l4_hooks =
  fixes kind :: proto
    and m_start m_data m_close :: "('c, 'w) l4_method"
  assumes start_law: "m_start (ctx, W) = Some (r, ctx', W') \<Longrightarrow> r = Ok () \<and> hooks_ext kind W W'"
    and data_law: "m_data (ctx, W) = Some (r, ctx', W') \<Longrightarrow> r = Ok () \<and> hooks_ext kind W W'"
    and close_law: "m_close (ctx, W) = Some (r, ctx', W') \<Longrightarrow> r = Ok () \<and> hooks_ext kind W W'"
begin

lemma life_ok:
  assumes "m_start (ctx, W) = Some (r, ctx1, W1)" and "m_data (ctx1, W1) = Some (r', ctx2, W2)"
    and "m_close (ctx2, W2) = Some (r'', ctx3, W3)"
  shows "hooks_ext kind W W3"
  using start_law[OF assms(1)] data_law[OF assms(2)] close_law[OF assms(3)]
  by (blast intro: hooks_ext_trans)

end

text \<open>For TCP: a transfer can then only fail because a read or a write failed.\<close>

locale tcp_hooks =
  l4_hooks TcpProto "tcp_connection_init H" "tcp_data_received H" "tcp_connection_close H"
  for H :: "'w tcp_proxy_hooks"
begin

lemma transfer_step_error:
  assumes "transfer_step H write_all dir (t, W) = Some (t', W')" and "tr_pc t' = Finished (Err e)"
  shows "tr_pc t = Finished (Err e) \<or> (\<exists>rs. tr_reads t = Err e # rs) \<or>
    (\<exists>b. tr_pc t = Writing b \<and> fst (write_all b (tr_out t)) = Err e)"
proof (cases "tr_pc t")
  case Reading
  show ?thesis
  proof (cases "tr_reads t")
    case Nil
    with assms Reading show ?thesis by (simp add: transfer_step_def)
  next
    case (Cons x rs)
    show ?thesis
    proof (cases x)
      case (Ok d)
      have "tr_pc t' \<noteq> Finished (Err e)" if "d \<noteq> []"
      proof -
        from assms Reading Cons Ok that obtain r ctx V where
          h: "tcp_data_received H (set_chunk dir d (tr_ctx t), W) = Some (r, ctx, V)"
          by (auto simp: transfer_step_def split: if_splits Option.bind_splits)
        with assms Reading Cons Ok that data_law[OF h] show ?thesis
          by (auto simp: transfer_step_def split: if_splits option.splits)
      qed
      with assms Reading Cons Ok show ?thesis
        by (cases "d = []") (auto simp: transfer_step_def)
    next
      case (Err e')
      with assms Reading Cons show ?thesis by (auto simp: transfer_step_def)
    qed
  qed
next
  case (Writing b)
  with assms show ?thesis
    by (auto simp: transfer_step_def Let_def split: prod.splits result.splits)
next
  case (Finished r)
  with assms show ?thesis by (simp add: transfer_step_def)
qed

end

text \<open>
  For UDP: as the context made at the start has no upstream, a session ends after the first receive
  whatever the hooks do, and nothing is ever sent.
\<close>

lemma udp_loop_no_upstream:
  assumes "upstream_to_set (route (udp_meta uctx)) = None"
  shows "udp_loop hook send_to uctx recvs (cur, out, W) =
    (case recvs of
       [] \<Rightarrow> Some (None, cur, out, W)
     | Err e # _ \<Rightarrow> Some (Some (Err e), cur, out, W)
     | Ok (d, peer) # _ \<Rightarrow>
         if d = [] then Some (Some (Ok ()), cur, out, W)
         else if length d > 4096 then None
         else map_option (\<lambda>(r, cur, W). (Some (and_then r (\<lambda>_. Err ''plugin did not select an upstream'')), cur, out, W))
                (udp_datagram_received hook (set_datagram d peer cur, W)))"
proof (cases recvs)
  case (Cons x rs)
  with assms show ?thesis
    by (cases x) (auto split: prod.split result.split Option.bind_split)
qed simp

text \<open>How a session ends, from what is received.\<close>

definition session_result :: "(bytes \<times> std_socket_addr, string) result list \<Rightarrow> (unit, string) result option" where
  "session_result recvs =
     (case recvs of
        [] \<Rightarrow> None
      | Err e # _ \<Rightarrow> Some (Err e)
      | Ok (d, _) # _ \<Rightarrow> Some (if d = [] then Ok () else Err ''plugin did not select an upstream''))"

locale udp_hooks =
  l4_hooks UdpProto "udp_session_start H" "udp_datagram_received H" "udp_session_close H"
  for H :: "'w udp_proxy_hooks"
begin

lemma udp_loop_result:
  assumes "udp_loop H send_to (udp_ctx_new rnd l) recvs (cur, out, W) = Some (res, cur', out', W')"
  shows "out' = out \<and> hooks_ext UdpProto W W' \<and> res = session_result recvs"
proof -
  have n: "upstream_to_set (route (udp_meta (udp_ctx_new rnd l))) = None"
    by (simp add: udp_ctx_new_def default_simps)
  show ?thesis
    using assms unfolding udp_loop_no_upstream[OF n]
    by (auto simp: session_result_def split: list.splits result.splits prod.splits if_splits
        dest!: data_law)
qed

lemma udp_serve_result:
  assumes "udp_serve H send_to rnd (Ok l) recvs out W = Some (res, out', W')"
  shows "out' = out \<and> hooks_ext UdpProto W W' \<and> res = session_result recvs"
proof -
  from assms obtain r c1 W1 where
    s: "udp_session_start H (udp_ctx_new rnd l, W) = Some (r, c1, W1)"
    by (auto simp: udp_serve_def Let_def split: Option.bind_splits)
  note start_law[OF s]
  with assms s obtain res1 c2 out2 W2 where
    l: "udp_loop H send_to (udp_ctx_new rnd l) recvs (udp_ctx_new rnd l, out, W1) = Some (res1, c2, out2, W2)"
    by (auto simp: udp_serve_def Let_def split: Option.bind_splits)
  note r = udp_loop_result[OF l]
  from assms s l \<open>r = Ok () \<and> _\<close> r show ?thesis
    by (auto simp: udp_serve_def Let_def split: Option.bind_splits option.splits result.splits
        dest!: close_law intro: hooks_ext_trans)
qed

end

interpretation noop_l4: l4_hooks kind l4_default l4_default l4_default for kind
  by unfold_locales (auto simp: l4_default_def)

interpretation noop_tcp: tcp_hooks noop_tcp_hooks
  by unfold_locales (auto simp: noop_tcp_hooks_def l4_default_def)

interpretation noop_udp: udp_hooks noop_udp_hooks
  by unfold_locales (auto simp: noop_udp_hooks_def l4_default_def)

text \<open>The calls of the plugins' hooks, and that they keep the contract.\<close>

definition connect_trace :: "'w plugin_tcp_module list \<Rightarrow> call list" where
  "connect_trace ms = concat (map (\<lambda>m.
     hook_trace TcpProto OnRoute (tcp_instance m) (tcp_on_route m) @
     hook_trace TcpProto OnConnect (tcp_instance m) (on_connect m)) ms)"

definition tcp_trace ::
  "phase \<Rightarrow> ('w plugin_tcp_module \<Rightarrow> 'w tcp_hook_fn option) \<Rightarrow> 'w plugin_tcp_module list \<Rightarrow> call list" where
  "tcp_trace ph hook ms = concat (map (\<lambda>m. hook_trace TcpProto ph (tcp_instance m) (hook m)) ms)"

definition udp_trace ::
  "phase \<Rightarrow> ('w plugin_udp_module \<Rightarrow> 'w udp_hook_fn option) \<Rightarrow> 'w plugin_udp_module list \<Rightarrow> call list" where
  "udp_trace ph hook ms = concat (map (\<lambda>m. hook_trace UdpProto ph (udp_instance m) (hook m)) ms)"

lemmas l4_traces = connect_trace_def tcp_trace_def udp_trace_def

lemma connect_module_calls:
  "do { s \<leftarrow> run_ignored TcpProto OnRoute i f (c, V); run_ignored TcpProto OnConnect i g s } = Some (c', V') \<Longrightarrow>
   calls V' = calls V @ hook_trace TcpProto OnRoute i f @ hook_trace TcpProto OnConnect i g"
  by (auto split: Option.bind_splits dest!: run_ignored_calls)

lemma plugin_tcp_calls:
  "plugin_tcp_connection_init ms (ctx, W) = Some (r, ctx', W') \<Longrightarrow>
     r = Ok () \<and> calls W' = calls W @ connect_trace ms"
  "plugin_tcp_data_received ms (ctx, W) = Some (r, ctx', W') \<Longrightarrow>
     r = Ok () \<and> calls W' = calls W @ tcp_trace OnData on_data ms"
  "plugin_tcp_connection_close ms (ctx, W) = Some (r, ctx', W') \<Longrightarrow>
     r = Ok () \<and> calls W' = calls W @ tcp_trace OnClose on_close ms"
  unfolding plugin_tcp_connection_init_def plugin_tcp_data_received_def plugin_tcp_connection_close_def
    l4_traces
  by (auto intro!: for_each_calls connect_module_calls run_ignored_calls)

lemma plugin_udp_calls:
  "plugin_udp_session_start us (uctx, W) = Some (r, uctx', W') \<Longrightarrow>
     r = Ok () \<and> calls W' = calls W @ udp_trace OnSessionStart on_session_start us"
  "plugin_udp_datagram_received us (uctx, W) = Some (r, uctx', W') \<Longrightarrow>
     r = Ok () \<and> calls W' = calls W @ udp_trace OnDatagram on_datagram us"
  "plugin_udp_session_close us (uctx, W) = Some (r, uctx', W') \<Longrightarrow>
     r = Ok () \<and> calls W' = calls W @ udp_trace OnSessionEnd on_session_end us"
  unfolding plugin_udp_session_start_def plugin_udp_datagram_received_def plugin_udp_session_close_def
    l4_traces
  by (auto intro!: for_each_calls run_ignored_calls)

lemma l4_trace_hooks:
  "c \<in> set (connect_trace ms) \<Longrightarrow> \<exists>ph i. c = Hook TcpProto ph i"
  "c \<in> set (tcp_trace ph f ms) \<Longrightarrow> \<exists>ph i. c = Hook TcpProto ph i"
  "c \<in> set (udp_trace ph g us) \<Longrightarrow> \<exists>ph i. c = Hook UdpProto ph i"
  by (auto simp: l4_traces dest: hook_trace_hooks)

interpretation plugin_tcp: tcp_hooks "plugin_tcp_hooks self" for self
  by unfold_locales
    (auto simp: plugin_tcp_hooks_def dest!: plugin_tcp_calls intro!: hooks_ext_trace dest: l4_trace_hooks)

interpretation plugin_udp: udp_hooks "plugin_udp_hooks self" for self
  by unfold_locales
    (auto simp: plugin_udp_hooks_def dest!: plugin_udp_calls intro!: hooks_ext_trace dest: l4_trace_hooks)

section \<open>Transfers, step by step\<close>

lemma transfer_step_simps [simp]:
  "transfer_step hook wr dir (\<lparr>tr_ctx = ctx, tr_reads = rs, tr_out = out, tr_pc = Finished r\<rparr>, W) =
     Some (\<lparr>tr_ctx = ctx, tr_reads = rs, tr_out = out, tr_pc = Finished r\<rparr>, W)"
  "transfer_step hook wr dir (\<lparr>tr_ctx = ctx, tr_reads = [], tr_out = out, tr_pc = Reading\<rparr>, W) =
     Some (\<lparr>tr_ctx = ctx, tr_reads = [], tr_out = out, tr_pc = Reading\<rparr>, W)"
  "transfer_step hook wr dir (\<lparr>tr_ctx = ctx, tr_reads = Err e # rs, tr_out = out, tr_pc = Reading\<rparr>, W) =
     Some (\<lparr>tr_ctx = ctx, tr_reads = rs, tr_out = out, tr_pc = Finished (Err e)\<rparr>, W)"
  "transfer_step hook wr dir (\<lparr>tr_ctx = ctx, tr_reads = Ok [] # rs, tr_out = out, tr_pc = Reading\<rparr>, W) =
     Some (\<lparr>tr_ctx = ctx, tr_reads = rs, tr_out = out, tr_pc = Finished (Ok ())\<rparr>, W)"
  "transfer_step hook wr dir (\<lparr>tr_ctx = ctx, tr_reads = rs, tr_out = out, tr_pc = Writing b\<rparr>, W) =
     Some (\<lparr>tr_ctx = ctx, tr_reads = rs, tr_out = snd (wr b out),
       tr_pc = (case fst (wr b out) of Ok _ \<Rightarrow> Reading | Err e \<Rightarrow> Finished (Err e))\<rparr>, W)"
  by (simp_all add: transfer_step_def Let_def split: prod.split)

lemma transfer_step_chunk:
  "d \<noteq> [] \<Longrightarrow>
   transfer_step hook wr dir (\<lparr>tr_ctx = ctx, tr_reads = Ok d # rs, tr_out = out, tr_pc = Reading\<rparr>, W) =
     (if length d > 8192 then None
      else map_option (\<lambda>(r, ctx, W). (\<lparr>tr_ctx = ctx, tr_reads = rs, tr_out = out,
          tr_pc = (case r of Err e \<Rightarrow> Finished (Err e)
            | Ok _ \<Rightarrow> (case chunk ctx of None \<Rightarrow> Reading | Some b \<Rightarrow> Writing b))\<rparr>, W))
        (tcp_data_received hook (set_chunk dir d ctx, W)))"
  by (auto simp: transfer_step_def split: Option.bind_split prod.split)

text \<open>A number of steps of one transfer on its own.\<close>

fun transfer_run ::
  "'w tcp_proxy_hooks \<Rightarrow> (bytes \<Rightarrow> 'o \<Rightarrow> (unit, string) result \<times> 'o) \<Rightarrow> flow_direction \<Rightarrow> nat \<Rightarrow>
   'o transfer \<times> 'w world \<Rightarrow> ('o transfer \<times> 'w world) option" where
  "transfer_run hook wr dir 0 s = Some s"
| "transfer_run hook wr dir (Suc n) s = Option.bind (transfer_step hook wr dir s) (transfer_run hook wr dir n)"

lemma transfer_run_idle:
  "transfer_run hook wr dir n (\<lparr>tr_ctx = ctx, tr_reads = rs, tr_out = out, tr_pc = Finished r\<rparr>, W) =
     Some (\<lparr>tr_ctx = ctx, tr_reads = rs, tr_out = out, tr_pc = Finished r\<rparr>, W)"
  "transfer_run hook wr dir n (\<lparr>tr_ctx = ctx, tr_reads = [], tr_out = out, tr_pc = Reading\<rparr>, W) =
     Some (\<lparr>tr_ctx = ctx, tr_reads = [], tr_out = out, tr_pc = Reading\<rparr>, W)"
  by (induction n) simp_all

text \<open>One more step than needed changes nothing when the transfer stands at a read that ends it or
  waits; a chunk takes two.\<close>

definition transfer_view ::
  "'o transfer \<times> 'w world \<Rightarrow> (unit, string) result option \<times> tcp_context \<times> 'o \<times> 'w world" where
  "transfer_view = (\<lambda>(t, W).
     (case tr_pc t of Finished r \<Rightarrow> Some r | _ \<Rightarrow> None, tr_ctx t, tr_out t, W))"

lemma transfer_run_view:
  "2 * length rs \<le> n \<Longrightarrow>
   map_option transfer_view
     (transfer_run hook wr dir n (\<lparr>tr_ctx = ctx, tr_reads = rs, tr_out = out, tr_pc = Reading\<rparr>, W)) =
   tcp_transfer hook wr dir rs (ctx, out, W)"
proof (induction rs arbitrary: n ctx out W)
  case Nil
  then show ?case by (simp add: transfer_run_idle transfer_view_def)
next
  case (Cons x rs)
  then have "n = Suc (Suc (n - 2))" "2 * length rs \<le> n - 2" by simp_all
  then obtain k where n: "n = Suc (Suc k)" and k: "2 * length rs \<le> k" by blast
  show ?case
  proof (cases x)
    case (Err e)
    then show ?thesis by (simp add: n transfer_run_idle transfer_view_def)
  next
    case (Ok d)
    show ?thesis
    proof (cases "d = [] \<or> length d > 8192")
      case True
      with Ok show ?thesis
        by (cases "d = []") (simp_all add: n transfer_run_idle transfer_view_def transfer_step_chunk)
    next
      case False
      then have d: "d \<noteq> []" "\<not> length d > 8192" by simp_all
      show ?thesis
      proof (cases "tcp_data_received hook (set_chunk dir d ctx, W)")
        case None
        with Ok d show ?thesis by (simp add: n transfer_step_chunk)
      next
        case (Some y)
        obtain r ctx1 W1 where y: "y = (r, ctx1, W1)" by (cases y)
        have 1: "map_option transfer_view (transfer_run hook wr dir (Suc k)
            (\<lparr>tr_ctx = ctx1, tr_reads = rs, tr_out = out, tr_pc = Reading\<rparr>, W1)) =
          tcp_transfer hook wr dir rs (ctx1, out, W1)"
          using Cons.IH[of "Suc k"] k by simp
        have 2: "map_option transfer_view (transfer_run hook wr dir k
            (\<lparr>tr_ctx = ctx1, tr_reads = rs, tr_out = o', tr_pc = Reading\<rparr>, W1)) =
          tcp_transfer hook wr dir rs (ctx1, o', W1)" for o'
          using Cons.IH[of k] k by simp
        have step: "transfer_run hook wr dir n
            (\<lparr>tr_ctx = ctx, tr_reads = x # rs, tr_out = out, tr_pc = Reading\<rparr>, W) =
          transfer_run hook wr dir (Suc k) (\<lparr>tr_ctx = ctx1, tr_reads = rs, tr_out = out,
            tr_pc = (case r of Err e \<Rightarrow> Finished (Err e)
              | Ok _ \<Rightarrow> (case chunk ctx1 of None \<Rightarrow> Reading | Some b \<Rightarrow> Writing b))\<rparr>, W1)"
          unfolding n transfer_run.simps(2)[of _ _ _ "Suc k"]
          using Ok d Some y by (simp add: transfer_step_chunk[OF d(1)] del: transfer_run.simps)
        show ?thesis
        proof (cases r)
          case (Err e)
          with Ok d Some y show ?thesis
            unfolding step by (simp add: transfer_run_idle transfer_view_def)
        next
          case rOk: (Ok u)
          show ?thesis
          proof (cases "chunk ctx1")
            case None
            with Ok rOk d Some y 1 show ?thesis unfolding step by (simp del: transfer_run.simps)
          next
            case chunk: (Some b)
            obtain w o' where w: "wr b out = (w, o')" by fastforce
            have "transfer_run hook wr dir (Suc k)
                (\<lparr>tr_ctx = ctx1, tr_reads = rs, tr_out = out, tr_pc = Writing b\<rparr>, W1) =
              transfer_run hook wr dir k (\<lparr>tr_ctx = ctx1, tr_reads = rs, tr_out = o',
                tr_pc = (case w of Ok _ \<Rightarrow> Reading | Err e \<Rightarrow> Finished (Err e))\<rparr>, W1)"
              by (simp add: w)
            with Ok rOk d Some y chunk w 2[of o'] show ?thesis
              unfolding step by (cases w) (simp_all add: transfer_run_idle transfer_view_def del: transfer_run.simps)
          qed
        qed
      qed
    qed
  qed
qed

section \<open>What is forwarded\<close>

text \<open>Hooks whose effect on a chunk is that of a function: change it, or drop it.\<close>

definition transforms :: "'w tcp_proxy_hooks \<Rightarrow> (bytes \<Rightarrow> bytes option) \<Rightarrow> bool" where
  "transforms hook f \<longleftrightarrow>
     (\<forall>ctx W d. chunk ctx = Some d \<longrightarrow>
        (\<exists>ctx' W'. tcp_data_received hook (ctx, W) = Some (Ok (), ctx', W') \<and> chunk ctx' = f d))"

text \<open>The bytes a stream of reads amounts to, up to its end or its first error.\<close>

fun payload :: "(bytes \<Rightarrow> bytes option) \<Rightarrow> (bytes, string) result list \<Rightarrow> bytes" where
  "payload f [] = []"
| "payload f (Err e # rs) = []"
| "payload f (Ok d # rs) =
     (if d = [] then [] else (case f d of None \<Rightarrow> [] | Some b \<Rightarrow> b) @ payload f rs)"

text \<open>An output that never fails and keeps all bytes.\<close>

definition append_out :: "bytes \<Rightarrow> bytes \<Rightarrow> (unit, string) result \<times> bytes" where
  "append_out b out = (Ok (), out @ b)"

text \<open>What a transfer has written and what it is still going to write.\<close>

definition total :: "(bytes \<Rightarrow> bytes option) \<Rightarrow> bytes transfer \<Rightarrow> bytes" where
  "total f t = tr_out t @
     (case tr_pc t of
        Finished _ \<Rightarrow> []
      | Reading \<Rightarrow> payload f (tr_reads t)
      | Writing b \<Rightarrow> b @ payload f (tr_reads t))"

lemma transfer_step_total:
  assumes "transforms hook f" and "transfer_step hook append_out dir (t, W) = Some (t', W')"
  shows "total f t' = total f t"
proof (cases t)
  case (fields ctx rs out pc)
  show ?thesis
  proof (cases pc)
    case Reading
    show ?thesis
    proof (cases rs)
      case Nil
      with assms fields Reading show ?thesis by (simp add: total_def)
    next
      case (Cons x rs')
      show ?thesis
      proof (cases x)
        case (Err e)
        with assms fields Reading Cons show ?thesis by (auto simp: total_def)
      next
        case (Ok d)
        show ?thesis
        proof (cases "d = []")
          case True
          with assms fields Reading Cons Ok show ?thesis by (auto simp: total_def)
        next
          case False
          have "chunk (set_chunk dir d ctx) = Some d" by (simp add: set_chunk_def)
          then obtain ctx' V where h: "tcp_data_received hook (set_chunk dir d ctx, W) = Some (Ok (), ctx', V)"
            "chunk ctx' = f d"
            using assms(1) unfolding transforms_def by blast
          from assms(2) fields Reading Cons Ok False h show ?thesis
            by (auto simp: total_def transfer_step_chunk split: if_splits option.splits)
        qed
      qed
    qed
  next
    case (Writing b)
    with assms(2) fields show ?thesis by (auto simp: total_def append_out_def)
  next
    case (Finished r)
    with assms(2) fields show ?thesis by simp
  qed
qed

lemma join_steps_total:
  assumes "transforms hook f" and "(join_step hook append_out)\<^sup>*\<^sup>* s s'"
  shows "total f (fst s') = total f (fst s) \<and> total f (fst (snd s')) = total f (fst (snd s))"
  using assms(2)
proof (induction rule: rtranclp_induct)
  case base
  then show ?case by simp
next
  case (step y z)
  obtain a b V where y: "y = (a, b, V)" by (cases y)
  from step(2)[unfolded y] have "total f (fst z) = total f a \<and> total f (fst (snd z)) = total f b"
    by (rule join_stepE) (auto dest: transfer_step_total[OF assms(1)])
  with step.IH y show ?case by simp
qed

text \<open>Every schedule is a path of steps.\<close>

lemma try_join_steps:
  "try_join hook wr ps s = Some s' \<Longrightarrow> (join_step hook wr)\<^sup>*\<^sup>* s s'"
proof (induction hook wr ps s rule: try_join.induct)
  case (2 hook wr p ps a b W)
  note [simp del] = join_result.simps
  show ?case
  proof (cases "join_result (a, b, W) = None")
    case True
    note go = this
    show ?thesis
    proof (cases p)
      case True
      with 2(3) go obtain a' V where t: "transfer_step hook wr Outbound (a, W) = Some (a', V)"
        "try_join hook wr ps (a', b, V) = Some s'"
        by (auto split: Option.bind_splits)
      with 2(1) True go have "(join_step hook wr)\<^sup>*\<^sup>* (a', b, V) s'" by simp
      with join_step.upstream_to_downstream[OF go t(1)] show ?thesis
        by (rule converse_rtranclp_into_rtranclp)
    next
      case False
      with 2(3) go obtain b' V where t: "transfer_step hook wr Inbound (b, W) = Some (b', V)"
        "try_join hook wr ps (a, b', V) = Some s'"
        by (auto split: Option.bind_splits)
      with 2(2) False go have "(join_step hook wr)\<^sup>*\<^sup>* (a, b', V) s'" by simp
      with join_step.downstream_to_upstream[OF go t(1)] show ?thesis
        by (rule converse_rtranclp_into_rtranclp)
    qed
  next
    case False
    with 2(3) show ?thesis by auto
  qed
qed simp

section \<open>Properties\<close>

text \<open>C14: no TCP connection is ever proxied. Whatever route the plugins choose, on whatever context they
  are given, serving a connection calls the route and connect hooks of every module in chain order
  and then ends with the error that no plugin selected an upstream: the hooks write to a clone of
  the context the upstream is read from. Nothing is connected, nothing is written to the client and
  no close hook is called.\<close>

theorem tcp_connection_fails:
  assumes "tcp_serve (plugin_tcp_hooks self) write_all connect schedule rnd (Ok laddr) down_reads down_out W =
    Some (res, down_out', W')"
  shows "res = Some (Err ''plugin did not select an upstream'') \<and> down_out' = down_out \<and>
    calls W' = calls W @ connect_trace (tcp_modules self)"
proof -
  from assms obtain r ctx1 W1 where
    i: "plugin_tcp_connection_init (tcp_modules self) (tcp_ctx_new rnd laddr, W) = Some (r, ctx1, W1)"
    by (auto simp: tcp_serve_def plugin_tcp_hooks_def Let_def split: Option.bind_splits)
  from plugin_tcp_calls(1)[OF i] have "r = Ok ()" "calls W1 = calls W @ connect_trace (tcp_modules self)"
    by simp_all
  moreover have "upstream_to_set (route (tcp_meta (tcp_ctx_new rnd laddr))) = None"
    by (simp add: tcp_ctx_new_def default_simps)
  ultimately show ?thesis
    using assms i by (simp add: tcp_serve_def plugin_tcp_hooks_def)
qed

text \<open>A module that routes every connection to a fixed upstream.\<close>

definition routing_tcp_module :: "unit plugin_tcp_module" where
  "routing_tcp_module = tcp_module_default\<lparr>tcp_on_route := Some (constant_hook
     (\<lambda>c. c\<lparr>tcp_meta := (tcp_meta c)\<lparr>route := \<lparr>route_action = ReplaceUpstream,
        upstream_to_set = Some \<lparr>sa_host = ''10.0.0.1'', sa_port = 80\<rparr>, http_path = None\<rparr>\<rparr>\<rparr>)
     (Ok \<lparr>action = Replace\<rparr>))\<rparr>"

definition only_tcp :: "unit plugin_proxy_hooks" where
  "only_tcp = \<lparr>http_modules = [], tcp_modules = [routing_tcp_module], udp_modules = []\<rparr>"

theorem tcp_connection_fails_witness:
  "\<exists>W'. tcp_serve (plugin_tcp_hooks only_tcp) append_out (\<lambda>_. Ok ([Ok []], [])) [True, False] 7
     (Ok (socket_addr_new (V4 127 0 0 1) 12346)) [Ok (utf8 ''hello'')] [] sample_world =
     Some (Some (Err ''plugin did not select an upstream''), [], W')"
proof -
  let ?c = "tcp_ctx_new 7 (socket_addr_new (V4 127 0 0 1) 12346)"
  have "\<exists>res out W'. tcp_serve (plugin_tcp_hooks only_tcp) append_out (\<lambda>_. Ok ([Ok []], [])) [True, False] 7
     (Ok (socket_addr_new (V4 127 0 0 1) 12346)) [Ok (utf8 ''hello'')] [] sample_world = Some (res, out, W')"
    by (simp add: tcp_serve_def plugin_tcp_hooks_def plugin_tcp_connection_init_def only_tcp_def
        routing_tcp_module_def run_ignored_def[of _ _ _ None] sample_world_def default_simps tcp_ctx_new_def)
  then obtain res out W' where t: "tcp_serve (plugin_tcp_hooks only_tcp) append_out (\<lambda>_. Ok ([Ok []], []))
      [True, False] 7 (Ok (socket_addr_new (V4 127 0 0 1) 12346)) [Ok (utf8 ''hello'')] [] sample_world =
      Some (res, out, W')" by blast
  from tcp_connection_fails[OF t] t show ?thesis by simp
qed

text \<open>C15: no UDP datagram is ever forwarded. With any plugins the session of a bound socket sends nothing
  and ends at the first receive: with success for an empty datagram, with the receive error if it
  failed, and for every other datagram - after its hooks were called - with the error that no plugin
  selected an upstream.\<close>

theorem udp_never_forwards:
  assumes "udp_serve (plugin_udp_hooks self) send_to rnd (Ok laddr) recvs out W = Some (res, out', W')"
  shows "out' = out \<and> res = session_result recvs \<and> hooks_ext UdpProto W W'"
  using plugin_udp.udp_serve_result[OF assms] by simp

theorem udp_never_forwards_witness:
  "\<exists>W'. udp_serve (plugin_udp_hooks (only_tcp\<lparr>udp_modules := [udp_module_default]\<rparr>)) (\<lambda>b a o'. append_out b o') 7
     (Ok (socket_addr_new (V4 127 0 0 1) 12347))
     [Ok (utf8 ''ping'', socket_addr_new (V4 10 0 0 1) 53), Ok (utf8 ''ping'', socket_addr_new (V4 10 0 0 1) 53)]
     [] sample_world = Some (Some (Err ''plugin did not select an upstream''), [], W')"
proof -
  let ?s = "udp_serve (plugin_udp_hooks (only_tcp\<lparr>udp_modules := [udp_module_default]\<rparr>)) (\<lambda>b a o'. append_out b o') 7
     (Ok (socket_addr_new (V4 127 0 0 1) 12347))
     [Ok (utf8 ''ping'', socket_addr_new (V4 10 0 0 1) 53), Ok (utf8 ''ping'', socket_addr_new (V4 10 0 0 1) 53)]
     [] sample_world"
  have "\<exists>res out W'. ?s = Some (res, out, W')"
    by (simp add: udp_serve_def plugin_udp_hooks_def plugin_udp_session_start_def udp_ctx_new_def
        plugin_udp_datagram_received_def only_tcp_def run_ignored_def sample_world_def default_simps utf8_def
        utf8_char_def set_datagram_def)
  then obtain res out W' where t: "?s = Some (res, out, W')" by blast
  from udp_never_forwards[OF t] t show ?thesis
    by (simp add: session_result_def utf8_def utf8_char_def)
qed

text \<open>C3: what the two transfers of a connection forward, however they are interleaved. If the data
  hooks change every chunk by some function (or drop it), then at any moment what a direction has
  written is a prefix of its own chunks so changed, in order, and independent of the other
  direction; when both have ended without an error everything has been written.\<close>

theorem join_forwards:
  assumes "transforms hook f"
    and "(join_step hook append_out)\<^sup>*\<^sup>*
      (transfer_new ctx up_reads [], transfer_new ctx' down_reads [], W) (a, b, V)"
  shows "(\<exists>rest. payload f up_reads = tr_out a @ rest) \<and>
    (\<exists>rest. payload f down_reads = tr_out b @ rest) \<and>
    (join_result (a, b, V) = Some (Ok ()) \<longrightarrow>
      tr_out a = payload f up_reads \<and> tr_out b = payload f down_reads)"
proof (intro conjI impI)
  have t: "total f a = payload f up_reads" "total f b = payload f down_reads"
    using join_steps_total[OF assms] by (simp_all add: transfer_new_def total_def)
  from t show "\<exists>rest. payload f up_reads = tr_out a @ rest" "\<exists>rest. payload f down_reads = tr_out b @ rest"
    by (metis total_def)+
  assume "join_result (a, b, V) = Some (Ok ())"
  then obtain x y where "tr_pc a = Finished x" "tr_pc b = Finished y"
    by (auto split: transfer_pc.splits result.splits)
  with t show "tr_out a = payload f up_reads" "tr_out b = payload f down_reads"
    by (simp_all add: total_def)
qed

lemma noop_transforms: "transforms noop_tcp_hooks Some"
  by (auto simp: transforms_def noop_tcp_hooks_def l4_default_def)

lemma sample_join:
  "\<exists>a b V. try_join noop_tcp_hooks append_out [True, False, False, True, False, True]
     (transfer_new (tcp_ctx_new 7 l) [Ok (utf8 ''pong''), Ok []] [],
      transfer_new (tcp_ctx_new 7 l) [Ok (utf8 ''ping''), Ok []] [], W) = Some (a, b, V) \<and>
     join_result (a, b, V) = Some (Ok ())"
  by (simp add: transfer_new_def transfer_step_chunk noop_tcp_hooks_def l4_default_def utf8_def utf8_char_def
      append_out_def set_chunk_def)

theorem join_forwards_witness:
  "\<exists>a b V. (join_step noop_tcp_hooks append_out)\<^sup>*\<^sup>*
     (transfer_new (tcp_ctx_new 7 (socket_addr_new (V4 127 0 0 1) 12346)) [Ok (utf8 ''pong''), Ok []] [],
      transfer_new (tcp_ctx_new 7 (socket_addr_new (V4 127 0 0 1) 12346)) [Ok (utf8 ''ping''), Ok []] [], sample_world) (a, b, V) \<and>
     tr_out a = utf8 ''pong'' \<and> tr_out b = utf8 ''ping''"
proof -
  obtain a b V where t: "try_join noop_tcp_hooks append_out [True, False, False, True, False, True]
     (transfer_new (tcp_ctx_new 7 (socket_addr_new (V4 127 0 0 1) 12346)) [Ok (utf8 ''pong''), Ok []] [],
      transfer_new (tcp_ctx_new 7 (socket_addr_new (V4 127 0 0 1) 12346)) [Ok (utf8 ''ping''), Ok []] [], sample_world) = Some (a, b, V)"
    and r: "join_result (a, b, V) = Some (Ok ())"
    using sample_join by blast
  from join_forwards[OF noop_transforms try_join_steps[OF t]] r
  have "tr_out a = utf8 ''pong'' \<and> tr_out b = utf8 ''ping''"
    by (simp add: utf8_def utf8_char_def)
  with try_join_steps[OF t] show ?thesis by blast
qed

text \<open>The loop of one direction, run as a whole, does what its steps between await points do: on any
  hooks, output and reads, twice as many steps as there are reads are enough to reach the loop's
  result, or the point where it waits for more, or its panic.\<close>

lemma transfer_steps_refine:
  "map_option transfer_view (transfer_run hook write_all dir (2 * length reads) (transfer_new ctx reads out, W)) =
     tcp_transfer hook write_all dir reads (ctx, out, W)"
  unfolding transfer_new_def by (rule transfer_run_view) simp

text \<open>An error of a plugin's data hook never ends a connection. A step of a transfer under the
  plugins' hooks ends in an error only if the read it consumed failed or the write it made did.\<close>

lemma transfer_fails_on_io_only:
  assumes "transfer_step (plugin_tcp_hooks self) write_all dir (t, W) = Some (t', W')"
    and "tr_pc t' = Finished (Err e)"
  shows "tr_pc t = Finished (Err e) \<or> (\<exists>rs. tr_reads t = Err e # rs) \<or>
    (\<exists>b. tr_pc t = Writing b \<and> fst (write_all b (tr_out t)) = Err e)"
  using plugin_tcp.transfer_step_error[OF assms] .

definition failing_transfer :: "bytes transfer" where
  "failing_transfer = transfer_new (tcp_ctx_new 7 (socket_addr_new (V4 127 0 0 1) 1)) [Err ''reset''] []"

lemma transfer_fails_on_io_only_example:
  "tr_pc failing_transfer = Finished (Err ''reset'') \<or> (\<exists>rs. tr_reads failing_transfer = Err ''reset'' # rs) \<or>
    (\<exists>b. tr_pc failing_transfer = Writing b \<and> fst (append_out b (tr_out failing_transfer)) = Err ''reset'')"
proof (rule transfer_fails_on_io_only)
  show "transfer_step (plugin_tcp_hooks only_tcp) append_out Inbound (failing_transfer, sample_world) =
      Some (failing_transfer\<lparr>tr_reads := [], tr_pc := Finished (Err ''reset'')\<rparr>, sample_world)"
    by (simp add: failing_transfer_def transfer_new_def)
qed simp

text \<open>What a module makes of its hooks' outcomes has no effect on TCP. Whatever the route, connect and
  data hooks return, every hook of every module is called once, in chain order, and the phase
  succeeds; the half-close hooks have no place in any phase.\<close>

lemma tcp_phases_ignore_results:
  assumes "tcp_connection_init (plugin_tcp_hooks self) (ctx, W) = Some (r, ctx1, W1)"
    and "tcp_data_received (plugin_tcp_hooks self) (ctx1, W1) = Some (r', ctx2, W2)"
    and "tcp_connection_close (plugin_tcp_hooks self) (ctx2, W2) = Some (r'', ctx3, W3)"
  shows "r = Ok () \<and> r' = Ok () \<and> r'' = Ok () \<and>
    calls W3 = calls W @ connect_trace (tcp_modules self) @ tcp_trace OnData on_data (tcp_modules self) @
      tcp_trace OnClose on_close (tcp_modules self)"
  using assms by (auto simp: plugin_tcp_hooks_def dest!: plugin_tcp_calls)

lemma tcp_phases_ignore_results_example:
  "\<exists>W3 :: unit world. calls W3 = calls sample_world @ connect_trace (tcp_modules only_tcp) @
     tcp_trace OnData on_data (tcp_modules only_tcp) @ tcp_trace OnClose on_close (tcp_modules only_tcp)"
proof -
  let ?c = "tcp_ctx_new 7 (socket_addr_new (V4 127 0 0 1) 1)"
  obtain c1 W1 where 1: "tcp_connection_init (plugin_tcp_hooks only_tcp) (?c, sample_world) = Some (Ok (), c1, W1)"
    by (simp add: plugin_tcp_hooks_def plugin_tcp_connection_init_def only_tcp_def
        routing_tcp_module_def run_ignored_def[of _ _ _ None] default_simps)
  have 2: "tcp_data_received (plugin_tcp_hooks only_tcp) (c1, W1) = Some (Ok (), c1, W1)"
    and 3: "tcp_connection_close (plugin_tcp_hooks only_tcp) (c1, W1) = Some (Ok (), c1, W1)"
    by (simp_all add: plugin_tcp_hooks_def plugin_tcp_data_received_def plugin_tcp_connection_close_def
        only_tcp_def routing_tcp_module_def run_ignored_def default_simps)
  from tcp_phases_ignore_results[OF 1 2 3] show ?thesis by blast
qed

end
