(* ===== verification/Plugin_Noop.thy ===== *)
theory Plugin_Noop
  imports Vakil_L4
begin

text \<open>
  The plugin \<open>example-noop\<close>: \<open>plugins/example-noop/src/lib.rs\<close>. Its callbacks log what they see
  (logging is not modelled, but the expressions it evaluates are, where they can panic) and
  answer one path with a local reply. The plugin has no state, so its callbacks work over any.
\<close>

section \<open>Callbacks\<close>

definition example_init :: "'w init_fn" where
  "example_init inst ctx w = Some (Ok (), w)"

definition noop_reply :: "http_request \<Rightarrow> http_response" where
  "noop_reply req =
     \<lparr>resp_stream_id = req_stream_id req, resp_version = req_version req, status = 200,
      resp_headers = headers_new, resp_body = utf8 ''hello from example-noop''\<rparr>"

text \<open>The request is unwrapped before anything else.\<close>

definition example_on_http_event :: "'w http_hook_fn" where
  "example_on_http_event inst ctx w =
     (case ctx of
        None \<Rightarrow> Some (None, Ok hook_outcome_default, w)
      | Some c \<Rightarrow> do {
          req \<leftarrow> request c;
          if req_method req = ''GET'' \<and> req_path req = ''/local-reply'' \<and> response c = None
          then Some (Some (c\<lparr>response := Some (noop_reply req)\<rparr>), Ok \<lparr>action = Replace\<rparr>, w)
          else Some (Some c, Ok hook_outcome_default, w)
        })"

text \<open>The chunk is unwrapped to log its length.\<close>

definition example_on_tcp_event :: "'w tcp_hook_fn" where
  "example_on_tcp_event inst ctx w =
     (case ctx of
        None \<Rightarrow> Some (None, Ok hook_outcome_default, w)
      | Some c \<Rightarrow> do {
          payload \<leftarrow> chunk c;
          Some (Some c, Ok hook_outcome_default, w)
        })"

definition example_on_udp_event :: "'w udp_hook_fn" where
  "example_on_udp_event inst ctx w = Some (ctx, Ok hook_outcome_default, w)"

definition example_shutdown :: "'w shutdown_fn" where
  "example_shutdown inst w = Some (Ok (), w)"

section \<open>Modules\<close>

definition noop_http_module :: "'w plugin_http_module" where
  "noop_http_module =
     \<lparr>http_instance = Null, http_priority = 0, http_init = example_init,
      http_shutdown = example_shutdown, http_on_route = None,
      on_request_headers = Some example_on_http_event,
      on_request_body = Some example_on_http_event,
      on_response_headers = Some example_on_http_event,
      on_response_body = Some example_on_http_event,
      on_trailers = Some example_on_http_event, on_local_reply = Some example_on_http_event\<rparr>"

definition noop_tcp_module :: "'w plugin_tcp_module" where
  "noop_tcp_module =
     \<lparr>tcp_instance = Null, tcp_priority = 1, tcp_init = example_init,
      tcp_shutdown = example_shutdown, tcp_on_route = None,
      on_connect = Some example_on_tcp_event, on_data = Some example_on_tcp_event,
      on_half_close = Some example_on_tcp_event, on_close = Some example_on_tcp_event\<rparr>"

definition noop_udp_module :: "'w plugin_udp_module" where
  "noop_udp_module =
     \<lparr>udp_instance = Null, udp_priority = 2, udp_init = example_init,
      udp_shutdown = example_shutdown, udp_on_route = None,
      on_datagram = Some example_on_udp_event, on_session_start = Some example_on_udp_event,
      on_session_end = Some example_on_udp_event\<rparr>"

definition noop_create_http :: "('w plugin_http_module, 'w) factory_fn" where
  "noop_create_http w = Some (Ok noop_http_module, w)"

definition noop_create_tcp :: "('w plugin_tcp_module, 'w) factory_fn" where
  "noop_create_tcp w = Some (Ok noop_tcp_module, w)"

definition noop_create_udp :: "('w plugin_udp_module, 'w) factory_fn" where
  "noop_create_udp w = Some (Ok noop_udp_module, w)"

definition noop_get_library :: "'w plugin_root_module" where
  "noop_get_library =
     \<lparr>manifest = \<lparr>man_name = ''example-noop'', man_version = \<lparr>major = 0, minor = 1, patch = 0\<rparr>\<rparr>,
      create_http = Some noop_create_http, create_tcp = Some noop_create_tcp,
      create_udp = Some noop_create_udp\<rparr>"

lemmas noop_module_defs = noop_http_module_def noop_tcp_module_def noop_udp_module_def
  noop_create_http_def noop_create_tcp_def noop_create_udp_def noop_get_library_def
  example_init_def example_shutdown_def

section \<open>Properties\<close>

text \<open>The shared library of the plugin.\<close>

definition noop_dylib :: "'w dylib" where
  "noop_dylib = \<lparr>get_library_symbol = Ok (\<lambda>w. Some (noop_get_library, w))\<rparr>"

text \<open>The host accepts the plugin. From any path and with any environment, loading it creates and
  initialises its three modules and leaves the plugins' state alone.\<close>

lemma noop_loads:
  "plugin_load (\<lambda>_. Ok noop_dylib) vars path W =
     Some (Ok \<lparr>root = noop_get_library,
       modules = \<lparr>http = Some noop_http_module, tcp = Some noop_tcp_module, udp = Some noop_udp_module\<rparr>,
       library = noop_dylib\<rparr>,
     W\<lparr>calls := calls W @ [OpenLibrary path, GetLibrary, Factory HttpProto, Init HttpProto Null,
        Factory TcpProto, Init TcpProto Null, Factory UdpProto, Init UdpProto Null]\<rparr>)"
  by (simp add: plugin_load_def noop_dylib_def get_root_def close_on_err_def log_call_def
      validate_manifest_def host_abi_version_def build_init_context_eq load_modules_def load_block_def
      call_factory_def module_trait_defs call_init_def noop_module_defs modules_default_def)

lemma noop_http_event_simps:
  "request c = Some req \<Longrightarrow> example_on_http_event inst (Some c) w =
     (if req_method req = ''GET'' \<and> req_path req = ''/local-reply'' \<and> response c = None
      then Some (Some (c\<lparr>response := Some (noop_reply req)\<rparr>), Ok \<lparr>action = Replace\<rparr>, w)
      else Some (Some c, Ok hook_outcome_default, w))"
  by (simp add: example_on_http_event_def)

text \<open>What the plugin does to a request that has not been routed or answered yet. \<open>GET /local-reply\<close> is
  answered with status 200 and the plugin's greeting, and the request is claimed if the answer could
  be written; every other request passes unchanged.\<close>

lemma noop_request_filter:
  assumes "request ctx = Some req" and "response ctx = None" and "ctx_route ctx = Some route_decision_default"
  shows "plugin_request_filter X [noop_http_module] (ses, ctx, W) =
    (if req_method req = ''GET'' \<and> req_path req = ''/local-reply''
     then (let (r, ses') = respond X (200, utf8 ''hello from example-noop'') ses
           in Some (and_then r (\<lambda>_. Ok True), ses', ctx\<lparr>response := Some (noop_reply req)\<rparr>,
                W\<lparr>calls := calls W @ [Hook HttpProto OnRequestHeaders Null, Hook HttpProto OnLocalReply Null]\<rparr>))
     else Some (Ok False, ses, ctx, W\<lparr>calls := calls W @ [Hook HttpProto OnRequestHeaders Null]\<rparr>))"
  using assms
  by (cases W) (auto simp add: plugin_request_filter_def rewrite_path_def default_simps headers_module_def
      noop_http_module_def run_hook_def call_hook_def run_ignored_def noop_http_event_simps
      noop_reply_def[of req])

lemma noop_request_filter_example:
  "\<exists>ses' ctx' W'. plugin_request_filter sample_pingora [noop_http_module]
     (sample_session, sample_ctx\<lparr>request := Some (sample_request\<lparr>req_path := ''/local-reply''\<rparr>)\<rparr>, sample_world) =
     Some (Ok True, ses', ctx', W') \<and> s_io ses' = [(200, utf8 ''hello from example-noop'')]"
  using noop_request_filter[of "sample_ctx\<lparr>request := Some (sample_request\<lparr>req_path := ''/local-reply''\<rparr>)\<rparr>"
      "sample_request\<lparr>req_path := ''/local-reply''\<rparr>" sample_pingora sample_session sample_world]
  by (simp add: sample_defs http_request_from_def default_simps ctx_route_def respond_def)

lemma connect_loop_observes:
  assumes "for_each (\<lambda>module s. do {
        s \<leftarrow> run_ignored TcpProto OnRoute (tcp_instance module) (tcp_on_route module) s;
        run_ignored TcpProto OnConnect (tcp_instance module) (on_connect module) s
      }) pre (ctx, W) = Some (ctx', W')"
    and "\<forall>m \<in> set pre. observes (tcp_on_route m) \<and> observes (on_connect m)"
  shows "ctx' = ctx"
  using assms(1)
  by (rule for_each_observes)
    (use assms(2) in \<open>auto dest!: run_ignored_observes split: Option.bind_splits\<close>)

text \<open>C38: with this plugin every TCP connection panics the host. The connect hook unwraps the chunk, and
  when a connection is set up there is none yet; unless a module before it in the chain puts one
  into the context, serving a connection never gets past the plugin.\<close>

theorem noop_tcp_panics:
  assumes "tcp_modules self = pre @ noop_tcp_module # post"
    and "\<forall>m \<in> set pre. observes (tcp_on_route m) \<and> observes (on_connect m)"
  shows "tcp_serve (plugin_tcp_hooks self) write_all connect schedule rnd (Ok laddr) down_reads out W = None"
proof -
  let ?f = "\<lambda>module s. do {
        s \<leftarrow> run_ignored TcpProto OnRoute (tcp_instance module) (tcp_on_route module) s;
        run_ignored TcpProto OnConnect (tcp_instance module) (on_connect module) s
      }"
  let ?c = "tcp_ctx_new rnd laddr"
  have "for_each ?f (pre @ noop_tcp_module # post) (?c, W) = None"
  proof (cases "for_each ?f pre (?c, W)")
    case None
    then show ?thesis by (simp add: for_each_append)
  next
    case (Some s)
    obtain c1 W1 where s: "s = (c1, W1)" by (cases s)
    with Some have "c1 = ?c" using connect_loop_observes[OF _ assms(2)] by blast
    then have "?f noop_tcp_module (c1, W1) = None"
      by (simp add: noop_tcp_module_def run_ignored_def run_hook_def call_hook_def
          example_on_tcp_event_def tcp_ctx_new_def)
    with Some s show ?thesis by (simp add: for_each_append)
  qed
  then show ?thesis
    by (simp add: tcp_serve_def plugin_tcp_hooks_def plugin_tcp_connection_init_def assms(1))
qed

theorem noop_tcp_panics_witness:
  "tcp_serve (plugin_tcp_hooks (only_tcp\<lparr>tcp_modules := [noop_tcp_module]\<rparr>)) append_out
     (\<lambda>_. Err ''unreachable'') [] 7 (Ok (socket_addr_new (V4 127 0 0 1) 12346)) [] [] sample_world = None"
  using noop_tcp_panics[of "only_tcp\<lparr>tcp_modules := [noop_tcp_module]\<rparr>" "[]" "[]"] by simp

end
