(* ===== verification/Vakil_Server.thy ===== *)
theory Vakil_Server
  imports Vakil_Cli Vakil_L4 Plugin_Noop
begin

text \<open>
  The life of a running server: what the services \<open>Runtime::run\<close> starts (\<open>crates/vakil-runtime/src/lib.rs\<close>)
  do to the world, one phase of one request, connection or session at a time and in any order. The
  phases of different requests interleave freely, as they do in pingora's and tokio's tasks; the
  only thing that is fixed is the chain of modules every phase runs.
\<close>

section \<open>Calls of hooks of given instances\<close>

definition hooks_of :: "proto \<Rightarrow> inst_ptr set \<Rightarrow> 'w world \<Rightarrow> 'w world \<Rightarrow> bool" where
  "hooks_of k I W W' \<longleftrightarrow>
     (\<exists>cs. calls W' = calls W @ cs \<and> (\<forall>c \<in> set cs. \<exists>ph i. c = Hook k ph i \<and> i \<in> I))"

lemma hooks_of_refl [simp, intro]: "hooks_of k I W W"
  by (simp add: hooks_of_def)

lemma hooks_of_trans: "hooks_of k I W V \<Longrightarrow> hooks_of k I V U \<Longrightarrow> hooks_of k I W U"
  by (fastforce simp: hooks_of_def)

lemma hooks_of_trace:
  "calls W' = calls W @ cs \<Longrightarrow> \<forall>c \<in> set cs. \<exists>ph i. c = Hook k ph i \<and> i \<in> I \<Longrightarrow> hooks_of k I W W'"
  by (auto simp: hooks_of_def)

lemma run_hook_of: "run_hook k ph i cb (ctx, W) = Some (r, ctx', W') \<Longrightarrow> i \<in> I \<Longrightarrow> hooks_of k I W W'"
  by (rule hooks_of_trace[OF run_hook_calls]) auto

lemma run_ignored_of: "run_ignored k ph i h (ctx, W) = Some (ctx', W') \<Longrightarrow> i \<in> I \<Longrightarrow> hooks_of k I W W'"
  by (rule hooks_of_trace[OF run_ignored_calls]) (auto dest: hook_trace_hooks)

lemma for_each_of:
  assumes "for_each f ms (ctx, W) = Some (ctx', W')"
    and "\<And>m c V c' V'. m \<in> set ms \<Longrightarrow> f m (c, V) = Some (c', V') \<Longrightarrow> hooks_of k I V V'"
  shows "hooks_of k I W W'"
proof -
  have "case (ctx', W') of (c, V) \<Rightarrow> hooks_of k I W V"
    by (rule for_each_invariant[OF assms(1), where P = "\<lambda>(c, V). hooks_of k I W V"])
      (auto intro: hooks_of_trans assms(2))
  then show ?thesis by simp
qed

lemma for_until_of:
  assumes "for_until f ms s = Some (d, s')"
    and "\<And>m t e t'. m \<in> set ms \<Longrightarrow> f m t = Some (e, t') \<Longrightarrow> hooks_of k I (w t) (w t')"
  shows "hooks_of k I (w s) (w s')"
proof -
  have "reflp (\<lambda>s s'. hooks_of k I (w s) (w s'))" "transp (\<lambda>s s'. hooks_of k I (w s) (w s'))"
    by (auto intro!: reflpI transpI intro: hooks_of_trans)
  from for_until_rel[OF assms(1) this assms(2)] show ?thesis .
qed

section \<open>The phases\<close>

definition http_instances :: "'w plugin_proxy_hooks \<Rightarrow> inst_ptr set" where
  "http_instances self = http_instance ` set (http_modules self)"

definition tcp_instances :: "'w plugin_proxy_hooks \<Rightarrow> inst_ptr set" where
  "tcp_instances self = tcp_instance ` set (tcp_modules self)"

definition udp_instances :: "'w plugin_proxy_hooks \<Rightarrow> inst_ptr set" where
  "udp_instances self = udp_instance ` set (udp_modules self)"

lemma route_module_of:
  assumes "route_module X m (ses, ctx, W) = Some (d, ses', ctx', W')" and "http_instance m \<in> I"
  shows "hooks_of HttpProto I W W'"
proof (cases "http_on_route m")
  case None
  with assms show ?thesis by (simp add: route_module_def)
next
  case (Some cb)
  with assms obtain o1 c1 V where "run_hook HttpProto OnRoute (http_instance m) cb (ctx, W) = Some (o1, c1, V)"
    and "V = W'"
    by (auto simp: route_module_def split: Option.bind_splits option.splits hook_action.splits)
  with assms(2) show ?thesis by (auto intro: run_hook_of)
qed

lemma headers_module_of:
  assumes "headers_module m (ctx, W) = Some (d, ctx', W')" and "http_instance m \<in> I"
  shows "hooks_of HttpProto I W W'"
  using assms
  by (auto simp: headers_module_def split: Option.bind_splits option.splits if_splits
      dest!: run_hook_of[where I = I] run_ignored_of[where I = I] intro: hooks_of_trans)

lemma http_phases_of:
  "upstream_peer (plugin_http_hooks X self) (ses, ctx, W) = Some (p, ses', ctx', W') \<Longrightarrow>
     hooks_of HttpProto (http_instances self) W W'"
  "request_filter (plugin_http_hooks X self) (ses, ctx, W) = Some (b, ses', ctx', W') \<Longrightarrow>
     hooks_of HttpProto (http_instances self) W W'"
  "upstream_request_filter (plugin_http_hooks X self) up (ses, ctx, W) = Some (u, up', ses', ctx', W') \<Longrightarrow>
     hooks_of HttpProto (http_instances self) W W'"
  "request_body_filter (plugin_http_hooks X self) body eos (ses, ctx, W) = Some (r, ses', ctx', W') \<Longrightarrow>
     hooks_of HttpProto (http_instances self) W W'"
  "response_filter (plugin_http_hooks X self) rsp (ses, ctx, W) = Some (r, rsp', ses', ctx', W') \<Longrightarrow>
     hooks_of HttpProto (http_instances self) W W'"
  "response_body_filter (plugin_http_hooks X self) body eos (ses, ctx, W) = Some (d, ses', ctx', W') \<Longrightarrow>
     hooks_of HttpProto (http_instances self) W W'"
proof -
  have inst: "m \<in> set (http_modules self) \<Longrightarrow> http_instance m \<in> http_instances self" for m
    by (simp add: http_instances_def)
  show "upstream_peer (plugin_http_hooks X self) (ses, ctx, W) = Some (p, ses', ctx', W') \<Longrightarrow>
     hooks_of HttpProto (http_instances self) W W'"
    by (auto simp: plugin_http_hooks_def plugin_upstream_peer_def split: Option.bind_splits
        dest!: for_until_of[where k = HttpProto and I = "http_instances self" and w = "snd \<circ> snd"]
        intro: route_module_of inst)
  show "request_filter (plugin_http_hooks X self) (ses, ctx, W) = Some (b, ses', ctx', W') \<Longrightarrow>
     hooks_of HttpProto (http_instances self) W W'"
    by (auto simp: plugin_http_hooks_def plugin_request_filter_def split: Option.bind_splits option.splits prod.splits
        dest!: for_until_of[where k = HttpProto and I = "http_instances self" and w = snd]
        intro: headers_module_of inst)
  show "upstream_request_filter (plugin_http_hooks X self) up (ses, ctx, W) = Some (u, up', ses', ctx', W') \<Longrightarrow>
     hooks_of HttpProto (http_instances self) W W'"
    by (auto simp: plugin_http_hooks_def plugin_upstream_request_filter_def
        split: Option.bind_splits option.splits prod.splits
        dest!: for_until_of[where k = HttpProto and I = "http_instances self" and w = snd]
        intro: headers_module_of inst)
  show "request_body_filter (plugin_http_hooks X self) body eos (ses, ctx, W) = Some (r, ses', ctx', W') \<Longrightarrow>
     hooks_of HttpProto (http_instances self) W W'"
    by (auto simp: plugin_http_hooks_def plugin_request_body_filter_def split: Option.bind_splits
        dest!: for_each_of[where k = HttpProto and I = "http_instances self"] intro: run_ignored_of inst)
  show "response_filter (plugin_http_hooks X self) rsp (ses, ctx, W) = Some (r, rsp', ses', ctx', W') \<Longrightarrow>
     hooks_of HttpProto (http_instances self) W W'"
    by (auto simp: plugin_http_hooks_def plugin_response_filter_def split: Option.bind_splits
        dest!: for_each_of[where k = HttpProto and I = "http_instances self"] intro: run_ignored_of inst)
  have body: "response_body_module eos m (c, V) = Some (c', V') \<Longrightarrow> m \<in> set (http_modules self) \<Longrightarrow>
      hooks_of HttpProto (http_instances self) V V'" for m c V c' V'
    by (rule hooks_of_trace[OF response_body_module_calls])
      (auto dest!: hook_trace_hooks inst split: if_splits)
  show "response_body_filter (plugin_http_hooks X self) body eos (ses, ctx, W) = Some (d, ses', ctx', W') \<Longrightarrow>
     hooks_of HttpProto (http_instances self) W W'"
    by (auto simp: plugin_http_hooks_def plugin_response_body_filter_def split: Option.bind_splits
        dest!: for_each_of[where k = HttpProto and I = "http_instances self"] intro: body)
qed

lemma tcp_phases_of:
  "tcp_connection_init (plugin_tcp_hooks self) (ctx, W) = Some (r, ctx', W') \<Longrightarrow>
     hooks_of TcpProto (tcp_instances self) W W'"
  "tcp_data_received (plugin_tcp_hooks self) (ctx, W) = Some (r, ctx', W') \<Longrightarrow>
     hooks_of TcpProto (tcp_instances self) W W'"
  "tcp_connection_close (plugin_tcp_hooks self) (ctx, W) = Some (r, ctx', W') \<Longrightarrow>
     hooks_of TcpProto (tcp_instances self) W W'"
  by (auto simp: plugin_tcp_hooks_def tcp_instances_def l4_traces dest!: plugin_tcp_calls hook_trace_hooks
      intro!: hooks_of_trace)

lemma udp_phases_of:
  "udp_session_start (plugin_udp_hooks self) (uctx, W) = Some (r, uctx', W') \<Longrightarrow>
     hooks_of UdpProto (udp_instances self) W W'"
  "udp_datagram_received (plugin_udp_hooks self) (uctx, W) = Some (r, uctx', W') \<Longrightarrow>
     hooks_of UdpProto (udp_instances self) W W'"
  "udp_session_close (plugin_udp_hooks self) (uctx, W) = Some (r, uctx', W') \<Longrightarrow>
     hooks_of UdpProto (udp_instances self) W W'"
  by (auto simp: plugin_udp_hooks_def udp_instances_def l4_traces dest!: plugin_udp_calls hook_trace_hooks
      intro!: hooks_of_trace)

section \<open>A server at work\<close>

text \<open>One phase of one request, connection or session, with whatever session and context it has.\<close>

inductive serving ::
  "('a, 's, 'p, 'e) pingora \<Rightarrow> 'w plugin_proxy_hooks \<Rightarrow> 'w world \<Rightarrow> 'w world \<Rightarrow> bool"
  for X :: "('a, 's, 'p, 'e) pingora" and self :: "'w plugin_proxy_hooks" where
  early: "early_request_filter (plugin_http_hooks X self) rnd (ses, ctx, W) = Some (r, ses', ctx', W') \<Longrightarrow>
    serving X self W W'"
| peer: "upstream_peer (plugin_http_hooks X self) (ses, ctx, W) = Some (p, ses', ctx', W') \<Longrightarrow>
    serving X self W W'"
| request: "request_filter (plugin_http_hooks X self) (ses, ctx, W) = Some (b, ses', ctx', W') \<Longrightarrow>
    serving X self W W'"
| request_body: "request_body_filter (plugin_http_hooks X self) body eos (ses, ctx, W) = Some (r, ses', ctx', W') \<Longrightarrow>
    serving X self W W'"
| upstream_request:
    "upstream_request_filter (plugin_http_hooks X self) up (ses, ctx, W) = Some (r, up', ses', ctx', W') \<Longrightarrow>
    serving X self W W'"
| response: "response_filter (plugin_http_hooks X self) rsp (ses, ctx, W) = Some (r, rsp', ses', ctx', W') \<Longrightarrow>
    serving X self W W'"
| response_body:
    "response_body_filter (plugin_http_hooks X self) body eos (ses, ctx, W) = Some (d, ses', ctx', W') \<Longrightarrow>
    serving X self W W'"
| tcp_init: "tcp_connection_init (plugin_tcp_hooks self) (tctx, W) = Some (r, tctx', W') \<Longrightarrow> serving X self W W'"
| tcp_data: "tcp_data_received (plugin_tcp_hooks self) (tctx, W) = Some (r, tctx', W') \<Longrightarrow> serving X self W W'"
| tcp_close: "tcp_connection_close (plugin_tcp_hooks self) (tctx, W) = Some (r, tctx', W') \<Longrightarrow> serving X self W W'"
| udp_start: "udp_session_start (plugin_udp_hooks self) (uctx, W) = Some (r, uctx', W') \<Longrightarrow> serving X self W W'"
| udp_data: "udp_datagram_received (plugin_udp_hooks self) (uctx, W) = Some (r, uctx', W') \<Longrightarrow> serving X self W W'"
| udp_close: "udp_session_close (plugin_udp_hooks self) (uctx, W) = Some (r, uctx', W') \<Longrightarrow> serving X self W W'"

text \<open>A whole connection and a whole session are made of such phases.\<close>

lemma transfer_step_serving:
  "transfer_step (plugin_tcp_hooks self) wr dir (t, W) = Some (t', W') \<Longrightarrow> (serving X self)\<^sup>=\<^sup>= W W'"
  by (auto simp: transfer_step_def Let_def split: transfer_pc.splits list.splits result.splits if_splits
      Option.bind_splits prod.splits dest: serving.tcp_data)

lemma try_join_serving:
  assumes "try_join (plugin_tcp_hooks self) wr ps (a, b, W) = Some (a', b', W')"
  shows "(serving X self)\<^sup>*\<^sup>* W W'"
  using assms
proof (induction ps arbitrary: a b W)
  case (Cons p ps)
  then show ?case
    by (auto split: if_splits Option.bind_splits
        dest!: transfer_step_serving[where X = X] intro: converse_rtranclp_into_rtranclp)
qed simp

lemma tcp_serve_serving:
  assumes "tcp_serve (plugin_tcp_hooks self) wr conn sch rnd loc ds out W = Some (res, out', W')"
  shows "(serving X self)\<^sup>*\<^sup>* W W'"
  using assms
  by (auto simp: tcp_serve_def Let_def split: Option.bind_splits result.splits option.splits prod.splits
      dest!: serving.tcp_init[where X = X] serving.tcp_close[where X = X] try_join_serving[where X = X]
      intro: converse_rtranclp_into_rtranclp rtranclp.rtrancl_into_rtrancl)

lemma udp_loop_serving:
  assumes "udp_loop (plugin_udp_hooks self) snd_to uctx rs (cur, out, W) = Some (res, cur', out', W')"
  shows "(serving X self)\<^sup>*\<^sup>* W W'"
  using assms
proof (induction rs arbitrary: cur out W)
  case Nil
  then show ?case by simp
next
  case (Cons r rs)
  then show ?case
    by (cases r) (auto split: Option.bind_splits result.splits option.splits prod.splits if_splits
        dest!: serving.udp_data[where X = X]; meson r_into_rtranclp converse_rtranclp_into_rtranclp)+
qed

lemma udp_serve_serving:
  assumes "udp_serve (plugin_udp_hooks self) snd_to rnd loc rs out W = Some (res, out', W')"
  shows "(serving X self)\<^sup>*\<^sup>* W W'"
  using assms
  by (auto simp: udp_serve_def Let_def split: Option.bind_splits result.splits option.splits
      dest!: serving.udp_start[where X = X] serving.udp_close[where X = X] udp_loop_serving[where X = X])
    (meson r_into_rtranclp converse_rtranclp_into_rtranclp rtranclp.rtrancl_into_rtrancl)+

text \<open>The modules a chain may call, as protocol and instance.\<close>

definition chain_ids :: "'w plugin_proxy_hooks \<Rightarrow> (proto \<times> inst_ptr) set" where
  "chain_ids self = {HttpProto} \<times> http_instances self \<union> {TcpProto} \<times> tcp_instances self \<union>
     {UdpProto} \<times> udp_instances self"

definition only_hooks :: "(proto \<times> inst_ptr) set \<Rightarrow> 'w world \<Rightarrow> 'w world \<Rightarrow> bool" where
  "only_hooks I W W' \<longleftrightarrow>
     (\<exists>cs. calls W' = calls W @ cs \<and> (\<forall>c \<in> set cs. \<exists>k ph i. c = Hook k ph i \<and> (k, i) \<in> I))"

lemma only_hooks_refl: "only_hooks I W W"
  by (simp add: only_hooks_def)

lemma only_hooks_trans: "only_hooks I W V \<Longrightarrow> only_hooks I V U \<Longrightarrow> only_hooks I W U"
  by (fastforce simp: only_hooks_def)

lemma hooks_of_only: "hooks_of k J W W' \<Longrightarrow> {k} \<times> J \<subseteq> I \<Longrightarrow> only_hooks I W W'"
  by (fastforce simp: hooks_of_def only_hooks_def)

lemma serving_only_hooks:
  assumes "serving X self W W'"
  shows "only_hooks (chain_ids self) W W'"
proof -
  have c: "hooks_of HttpProto (http_instances self) W W' \<Longrightarrow> only_hooks (chain_ids self) W W'"
    "hooks_of TcpProto (tcp_instances self) W W' \<Longrightarrow> only_hooks (chain_ids self) W W'"
    "hooks_of UdpProto (udp_instances self) W W' \<Longrightarrow> only_hooks (chain_ids self) W W'"
    by (auto simp: chain_ids_def elim!: hooks_of_only)
  from assms show ?thesis
  proof cases
    case (early rnd ses ctx r ses' ctx')
    then have "W' = W"
      by (auto simp: plugin_http_hooks_def plugin_early_request_filter_def split: Option.bind_splits prod.splits)
    then show ?thesis by (simp add: only_hooks_refl)
  qed (auto dest!: http_phases_of tcp_phases_of udp_phases_of intro: c)
qed

lemma serving_run_only_hooks:
  "(serving X self)\<^sup>*\<^sup>* W W' \<Longrightarrow> only_hooks (chain_ids self) W W'"
  by (induction rule: rtranclp_induct)
    (auto intro: only_hooks_refl only_hooks_trans dest: serving_only_hooks)

section \<open>Calls in their place\<close>

text \<open>
  The log as a bracket language: reading it from the left, \<open>n\<close> counts for every protocol and instance
  the inits that have not been shut down, and every hook and every shutdown needs one of them.
\<close>

fun bracketed :: "(proto \<times> inst_ptr \<Rightarrow> nat) \<Rightarrow> call list \<Rightarrow> bool" where
  "bracketed n [] = True"
| "bracketed n (Init k i # cs) = bracketed (n((k, i) := Suc (n (k, i)))) cs"
| "bracketed n (Hook k ph i # cs) = (0 < n (k, i) \<and> bracketed n cs)"
| "bracketed n (Shutdown k i # cs) = (0 < n (k, i) \<and> bracketed (n((k, i) := n (k, i) - 1)) cs)"
| "bracketed n (_ # cs) = bracketed n cs"

fun alive_after :: "(proto \<times> inst_ptr \<Rightarrow> nat) \<Rightarrow> call list \<Rightarrow> proto \<times> inst_ptr \<Rightarrow> nat" where
  "alive_after n [] = n"
| "alive_after n (Init k i # cs) = alive_after (n((k, i) := Suc (n (k, i)))) cs"
| "alive_after n (Shutdown k i # cs) = alive_after (n((k, i) := n (k, i) - 1)) cs"
| "alive_after n (_ # cs) = alive_after n cs"

lemma bracketed_append: "bracketed n (xs @ ys) \<longleftrightarrow> bracketed n xs \<and> bracketed (alive_after n xs) ys"
  by (induction n xs rule: bracketed.induct) (simp_all del: fun_upd_apply)

lemma alive_after_append: "alive_after n (xs @ ys) = alive_after (alive_after n xs) ys"
  by (induction n xs rule: alive_after.induct) (simp_all del: fun_upd_apply)

lemma bracketed_hooks:
  "\<forall>c \<in> set cs. \<exists>k ph i. c = Hook k ph i \<and> (k, i) \<in> I \<Longrightarrow> \<forall>x \<in> I. 0 < n x \<Longrightarrow>
   bracketed n cs \<and> alive_after n cs = n"
proof (induction cs)
  case (Cons c cs)
  then obtain k ph i where "c = Hook k ph i" "(k, i) \<in> I" by auto
  with Cons show ?case by auto
qed simp

text \<open>The modules of a plugin, in the order they are initialised and shut down.\<close>

definition module_ids :: "'w loaded_plugin_modules \<Rightarrow> (proto \<times> inst_ptr) list" where
  "module_ids mods =
     (case http mods of None \<Rightarrow> [] | Some m \<Rightarrow> [(HttpProto, http_instance m)]) @
     (case tcp mods of None \<Rightarrow> [] | Some m \<Rightarrow> [(TcpProto, tcp_instance m)]) @
     (case udp mods of None \<Rightarrow> [] | Some m \<Rightarrow> [(UdpProto, udp_instance m)])"

definition plugin_ids :: "'w loaded_plugin list \<Rightarrow> (proto \<times> inst_ptr) list" where
  "plugin_ids ps = concat (map (\<lambda>p. module_ids (modules p)) ps)"

lemma plugin_ids_simps [simp]:
  "plugin_ids [] = []" "plugin_ids (p # ps) = module_ids (modules p) @ plugin_ids ps"
  "plugin_ids (ps @ qs) = plugin_ids ps @ plugin_ids qs"
  by (simp_all add: plugin_ids_def)

lemma load_trace_ids: "load_trace mods = concat (map (\<lambda>(k, i). [Factory k, Init k i]) (module_ids mods))"
  by (simp add: load_trace_def module_ids_def split: option.split)

lemma shutdown_trace_ids: "shutdown_trace mods = map (\<lambda>(k, i). Shutdown k i) (module_ids mods)"
  by (simp add: shutdown_trace_def module_ids_def split: option.split)

lemma bracketed_inits:
  "bracketed n (concat (map (\<lambda>(k, i). [Factory k, Init k i]) xs)) \<and>
   alive_after n (concat (map (\<lambda>(k, i). [Factory k, Init k i]) xs)) = (\<lambda>x. n x + count_list xs x)"
  by (induction xs arbitrary: n) (auto simp: fun_eq_iff split: if_splits)

lemma bracketed_shutdowns:
  "\<forall>x. count_list xs x \<le> n x \<Longrightarrow>
   bracketed n (map (\<lambda>(k, i). Shutdown k i) xs) \<and>
   alive_after n (map (\<lambda>(k, i). Shutdown k i) xs) = (\<lambda>x. n x - count_list xs x)"
proof (induction xs arbitrary: n)
  case (Cons y xs)
  obtain k i where y: "y = (k, i)" by (cases y)
  let ?n = "n((k, i) := n (k, i) - 1)"
  have "0 < n (k, i)" using Cons.prems[rule_format, of "(k, i)"] y by simp
  moreover have "count_list xs x \<le> ?n x" for x
    using Cons.prems[rule_format, of x] y by (auto split: if_splits)
  then have "bracketed ?n (map (\<lambda>(k, i). Shutdown k i) xs) \<and>
      alive_after ?n (map (\<lambda>(k, i). Shutdown k i) xs) = (\<lambda>x. ?n x - count_list xs x)"
    using Cons.IH by blast
  ultimately show ?case by (auto simp: y fun_eq_iff)
qed simp

section \<open>Loading and dropping\<close>

text \<open>Between two worlds exactly the given plugins were loaded.\<close>

definition starts :: "'w loaded_plugin list \<Rightarrow> 'w world \<Rightarrow> 'w world \<Rightarrow> bool" where
  "starts ps W W' \<longleftrightarrow> (\<exists>cs. calls W' = calls W @ cs \<and>
     (\<forall>n. bracketed n cs \<and> alive_after n cs = (\<lambda>x. n x + count_list (plugin_ids ps) x)))"

lemma starts_Nil: "starts [] W W"
  by (simp add: starts_def)

lemma starts_append: "starts ps W V \<Longrightarrow> starts qs V U \<Longrightarrow> starts (ps @ qs) W U"
  unfolding starts_def by (force simp: bracketed_append alive_after_append fun_eq_iff)

definition started :: "'w loaded_plugin list \<Rightarrow> 'w world \<Rightarrow> ('w loaded_plugin list, string) result \<times> 'w world \<Rightarrow> bool" where
  "started acc W = (\<lambda>(r, W'). case r of Err _ \<Rightarrow> True | Ok ps \<Rightarrow> \<exists>new. ps = acc @ new \<and> starts new W W')"

lemma started_simps [simp]:
  "started acc W (Err e, W')" "started acc W (Ok acc, W)"
  by (auto simp: started_def starts_Nil)

lemma fail_dropping_started: "fail_dropping acc e W = Some x \<Longrightarrow> started acc V x"
  by (auto simp: fail_dropping_def)

lemma load_push_started:
  assumes "load_push dlopen vars path acc W = Some x"
  shows "started acc W x"
proof -
  from assms obtain r V where l: "plugin_load dlopen vars path W = Some (r, V)"
    by (auto simp: load_push_def split: Option.bind_splits)
  show ?thesis
  proof (cases r)
    case (Err e)
    with assms l show ?thesis by (auto simp: load_push_def intro: fail_dropping_started)
  next
    case (Ok p)
    from plugin_load_calls[OF l[unfolded Ok]] have "starts [p] W V"
      by (auto simp: starts_def load_trace_ids bracketed_inits)
    with assms l Ok show ?thesis by (auto simp: load_push_def started_def)
  qed
qed

lemma try_then_started:
  assumes "try_then m f = Some x" and "\<And>y. m = Some y \<Longrightarrow> started acc W y"
    and "\<And>ps V x. f ps V = Some x \<Longrightarrow> started ps V x"
  shows "started acc W x"
proof -
  from assms(1) obtain r V where m: "m = Some (r, V)"
    by (auto simp: try_then_def split: Option.bind_splits)
  note y = assms(2)[OF m]
  show ?thesis
  proof (cases r)
    case (Ok ps)
    with assms(1) m have "f ps V = Some x" by simp
    from assms(3)[OF this] y Ok show ?thesis
      by (auto simp: started_def split: result.splits prod.splits intro: starts_append)
  next
    case (Err e)
    with assms(1) m show ?thesis by auto
  qed
qed

lemma load_entries_started:
  "load_entries fs dlopen vars es acc W = Some x \<Longrightarrow> started acc W x"
proof (induction es arbitrary: acc W x)
  case Nil
  then show ?case by auto
next
  case (Cons e es)
  show ?case
  proof (cases e)
    case (Err x)
    with Cons.prems show ?thesis by (auto intro: fail_dropping_started)
  next
    case (Ok c)
    with Cons show ?thesis by (auto split: if_splits intro: try_then_started load_push_started)
  qed
qed

lemma load_path_started: "load_path fs dlopen vars p acc W = Some x \<Longrightarrow> started acc W x"
  by (auto simp: load_path_def split: if_splits result.splits
      intro: fail_dropping_started load_entries_started load_push_started)

lemma load_paths_started:
  "load_paths fs dlopen vars ps acc W = Some x \<Longrightarrow> started acc W x"
proof (induction ps arbitrary: acc W x)
  case Nil
  then show ?case by auto
next
  case (Cons p ps)
  then show ?case by (auto intro: try_then_started load_path_started)
qed

lemma runtime_build_starts:
  assumes "runtime_build fs dlopen vars config W = Some (Ok rt, W')"
  shows "starts (rt_plugins rt) W W'"
proof -
  from assms obtain ps where "load_paths fs dlopen vars (plugin_paths config) [] W = Some (Ok ps, W')"
    and "rt_plugins rt = ps"
    by (auto simp: runtime_build_def load_plugins_def try_then_Some_Ok)
  with load_paths_started show ?thesis by (fastforce simp: started_def)
qed

lemma drop_plugins_calls:
  "drop_plugins ps W = Some W' \<Longrightarrow>
   calls W' = calls W @ concat (map (\<lambda>p. map (\<lambda>(k, i). Shutdown k i) (module_ids (modules p)) @ [CloseLibrary]) ps)"
  by (induction ps W rule: drop_plugins.induct)
    (auto simp: shutdown_trace_ids dest!: plugin_drop_calls split: Option.bind_splits)

lemma bracketed_drops:
  "\<forall>x. count_list (plugin_ids ps) x \<le> n x \<Longrightarrow>
   bracketed n (concat (map (\<lambda>p. map (\<lambda>(k, i). Shutdown k i) (module_ids (modules p)) @ [CloseLibrary]) ps)) \<and>
   alive_after n (concat (map (\<lambda>p. map (\<lambda>(k, i). Shutdown k i) (module_ids (modules p)) @ [CloseLibrary]) ps)) =
     (\<lambda>x. n x - count_list (plugin_ids ps) x)"
proof (induction ps arbitrary: n)
  case (Cons p ps)
  let ?n = "\<lambda>x. n x - count_list (module_ids (modules p)) x"
  have le: "\<forall>x. count_list (module_ids (modules p)) x \<le> n x"
    using Cons.prems by (auto intro: add_leD1)
  have "\<forall>x. count_list (plugin_ids ps) x \<le> ?n x"
    using Cons.prems by (simp add: le_diff_conv2 le add.commute)
  note rest = Cons.IH[OF this]
  note now = bracketed_shutdowns[OF le]
  from rest show ?case
    by (simp add: bracketed_append alive_after_append conjunct1[OF now] conjunct2[OF now])
qed simp

lemma set_map_filter_eq: "x \<in> set (List.map_filter f xs) \<longleftrightarrow> (\<exists>y \<in> set xs. f y = Some x)"
  by (force simp: List.map_filter_def)

lemma module_ids_mem:
  "http mods = Some h \<Longrightarrow> (HttpProto, http_instance h) \<in> set (module_ids mods)"
  "tcp mods = Some t \<Longrightarrow> (TcpProto, tcp_instance t) \<in> set (module_ids mods)"
  "udp mods = Some u \<Longrightarrow> (UdpProto, udp_instance u) \<in> set (module_ids mods)"
  by (auto simp: module_ids_def)

lemma chain_ids_loaded: "chain_ids (hooks_from_loaded ps) \<subseteq> set (plugin_ids ps)"
  by (auto simp: chain_ids_def http_instances_def tcp_instances_def udp_instances_def hooks_from_loaded_def
      plugin_ids_def set_map_filter_eq)
    (blast intro: module_ids_mem)+

lemma serving_keeps_brackets:
  assumes "starts ps W W1" and "(serving X (hooks_from_loaded ps))\<^sup>*\<^sup>* W1 W2"
  shows "starts ps W W2"
proof -
  from assms(1) obtain cs where cs: "calls W1 = calls W @ cs"
    and b: "\<And>n. bracketed n cs \<and> alive_after n cs = (\<lambda>x. n x + count_list (plugin_ids ps) x)"
    by (auto simp: starts_def)
  from serving_run_only_hooks[OF assms(2)] obtain ds where ds: "calls W2 = calls W1 @ ds"
    and h: "\<forall>c \<in> set ds. \<exists>k ph i. c = Hook k ph i \<and> (k, i) \<in> set (plugin_ids ps)"
    using chain_ids_loaded unfolding only_hooks_def by blast
  have "\<forall>x \<in> set (plugin_ids ps). 0 < n x + count_list (plugin_ids ps) x" for n :: "proto \<times> inst_ptr \<Rightarrow> nat"
    by (auto simp: count_list_0_iff)
  from bracketed_hooks[OF h this] have "bracketed n (cs @ ds) \<and>
      alive_after n (cs @ ds) = (\<lambda>x. n x + count_list (plugin_ids ps) x)" for n
    using b[of n] by (simp add: bracketed_append alive_after_append)
  with cs ds show ?thesis by (auto simp: starts_def)
qed

text \<open>C4: every call reaches a live module. From the start of the runtime on, whatever requests, connections
  and sessions are served and however their phases interleave, the calls into plugin modules nest: a
  hook of a module is only ever called after its init and before its shutdown, and once the plugins
  are dropped every module that was initialised has been shut down exactly as often.\<close>

theorem hooks_between_init_and_shutdown:
  assumes "runtime_build fs dlopen vars config W = Some (Ok rt, W1)"
    and "(serving X (hooks_from_loaded (rt_plugins rt)))\<^sup>*\<^sup>* W1 W2"
  shows "\<exists>cs. calls W2 = calls W @ cs \<and> bracketed (\<lambda>_. 0) cs \<and>
    (\<forall>W3. drop_plugins (rt_plugins rt) W2 = Some W3 \<longrightarrow>
      (\<exists>ds. calls W3 = calls W @ cs @ ds \<and> bracketed (\<lambda>_. 0) (cs @ ds) \<and>
        alive_after (\<lambda>_. 0) (cs @ ds) = (\<lambda>_. 0)))"
proof -
  from serving_keeps_brackets[OF runtime_build_starts[OF assms(1)] assms(2)] obtain cs
    where cs: "calls W2 = calls W @ cs" "bracketed (\<lambda>_. 0) cs"
      and live: "alive_after (\<lambda>_. 0) cs = count_list (plugin_ids (rt_plugins rt))"
    by (auto simp: starts_def)
  note drops = bracketed_drops[of "rt_plugins rt" "count_list (plugin_ids (rt_plugins rt))", simplified]
  have "drop_plugins (rt_plugins rt) W2 = Some W3 \<Longrightarrow>
      \<exists>ds. calls W3 = calls W @ cs @ ds \<and> bracketed (\<lambda>_. 0) (cs @ ds) \<and>
        alive_after (\<lambda>_. 0) (cs @ ds) = (\<lambda>_. 0)" for W3
    by (drule drop_plugins_calls) (auto simp: cs bracketed_append alive_after_append live drops)
  with cs show ?thesis by blast
qed

text \<open>A runtime with the plugin \<open>example-noop\<close>, a UDP session starting and ending, and the drop.\<close>

definition noop_config :: runtime_config where
  "noop_config = \<lparr>http_listen_addr = ''127.0.0.1:9090'', tcp_listen_addr = ''127.0.0.1:9091'',
     udp_listen_addr = ''127.0.0.1:9092'', plugin_paths = [''/noop.so'']\<rparr>"

definition noop_loaded :: "unit loaded_plugin" where
  "noop_loaded = \<lparr>root = noop_get_library,
     modules = \<lparr>http = Some noop_http_module, tcp = Some noop_tcp_module, udp = Some noop_udp_module\<rparr>,
     library = noop_dylib\<rparr>"

definition noop_started :: "unit world" where
  "noop_started = \<lparr>plugins = (), calls = [OpenLibrary ''/noop.so'', GetLibrary, Factory HttpProto,
     Init HttpProto Null, Factory TcpProto, Init TcpProto Null, Factory UdpProto, Init UdpProto Null]\<rparr>"

lemma noop_runtime:
  "runtime_build (text_fs '''') (\<lambda>_. Ok noop_dylib) [] noop_config \<lparr>plugins = (), calls = []\<rparr> =
     Some (Ok \<lparr>rt_config = noop_config, rt_plugins = [noop_loaded]\<rparr>, noop_started)"
  by (simp add: runtime_build_def load_plugins_def noop_config_def load_path_def text_fs_def load_push_def
      noop_loads noop_loaded_def noop_started_def)

lemma noop_session:
  "(serving X (hooks_from_loaded [noop_loaded]))\<^sup>*\<^sup>* noop_started
     (noop_started\<lparr>calls := calls noop_started @ [Hook UdpProto OnSessionStart Null, Hook UdpProto OnSessionEnd Null]\<rparr>)"
proof -
  let ?W = "noop_started\<lparr>calls := calls noop_started @ [Hook UdpProto OnSessionStart Null]\<rparr>"
  let ?c = "udp_ctx_new 7 (socket_addr_new (V4 127 0 0 1) 5353)"
  have "serving X (hooks_from_loaded [noop_loaded]) noop_started ?W"
    by (rule serving.udp_start[where uctx = ?c and uctx' = ?c and r = "Ok ()"])
      (simp add: hooks_from_loaded_def noop_loaded_def plugin_udp_hooks_def plugin_udp_session_start_def
        List.map_filter_def noop_udp_module_def run_ignored_def run_hook_def call_hook_def example_on_udp_event_def
        noop_started_def default_simps)
  moreover have "serving X (hooks_from_loaded [noop_loaded]) ?W
     (noop_started\<lparr>calls := calls noop_started @ [Hook UdpProto OnSessionStart Null, Hook UdpProto OnSessionEnd Null]\<rparr>)"
    by (rule serving.udp_close[where uctx = ?c and uctx' = ?c and r = "Ok ()"])
      (simp add: hooks_from_loaded_def noop_loaded_def plugin_udp_hooks_def plugin_udp_session_close_def
        List.map_filter_def noop_udp_module_def run_ignored_def run_hook_def call_hook_def example_on_udp_event_def
        noop_started_def default_simps)
  ultimately show ?thesis by (rule converse_rtranclp_into_rtranclp[OF _ r_into_rtranclp])
qed

lemma noop_drop:
  "drop_plugins [noop_loaded] W =
     Some (W\<lparr>calls := calls W @ [Shutdown HttpProto Null, Shutdown TcpProto Null, Shutdown UdpProto Null, CloseLibrary]\<rparr>)"
  by (simp add: plugin_drop_def plugin_shutdown_def noop_loaded_def modules_shutdown_def shutdown_slot_def
      module_trait_defs call_shutdown_def noop_module_defs log_call_def)

theorem hooks_between_init_and_shutdown_witness:
  "\<exists>W1 W2 W3 rt. runtime_build (text_fs '''') (\<lambda>_. Ok noop_dylib) [] noop_config \<lparr>plugins = (), calls = []\<rparr> = Some (Ok rt, W1) \<and>
     (serving sample_pingora (hooks_from_loaded (rt_plugins rt)))\<^sup>*\<^sup>* W1 W2 \<and> drop_plugins (rt_plugins rt) W2 = Some W3 \<and>
     Hook UdpProto OnSessionStart Null \<in> set (calls W2) \<and> (\<exists>ds. calls W3 = calls W2 @ ds \<and> ds \<noteq> []) \<and>
     bracketed (\<lambda>_. 0) (calls W3) \<and> alive_after (\<lambda>_. 0) (calls W3) = (\<lambda>_. 0)"
proof -
  let ?W2 = "noop_started\<lparr>calls := calls noop_started @ [Hook UdpProto OnSessionStart Null, Hook UdpProto OnSessionEnd Null]\<rparr>"
  have "(serving sample_pingora (hooks_from_loaded (rt_plugins \<lparr>rt_config = noop_config, rt_plugins = [noop_loaded]\<rparr>)))\<^sup>*\<^sup>*
      noop_started ?W2"
    using noop_session by simp
  from hooks_between_init_and_shutdown[OF noop_runtime this] noop_drop[of ?W2] this noop_runtime
  show ?thesis by (fastforce intro!: exI)
qed

end
