(* ===== verification/Vakil_L4_Progress.thy ===== *)
theory Vakil_L4_Progress
  imports Vakil_L4
begin

text \<open>
  Progress of a TCP connection: the two transfers \<open>try_join!\<close> polls (\<open>crates/vakil-l4/src/lib.rs\<close>) come
  to an end under every fair schedule once both peers end their streams, and the variant that says
  so.
\<close>

section \<open>The work a transfer has left\<close>

text \<open>A stream that ends: with an empty read (end of file) or an error.\<close>

definition closes :: "(bytes, string) result list \<Rightarrow> bool" where
  "closes reads \<longleftrightarrow> list_ex (\<lambda>r. r = Ok [] \<or> (\<exists>e. r = Err e)) reads"

lemma closes_simps [simp]:
  "\<not> closes []" "closes (Err e # rs)" "closes (Ok d # rs) \<longleftrightarrow> d = [] \<or> closes rs"
  by (auto simp: closes_def)

definition work :: "'o transfer \<Rightarrow> nat" where
  "work t = (case tr_pc t of
     Finished _ \<Rightarrow> 0 | Reading \<Rightarrow> 2 * length (tr_reads t) | Writing _ \<Rightarrow> 2 * length (tr_reads t) + 1)"

text \<open>A transfer that can always go on: what it still reads fits its buffer and ends.\<close>

definition lively :: "'o transfer \<Rightarrow> bool" where
  "lively t \<longleftrightarrow> (\<exists>r. tr_pc t = Finished r) \<or>
     closes (tr_reads t) \<and> (\<forall>d. Ok d \<in> set (tr_reads t) \<longrightarrow> length d \<le> 8192)"

text \<open>Hooks that do not panic.\<close>

definition no_panic :: "'w tcp_proxy_hooks \<Rightarrow> bool" where
  "no_panic hook \<longleftrightarrow> (\<forall>ctx W. chunk ctx \<noteq> None \<longrightarrow> (\<exists>r ctx' W'. tcp_data_received hook (ctx, W) = Some (r, ctx', W')))"

lemma chunk_set_chunk [simp]: "chunk (set_chunk dir d ctx) = Some d"
  by (simp add: set_chunk_def)

lemma transfer_step_progress:
  assumes "no_panic hook" and "lively t"
  shows "\<exists>t' W'. transfer_step hook write_all dir (t, W) = Some (t', W') \<and> lively t' \<and>
    (if \<exists>r. tr_pc t = Finished r then t' = t else work t' < work t)"
proof (cases t)
  case (fields ctx rs out pc)
  show ?thesis
  proof (cases pc)
    case (Finished r)
    with fields assms(2) show ?thesis by auto
  next
    case (Writing b)
    obtain w o' where "write_all b out = (w, o')" by fastforce
    with fields Writing assms(2) show ?thesis
      by (cases w) (auto simp: lively_def work_def)
  next
    case Reading
    with fields assms(2) obtain x rs' where rs: "rs = x # rs'"
      by (cases rs) (auto simp: lively_def)
    show ?thesis
    proof (cases x)
      case (Err e)
      with fields Reading rs show ?thesis by (simp add: lively_def work_def)
    next
      case (Ok d)
      show ?thesis
      proof (cases "d = []")
        case True
        with Ok fields Reading rs show ?thesis by (simp add: lively_def work_def)
      next
        case False
        from assms(2) fields Reading rs Ok False have rest: "closes rs'" "length d \<le> 8192"
          "\<forall>d. Ok d \<in> set rs' \<longrightarrow> length d \<le> 8192"
          by (auto simp: lively_def)
        obtain r ctx' V where "tcp_data_received hook (set_chunk dir d ctx, W) = Some (r, ctx', V)"
          using assms(1) unfolding no_panic_def by (metis chunk_set_chunk option.distinct(1))
        with fields Reading rs Ok False rest show ?thesis
          by (cases r; cases "chunk ctx'") (auto simp: transfer_step_chunk lively_def work_def)
      qed
    qed
  qed
qed

section \<open>The two transfers together\<close>

lemma join_result_Some:
  "(\<exists>x. tr_pc a = Finished x) \<Longrightarrow> (\<exists>y. tr_pc b = Finished y) \<Longrightarrow> join_result (a, b, W) \<noteq> None"
  by (auto split: result.splits)

lemma work_0: "lively t \<Longrightarrow> work t = 0 \<longleftrightarrow> (\<exists>r. tr_pc t = Finished r)"
  by (auto simp: work_def lively_def split: transfer_pc.splits)

lemma try_join_progress:
  assumes "no_panic hook" and "lively a" and "lively b"
    and "work a \<le> count_list ps True" and "work b \<le> count_list ps False"
  shows "\<exists>s. try_join hook write_all ps (a, b, W) = Some s \<and> join_result s \<noteq> None"
  using assms(2-5)
proof (induction ps arbitrary: a b W)
  case Nil
  then have "\<exists>x. tr_pc a = Finished x" "\<exists>y. tr_pc b = Finished y" by (simp_all add: work_0)
  from join_result_Some[OF this] show ?case by (simp del: join_result.simps)
next
  case (Cons p ps)
  note [simp del] = join_result.simps
  show ?case
  proof (cases "join_result (a, b, W) = None")
    case False
    then show ?thesis by simp
  next
    case True
    show ?thesis
    proof (cases p)
      case p: True
      obtain a' V where s: "transfer_step hook write_all Outbound (a, W) = Some (a', V)" "lively a'"
        "if \<exists>r. tr_pc a = Finished r then a' = a else work a' < work a"
        using transfer_step_progress[OF assms(1) Cons.prems(1)] by blast
      from s(3) work_0[OF Cons.prems(1)] Cons.prems(3) p have "work a' \<le> count_list ps True"
        by (auto split: if_splits)
      with Cons.IH[OF s(2) Cons.prems(2), of V] Cons.prems(4) p s(1) True show ?thesis by simp
    next
      case p: False
      obtain b' V where s: "transfer_step hook write_all Inbound (b, W) = Some (b', V)" "lively b'"
        "if \<exists>r. tr_pc b = Finished r then b' = b else work b' < work b"
        using transfer_step_progress[OF assms(1) Cons.prems(2)] by blast
      from s(3) work_0[OF Cons.prems(2)] Cons.prems(4) p have "work b' \<le> count_list ps False"
        by (auto split: if_splits)
      with Cons.IH[OF Cons.prems(1) s(2), of V] Cons.prems(3) p s(1) True show ?thesis by simp
    qed
  qed
qed

section \<open>Fair schedules\<close>

text \<open>A schedule without end that polls each transfer again and again.\<close>

definition fair :: "(nat \<Rightarrow> bool) \<Rightarrow> bool" where
  "fair sched \<longleftrightarrow> (\<forall>p n. \<exists>m \<ge> n. sched m = p)"

lemma fair_count: "fair sched \<Longrightarrow> \<exists>n. k \<le> count_list (map sched [0..<n]) p"
proof (induction k)
  case (Suc k)
  then obtain n where n: "k \<le> count_list (map sched [0..<n]) p" by blast
  from Suc.prems obtain m where m: "n \<le> m" "sched m = p" unfolding fair_def by blast
  then have "[0..<Suc m] = [0..<n] @ [n..<m] @ [m]"
    by (metis append_assoc le0 upt_Suc_append upt_add_eq_append le_iff_add)
  with n m(2) have "Suc k \<le> count_list (map sched [0..<Suc m]) p" by simp
  then show ?case by blast
qed simp

lemma count_prefix_mono: "n \<le> m \<Longrightarrow> count_list (map sched [0..<n]) p \<le> count_list (map sched [0..<m]) p"
  by (metis count_list_append le_add1 le_add_diff_inverse map_append upt_add_eq_append zero_le)

section \<open>Staying at the result\<close>

lemma try_join_done: "join_result s \<noteq> None \<Longrightarrow> try_join hook wr ps s = Some s"
  by (cases ps; cases s) (simp_all del: join_result.simps)

lemma try_join_append:
  "try_join hook wr (ps @ qs) s = Option.bind (try_join hook wr ps s) (try_join hook wr qs)"
proof (induction hook wr ps s rule: try_join.induct)
  case (2 hook wr p ps a b W)
  note [simp del] = join_result.simps
  show ?case
  proof (cases "join_result (a, b, W) = None")
    case True
    with 2 show ?thesis by (cases p) (auto split: Option.bind_split)
  next
    case False
    then show ?thesis by (simp add: try_join_done)
  qed
qed simp

lemma fair_join_ends:
  assumes "no_panic hook" and "fair sched" and "lively a" and "lively b"
  shows "\<exists>n s. join_result s \<noteq> None \<and>
    (\<forall>m \<ge> n. try_join hook write_all (map sched [0..<m]) (a, b, W) = Some s)"
proof -
  obtain i j where i: "work a \<le> count_list (map sched [0..<i]) True"
    and j: "work b \<le> count_list (map sched [0..<j]) False"
    using fair_count[OF assms(2)] by meson
  let ?n = "max i j"
  have "work a \<le> count_list (map sched [0..<?n]) True" "work b \<le> count_list (map sched [0..<?n]) False"
    using i j count_prefix_mono[of i ?n sched True] count_prefix_mono[of j ?n sched False] by auto
  from try_join_progress[OF assms(1,3,4) this] obtain s where
    s: "try_join hook write_all (map sched [0..<?n]) (a, b, W) = Some s" "join_result s \<noteq> None" by blast
  have "try_join hook write_all (map sched [0..<m]) (a, b, W) = Some s" if "?n \<le> m" for m
  proof -
    have "[0..<m] = [0..<?n] @ [?n..<m]" using that by (metis le0 le_add_diff_inverse upt_add_eq_append)
    with s show ?thesis by (simp add: try_join_append try_join_done)
  qed
  with s(2) show ?thesis by blast
qed

section \<open>Streams without an error\<close>

text \<open>A stream that reaches its end of file without an error.\<close>

fun clean :: "(bytes, string) result list \<Rightarrow> bool" where
  "clean [] = False"
| "clean (Err e # rs) = False"
| "clean (Ok d # rs) = (d = [] \<or> clean rs)"

lemma clean_closes: "clean rs \<Longrightarrow> closes rs"
  by (induction rs rule: clean.induct) auto

definition unfailed :: "'o transfer \<Rightarrow> bool" where
  "unfailed t \<longleftrightarrow> (case tr_pc t of Finished r \<Rightarrow> r = Ok () | _ \<Rightarrow> clean (tr_reads t))"

lemma transforms_no_panic: "transforms hook f \<Longrightarrow> no_panic hook"
  unfolding transforms_def no_panic_def by (metis option.exhaust)

lemma transfer_step_unfailed:
  assumes "transforms hook f" and "unfailed t"
    and "transfer_step hook append_out dir (t, W) = Some (t', W')"
  shows "unfailed t'"
proof (cases t)
  case (fields ctx rs out pc)
  show ?thesis
  proof (cases pc)
    case Reading
    with fields assms(2) obtain d rs' where rs: "rs = Ok d # rs'" "d = [] \<or> clean rs'"
      by (cases rs rule: clean.cases) (auto simp: unfailed_def)
    show ?thesis
    proof (cases "d = []")
      case True
      with assms(3) fields Reading rs show ?thesis by (auto simp: unfailed_def)
    next
      case False
      have "chunk (set_chunk dir d ctx) = Some d" by (simp add: set_chunk_def)
      then obtain ctx' V where "tcp_data_received hook (set_chunk dir d ctx, W) = Some (Ok (), ctx', V)"
        using assms(1) unfolding transforms_def by blast
      with assms(3) fields Reading rs False show ?thesis
        by (auto simp: unfailed_def transfer_step_chunk split: if_splits option.splits)
    qed
  qed (use assms(2,3) fields in \<open>auto simp: unfailed_def append_out_def\<close>)
qed

lemma join_steps_unfailed:
  assumes "transforms hook f" and "(join_step hook append_out)\<^sup>*\<^sup>* s s'"
    and "unfailed (fst s)" and "unfailed (fst (snd s))"
  shows "unfailed (fst s') \<and> unfailed (fst (snd s'))"
  using assms(2)
proof (induction rule: rtranclp_induct)
  case base
  with assms(3,4) show ?case by simp
next
  case (step y z)
  obtain a b V where y: "y = (a, b, V)" by (cases y)
  from step(2)[unfolded y] show ?case
    by (rule join_stepE) (use step.IH y in \<open>auto dest: transfer_step_unfailed[OF assms(1)]\<close>)
qed

lemma unfailed_result: "unfailed a \<Longrightarrow> unfailed b \<Longrightarrow> join_result (a, b, W) \<in> {None, Some (Ok ())}"
  by (auto simp: unfailed_def split: transfer_pc.splits)

section \<open>Properties\<close>

text \<open>C5: a connection ends when its peers do. If both peers end their streams (with an end of file or an
  error), every read fits the buffer and no data hook panics, then under every fair schedule of the
  two directions, whatever the hooks make of the chunks and whatever the writes return, the join of
  the two transfers has its result after finitely many steps and keeps it: no connection hangs.\<close>

theorem join_ends_under_fairness:
  assumes "no_panic hook" and "fair sched" and "closes up_reads" and "closes down_reads"
    and "\<forall>d. Ok d \<in> set (up_reads @ down_reads) \<longrightarrow> length d \<le> 8192"
  shows "\<exists>n s. join_result s \<noteq> None \<and>
    (\<forall>m \<ge> n. try_join hook write_all (map sched [0..<m])
       (transfer_new ctx up_reads out, transfer_new ctx' down_reads out', W) = Some s)"
  by (rule fair_join_ends[OF assms(1,2)]) (use assms(3-5) in \<open>auto simp: lively_def transfer_new_def\<close>)

lemma alternating_fair: "fair even"
  unfolding fair_def by (metis even_Suc le_SucI order_refl)

lemma noop_no_panic: "no_panic noop_tcp_hooks"
  by (rule transforms_no_panic[OF noop_transforms])

theorem join_ends_under_fairness_witness:
  "\<exists>n s. join_result s \<noteq> None \<and>
    (\<forall>m \<ge> n. try_join noop_tcp_hooks (\<lambda>b out. (Err ''broken pipe'', out)) (map even [0..<m])
       (transfer_new (tcp_ctx_new 7 (socket_addr_new (V4 127 0 0 1) 12346)) [Err ''reset''] ([] :: bytes),
        transfer_new (tcp_ctx_new 7 (socket_addr_new (V4 127 0 0 1) 12346)) [Ok (utf8 ''hi''), Ok []] [],
        sample_world) = Some s)"
  by (rule join_ends_under_fairness[OF noop_no_panic alternating_fair]) (auto simp: utf8_def utf8_char_def)

text \<open>C6: and then everything has been delivered. If in addition the data hooks change every chunk by some
  function (or drop it), both streams reach their end of file without an error and writing never
  fails, the join under a fair schedule ends without an error, and each direction has written exactly
  its chunks so changed, in order.\<close>

theorem join_delivers_everything:
  assumes "transforms hook f" and "fair sched" and "clean up_reads" and "clean down_reads"
    and "\<forall>d. Ok d \<in> set (up_reads @ down_reads) \<longrightarrow> length d \<le> 8192"
  shows "\<exists>n a b V. join_result (a, b, V) = Some (Ok ()) \<and>
    tr_out a = payload f up_reads \<and> tr_out b = payload f down_reads \<and>
    (\<forall>m \<ge> n. try_join hook append_out (map sched [0..<m])
       (transfer_new ctx up_reads [], transfer_new ctx' down_reads [], W) = Some (a, b, V))"
proof -
  let ?a = "transfer_new ctx up_reads []" and ?b = "transfer_new ctx' down_reads []"
  have "lively ?a" "lively ?b" using assms(3-5) by (auto simp: lively_def transfer_new_def clean_closes)
  from fair_join_ends[OF transforms_no_panic[OF assms(1)] assms(2) this] obtain n a b V where
    r: "join_result (a, b, V) \<noteq> None"
    and j: "\<forall>m \<ge> n. try_join hook append_out (map sched [0..<m]) (?a, ?b, W) = Some (a, b, V)" by fastforce
  then have steps: "(join_step hook append_out)\<^sup>*\<^sup>* (?a, ?b, W) (a, b, V)"
    by (blast intro: try_join_steps)
  have "unfailed ?a" "unfailed ?b" using assms(3,4) by (simp_all add: unfailed_def transfer_new_def)
  with join_steps_unfailed[OF assms(1) steps] have "unfailed a" "unfailed b" by auto
  with unfailed_result[of a b V] r have ok: "join_result (a, b, V) = Some (Ok ())" by auto
  then have "tr_pc a = Finished (Ok ())" "tr_pc b = Finished (Ok ())"
    by (auto split: transfer_pc.splits result.splits)
  with join_steps_total[OF assms(1) steps] have "tr_out a = payload f up_reads" "tr_out b = payload f down_reads"
    by (simp_all add: total_def transfer_new_def)
  with ok j show ?thesis by blast
qed

theorem join_delivers_everything_witness:
  "\<exists>n a b V. join_result (a, b, V) = Some (Ok ()) \<and>
    tr_out a = utf8 ''pong'' \<and> tr_out b = utf8 ''ping'' \<and>
    (\<forall>m \<ge> n. try_join noop_tcp_hooks append_out (map even [0..<m])
       (transfer_new (tcp_ctx_new 7 (socket_addr_new (V4 127 0 0 1) 12346)) [Ok (utf8 ''pong''), Ok []] [],
        transfer_new (tcp_ctx_new 7 (socket_addr_new (V4 127 0 0 1) 12346)) [Ok (utf8 ''ping''), Ok []] [],
        sample_world) = Some (a, b, V))"
  using join_delivers_everything[OF noop_transforms alternating_fair,
      of "[Ok (utf8 ''pong''), Ok []]" "[Ok (utf8 ''ping''), Ok []]"]
  by (simp add: utf8_def utf8_char_def)

end
