(* ===== verification/Plugin_Http_Mw.thy ===== *)
theory Plugin_Http_Mw
  imports Vakil_Http
begin

text \<open>
  The plugin \<open>example-http-mw\<close>: \<open>plugins/example-http-mw/src/lib.rs\<close>. It rotates the upstream of
  every request by a global counter (an atomic \<open>u64\<close>, so increments wrap around) and answers one
  path with a local reply. Logging is left out. \<open>ModuleHandle\<close> has no fields: boxing it allocates
  nothing, and the module's instance is the dangling but non-null pointer \<open>handle\<close>.
\<close>

section \<open>Callbacks\<close>

record mw_state =
  request_counter :: u64

definition mw_http_init :: "mw_state init_fn" where
  "mw_http_init inst ctx w = Some (Ok (), w)"

text \<open>The upstream host and path for a counter value.\<close>

definition mw_target :: "u64 \<Rightarrow> string \<times> string" where
  "mw_target n =
     (if n mod 3 = 1 then (''httpbin.dev'', ''/dump/request?n='' @ show_nat (unat n))
      else if n mod 3 = 2 then (''httpbin.org'', ''/anything?n='' @ show_nat (unat n))
      else (''echo.free.beeceptor.com'', ''/?n='' @ show_nat (unat n)))"

definition mw_route :: "u64 \<Rightarrow> route_decision" where
  "mw_route n =
     \<lparr>route_action = ReplaceUpstream,
      upstream_to_set = Some \<lparr>sa_host = fst (mw_target n), sa_port = 80\<rparr>,
      http_path = Some (snd (mw_target n))\<rparr>"

text \<open>A null context is unwrapped (panics); \<open>fetch_add\<close> gives the counter before the increment.\<close>

definition mw_on_route :: "mw_state http_hook_fn" where
  "mw_on_route inst ctx w =
     (case ctx of
        None \<Rightarrow> None
      | Some c \<Rightarrow>
          if request c = None
          then Some (Some c, Err \<lparr>message = Some ''no request provided to callback''\<rparr>, w)
          else
            (let n = request_counter w;
                 w = w\<lparr>request_counter := n + 1\<rparr>;
                 (is_route_ok, c) = set_route c (mw_route n)
             in if \<not> is_route_ok
                then Some (Some c, Err \<lparr>message = Some ''failed to set route''\<rparr>, w)
                else Some (Some c, Ok \<lparr>action = Replace\<rparr>, w)))"

definition mw_reply :: "http_request \<Rightarrow> http_response" where
  "mw_reply req =
     \<lparr>resp_stream_id = req_stream_id req, resp_version = req_version req, status = 200,
      resp_headers = headers_new, resp_body = utf8 ''hello from example-http-mw''\<rparr>"

definition mw_on_request_headers :: "mw_state http_hook_fn" where
  "mw_on_request_headers inst ctx w =
     (case ctx of
        None \<Rightarrow> Some (None, Ok hook_outcome_default, w)
      | Some c \<Rightarrow>
          (case request c of
             None \<Rightarrow> Some (Some c, Ok hook_outcome_default, w)
           | Some req \<Rightarrow>
               if req_method req = ''GET'' \<and> req_path req = ''/local-reply''
               then Some (Some (c\<lparr>response := Some (mw_reply req)\<rparr>), Ok \<lparr>action = Replace\<rparr>, w)
               else Some (Some c, Ok hook_outcome_default, w)))"

text \<open>The other callbacks only log what is in the context.\<close>

definition mw_on_request_body :: "mw_state http_hook_fn" where
  "mw_on_request_body inst ctx w = Some (ctx, Ok hook_outcome_default, w)"

definition mw_on_response_headers :: "mw_state http_hook_fn" where
  "mw_on_response_headers inst ctx w = Some (ctx, Ok hook_outcome_default, w)"

definition mw_on_response_body :: "mw_state http_hook_fn" where
  "mw_on_response_body inst ctx w = Some (ctx, Ok hook_outcome_default, w)"

definition mw_on_trailers :: "mw_state http_hook_fn" where
  "mw_on_trailers inst ctx w = Some (ctx, Ok hook_outcome_default, w)"

definition mw_on_local_reply :: "mw_state http_hook_fn" where
  "mw_on_local_reply inst ctx w = Some (ctx, Ok hook_outcome_default, w)"

text \<open>Freeing a box without contents does nothing.\<close>

definition mw_http_shutdown :: "mw_state shutdown_fn" where
  "mw_http_shutdown inst w = Some (Ok (), w)"

section \<open>Module\<close>

definition mw_http_module :: "u64 \<Rightarrow> mw_state plugin_http_module" where
  "mw_http_module handle =
     \<lparr>http_instance = Ptr handle, http_priority = 0, http_init = mw_http_init,
      http_shutdown = mw_http_shutdown, http_on_route = Some mw_on_route,
      on_request_headers = Some mw_on_request_headers,
      on_request_body = Some mw_on_request_body,
      on_response_headers = Some mw_on_response_headers,
      on_response_body = Some mw_on_response_body,
      on_trailers = Some mw_on_trailers, on_local_reply = Some mw_on_local_reply\<rparr>"

definition mw_create_http :: "u64 \<Rightarrow> (mw_state plugin_http_module, mw_state) factory_fn" where
  "mw_create_http handle w = Some (Ok (mw_http_module handle), w)"

definition mw_get_library :: "u64 \<Rightarrow> mw_state plugin_root_module" where
  "mw_get_library handle =
     \<lparr>manifest = \<lparr>man_name = ''example-http-mw'', man_version = \<lparr>major = 0, minor = 1, patch = 0\<rparr>\<rparr>,
      create_http = Some (mw_create_http handle), create_tcp = None, create_udp = None\<rparr>"

section \<open>The rotation\<close>

text \<open>The states of the counter over a number of requests.\<close>

definition mw_world :: "u64 \<Rightarrow> call list \<Rightarrow> mw_state world" where
  "mw_world n cs = \<lparr>plugins = \<lparr>request_counter = n\<rparr>, calls = cs\<rparr>"

definition mw_hosts :: "string list" where
  "mw_hosts = [''echo.free.beeceptor.com'', ''httpbin.dev'', ''httpbin.org'']"

lemma u64_mod3_cases: "n mod 3 = 0 \<or> n mod 3 = 1 \<or> n mod 3 = (2 :: u64)"
proof -
  have "unat (n mod 3) < 3" by (simp add: unat_mod)
  then have "unat (n mod 3) = unat (0 :: u64) \<or> unat (n mod 3) = unat (1 :: u64) \<or> unat (n mod 3) = unat (2 :: u64)"
    by auto
  then show ?thesis by (simp only: word_unat_eq_iff)
qed

lemma mw_target_host: "fst (mw_target n) = mw_hosts ! (unat n mod 3)"
proof -
  have m: "unat n mod 3 = unat (n mod 3)" by (simp add: unat_mod)
  from u64_mod3_cases[of n] show ?thesis
    unfolding m by (elim disjE) (simp_all add: mw_target_def mw_hosts_def)
qed

lemma mw_run_route:
  assumes "request ctx \<noteq> None" and "transport ctx \<noteq> None"
  shows "run_hook HttpProto OnRoute inst mw_on_route (ctx, mw_world n cs) =
    Some (\<lparr>action = Replace\<rparr>, snd (set_route ctx (mw_route n)),
      mw_world (n + 1) (cs @ [Hook HttpProto OnRoute inst]))"
proof -
  obtain b c' where s: "set_route ctx (mw_route n) = (b, c')" by fastforce
  with assms(2) have "b" by (metis fst_conv fst_set_route)
  with assms(1) s show ?thesis
    by (auto simp: run_hook_def call_hook_def mw_on_route_def mw_world_def Let_def)
qed

lemma mw_route_module:
  assumes "request ctx \<noteq> None" and "transport ctx \<noteq> None"
    and "build_uri X (snd (mw_target n)) = Some uri"
    and "http_peer_new X (mw_hosts ! (unat n mod 3), 80) False (mw_hosts ! (unat n mod 3)) = Some peer"
  shows "route_module X (mw_http_module handle) (ses, ctx, mw_world n cs) =
    Some (Some (Ok peer), set_uri uri ses, snd (set_route ctx (mw_route n)),
      mw_world (n + 1) (cs @ [Hook HttpProto OnRoute (Ptr handle)]))"
proof -
  have v: "verdict_of \<lparr>action = Replace\<rparr> (snd (set_route ctx (mw_route n))) =
      Selected \<lparr>sa_host = fst (mw_target n), sa_port = 80\<rparr> (Some (snd (mw_target n)))"
    using assms(2) by (simp add: verdict_of_def mw_route_def)
  show ?thesis
    by (subst route_module_ask[OF _ mw_run_route[OF assms(1,2)]])
      (simp_all add: mw_http_module_def v assms(3,4) mw_target_host)
qed

section \<open>Loading\<close>

definition mw_dylib :: "u64 \<Rightarrow> mw_state dylib" where
  "mw_dylib handle = \<lparr>get_library_symbol = Ok (\<lambda>w. Some (mw_get_library handle, w))\<rparr>"

definition mw_plugin :: "u64 \<Rightarrow> mw_state loaded_plugin" where
  "mw_plugin handle = \<lparr>root = mw_get_library handle,
     modules = modules_default\<lparr>http := Some (mw_http_module handle)\<rparr>, library = mw_dylib handle\<rparr>"

lemma mw_loads:
  "plugin_load (\<lambda>_. Ok (mw_dylib handle)) vars path (mw_world n cs) =
     Some (Ok (mw_plugin handle),
       mw_world n (cs @ [OpenLibrary path, GetLibrary, Factory HttpProto, Init HttpProto (Ptr handle)]))"
  by (simp add: plugin_load_def mw_dylib_def mw_plugin_def get_root_def close_on_err_def log_call_def
      validate_manifest_def host_abi_version_def build_init_context_eq load_modules_def load_block_def
      call_factory_def module_trait_defs call_init_def modules_default_def mw_get_library_def
      mw_create_http_def mw_http_module_def mw_http_init_def mw_world_def)

section \<open>Properties\<close>

text \<open>What the plugin does to a request it is the first to route. With the counter at n the request
  goes to the host at position n modulo 3 of the rotation, over plain TCP on port 80, its path is the
  host's path with n as query, and the counter moves on by one; the host never panics on the
  plugin's decision as long as the URI and the peer can be built.\<close>

lemma mw_routes:
  assumes "request ctx \<noteq> None" and "transport ctx \<noteq> None"
    and "build_uri X (snd (mw_target n)) = Some uri"
    and "http_peer_new X (mw_hosts ! (unat n mod 3), 80) False (mw_hosts ! (unat n mod 3)) = Some peer"
  shows "plugin_upstream_peer X (mw_http_module handle # ms) (ses, ctx, mw_world n cs) =
    Some (Ok peer, set_uri uri ses, snd (set_route ctx (mw_route n)),
      mw_world (n + 1) (cs @ [Hook HttpProto OnRoute (Ptr handle)]))"
  using mw_route_module[OF assms] by (simp add: plugin_upstream_peer_def)

lemma mw_routes_example:
  "\<exists>ses' ctx'. plugin_upstream_peer sample_pingora [mw_http_module 1]
     (sample_session, sample_ctx\<lparr>request := Some sample_request\<rparr>, mw_world 4 []) =
     Some (Ok (''httpbin.dev'', 80, False), ses', ctx', mw_world 5 [Hook HttpProto OnRoute (Ptr 1)])"
  using mw_routes[of "sample_ctx\<lparr>request := Some sample_request\<rparr>" sample_pingora 4 _
      "(''httpbin.dev'', 80, False)" 1 "[]" sample_session "[]"]
  by (simp add: sample_pingora_def mw_hosts_def sample_ctx_def)

text \<open>C32: the rotation by the counter. Requests in a row go to the next host of the three each time,
  except at the point where the counter wraps around, where two requests in a row go to the first.
  The hosts of the first six requests are fixed: an even request goes to \<open>httpbin.dev\<close> only every
  third time, and a request for \<open>n = 0\<close> goes to neither host the plugin's documentation names.\<close>

theorem mw_rotation:
  "fst (mw_target (n + 1)) =
     (if n = - 1 then fst (mw_target n) else mw_hosts ! (Suc (unat n) mod 3)) \<and>
   map (\<lambda>k. fst (mw_target (of_nat k))) [0, 1, 2, 3, 4, 5] =
     [''echo.free.beeceptor.com'', ''httpbin.dev'', ''httpbin.org'',
      ''echo.free.beeceptor.com'', ''httpbin.dev'', ''httpbin.org'']"
proof (rule conjI)
  show "fst (mw_target (n + 1)) =
     (if n = - 1 then fst (mw_target n) else mw_hosts ! (Suc (unat n) mod 3))"
  proof (cases "n = - 1")
    case True
    have "unat (- 1 :: u64) mod 3 = 0" by (simp add: unsigned_minus_1_eq_mask mask_eq_exp_minus_1)
    with True show ?thesis by (simp add: mw_target_host)
  next
    case False
    have "unat (n + 1) = Suc (unat n)" using False by (metis unatSuc add.commute eq_neg_iff_add_eq_0)
    with False show ?thesis by (simp add: mw_target_host)
  qed
  show "map (\<lambda>k. fst (mw_target (of_nat k))) [0, 1, 2, 3, 4, 5] =
     [''echo.free.beeceptor.com'', ''httpbin.dev'', ''httpbin.org'',
      ''echo.free.beeceptor.com'', ''httpbin.dev'', ''httpbin.org'']"
    by (simp add: mw_target_host mw_hosts_def)
qed

text \<open>Without transport metadata the plugin cannot route. Its route hook fails, the host reads that
  as no decision and answers 500, but the counter has moved on: the rotation skips a host.\<close>

lemma mw_route_without_transport:
  assumes "request ctx \<noteq> None" and "transport ctx = None"
  shows "plugin_upstream_peer X [mw_http_module handle] (ses, ctx, mw_world n cs) =
    Some (Err (HTTPStatus 500 ''no upstream was selected by plugins''), ses, ctx,
      mw_world (n + 1) (cs @ [Hook HttpProto OnRoute (Ptr handle)]))"
proof -
  have "run_hook HttpProto OnRoute (Ptr handle) mw_on_route (ctx, mw_world n cs) =
      Some (hook_outcome_default, ctx, mw_world (n + 1) (cs @ [Hook HttpProto OnRoute (Ptr handle)]))"
    using assms by (auto simp: run_hook_def call_hook_def mw_on_route_def mw_world_def set_route_def)
  then have "route_module X (mw_http_module handle) (ses, ctx, mw_world n cs) =
      Some (None, ses, ctx, mw_world (n + 1) (cs @ [Hook HttpProto OnRoute (Ptr handle)]))"
    by (intro route_module_undecided)
      (use assms(2) in \<open>simp_all add: mw_http_module_def verdict_of_def ctx_route_def\<close>)
  then show ?thesis by (simp add: plugin_upstream_peer_def)
qed

lemma mw_route_without_transport_example:
  "\<exists>W'. plugin_upstream_peer sample_pingora [mw_http_module 1]
     (sample_session, http_context_default\<lparr>request := Some sample_request\<rparr>, mw_world 0 []) =
     Some (Err (HTTPStatus 500 ''no upstream was selected by plugins''), sample_session,
       http_context_default\<lparr>request := Some sample_request\<rparr>, W')"
  using mw_route_without_transport[of "http_context_default\<lparr>request := Some sample_request\<rparr>"
      sample_pingora 1 sample_session 0 "[]"]
  by (simp add: default_simps)

end
