(* ===== verification/Rust_Std.thy ===== *)
theory Rust_Std
  imports Rust_Str "HOL-Library.Sublist"
begin

text \<open>
  Three small parts of Rust's standard library the program uses: adding a duration to an instant,
  the windows of a slice, and decoding bytes as UTF-8, strictly (\<open>from_utf8\<close>) and with replacement
  characters (\<open>from_utf8_lossy\<close>). Decoded text is the list of its code points, as it may go beyond
  the characters of a HOL \<open>string\<close>.
\<close>

type_synonym usize = "64 word"

section \<open>Instants\<close>

text \<open>
  An instant is a number of nanoseconds. \<open>Instant + Duration\<close> of whole seconds: it panics when the
  seconds no longer fit the signed 64 bits of a Linux \<open>timespec\<close>.
\<close>

definition instant_add :: "nat \<Rightarrow> nat \<Rightarrow> nat option" where
  "instant_add now secs =
     (let t = now + secs * 1000000000 in if t div 1000000000 < 2 ^ 63 then Some t else None)"

section \<open>Windows of a slice\<close>

definition windows :: "nat \<Rightarrow> 'a list \<Rightarrow> 'a list list" where
  "windows k xs = map (\<lambda>i. take k (drop i xs)) [0..<length xs + 1 - k]"

lemma windows_iff_sublist: "w \<noteq> [] \<Longrightarrow> w \<in> set (windows (length w) xs) \<longleftrightarrow> sublist w xs"
proof
  assume "w \<in> set (windows (length w) xs)"
  then obtain i where "w = take (length w) (drop i xs)" by (auto simp: windows_def)
  then have "xs = take i xs @ w @ drop (length w) (drop i xs)"
    by (metis append_take_drop_id)
  then show "sublist w xs" unfolding sublist_def by blast
next
  assume "sublist w xs"
  then obtain ps ss where "xs = ps @ w @ ss" by (auto simp: sublist_def)
  then show "w \<in> set (windows (length w) xs)"
    by (auto simp: windows_def intro!: image_eqI[of _ _ "length ps"])
qed

section \<open>Decoding UTF-8\<close>

definition continuation :: "u8 \<Rightarrow> bool" where
  "continuation b \<longleftrightarrow> 0x80 \<le> b \<and> b \<le> 0xBF"

definition second_of_three :: "u8 \<Rightarrow> u8 \<Rightarrow> bool" where
  "second_of_three b c \<longleftrightarrow>
     b = 0xE0 \<and> 0xA0 \<le> c \<and> c \<le> 0xBF \<or> 0xE1 \<le> b \<and> b \<le> 0xEC \<and> continuation c \<or>
     b = 0xED \<and> 0x80 \<le> c \<and> c \<le> 0x9F \<or> 0xEE \<le> b \<and> b \<le> 0xEF \<and> continuation c"

definition second_of_four :: "u8 \<Rightarrow> u8 \<Rightarrow> bool" where
  "second_of_four b c \<longleftrightarrow>
     b = 0xF0 \<and> 0x90 \<le> c \<and> c \<le> 0xBF \<or> 0xF1 \<le> b \<and> b \<le> 0xF3 \<and> continuation c \<or>
     b = 0xF4 \<and> 0x80 \<le> c \<and> c \<le> 0x8F"

text \<open>Past the end of the bytes the decoder reads zeros.\<close>

definition byte_at :: "nat \<Rightarrow> bytes \<Rightarrow> u8" where
  "byte_at i bs = (if i < length bs then bs ! i else 0)"

text \<open>
  One step at a byte and what follows it: the code point, or \<open>None\<close> for an invalid sequence, and how
  many of the following bytes belong to it. A sequence that goes wrong ends before the byte that
  does not fit.
\<close>

definition utf8_next :: "u8 \<Rightarrow> bytes \<Rightarrow> nat option \<times> nat" where
  "utf8_next b rest =
     (let c = byte_at 0 rest; d = byte_at 1 rest; e = byte_at 2 rest
      in if b < 0x80 then (Some (unat b), 0)
         else if 0xC2 \<le> b \<and> b \<le> 0xDF then
           (if continuation c then (Some ((unat b - 0xC0) * 64 + (unat c - 0x80)), 1) else (None, 0))
         else if 0xE0 \<le> b \<and> b \<le> 0xEF then
           (if \<not> second_of_three b c then (None, 0)
            else if \<not> continuation d then (None, 1)
            else (Some ((unat b - 0xE0) * 4096 + (unat c - 0x80) * 64 + (unat d - 0x80)), 2))
         else if 0xF0 \<le> b \<and> b \<le> 0xF4 then
           (if \<not> second_of_four b c then (None, 0)
            else if \<not> continuation d then (None, 1)
            else if \<not> continuation e then (None, 2)
            else (Some ((unat b - 0xF0) * 262144 + (unat c - 0x80) * 4096 + (unat d - 0x80) * 64 + (unat e - 0x80)), 3))
         else (None, 0))"

fun from_utf8_lossy :: "bytes \<Rightarrow> nat list" where
  "from_utf8_lossy [] = []"
| "from_utf8_lossy (b # rest) =
     (let (c, k) = utf8_next b rest
      in (case c of Some n \<Rightarrow> n | None \<Rightarrow> 0xFFFD) # from_utf8_lossy (drop k rest))"

fun from_utf8 :: "bytes \<Rightarrow> nat list option" where
  "from_utf8 [] = Some []"
| "from_utf8 (b # rest) =
     (let (c, k) = utf8_next b rest
      in Option.bind c (\<lambda>n. map_option ((#) n) (from_utf8 (drop k rest))))"

text \<open>\<open>str::contains\<close> of a string literal.\<close>

definition text_contains :: "nat list \<Rightarrow> string \<Rightarrow> bool" where
  "text_contains cs pat \<longleftrightarrow> pat = [] \<or> map of_char pat \<in> set (windows (length pat) cs)"

lemma text_contains_sublist: "text_contains cs pat \<longleftrightarrow> sublist (map of_char pat) cs"
  using windows_iff_sublist[of "map of_char pat" cs] by (cases "pat = []") (auto simp: text_contains_def)

lemma from_utf8_is_lossy: "from_utf8 bs = Some cs \<Longrightarrow> from_utf8_lossy bs = cs"
  by (induction bs arbitrary: cs rule: from_utf8.induct)
    (auto split: prod.splits option.splits Option.bind_splits)

lemma continuation_0 [simp]: "\<not> continuation 0" "\<not> second_of_three b 0" "\<not> second_of_four b 0"
  by (simp_all add: continuation_def second_of_three_def second_of_four_def)

lemma byte_at_high:
  "continuation (byte_at i bs) \<Longrightarrow> i < length bs \<and> 0x80 \<le> bs ! i"
  "second_of_three b (byte_at i bs) \<Longrightarrow> i < length bs \<and> 0x80 \<le> bs ! i"
  "second_of_four b (byte_at i bs) \<Longrightarrow> i < length bs \<and> 0x80 \<le> bs ! i"
  by (auto simp: byte_at_def continuation_def second_of_three_def second_of_four_def word_le_nat_alt
      split: if_splits)

text \<open>An ASCII byte stands for itself; any other byte starts a code point beyond ASCII, and takes only
  bytes beyond ASCII with it.\<close>

lemma utf8_next_ascii [simp]: "b < 0x80 \<Longrightarrow> utf8_next b rest = (Some (unat b), 0)"
  by (simp add: utf8_next_def)

lemma utf8_next_high:
  assumes "\<not> b < 0x80" and "utf8_next b rest = (c, k)"
  shows "k \<le> length rest \<and> (\<forall>i < k. 0x80 \<le> rest ! i) \<and> 0x80 \<le> (case c of Some n \<Rightarrow> n | None \<Rightarrow> 0xFFFD)"
proof -
  have n: "x \<le> y \<longleftrightarrow> unat x \<le> unat y" "x < y \<longleftrightarrow> unat x < unat y" "x = y \<longleftrightarrow> unat x = unat y" for x y :: u8
    by (simp_all add: word_le_nat_alt word_less_nat_alt word_unat_eq_iff)
  have "0x80 \<le> (case c of Some n \<Rightarrow> n | None \<Rightarrow> 0xFFFD)"
    using assms
    by (auto simp: utf8_next_def Let_def n second_of_three_def second_of_four_def continuation_def split: if_splits)
  moreover have "k \<le> length rest \<and> (\<forall>i < k. 0x80 \<le> rest ! i)"
    using assms by (auto simp: utf8_next_def Let_def less_Suc_eq Suc_le_eq numeral_3_eq_3 numeral_2_eq_2
        split: if_splits dest: byte_at_high)
  ultimately show ?thesis by blast
qed

lemma from_utf8_lossy_high:
  assumes "\<not> b < 0x80"
  obtains k c where "k \<le> length rest" and "\<forall>i < k. 0x80 \<le> rest ! i" and "0x80 \<le> c"
    and "from_utf8_lossy (b # rest) = c # from_utf8_lossy (drop k rest)"
proof -
  obtain r k where n: "utf8_next b rest = (r, k)" by force
  with utf8_next_high[OF assms n] show ?thesis
    by (intro that[of k "case r of Some n \<Rightarrow> n | None \<Rightarrow> 0xFFFD"]) auto
qed

section \<open>Looking for ASCII in decoded text\<close>

definition ascii :: "string \<Rightarrow> bool" where
  "ascii s \<longleftrightarrow> (\<forall>c \<in> set s. (of_char c :: nat) < 128)"

lemma utf8_ascii: "ascii s \<Longrightarrow> utf8 s = map of_char s"
  by (induction s) (auto simp: ascii_def utf8_def utf8_char_def of_nat_of_char)

lemma from_utf8_lossy_prefix:
  "\<forall>p \<in> set pat. p < 128 \<Longrightarrow> prefix pat (from_utf8_lossy bs) \<longleftrightarrow> prefix (map of_nat pat) bs"
proof (induction pat arbitrary: bs)
  case Nil
  then show ?case by simp
next
  case (Cons p pat)
  show ?case
  proof (cases bs)
    case Nil
    then show ?thesis by simp
  next
    case (Cons b rest)
    have p: "unat (of_nat p :: u8) = p" using Cons.prems by (simp add: unat_of_nat)
    show ?thesis
    proof (cases "b < 0x80")
      case True
      then have "p = unat b \<longleftrightarrow> of_nat p = b" using p by auto
      with True Cons Cons.IH[of rest] Cons.prems show ?thesis by simp
    next
      case False
      with p Cons.prems have "of_nat p \<noteq> b" by (auto simp: word_less_nat_alt)
      moreover from False obtain k c where "0x80 \<le> c"
        "from_utf8_lossy (b # rest) = c # from_utf8_lossy (drop k rest)"
        by (rule from_utf8_lossy_high)
      ultimately show ?thesis using Cons Cons.prems by auto
    qed
  qed
qed

lemma sublist_skip:
  "x \<notin> set ys \<Longrightarrow> sublist (x # xs) (ys @ zs) \<longleftrightarrow> sublist (x # xs) zs"
  by (induction ys) (auto simp: sublist_Cons_right)

text \<open>Decoding neither hides nor makes up ASCII text: a nonempty ASCII string is in the decoded text
  exactly when its bytes are in the input, valid or not.\<close>

lemma from_utf8_lossy_sublist:
  assumes "\<forall>p \<in> set pat. p < 128"
  shows "sublist pat (from_utf8_lossy bs) \<longleftrightarrow> sublist (map of_nat pat) bs"
proof (induction bs rule: from_utf8_lossy.induct)
  case 1
  then show ?case by simp
next
  case (2 b rest)
  show ?case
  proof (cases pat)
    case Nil
    then show ?thesis by simp
  next
    case pat: (Cons p ps)
    show ?thesis
    proof (cases "b < 0x80")
      case True
      then show ?thesis
        using 2[of "(Some (unat b), 0)" "Some (unat b)" 0] from_utf8_lossy_prefix[OF assms, of "b # rest"]
        by (simp add: sublist_Cons_right)
    next
      case False
      obtain r k where n: "utf8_next b rest = (r, k)" by force
      from 2[OF n[symmetric] refl] have IH: "sublist pat (from_utf8_lossy (drop k rest)) \<longleftrightarrow> sublist (map of_nat pat) (drop k rest)" .
      let ?c = "case r of Some n \<Rightarrow> n | None \<Rightarrow> 0xFFFD"
      from utf8_next_high[OF False n] have k: "k \<le> length rest" "\<forall>i < k. 0x80 \<le> rest ! i" "0x80 \<le> ?c" by auto
      have p: "unat (of_nat p :: u8) = p" "p < 128" using assms pat by (simp_all add: unat_of_nat)
      have "of_nat p \<notin> set (b # take k rest)"
        using False k(1,2) p by (auto simp: in_set_conv_nth word_less_nat_alt word_le_nat_alt)
      then have "sublist (map of_nat pat) (b # rest) \<longleftrightarrow> sublist (map of_nat pat) (drop k rest)"
        using sublist_skip[of "of_nat p :: u8" "b # take k rest" "map of_nat ps" "drop k rest"] pat by simp
      moreover have "sublist pat (?c # from_utf8_lossy (drop k rest)) \<longleftrightarrow> sublist pat (from_utf8_lossy (drop k rest))"
        using sublist_skip[of p "[?c]" ps "from_utf8_lossy (drop k rest)"] pat p(2) k(3) by auto
      ultimately show ?thesis using n IH by simp
    qed
  qed
qed

lemma text_contains_bytes:
  assumes "ascii pat"
  shows "text_contains (from_utf8_lossy bs) pat \<longleftrightarrow> sublist (utf8 pat) bs"
  using from_utf8_lossy_sublist[of "map of_char pat" bs] assms
  by (simp add: text_contains_sublist utf8_ascii ascii_def comp_def of_nat_of_char)

section \<open>Decoding what was encoded\<close>

lemma utf8_next_char:
  fixes n :: nat
  assumes "128 \<le> n" and "n < 256"
  shows "utf8_next (of_nat (192 + n div 64)) (of_nat (128 + n mod 64) # rest) = (Some n, 1)"
proof -
  have d: "2 \<le> n div 64" "n div 64 < 4" "n mod 64 < 64" using assms by auto
  then have u: "unat (of_nat (192 + n div 64) :: u8) = 192 + n div 64"
    "unat (of_nat (128 + n mod 64) :: u8) = 128 + n mod 64"
    by (simp_all only: unat_of_nat) simp_all
  let ?b = "of_nat (192 + n div 64) :: u8"
  have b: "\<not> ?b < 0x80" "0xC2 \<le> ?b" "?b \<le> 0xDF" "continuation (of_nat (128 + n mod 64))"
    using d by (simp_all only: word_less_nat_alt word_le_nat_alt continuation_def u) simp_all
  have "n div 64 * 64 + n mod 64 = n" by simp
  with b u show ?thesis by (simp only: utf8_next_def byte_at_def Let_def) simp
qed

theorem from_utf8_utf8: "from_utf8 (utf8 s) = Some (map of_char s)"
proof (induction s)
  case Nil
  then show ?case by (simp add: utf8_def)
next
  case (Cons c s)
  let ?n = "of_char c :: nat"
  have n: "?n < 256" by simp
  have u: "utf8 (c # s) = utf8_char c @ utf8 s" by (simp add: utf8_def)
  show ?case
  proof (cases "?n < 128")
    case True
    then have "(of_nat ?n :: u8) < 0x80" "unat (of_nat ?n :: u8) = ?n"
      by (simp_all add: word_less_nat_alt unat_of_nat)
    with True Cons.IH show ?thesis by (simp add: u utf8_char_def)
  next
    case False
    with utf8_next_char[of ?n "utf8 s"] n Cons.IH show ?thesis
      by (simp add: u utf8_char_def Let_def)
  qed
qed

end
