(* ===== verification/Plugin_Sticky.thy ===== *)
theory Plugin_Sticky
  imports Vakil_L4 Rust_Path "HOL-Library.AList" Rust_Std
begin

text \<open>
  The plugin \<open>example-l4-sticky\<close>: \<open>plugins/example-l4-sticky/src/lib.rs\<close>. It loads its config once,
  keeps one backend per listener and client IP in a cache with a time to live, and frees the
  handles of its modules on shutdown.

  Parameters: reading a file (its error is a text), the toml parser (its result before serde's
  defaults are applied), the digest of the xxh3 hasher as a function of the bytes it was fed, the
  clock (the instant of each call) and the allocator. A mutex is poisoned only by a panic under it,
  which ends the process, so locking never fails here.
\<close>

section \<open>Configuration\<close>

record listener_config =
  lc_name :: string
  lc_backends :: "string list"

record file_config =
  fc_ttl_secs :: u64
  fc_fallback_backends :: "string list"
  fc_listeners :: "listener_config list"

definition default_ttl_secs :: u64 where
  "default_ttl_secs = 900"

text \<open>What the parser finds in the file, and the defaults of the missing keys.\<close>

record raw_config =
  raw_ttl_secs :: "u64 option"
  raw_fallback_backends :: "string list option"
  raw_listeners :: "listener_config list option"

definition file_config_from :: "raw_config \<Rightarrow> file_config" where
  "file_config_from raw =
     \<lparr>fc_ttl_secs = (case raw_ttl_secs raw of None \<Rightarrow> default_ttl_secs | Some t \<Rightarrow> t),
      fc_fallback_backends = (case raw_fallback_backends raw of None \<Rightarrow> [] | Some bs \<Rightarrow> bs),
      fc_listeners = (case raw_listeners raw of None \<Rightarrow> [] | Some ls \<Rightarrow> ls)\<rparr>"

text \<open>
  The hash map from listener names is an association list without duplicate keys; the code looks
  keys up and never iterates over it.
\<close>

record loaded_config =
  ttl_secs :: nat
  fallback_backends :: "string list"
  listener_backends :: "(string \<times> string list) list"

definition make_plugin_error :: "string \<Rightarrow> plugin_error" where
  "make_plugin_error m = \<lparr>message = Some m\<rparr>"

definition plugin_error_message :: "plugin_error \<Rightarrow> string" where
  "plugin_error_message err = (case message err of Some m \<Rightarrow> m | None \<Rightarrow> ''unknown plugin error'')"

definition normalize_value :: "string \<Rightarrow> string \<Rightarrow> (string, plugin_error) result" where
  "normalize_value text field =
     (let trimmed = trim text
      in if trimmed = [] then Err (make_plugin_error (field @ '' cannot be empty'')) else Ok trimmed)"

definition normalize_backends :: "string list \<Rightarrow> string \<Rightarrow> (string list, plugin_error) result" where
  "normalize_backends bs field = try_map (\<lambda>backend. normalize_value backend field) bs"

text \<open>The loop over the listeners of the file.\<close>

fun load_listeners ::
  "listener_config list \<Rightarrow> (string \<times> string list) list \<Rightarrow> ((string \<times> string list) list, plugin_error) result" where
  "load_listeners [] acc = Ok acc"
| "load_listeners (l # ls) acc =
     and_then (normalize_value (lc_name l) ''listener name'') (\<lambda>name.
       if map_of acc name \<noteq> None then Err (make_plugin_error (''duplicate listener '' @ name))
       else and_then (normalize_backends (lc_backends l) (''listener '' @ name)) (\<lambda>backends.
         load_listeners ls (AList.update name backends acc)))"

definition try_from :: "file_config \<Rightarrow> (loaded_config, plugin_error) result" where
  "try_from cfg =
     (if fc_ttl_secs cfg = 0 then Err (make_plugin_error ''ttl_secs must be greater than zero'')
      else and_then (load_listeners (fc_listeners cfg) []) (\<lambda>ls.
        and_then (normalize_backends (fc_fallback_backends cfg) ''fallback_backends'') (\<lambda>fb.
          if ls = [] \<and> fb = []
          then Err (make_plugin_error ''sticky config must define at least one listener pool or fallback backends'')
          else Ok \<lparr>ttl_secs = unat (fc_ttl_secs cfg), fallback_backends = fb, listener_backends = ls\<rparr>)))"

section \<open>Choosing a backend\<close>

record sticky_key =
  sk_listener :: string
  sk_client_ip :: ip_addr

text \<open>An instant is a number of nanoseconds.\<close>

record sticky_entry =
  se_backend :: string
  se_expires_at :: nat

type_synonym assignments = "(sticky_key \<times> sticky_entry) list"

record shared_state =
  st_config :: loaded_config
  st_assignments :: assignments

definition shared_state_new :: "loaded_config \<Rightarrow> shared_state" where
  "shared_state_new cfg = \<lparr>st_config = cfg, st_assignments = []\<rparr>"

definition pool_for_listener :: "loaded_config \<Rightarrow> string \<Rightarrow> string list" where
  "pool_for_listener self listener =
     (case map_of (listener_backends self) listener of
        Some backends \<Rightarrow> backends | None \<Rightarrow> fallback_backends self)"

definition parse_client_ip :: "string \<Rightarrow> ip_addr option" where
  "parse_client_ip peer = map_option sock_ip (parse_socket_addr peer)"

text \<open>The remainder by the length of an empty pool panics.\<close>

definition choose_backend ::
  "(bytes \<Rightarrow> u64) \<Rightarrow> string \<Rightarrow> ip_addr \<Rightarrow> string list \<Rightarrow> string option" where
  "choose_backend xxh3 listener client_ip pool =
     (if pool = [] then None
      else Some (pool ! (unat (xxh3 (utf8 listener @ octets client_ip)) mod length pool)))"

definition select_backend ::
  "(bytes \<Rightarrow> u64) \<Rightarrow> shared_state \<Rightarrow> string \<Rightarrow> ip_addr \<Rightarrow> nat \<Rightarrow>
   ((string, plugin_error) result \<times> shared_state) option" where
  "select_backend xxh3 self listener client_ip now =
     (let pool = pool_for_listener (st_config self) listener
      in if pool = []
         then Some (Err (make_plugin_error (''no backends configured for listener '' @ listener)), self)
         else
           (let key = \<lparr>sk_listener = listener, sk_client_ip = client_ip\<rparr>;
                live = filter (\<lambda>(_, entry). se_expires_at entry > now) (st_assignments self);
                insert_new = do {
                  backend \<leftarrow> choose_backend xxh3 listener client_ip pool;
                  expires_at \<leftarrow> instant_add now (ttl_secs (st_config self));
                  Some (Ok backend, self\<lparr>st_assignments :=
                    AList.update key \<lparr>se_backend = backend, se_expires_at = expires_at\<rparr> live\<rparr>)
                }
            in (case map_of live key of
                  Some entry \<Rightarrow>
                    if se_backend entry \<in> set pool
                    then Some (Ok (se_backend entry), self\<lparr>st_assignments := live\<rparr>)
                    else insert_new
                | None \<Rightarrow> insert_new)))"

section \<open>Routes\<close>

definition keep_route :: route_decision where
  "keep_route = \<lparr>route_action = Keep, upstream_to_set = None, http_path = None\<rparr>"

definition backend_to_socket_address :: "string \<Rightarrow> (socket_address, plugin_error) result" where
  "backend_to_socket_address text =
     (case rsplit_once (CHR '':'') text of
        None \<Rightarrow> Err (make_plugin_error (''invalid backend address '' @ text))
      | Some (host, port) \<Rightarrow>
          (case parse_u16 port of
             None \<Rightarrow> Err (make_plugin_error (''invalid backend port '' @ text))
           | Some p \<Rightarrow> Ok \<lparr>sa_host = host, sa_port = p\<rparr>))"

definition route_to :: "string \<Rightarrow> route_decision" where
  "route_to backend =
     (case backend_to_socket_address backend of
        Err _ \<Rightarrow> keep_route
      | Ok upstream \<Rightarrow> \<lparr>route_action = ReplaceUpstream, upstream_to_set = Some upstream, http_path = None\<rparr>)"

definition reject_route :: "u16 \<Rightarrow> string \<Rightarrow> route_decision" where
  "reject_route st m = \<lparr>route_action = Reject, upstream_to_set = None, http_path = None\<rparr>"

section \<open>Startup\<close>

definition config_env :: string where
  "config_env = ''VAKIL_L4_STICKY_CONFIG''"

definition env_value :: "plugin_init_context \<Rightarrow> string \<Rightarrow> string option" where
  "env_value ctx name =
     map_option kv_value (find (\<lambda>entry. kv_name entry = name) (entries (env ctx)))"

definition resolve_config_path :: "plugin_init_context \<Rightarrow> string" where
  "resolve_config_path ctx =
     (case env_value ctx config_env of
        Some path \<Rightarrow> path
      | None \<Rightarrow>
          (case plugin_dir ctx of
             Some dir \<Rightarrow> path_join dir ''sticky-l4.toml''
           | None \<Rightarrow> ''sticky-l4.toml''))"

text \<open>The world outside the plugin: reading a file and parsing it as toml.\<close>

type_synonym reader = "string \<Rightarrow> (string, string) result"
type_synonym toml_parser = "string \<Rightarrow> (raw_config, string) result"

definition load_state ::
  "reader \<Rightarrow> toml_parser \<Rightarrow> plugin_init_context \<Rightarrow> (shared_state, plugin_error) result" where
  "load_state read toml ctx =
     (let config_path = resolve_config_path ctx
      in case read config_path of
           Err error \<Rightarrow>
             Err (make_plugin_error (''failed to read sticky config '' @ config_path @ '': '' @ error))
         | Ok contents \<Rightarrow>
             (case toml contents of
                Err error \<Rightarrow>
                  Err (make_plugin_error (''failed to parse sticky config '' @ config_path @ '': '' @ error))
              | Ok raw \<Rightarrow>
                  and_then (try_from (file_config_from raw)) (\<lambda>config. Ok (shared_state_new config))))"

record shared_init_state =
  si_state :: "shared_state option"
  si_error :: "string option"

definition shared_init_default :: shared_init_state where
  "shared_init_default = \<lparr>si_state = None, si_error = None\<rparr>"

definition ensure_state ::
  "reader \<Rightarrow> toml_parser \<Rightarrow> shared_init_state \<Rightarrow> plugin_init_context \<Rightarrow>
   (shared_state, plugin_error) result \<times> shared_init_state" where
  "ensure_state read toml slot ctx =
     (case si_state slot of
        Some state \<Rightarrow> (Ok state, slot)
      | None \<Rightarrow>
          (case si_error slot of
             Some error \<Rightarrow> (Err (make_plugin_error error), slot)
           | None \<Rightarrow>
               (case load_state read toml ctx of
                  Ok state \<Rightarrow> (Ok state, slot\<lparr>si_state := Some state\<rparr>)
                | Err err \<Rightarrow>
                    (Err err, slot\<lparr>si_error := Some (case message err of
                       Some m \<Rightarrow> m | None \<Rightarrow> ''failed to load sticky config'')\<rparr>))))"

definition current_state :: "shared_init_state \<Rightarrow> shared_state option" where
  "current_state slot = si_state slot"

section \<open>The modules\<close>

text \<open>
  The plugin's global state: the shared slot every module handle points to, and the addresses of
  the module handles that have been boxed and not freed. Following or freeing another address is
  undefined, which the model treats like a panic.
\<close>

record sticky_world =
  global_init :: shared_init_state
  handles :: "u64 list"

definition module_ref :: "inst_ptr \<Rightarrow> sticky_world \<Rightarrow> bool option" where
  "module_ref inst w =
     (case inst of Null \<Rightarrow> Some False | Ptr a \<Rightarrow> if a \<in> set (handles w) then Some True else None)"

definition module_instance :: "(u64 list \<Rightarrow> u64) \<Rightarrow> sticky_world \<Rightarrow> inst_ptr \<times> sticky_world" where
  "module_instance alloc w = (let a = alloc (handles w) in (Ptr a, w\<lparr>handles := a # handles w\<rparr>))"

definition sticky_init :: "reader \<Rightarrow> toml_parser \<Rightarrow> sticky_world init_fn" where
  "sticky_init read toml inst ctx w = do {
     found \<leftarrow> module_ref inst w;
     (if \<not> found then Some (Err (make_plugin_error ''missing module handle''), w)
      else case ctx of
        None \<Rightarrow> Some (Err (make_plugin_error ''missing init context''), w)
      | Some c \<Rightarrow>
          (let (r, slot) = ensure_state read toml (global_init w) c
           in Some (and_then r (\<lambda>_. Ok ()), w\<lparr>global_init := slot\<rparr>)))
   }"

definition sticky_shutdown :: "sticky_world shutdown_fn" where
  "sticky_shutdown inst w =
     (case inst of
        Null \<Rightarrow> Some (Ok (), w)
      | Ptr a \<Rightarrow>
          if a \<in> set (handles w) then Some (Ok (), w\<lparr>handles := remove1 a (handles w)\<rparr>) else None)"

text \<open>The seven transport hooks: the same body under seven names.\<close>

definition continue_hook :: hook_outcome where
  "continue_hook = \<lparr>action = Continue\<rparr>"

definition sticky_on_tcp :: "sticky_world tcp_hook_fn" where
  "sticky_on_tcp inst ctx w = Some (ctx, Ok continue_hook, w)"

definition sticky_on_udp :: "sticky_world udp_hook_fn" where
  "sticky_on_udp inst ctx w = Some (ctx, Ok continue_hook, w)"

definition sticky_tcp_module :: "reader \<Rightarrow> toml_parser \<Rightarrow> inst_ptr \<Rightarrow> sticky_world plugin_tcp_module" where
  "sticky_tcp_module read toml inst =
     \<lparr>tcp_instance = inst, tcp_priority = 0, tcp_init = sticky_init read toml,
      tcp_shutdown = sticky_shutdown, tcp_on_route = None, on_connect = Some sticky_on_tcp,
      on_data = Some sticky_on_tcp, on_half_close = Some sticky_on_tcp, on_close = Some sticky_on_tcp\<rparr>"

definition sticky_udp_module :: "reader \<Rightarrow> toml_parser \<Rightarrow> inst_ptr \<Rightarrow> sticky_world plugin_udp_module" where
  "sticky_udp_module read toml inst =
     \<lparr>udp_instance = inst, udp_priority = 0, udp_init = sticky_init read toml,
      udp_shutdown = sticky_shutdown, udp_on_route = None, on_datagram = Some sticky_on_udp,
      on_session_start = Some sticky_on_udp, on_session_end = Some sticky_on_udp\<rparr>"

definition sticky_create_tcp ::
  "reader \<Rightarrow> toml_parser \<Rightarrow> (u64 list \<Rightarrow> u64) \<Rightarrow> (sticky_world plugin_tcp_module, sticky_world) factory_fn" where
  "sticky_create_tcp read toml alloc w =
     (let (inst, w) = module_instance alloc w in Some (Ok (sticky_tcp_module read toml inst), w))"

definition sticky_create_udp ::
  "reader \<Rightarrow> toml_parser \<Rightarrow> (u64 list \<Rightarrow> u64) \<Rightarrow> (sticky_world plugin_udp_module, sticky_world) factory_fn" where
  "sticky_create_udp read toml alloc w =
     (let (inst, w) = module_instance alloc w in Some (Ok (sticky_udp_module read toml inst), w))"

definition sticky_get_library ::
  "reader \<Rightarrow> toml_parser \<Rightarrow> (u64 list \<Rightarrow> u64) \<Rightarrow> sticky_world plugin_root_module" where
  "sticky_get_library read toml alloc =
     \<lparr>manifest = \<lparr>man_name = ''example-l4-sticky'', man_version = \<lparr>major = 0, minor = 1, patch = 0\<rparr>\<rparr>,
      create_http = None, create_tcp = Some (sticky_create_tcp read toml alloc),
      create_udp = Some (sticky_create_udp read toml alloc)\<rparr>"

section \<open>The config\<close>

lemma normalize_Ok_iff: "normalize_value text field = Ok s \<longleftrightarrow> s = trim text \<and> s \<noteq> []"
  by (auto simp: normalize_value_def Let_def)

definition backend_ok :: "string \<Rightarrow> bool" where
  "backend_ok b \<longleftrightarrow> b \<noteq> [] \<and> trimmed b"

lemma normalize_ok: "normalize_value text field = Ok s \<Longrightarrow> backend_ok s"
  by (auto simp: normalize_Ok_iff backend_ok_def trimmed_trim)

lemma normalize_backends_ok: "normalize_backends bs field = Ok bs' \<Longrightarrow> list_all backend_ok bs'"
  by (auto simp: normalize_backends_def try_map_Ok_iff list_all_length list_all2_conv_all_nth)
    (metis normalize_ok)

lemma normalize_backends_eq: "normalize_backends bs field = Ok bs' \<Longrightarrow> bs' = map trim bs"
  by (auto simp: normalize_backends_def try_map_Ok_iff normalize_Ok_iff list_all2_conv_all_nth
      intro!: nth_equalityI)

definition pools_ok :: "(string \<times> string list) list \<Rightarrow> bool" where
  "pools_ok ls \<longleftrightarrow> distinct (map fst ls) \<and>
     list_all (\<lambda>(name, bs). backend_ok name \<and> list_all backend_ok bs) ls"

lemma map_of_update_new: "map_of acc name = None \<Longrightarrow> AList.update name bs acc = acc @ [(name, bs)]"
  by (induction acc) (auto split: if_splits)

lemma load_listeners_Ok:
  assumes "load_listeners ls acc = Ok ps"
  shows "ps = acc @ map (\<lambda>l. (trim (lc_name l), map trim (lc_backends l))) ls \<and>
    (pools_ok acc \<longrightarrow> pools_ok ps)"
  using assms
proof (induction ls arbitrary: acc)
  case Nil
  then show ?case by simp
next
  case (Cons l ls)
  then obtain name bs where
    n: "normalize_value (lc_name l) ''listener name'' = Ok name" and new: "map_of acc name = None"
    and b: "normalize_backends (lc_backends l) (''listener '' @ name) = Ok bs"
    and r: "load_listeners ls (AList.update name bs acc) = Ok ps"
    by (auto simp: and_then_Ok_iff split: if_splits)
  from new have u: "AList.update name bs acc = acc @ [(name, bs)]" by (rule map_of_update_new)
  from new have "name \<notin> set (map fst acc)" by (simp add: map_of_eq_None_iff)
  then have "pools_ok acc \<Longrightarrow> pools_ok (acc @ [(name, bs)])"
    using normalize_ok[OF n] normalize_backends_ok[OF b] by (auto simp: pools_ok_def)
  with Cons.IH[OF r[unfolded u]] n normalize_backends_eq[OF b] show ?case
    by (auto simp: normalize_Ok_iff)
qed

section \<open>The cache\<close>

text \<open>The backend of a key as the hash alone determines it.\<close>

definition hashed_backend :: "(bytes \<Rightarrow> u64) \<Rightarrow> loaded_config \<Rightarrow> sticky_key \<Rightarrow> string option" where
  "hashed_backend xxh3 cfg key =
     choose_backend xxh3 (sk_listener key) (sk_client_ip key) (pool_for_listener cfg (sk_listener key))"

text \<open>Every cached backend is the hashed one, and no key is cached twice.\<close>

definition cache_ok :: "(bytes \<Rightarrow> u64) \<Rightarrow> shared_state \<Rightarrow> bool" where
  "cache_ok xxh3 st \<longleftrightarrow> distinct (map fst (st_assignments st)) \<and>
     (\<forall>(key, entry) \<in> set (st_assignments st).
        hashed_backend xxh3 (st_config st) key = Some (se_backend entry))"

lemma shared_state_new_ok: "cache_ok xxh3 (shared_state_new cfg)"
  by (simp add: cache_ok_def shared_state_new_def)

lemma choose_backend_in: "choose_backend xxh3 listener ip pool = Some b \<Longrightarrow> b \<in> set pool"
  by (auto simp: choose_backend_def split: if_splits intro!: nth_mem)

lemma distinct_map_filter_fst: "distinct (map fst xs) \<Longrightarrow> distinct (map fst (filter P xs))"
  by (induction xs) auto

lemma cache_ok_retain:
  "cache_ok xxh3 st \<Longrightarrow> cache_ok xxh3 (st\<lparr>st_assignments := filter P (st_assignments st)\<rparr>)"
  by (auto simp: cache_ok_def distinct_map_filter_fst)

lemma set_update_alist: "x \<in> set (AList.update k v xs) \<Longrightarrow> x = (k, v) \<or> x \<in> set xs"
  by (induction xs) (auto split: if_splits)

lemma cache_ok_update:
  assumes "cache_ok xxh3 st" and "hashed_backend xxh3 (st_config st) key = Some (se_backend entry)"
  shows "cache_ok xxh3 (st\<lparr>st_assignments := AList.update key entry (st_assignments st)\<rparr>)"
  using assms by (auto simp: cache_ok_def distinct_update dest!: set_update_alist)

text \<open>Choosing for a listener with a pool, under the invariant: the hashed backend, unless the
  expiry of a new entry overflows.\<close>

lemma select_backend_hashed:
  assumes ok: "cache_ok xxh3 st"
    and sel: "select_backend xxh3 st listener ip now = Some (r, st')"
  shows "cache_ok xxh3 st' \<and> st_config st' = st_config st \<and>
    (case hashed_backend xxh3 (st_config st) \<lparr>sk_listener = listener, sk_client_ip = ip\<rparr> of
       None \<Rightarrow> r = Err (make_plugin_error (''no backends configured for listener '' @ listener)) \<and> st' = st
     | Some b \<Rightarrow> r = Ok b \<and> b \<in> set (pool_for_listener (st_config st) listener))"
proof -
  let ?pool = "pool_for_listener (st_config st) listener"
  let ?key = "\<lparr>sk_listener = listener, sk_client_ip = ip\<rparr>"
  let ?live = "filter (\<lambda>(_, entry). se_expires_at entry > now) (st_assignments st)"
  show ?thesis
  proof (cases "?pool = []")
    case True
    with sel ok show ?thesis
      by (auto simp: select_backend_def hashed_backend_def choose_backend_def)
  next
    case False
    then obtain b where b: "choose_backend xxh3 listener ip ?pool = Some b"
      by (auto simp: choose_backend_def)
    then have h: "hashed_backend xxh3 (st_config st) ?key = Some b" and mem: "b \<in> set ?pool"
      by (auto simp: hashed_backend_def dest: choose_backend_in)
    have live: "cache_ok xxh3 (st\<lparr>st_assignments := ?live\<rparr>)" using cache_ok_retain[OF ok] .
    show ?thesis
    proof (cases "map_of ?live ?key")
      case None
      with sel False b obtain t where r: "r = Ok b"
        and st': "st' = st\<lparr>st_assignments := AList.update ?key \<lparr>se_backend = b, se_expires_at = t\<rparr> ?live\<rparr>"
        by (auto simp: select_backend_def Let_def split: Option.bind_splits)
      have "cache_ok xxh3 ((st\<lparr>st_assignments := ?live\<rparr>)\<lparr>st_assignments :=
          AList.update ?key \<lparr>se_backend = b, se_expires_at = t\<rparr> (st_assignments (st\<lparr>st_assignments := ?live\<rparr>))\<rparr>)"
        by (rule cache_ok_update[OF live]) (simp add: h)
      with r st' h mem show ?thesis by simp
    next
      case (Some entry)
      then have "(?key, entry) \<in> set (st_assignments (st\<lparr>st_assignments := ?live\<rparr>))"
        by (auto dest: map_of_SomeD)
      with live have e: "se_backend entry = b" using h by (auto simp: cache_ok_def)
      with sel False Some mem have "r = Ok b" "st' = st\<lparr>st_assignments := ?live\<rparr>"
        by (auto simp: select_backend_def Let_def)
      with h mem live show ?thesis by simp
    qed
  qed
qed

text \<open>A sequence of requests: listener, client and instant of each.\<close>

fun select_all ::
  "(bytes \<Rightarrow> u64) \<Rightarrow> shared_state \<Rightarrow> (string \<times> ip_addr \<times> nat) list \<Rightarrow>
   ((string, plugin_error) result list \<times> shared_state) option" where
  "select_all xxh3 st [] = Some ([], st)"
| "select_all xxh3 st ((listener, ip, now) # reqs) = do {
     (r, st) \<leftarrow> select_backend xxh3 st listener ip now;
     (rs, st) \<leftarrow> select_all xxh3 st reqs;
     Some (r # rs, st)
   }"

definition sticky_answer ::
  "(bytes \<Rightarrow> u64) \<Rightarrow> loaded_config \<Rightarrow> string \<Rightarrow> ip_addr \<Rightarrow> (string, plugin_error) result" where
  "sticky_answer xxh3 cfg listener ip =
     (case hashed_backend xxh3 cfg \<lparr>sk_listener = listener, sk_client_ip = ip\<rparr> of
        None \<Rightarrow> Err (make_plugin_error (''no backends configured for listener '' @ listener))
      | Some b \<Rightarrow> Ok b)"

lemma select_all_answers:
  assumes "cache_ok xxh3 st" and "select_all xxh3 st reqs = Some (rs, st')"
  shows "rs = map (\<lambda>(listener, ip, now). sticky_answer xxh3 (st_config st) listener ip) reqs \<and> cache_ok xxh3 st'"
  using assms
proof (induction reqs arbitrary: st rs)
  case Nil
  then show ?case by simp
next
  case (Cons q reqs)
  obtain listener ip now where q: "q = (listener, ip, now)" by (cases q)
  with Cons.prems(2) obtain r st1 rs1 where
    1: "select_backend xxh3 st listener ip now = Some (r, st1)"
    and 2: "select_all xxh3 st1 reqs = Some (rs1, st')" and rs: "rs = r # rs1"
    by (auto split: Option.bind_splits)
  note s = select_backend_hashed[OF Cons.prems(1) 1]
  then have "r = sticky_answer xxh3 (st_config st) listener ip"
    by (auto simp: sticky_answer_def split: option.splits)
  with Cons.IH[OF _ 2] s q rs show ?case by auto
qed

section \<open>Init and the module handles\<close>

lemma load_state_message: "load_state read toml ctx = Err e \<Longrightarrow> \<exists>m. e = make_plugin_error m"
proof -
  have n: "normalize_value t f = Err e \<Longrightarrow> \<exists>m. e = make_plugin_error m" for t f e
    by (auto simp: normalize_value_def Let_def split: if_splits)
  have b: "normalize_backends bs f = Err e \<Longrightarrow> \<exists>m. e = make_plugin_error m" for bs f e
    by (auto simp: normalize_backends_def try_map_Err_iff dest: n)
  have l: "load_listeners ls acc = Err e \<Longrightarrow> \<exists>m. e = make_plugin_error m" for ls acc e
  proof (induction ls arbitrary: acc)
    case (Cons l ls)
    show ?case
    proof (cases "normalize_value (lc_name l) ''listener name''")
      case (Ok name)
      with Cons show ?thesis
        by (cases "normalize_backends (lc_backends l) (''listener '' @ name)") (auto split: if_splits dest: b)
    next
      case (Err x)
      with Cons n show ?thesis by simp
    qed
  qed simp
  have t: "try_from cfg = Err e \<Longrightarrow> \<exists>m. e = make_plugin_error m" for cfg e
    by (cases "load_listeners (fc_listeners cfg) []";
        cases "normalize_backends (fc_fallback_backends cfg) ''fallback_backends''")
      (auto simp: try_from_def split: if_splits dest: l b)
  assume "load_state read toml ctx = Err e"
  then show ?thesis
  proof (cases "toml (unwrap_or (read (resolve_config_path ctx)) '''')")
    case (Ok raw)
    with \<open>load_state read toml ctx = Err e\<close> show ?thesis
      by (cases "try_from (file_config_from raw)")
        (auto simp: load_state_def Let_def split: result.splits dest: t)
  qed (auto simp: load_state_def Let_def split: result.splits)
qed

lemma ensure_state_again:
  "ensure_state read' toml' (snd (ensure_state read toml slot ctx)) ctx' = ensure_state read toml slot ctx"
proof (cases "si_state slot")
  case None
  note st = this
  show ?thesis
  proof (cases "si_error slot")
    case None
    show ?thesis
    proof (cases "load_state read toml ctx")
      case (Err e)
      then obtain m where "e = make_plugin_error m" using load_state_message by blast
      with st None Err show ?thesis by (simp add: ensure_state_def make_plugin_error_def)
    qed (use st None in \<open>simp add: ensure_state_def\<close>)
  qed (use st in \<open>simp add: ensure_state_def\<close>)
qed (simp add: ensure_state_def)

definition sticky_dylib :: "reader \<Rightarrow> toml_parser \<Rightarrow> (u64 list \<Rightarrow> u64) \<Rightarrow> sticky_world dylib" where
  "sticky_dylib read toml alloc =
     \<lparr>get_library_symbol = Ok (\<lambda>w. Some (sticky_get_library read toml alloc, w))\<rparr>"

text \<open>The init context the host gives a plugin.\<close>

definition host_ctx :: "string \<Rightarrow> (string \<times> string) list \<Rightarrow> plugin_init_context" where
  "host_ctx path vars = \<lparr>library_path = path, plugin_dir = path_parent path,
     host_version = host_abi_version, env = collect_env_snapshot vars\<rparr>"

lemmas sticky_load_simps =
  plugin_load_def get_root_def close_on_err_def log_call_def validate_manifest_def
  build_init_context_eq load_modules_def load_block_def call_factory_def module_trait_defs
  call_init_def sticky_dylib_def sticky_get_library_def sticky_create_tcp_def sticky_create_udp_def
  module_instance_def sticky_tcp_module_def sticky_udp_module_def sticky_init_def module_ref_def
  modules_default_def host_abi_version_def Let_def

lemma sticky_load_Err:
  assumes "ensure_state read toml (global_init (plugins W)) (host_ctx path vars) = (Err e, slot)"
  shows "plugin_load (\<lambda>_. Ok (sticky_dylib read toml alloc)) vars path W =
    Some (Err ''tcp module init failed'',
      \<lparr>plugins = \<lparr>global_init = slot, handles = alloc (handles (plugins W)) # handles (plugins W)\<rparr>,
       calls = calls W @ [OpenLibrary path, GetLibrary, Factory TcpProto,
         Init TcpProto (Ptr (alloc (handles (plugins W)))), CloseLibrary]\<rparr>)"
  using assms by (cases W; cases "plugins W") (simp add: sticky_load_simps host_ctx_def)

lemma sticky_load_Ok:
  assumes "ensure_state read toml (global_init (plugins W)) (host_ctx path vars) = (Ok st, slot)"
    and "a = alloc (handles (plugins W))" and "b = alloc (a # handles (plugins W))"
  shows "plugin_load (\<lambda>_. Ok (sticky_dylib read toml alloc)) vars path W =
    Some (Ok \<lparr>root = sticky_get_library read toml alloc,
        modules = \<lparr>http = None, tcp = Some (sticky_tcp_module read toml (Ptr a)),
          udp = Some (sticky_udp_module read toml (Ptr b))\<rparr>,
        library = sticky_dylib read toml alloc\<rparr>,
      \<lparr>plugins = \<lparr>global_init = slot, handles = b # a # handles (plugins W)\<rparr>,
       calls = calls W @ [OpenLibrary path, GetLibrary, Factory TcpProto, Init TcpProto (Ptr a),
         Factory UdpProto, Init UdpProto (Ptr b)]\<rparr>)"
proof -
  have "ensure_state read toml slot (host_ctx path vars) = (Ok st, slot)"
    using ensure_state_again[of read toml read toml "global_init (plugins W)" "host_ctx path vars"
        "host_ctx path vars"] assms(1) by simp
  with assms show ?thesis by (cases W; cases "plugins W") (simp add: sticky_load_simps host_ctx_def)
qed

lemma sticky_drop:
  assumes "a \<noteq> b"
  shows "plugin_drop \<lparr>root = rt, modules = \<lparr>http = None, tcp = Some (sticky_tcp_module read toml (Ptr a)),
        udp = Some (sticky_udp_module read toml (Ptr b))\<rparr>, library = lib\<rparr>
      \<lparr>plugins = \<lparr>global_init = slot, handles = b # a # hs\<rparr>, calls = cs\<rparr> =
    Some \<lparr>plugins = \<lparr>global_init = slot, handles = hs\<rparr>,
      calls = cs @ [Shutdown TcpProto (Ptr a), Shutdown UdpProto (Ptr b), CloseLibrary]\<rparr>"
  using assms
  by (simp add: plugin_drop_def plugin_shutdown_def modules_shutdown_def shutdown_slot_def
      module_trait_defs call_shutdown_def sticky_tcp_module_def sticky_udp_module_def
      sticky_shutdown_def log_call_def)


section \<open>Properties\<close>

definition sample_sticky :: loaded_config where
  "sample_sticky = \<lparr>ttl_secs = 30, fallback_backends = [''127.0.0.1:9001'', ''127.0.0.1:9002''],
     listener_backends = [(''listener-a'', [''127.0.0.1:9101'', ''127.0.0.1:9102'']), (''drained'', [])]\<rparr>"

definition sample_raw :: raw_config where
  "sample_raw = \<lparr>raw_ttl_secs = Some 30, raw_fallback_backends = Some ['' 127.0.0.1:9001'', ''127.0.0.1:9002''],
     raw_listeners = Some [\<lparr>lc_name = ''listener-a '', lc_backends = [''127.0.0.1:9101'', ''127.0.0.1:9102'']\<rparr>,
       \<lparr>lc_name = ''drained'', lc_backends = []\<rparr>]\<rparr>"

lemma sample_try_from: "try_from (file_config_from sample_raw) = Ok sample_sticky"
  by (simp add: try_from_def file_config_from_def sample_raw_def sample_sticky_def normalize_value_def
      normalize_backends_def trim_def trim_start_def trim_end_def is_whitespace_def)

text \<open>C7: the cache never changes an answer. For any sequence of requests on a fresh state, at any
  instants, every answer is the one the hash of the listener's name and the client's address
  determines alone: the same client gets the same backend of the listener's pool before and after
  its entry expires, over TCP and UDP alike, and a listener without a pool gets an error every time.\<close>

theorem sticky_refines_hash:
  assumes "select_all xxh3 (shared_state_new cfg) reqs = Some (rs, st)"
  shows "rs = map (\<lambda>(listener, ip, now). sticky_answer xxh3 cfg listener ip) reqs"
  using select_all_answers[OF shared_state_new_ok assms] by (simp add: shared_state_new_def)

definition sample_xxh3 :: "bytes \<Rightarrow> u64" where
  "sample_xxh3 bs = of_nat (length bs)"

lemma sample_select:
  "\<exists>st. select_all sample_xxh3 (shared_state_new sample_sticky)
     [(''listener-a'', V4 10 0 0 1, 5), (''drained'', V4 10 0 0 1, 6), (''listener-a'', V4 10 0 0 1, 90000000000)] =
     Some ([Ok ''127.0.0.1:9101'', Err (make_plugin_error ''no backends configured for listener drained''),
       Ok ''127.0.0.1:9101''], st)"
  by (simp add: select_backend_def shared_state_new_def sample_sticky_def pool_for_listener_def
      choose_backend_def sample_xxh3_def utf8_def utf8_char_def instant_add_def Let_def
      numeral_2_eq_2[symmetric])

theorem sticky_refines_hash_witness:
  "map (\<lambda>(listener, ip, now). sticky_answer sample_xxh3 sample_sticky listener ip)
     [(''listener-a'', V4 10 0 0 1, 5 :: nat), (''drained'', V4 10 0 0 1, 6),
      (''listener-a'', V4 10 0 0 1, 90000000000)] =
   [Ok ''127.0.0.1:9101'', Err (make_plugin_error ''no backends configured for listener drained''),
    Ok ''127.0.0.1:9101'']"
  using sample_select sticky_refines_hash[of sample_xxh3 sample_sticky
      "[(''listener-a'', V4 10 0 0 1, 5), (''drained'', V4 10 0 0 1, 6), (''listener-a'', V4 10 0 0 1, 90000000000)]"]
  by metis

text \<open>C20: no expired entry is left behind. After a choice, whatever the cache held before, every entry
  left in it expires after the instant of the choice.\<close>

theorem expired_entries_purged:
  assumes "select_backend xxh3 st listener ip now = Some (Ok b, st')" and "0 < ttl_secs (st_config st)"
  shows "\<forall>x \<in> set (st_assignments st'). now < se_expires_at (snd x)"
proof -
  let ?live = "filter (\<lambda>(_, entry). se_expires_at entry > now) (st_assignments st)"
  have "st_assignments st' = ?live \<or> (\<exists>k t. instant_add now (ttl_secs (st_config st)) = Some t \<and>
      st_assignments st' = AList.update k \<lparr>se_backend = b, se_expires_at = t\<rparr> ?live)"
    using assms(1)
    by (auto simp: select_backend_def Let_def split: if_splits option.splits Option.bind_splits)
  moreover have "now < t" if "instant_add now (ttl_secs (st_config st)) = Some t" for t
    using that assms(2) by (auto simp: instant_add_def Let_def split: if_splits)
  ultimately show ?thesis by (fastforce dest!: set_update_alist)
qed

theorem expired_entries_purged_witness:
  "\<exists>st' :: shared_state. (\<forall>x \<in> set (st_assignments st'). (31000000000 :: nat) < se_expires_at (snd x)) \<and>
     map (se_backend \<circ> snd) (st_assignments st') = [''127.0.0.1:9002'']"
proof -
  have "select_backend sample_xxh3
      \<lparr>st_config = sample_sticky, st_assignments =
        [(\<lparr>sk_listener = ''listener-a'', sk_client_ip = V4 1 1 1 1\<rparr>,
          \<lparr>se_backend = ''127.0.0.1:9101'', se_expires_at = 31000000000\<rparr>)]\<rparr>
      ''listener-a2'' (V4 10 0 0 1) 31000000000 =
    Some (Ok ''127.0.0.1:9002'', \<lparr>st_config = sample_sticky, st_assignments =
        [(\<lparr>sk_listener = ''listener-a2'', sk_client_ip = V4 10 0 0 1\<rparr>,
          \<lparr>se_backend = ''127.0.0.1:9002'', se_expires_at = 61000000000\<rparr>)]\<rparr>)"
    by (simp add: select_backend_def sample_sticky_def pool_for_listener_def
      choose_backend_def sample_xxh3_def utf8_def utf8_char_def instant_add_def Let_def
      numeral_2_eq_2[symmetric])
  from expired_entries_purged[OF this] show ?thesis
    by - (rule exI[of _ "\<lparr>st_config = sample_sticky, st_assignments =
        [(\<lparr>sk_listener = ''listener-a2'', sk_client_ip = V4 10 0 0 1\<rparr>,
          \<lparr>se_backend = ''127.0.0.1:9002'', se_expires_at = 61000000000\<rparr>)]\<rparr>"], simp add: sample_sticky_def)
qed

text \<open>C31: a time to live the config accepts can make every choice panic. With 2 to the power 63 seconds or
  more, choosing a backend from a non-empty pool for the first time computes an expiry that does not
  fit an instant; with less than that left on the clock it never panics.\<close>

theorem sticky_ttl_overflow:
  assumes "pool_for_listener cfg listener \<noteq> []"
  shows "select_backend xxh3 (shared_state_new cfg) listener ip now = None \<longleftrightarrow>
    2 ^ 63 \<le> now div 1000000000 + ttl_secs cfg"
proof -
  have "(now + ttl_secs cfg * 1000000000) div 1000000000 = now div 1000000000 + ttl_secs cfg"
    by (simp add: div_mult_self1)
  then show ?thesis
    using assms
    by (auto simp: select_backend_def shared_state_new_def choose_backend_def instant_add_def Let_def
        not_less)
qed

theorem sticky_ttl_overflow_witness:
  "select_backend sample_xxh3 (shared_state_new (sample_sticky\<lparr>ttl_secs := 2 ^ 63\<rparr>)) ''listener-a'' (V4 10 0 0 1) 0 = None"
  using sticky_ttl_overflow[of "sample_sticky\<lparr>ttl_secs := 2 ^ 63\<rparr>" "''listener-a''" sample_xxh3 "V4 10 0 0 1" 0]
  by (simp add: sample_sticky_def pool_for_listener_def)

text \<open>C21: what an accepted config looks like. The time to live is positive; the listeners are those of the
  file, in order, with white space trimmed from names and backends; names are distinct and neither a
  name nor a backend is blank; and there is a listener or a fallback backend.\<close>

theorem sticky_config_valid:
  assumes "try_from cfg = Ok lc"
  shows "ttl_secs lc = unat (fc_ttl_secs cfg) \<and> 0 < ttl_secs lc \<and> ttl_secs lc < 2 ^ 64 \<and>
    listener_backends lc = map (\<lambda>l. (trim (lc_name l), map trim (lc_backends l))) (fc_listeners cfg) \<and>
    pools_ok (listener_backends lc) \<and>
    fallback_backends lc = map trim (fc_fallback_backends cfg) \<and>
    list_all backend_ok (fallback_backends lc) \<and>
    (fc_listeners cfg \<noteq> [] \<or> fc_fallback_backends cfg \<noteq> [])"
proof -
  from assms obtain ls fb where t: "fc_ttl_secs cfg \<noteq> 0" "load_listeners (fc_listeners cfg) [] = Ok ls"
    and f: "normalize_backends (fc_fallback_backends cfg) ''fallback_backends'' = Ok fb"
    and ne: "ls \<noteq> [] \<or> fb \<noteq> []"
    and lc: "lc = \<lparr>ttl_secs = unat (fc_ttl_secs cfg), fallback_backends = fb, listener_backends = ls\<rparr>"
    by (auto simp: try_from_def and_then_Ok_iff split: if_splits)
  have lt: "unat (fc_ttl_secs cfg) < 2 ^ 64" using unsigned_less[of "fc_ttl_secs cfg"] by simp
  have gt: "0 < unat (fc_ttl_secs cfg)" using t(1) by (simp add: unat_gt_0)
  have "pools_ok []" by (simp add: pools_ok_def)
  with load_listeners_Ok[OF t(2)]
  have ls: "ls = map (\<lambda>l. (trim (lc_name l), map trim (lc_backends l))) (fc_listeners cfg)"
    and ok: "pools_ok ls" by auto
  have fb: "fb = map trim (fc_fallback_backends cfg)" "list_all backend_ok fb"
    using normalize_backends_ok[OF f] normalize_backends_eq[OF f] by auto
  from ne ls fb(1) have "fc_listeners cfg \<noteq> [] \<or> fc_fallback_backends cfg \<noteq> []" by auto
  with lt gt ls ok fb show ?thesis by (simp add: lc)
qed

theorem sticky_config_valid_witness:
  "pools_ok (listener_backends sample_sticky) \<and> ttl_secs sample_sticky = 30"
  using sticky_config_valid[OF sample_try_from] by (intro conjI) (blast, simp add: sample_sticky_def)

text \<open>A listener with an empty list of backends is accepted, and then hides the fallback backends:
  every choice for it fails, although a listener that is not in the file gets the fallback pool.\<close>

lemma empty_pool_hides_fallback:
  assumes "try_from cfg = Ok lc" and "l \<in> set (fc_listeners cfg)" and "lc_backends l = []"
  shows "select_backend xxh3 (shared_state_new lc) (trim (lc_name l)) ip now =
    Some (Err (make_plugin_error (''no backends configured for listener '' @ trim (lc_name l))), shared_state_new lc)"
proof -
  from assms(1) obtain ls fb where t: "load_listeners (fc_listeners cfg) [] = Ok ls"
    and lc: "lc = \<lparr>ttl_secs = unat (fc_ttl_secs cfg), fallback_backends = fb, listener_backends = ls\<rparr>"
    by (auto simp: try_from_def and_then_Ok_iff split: if_splits)
  have "pools_ok []" by (simp add: pools_ok_def)
  with load_listeners_Ok[OF t] have
    ls: "ls = map (\<lambda>l. (trim (lc_name l), map trim (lc_backends l))) (fc_listeners cfg)" and "distinct (map fst ls)"
    by (auto simp: pools_ok_def)
  moreover have "(trim (lc_name l), []) \<in> set ls"
    using assms(2,3) unfolding ls by (auto simp: image_iff intro!: bexI[of _ l])
  ultimately have "map_of ls (trim (lc_name l)) = Some []" by (intro map_of_is_SomeI)
  then have "pool_for_listener lc (trim (lc_name l)) = []" by (simp add: pool_for_listener_def lc)
  then show ?thesis by (simp add: select_backend_def shared_state_new_def)
qed

lemma empty_pool_hides_fallback_example:
  "select_backend sample_xxh3 (shared_state_new sample_sticky) ''drained'' (V4 10 0 0 1) 7 =
    Some (Err (make_plugin_error ''no backends configured for listener drained''), shared_state_new sample_sticky)"
  using empty_pool_hides_fallback[OF sample_try_from, of "\<lparr>lc_name = ''drained'', lc_backends = []\<rparr>"
      sample_xxh3 "V4 10 0 0 1" 7]
  by (simp add: file_config_from_def sample_raw_def trim_def trim_start_def trim_end_def is_whitespace_def)

text \<open>C22: the text form of an endpoint round trips. A backend written as the host prints an endpoint is read
  back as that endpoint, for any host text and port, and the route to it replaces the upstream.\<close>

theorem backend_roundtrip:
  "backend_to_socket_address (string_from_socket_address a) = Ok a \<and>
   route_to (string_from_socket_address a) =
     \<lparr>route_action = ReplaceUpstream, upstream_to_set = Some a, http_path = None\<rparr>"
proof -
  have "CHR '':'' \<notin> set (show_nat (unat (sa_port a)))"
  proof
    assume "CHR '':'' \<in> set (show_nat (unat (sa_port a)))"
    then obtain d where d: "d < 10" "CHR '':'' = digit_char d" by (blast dest: show_nat_digits)
    then have "(of_char CHR '':'' :: nat) = 48 + d" by (simp add: of_char_digit_char)
    with d(1) show False by simp
  qed
  then have "rsplit_once (CHR '':'') (string_from_socket_address a) = Some (sa_host a, show_nat (unat (sa_port a)))"
    by (simp add: rsplit_once_Some_iff string_from_socket_address_def)
  then have "backend_to_socket_address (string_from_socket_address a) = Ok a"
    by (simp add: backend_to_socket_address_def parse_u16_show)
  then show ?thesis by (simp add: route_to_def)
qed

text \<open>A sequence of initialisations of modules, each with the files, the parser's answers and the init
  context of its own time.\<close>

fun init_all ::
  "(reader \<times> toml_parser \<times> inst_ptr \<times> plugin_init_context) list \<Rightarrow> sticky_world \<Rightarrow>
   ((unit, plugin_error) result list \<times> sticky_world) option" where
  "init_all [] w = Some ([], w)"
| "init_all ((read, toml, inst, ctx) # xs) w = do {
     (r, w) \<leftarrow> sticky_init read toml inst (Some ctx) w;
     (rs, w) \<leftarrow> init_all xs w;
     Some (r # rs, w)
   }"

definition live_handle :: "sticky_world \<Rightarrow> inst_ptr \<Rightarrow> bool" where
  "live_handle w inst \<longleftrightarrow> module_ref inst w = Some True"

text \<open>The slot after a load.\<close>

definition decided_slot :: "(shared_state, plugin_error) result \<Rightarrow> shared_init_state" where
  "decided_slot r =
     (case r of Ok st \<Rightarrow> \<lparr>si_state = Some st, si_error = None\<rparr>
      | Err e \<Rightarrow> \<lparr>si_state = None, si_error = message e\<rparr>)"

lemma ensure_state_first:
  "ensure_state read toml shared_init_default ctx = (load_state read toml ctx, decided_slot (load_state read toml ctx))"
proof (cases "load_state read toml ctx")
  case (Err e)
  then obtain m where "e = make_plugin_error m" using load_state_message by blast
  with Err show ?thesis
    by (simp add: ensure_state_def shared_init_default_def decided_slot_def make_plugin_error_def)
qed (simp add: ensure_state_def shared_init_default_def decided_slot_def)

lemma ensure_state_decided:
  "ensure_state read toml (decided_slot (load_state read' toml' ctx')) ctx =
     (load_state read' toml' ctx', decided_slot (load_state read' toml' ctx'))"
  using ensure_state_again[of read toml read' toml' shared_init_default ctx' ctx] by (simp add: ensure_state_first)

lemma init_all_decided:
  assumes "\<forall>(rd, tm, i, c) \<in> set xs. live_handle w i"
    and "global_init w = decided_slot (load_state read toml ctx)"
  shows "init_all xs w = Some (replicate (length xs) (and_then (load_state read toml ctx) (\<lambda>_. Ok ())), w)"
  using assms
proof (induction xs)
  case (Cons x xs)
  obtain rd tm i c where x: "x = (rd, tm, i, c)" by (cases x)
  have "sticky_init rd tm i (Some c) w = Some (and_then (load_state read toml ctx) (\<lambda>_. Ok ()), w)"
    using Cons.prems by (simp add: x sticky_init_def live_handle_def ensure_state_decided)
  with Cons show ?case by (simp add: x)
qed simp

text \<open>C39: the config is loaded once, by the first initialisation of the process. However many modules
  are initialised after it, on whatever handles and with whatever context, file contents and parser
  answers of their own, each of them succeeds if the first load did and fails with the same error if
  it did not, and the shared state stays the one of the first load: a failure is never retried, and
  a changed file is never read.\<close>

theorem config_decided_once:
  assumes "\<forall>(rd, tm, i, c) \<in> set ((read, toml, inst, ctx) # xs). live_handle w i"
    and "global_init w = shared_init_default"
  shows "init_all ((read, toml, inst, ctx) # xs) w =
    Some (replicate (Suc (length xs)) (case load_state read toml ctx of Ok _ \<Rightarrow> Ok () | Err e \<Rightarrow> Err e),
      w\<lparr>global_init := (case load_state read toml ctx of
          Ok st \<Rightarrow> \<lparr>si_state = Some st, si_error = None\<rparr>
        | Err e \<Rightarrow> \<lparr>si_state = None, si_error = message e\<rparr>)\<rparr>)"
proof -
  let ?r = "load_state read toml ctx" and ?w = "w\<lparr>global_init := decided_slot (load_state read toml ctx)\<rparr>"
  have "sticky_init read toml inst (Some ctx) w = Some (and_then ?r (\<lambda>_. Ok ()), ?w)"
    using assms by (simp add: sticky_init_def live_handle_def ensure_state_first)
  moreover have "live_handle ?w = live_handle w"
    by (simp add: live_handle_def module_ref_def fun_eq_iff split: inst_ptr.split)
  then have "init_all xs ?w = Some (replicate (length xs) (and_then ?r (\<lambda>_. Ok ())), ?w)"
    using assms(1) by (intro init_all_decided) simp_all
  moreover have "and_then ?r (\<lambda>_. Ok ()) = (case ?r of Ok _ \<Rightarrow> Ok () | Err e \<Rightarrow> Err e)"
    by (cases ?r) simp_all
  ultimately show ?thesis by (simp add: decided_slot_def)
qed

text \<open>C30: loading and dropping the plugin frees what it allocated. When the config loads, the host creates
  one handle for each of the two modules and dropping the plugin frees both, each once.\<close>

theorem sticky_lifecycle:
  assumes "fst (ensure_state read toml (global_init (plugins W)) (host_ctx path vars)) = Ok st"
    and "alloc (alloc (handles (plugins W)) # handles (plugins W)) \<noteq> alloc (handles (plugins W))"
  shows "\<exists>p W1 W2. plugin_load (\<lambda>_. Ok (sticky_dylib read toml alloc)) vars path W = Some (Ok p, W1) \<and>
    length (handles (plugins W1)) = length (handles (plugins W)) + 2 \<and>
    plugin_drop p W1 = Some W2 \<and> handles (plugins W2) = handles (plugins W) \<and>
    si_state (global_init (plugins W2)) = Some st"
proof -
  obtain slot where e: "ensure_state read toml (global_init (plugins W)) (host_ctx path vars) = (Ok st, slot)"
    using assms(1) by (metis prod.collapse)
  then have "si_state slot = Some st"
    by (auto simp: ensure_state_def split: option.splits result.splits)
  with sticky_load_Ok[OF e refl refl, of alloc] sticky_drop[OF assms(2)[symmetric]]
  show ?thesis by (auto simp: eval_nat_numeral)
qed

text \<open>A file system and a parser for the sample config, and an allocator.\<close>

definition sample_read :: reader where
  "sample_read path = (if path = ''/plugins/sticky-l4.toml'' then Ok ''sample'' else Err ''not found'')"

definition sample_toml :: toml_parser where
  "sample_toml contents = (if contents = ''sample'' then Ok sample_raw else Err ''expected a table'')"

definition sample_alloc :: "u64 list \<Rightarrow> u64" where
  "sample_alloc hs = 4096 + of_nat (length hs)"

definition sticky_start :: "sticky_world world" where
  "sticky_start = \<lparr>plugins = \<lparr>global_init = shared_init_default, handles = []\<rparr>, calls = []\<rparr>"

lemma sample_parent: "path_parent ''/plugins/sticky.so'' = Some ''/plugins''"
  by code_simp

lemma sample_ensure:
  "fst (ensure_state sample_read sample_toml shared_init_default (host_ctx ''/plugins/sticky.so'' [])) =
     Ok (shared_state_new sample_sticky)"
  by (simp add: ensure_state_def shared_init_default_def load_state_def resolve_config_path_def env_value_def
      host_ctx_def collect_env_snapshot_def sample_parent path_join_def starts_with_def sample_read_def
      sample_toml_def sample_try_from)

theorem sticky_lifecycle_witness:
  "\<exists>p W1 W2. plugin_load (\<lambda>_. Ok (sticky_dylib sample_read sample_toml sample_alloc)) [] ''/plugins/sticky.so'' sticky_start =
      Some (Ok p, W1) \<and> plugin_drop p W1 = Some W2 \<and> handles (plugins W2) = []"
  using sticky_lifecycle[of sample_read sample_toml sticky_start "''/plugins/sticky.so''" "[]"
      "shared_state_new sample_sticky" sample_alloc] sample_ensure
  by (fastforce simp: sticky_start_def sample_alloc_def)

text \<open>The file is missing at the first initialisation and there at the second: both fail.\<close>

theorem config_decided_once_witness:
  "\<exists>w. init_all [(\<lambda>_. Err ''not found'', sample_toml, Ptr 1, host_ctx ''/plugins/sticky.so'' []),
      (sample_read, sample_toml, Ptr 2, host_ctx ''/plugins/sticky.so'' [])]
      \<lparr>global_init = shared_init_default, handles = [2, 1]\<rparr> =
    Some (replicate 2 (Err (make_plugin_error ''failed to read sticky config /plugins/sticky-l4.toml: not found'')), w) \<and>
    si_state (global_init w) = None"
proof -
  have p: "resolve_config_path (host_ctx ''/plugins/sticky.so'' []) = ''/plugins/sticky-l4.toml''"
    by (simp add: resolve_config_path_def env_value_def host_ctx_def collect_env_snapshot_def sample_parent
        path_join_def starts_with_def)
  then have "load_state (\<lambda>_. Err ''not found'') sample_toml (host_ctx ''/plugins/sticky.so'' []) =
      Err (make_plugin_error ''failed to read sticky config /plugins/sticky-l4.toml: not found'')"
    by (simp add: load_state_def)
  then show ?thesis
    by (subst config_decided_once) (simp_all add: live_handle_def module_ref_def eval_nat_numeral)
qed

text \<open>When its config does not load, the plugin leaks. Loading fails in the TCP module's init, the host
  never shuts that module down, and the handle its factory allocated stays allocated.\<close>

lemma sticky_failed_load_leaks:
  assumes "fst (ensure_state read toml (global_init (plugins W)) (host_ctx path vars)) = Err e"
  shows "\<exists>W'. plugin_load (\<lambda>_. Ok (sticky_dylib read toml alloc)) vars path W =
      Some (Err ''tcp module init failed'', W') \<and>
    handles (plugins W') = alloc (handles (plugins W)) # handles (plugins W)"
proof -
  obtain slot where "ensure_state read toml (global_init (plugins W)) (host_ctx path vars) = (Err e, slot)"
    using assms by (metis prod.collapse)
  from sticky_load_Err[OF this, of alloc] show ?thesis by auto
qed

lemma sticky_failed_load_leaks_example:
  "\<exists>W'. plugin_load (\<lambda>_. Ok (sticky_dylib (\<lambda>_. Err ''not found'') sample_toml sample_alloc)) [] ''/plugins/sticky.so'' sticky_start =
      Some (Err ''tcp module init failed'', W') \<and> handles (plugins W') = [4096]"
  using sticky_failed_load_leaks[of "\<lambda>_. Err ''not found''" sample_toml sticky_start "''/plugins/sticky.so''" "[]" _ sample_alloc]
  by (simp add: ensure_state_def sticky_start_def shared_init_default_def load_state_def Let_def sample_alloc_def)


end
