(* ===== verification/Vakil_Tests_Common.thy ===== *)
theory Vakil_Tests_Common
  imports Vakil_Http Rust_Std
begin

text \<open>
  The helpers of the integration tests: \<open>crates/vakil-tests-common/src/lib.rs\<close>. They wait for a port,
  run a small backend that checks the request it gets, start a proxy, send it a request, and give
  it hooks that count their calls.

  What sockets and the clock do are arguments: functions over a state \<open>'n\<close> of the network and the
  clock, or the list of results of the reads of a stream. A list that runs out is a peer that sends
  nothing more and keeps the stream open.
\<close>

section \<open>Ports\<close>

definition reserve_port ::
  "(string \<Rightarrow> ('l, string) result) \<Rightarrow> ('l \<Rightarrow> (std_socket_addr, string) result) \<Rightarrow> u16 option" where
  "reserve_port bind_tcp addr_of = do {
     listener \<leftarrow> result_ok (bind_tcp ''127.0.0.1:0'');
     addr \<leftarrow> result_ok (addr_of listener);
     Some (sock_port addr)
   }"

text \<open>Connecting, reading the clock and sleeping for a number of nanoseconds.\<close>

record 'n network =
  net_connect :: "string \<times> u16 \<Rightarrow> 'n \<Rightarrow> (unit, string) result \<times> 'n"
  net_now :: "'n \<Rightarrow> nat \<times> 'n"
  net_sleep :: "nat \<Rightarrow> 'n \<Rightarrow> 'n"

definition timed_out :: "u16 \<Rightarrow> string" where
  "timed_out port = ''timed out waiting for port '' @ show_nat (unat port)"

text \<open>The loop may go on forever, so here \<open>None\<close> is not returning and \<open>Err\<close> the message of a panic.\<close>

partial_function (option) wait_loop ::
  "'n network \<Rightarrow> u16 \<Rightarrow> nat \<Rightarrow> 'n \<Rightarrow> ((unit, string) result \<times> 'n) option" where
  "wait_loop N port deadline n =
     (let (r, n) = net_connect N (''127.0.0.1'', port) n
      in if is_ok r then Some (Ok (), n)
         else
           (let (now, n) = net_now N n
            in if deadline \<le> now then Some (Err (timed_out port), n)
               else wait_loop N port deadline (net_sleep N 50000000 n)))"

definition wait_for_port :: "'n network \<Rightarrow> u16 \<Rightarrow> 'n \<Rightarrow> ((unit, string) result \<times> 'n) option" where
  "wait_for_port N port n =
     (let (now, n) = net_now N n
      in (case instant_add now 10 of
            None \<Rightarrow> Some (Err ''overflow when adding duration to instant'', n)
          | Some deadline \<Rightarrow> wait_loop N port deadline n))"

section \<open>Backends\<close>

definition end_of_head :: bytes where
  "end_of_head = [0x0D, 0x0A, 0x0D, 0x0A]"

text \<open>
  Reading a request in chunks of at most 1024 bytes: \<open>None\<close> is a panic, \<open>Some None\<close> waits for more.
\<close>

fun read_request :: "(bytes, string) result list \<Rightarrow> bytes \<Rightarrow> bytes option option" where
  "read_request [] req = Some None"
| "read_request (Err e # rs) req = None"
| "read_request (Ok d # rs) req =
     (if length d > 1024 then None
      else if d = [] then Some (Some req)
      else if list_ex (\<lambda>window. window = end_of_head) (windows 4 (req @ d))
      then Some (Some (req @ d))
      else read_request rs (req @ d))"

text \<open>A backend's thread: how it ends, the counter it shares, and what has been written to its stream.\<close>

datatype thread_end = Blocked | Panicked | Joined

type_synonym 'o backend_end = "thread_end \<times> usize \<times> 'o option"

definition live_line :: string where "live_line = ''GET /live HTTP/1.1''"
definition proxy_line :: string where "proxy_line = ''X-Vakil-Proxy: active''"

definition crlf :: string where "crlf = [CHR 0x0D, CHR 0x0A]"

definition backend_response :: bytes where
  "backend_response = utf8 (''HTTP/1.1 200 OK'' @ crlf @ ''Content-Length: 11'' @ crlf @ ''Connection: close'' @
     crlf @ crlf @ ''hello proxy'')"

text \<open>The counter goes up before the response is written.\<close>

definition answer ::
  "(bytes \<Rightarrow> 'o \<Rightarrow> (unit, string) result \<times> 'o) \<Rightarrow> usize \<Rightarrow> 'o \<Rightarrow> 'o backend_end" where
  "answer write_all seen out =
     (let (r, out) = write_all backend_response out
      in (if is_ok r then Joined else Panicked, seen + 1, Some out))"

definition spawn_backend ::
  "(string \<times> u16 \<Rightarrow> ('l, string) result) \<Rightarrow> ('l \<Rightarrow> ((bytes, string) result list \<times> 'o, string) result) \<Rightarrow>
   (bytes \<Rightarrow> 'o \<Rightarrow> (unit, string) result \<times> 'o) \<Rightarrow> u16 \<Rightarrow> usize \<Rightarrow> 'o backend_end" where
  "spawn_backend bind_tcp accept write_all port seen =
     (case bind_tcp (''127.0.0.1'', port) of
        Err _ \<Rightarrow> (Panicked, seen, None)
      | Ok listener \<Rightarrow>
          (case accept listener of
             Err _ \<Rightarrow> (Panicked, seen, None)
           | Ok (reads, out) \<Rightarrow>
               (case read_request reads [] of
                  None \<Rightarrow> (Panicked, seen, Some out)
                | Some None \<Rightarrow> (Blocked, seen, Some out)
                | Some (Some req) \<Rightarrow>
                    (let request_text = from_utf8_lossy req
                     in if \<not> text_contains request_text live_line then (Panicked, seen, Some out)
                        else if \<not> text_contains request_text proxy_line then (Panicked, seen, Some out)
                        else answer write_all seen out))))"

definition spawn_backend_plain ::
  "(string \<times> u16 \<Rightarrow> ('l, string) result) \<Rightarrow> ('l \<Rightarrow> ((bytes, string) result list \<times> 'o, string) result) \<Rightarrow>
   (bytes \<Rightarrow> 'o \<Rightarrow> (unit, string) result \<times> 'o) \<Rightarrow> u16 \<Rightarrow> usize \<Rightarrow> 'o backend_end" where
  "spawn_backend_plain bind_tcp accept write_all port seen =
     (case bind_tcp (''127.0.0.1'', port) of
        Err _ \<Rightarrow> (Panicked, seen, None)
      | Ok listener \<Rightarrow>
          (case accept listener of
             Err _ \<Rightarrow> (Panicked, seen, None)
           | Ok (reads, out) \<Rightarrow>
               (case read_request reads [] of
                  None \<Rightarrow> (Panicked, seen, Some out)
                | Some None \<Rightarrow> (Blocked, seen, Some out)
                | Some (Some req) \<Rightarrow>
                    (let request_text = from_utf8_lossy req
                     in if \<not> text_contains request_text live_line then (Panicked, seen, Some out)
                        else answer write_all seen out))))"

section \<open>The proxy and its client\<close>

definition spawn_proxy ::
  "(unit, string) result \<Rightarrow> u16 \<Rightarrow> ('a, 's, 'w, 'p, 'e) http_proxy_hooks \<Rightarrow>
   (string \<times> ('a, 's, 'w, 'p, 'e) http_proxy_hooks) option" where
  "spawn_proxy server_new proxy_port h = do {
     result_ok server_new;
     let settings = proxy_settings_new (''127.0.0.1:'' @ show_nat (unat proxy_port));
     Some (attach_proxy_service settings h)
   }"

definition live_request :: bytes where
  "live_request = utf8 (''GET /live HTTP/1.1'' @ crlf @ ''Host: example.test'' @ crlf @ ''Connection: close'' @
     crlf @ crlf)"

datatype io_error = Interrupted | InvalidData | OtherError string

text \<open>\<open>read_to_string\<close>: it reads to the end of the stream, trying again after an interrupted read.\<close>

fun read_to_end :: "(bytes, io_error) result list \<Rightarrow> bytes \<Rightarrow> (bytes, io_error) result option" where
  "read_to_end [] bs = None"
| "read_to_end (Err e # rs) bs = (if e = Interrupted then read_to_end rs bs else Some (Err e))"
| "read_to_end (Ok d # rs) bs = (if d = [] then Some (Ok bs) else read_to_end rs (bs @ d))"

definition read_to_string :: "(bytes, io_error) result list \<Rightarrow> (nat list, io_error) result option" where
  "read_to_string reads = map_option (\<lambda>r. and_then r (\<lambda>bs.
     (case from_utf8 bs of None \<Rightarrow> Err InvalidData | Some s \<Rightarrow> Ok s))) (read_to_end reads [])"

text \<open>\<open>None\<close> is a panic; an inner \<open>None\<close> still waits for the response.\<close>

definition proxy_request_result ::
  "(string \<times> u16 \<Rightarrow> ((bytes, io_error) result list \<times> 'o, string) result) \<Rightarrow>
   (bytes \<Rightarrow> 'o \<Rightarrow> (unit, io_error) result \<times> 'o) \<Rightarrow> u16 \<Rightarrow> ((nat list, io_error) result option \<times> 'o) option" where
  "proxy_request_result connect write_all port = do {
     (reads, out) \<leftarrow> result_ok (connect (''127.0.0.1'', port));
     let (r, out) = write_all live_request out;
     Some (case r of Err e \<Rightarrow> Some (Err e) | Ok _ \<Rightarrow> read_to_string reads, out)
   }"

definition proxy_request ::
  "(string \<times> u16 \<Rightarrow> ((bytes, io_error) result list \<times> 'o, string) result) \<Rightarrow>
   (bytes \<Rightarrow> 'o \<Rightarrow> (unit, io_error) result \<times> 'o) \<Rightarrow> u16 \<Rightarrow> (nat list option \<times> 'o) option" where
  "proxy_request connect write_all port = do {
     (r, out) \<leftarrow> proxy_request_result connect write_all port;
     (case r of
        None \<Rightarrow> Some (None, out)
      | Some r \<Rightarrow> map_option (\<lambda>s. (Some s, out)) (result_ok r))
   }"

section \<open>Hooks that count\<close>

text \<open>
  The counters are shared by all clones of the hooks, so they live in the world, where a server
  with plugins has the plugins' state.
\<close>

record hook_counters =
  request_filter_calls :: usize
  response_filter_calls :: usize

record 'p recording_hooks =
  backend :: 'p

definition recording_hooks_new :: "'p \<Rightarrow> 'p recording_hooks \<times> hook_counters" where
  "recording_hooks_new b = (\<lparr>backend = b\<rparr>, \<lparr>request_filter_calls = 0, response_filter_calls = 0\<rparr>)"

text \<open>\<open>impl HttpProxyHooks for RecordingHooks\<close>: three methods, the others are the trait's.\<close>

definition recording_request_filter :: "(bool, 'a, 's, hook_counters, 'e) http_method" where
  "recording_request_filter = (\<lambda>(ses, ctx, W).
     Some (Ok False, ses, ctx,
       W\<lparr>plugins := (plugins W)\<lparr>request_filter_calls := request_filter_calls (plugins W) + 1\<rparr>\<rparr>))"

definition recording_upstream_request_filter ::
  "('a, 's, 'p, 'e) pingora \<Rightarrow> request_header \<Rightarrow> ('a, 's, hook_counters) flow \<Rightarrow>
   ((unit, 'e proxy_error) result \<times> request_header \<times> ('a, 's, hook_counters) flow) option" where
  "recording_upstream_request_filter X upstream_request s = do {
     upstream_request \<leftarrow> insert_header X ''X-Vakil-Proxy'' ''active'' upstream_request;
     Some (Ok (), upstream_request, s)
   }"

definition recording_response_filter ::
  "('a, 's, 'p, 'e) pingora \<Rightarrow> response_header \<Rightarrow> ('a, 's, hook_counters) flow \<Rightarrow>
   ((unit, 'e proxy_error) result \<times> response_header \<times> ('a, 's, hook_counters) flow) option" where
  "recording_response_filter X upstream_response = (\<lambda>(ses, ctx, W). do {
     let W = W\<lparr>plugins := (plugins W)\<lparr>response_filter_calls := response_filter_calls (plugins W) + 1\<rparr>\<rparr>;
     upstream_response \<leftarrow> insert_response_header X ''X-Vakil-Response'' ''active'' upstream_response;
     Some (Ok (), upstream_response, ses, ctx, W)
   })"

definition recording_http_hooks ::
  "('a, 's, 'p, 'e) pingora \<Rightarrow> 'p recording_hooks \<Rightarrow> ('a, 's, hook_counters, 'p, 'e) http_proxy_hooks" where
  "recording_http_hooks X self = noop_proxy_hooks
     \<lparr>request_filter := recording_request_filter,
      upstream_request_filter := recording_upstream_request_filter X,
      response_filter := recording_response_filter X\<rparr>"

lemmas recording_defs = recording_http_hooks_def recording_request_filter_def
  recording_upstream_request_filter_def recording_response_filter_def

interpretation recorded: http_hooks "recording_http_hooks X self" for X self
  by unfold_locales
    (auto simp: recording_defs noop_proxy_hooks_def hooks_ext_def Let_def split: Option.bind_splits)

section \<open>Waiting for a port\<close>

text \<open>
  What the standard library promises: time never goes backwards, a reading of the clock lies between
  the times before and after it, and a sleep takes at least as long as asked. \<open>dials\<close> is the log of
  the connection attempts: where to, and whether a connection was made.
\<close>

definition clock_laws :: "'n network \<Rightarrow> ('n \<Rightarrow> nat) \<Rightarrow> ('n \<Rightarrow> ((string \<times> u16) \<times> bool) list) \<Rightarrow> bool" where
  "clock_laws N time dials \<longleftrightarrow>
     (\<forall>a n. time n \<le> time (snd (net_connect N a n)) \<and>
          dials (snd (net_connect N a n)) = dials n @ [(a, \<exists>u. fst (net_connect N a n) = Ok u)]) \<and>
     (\<forall>n. time n \<le> fst (net_now N n) \<and> fst (net_now N n) \<le> time (snd (net_now N n)) \<and>
          dials (snd (net_now N n)) = dials n) \<and>
     (\<forall>d n. time n + d \<le> time (net_sleep N d n) \<and> dials (net_sleep N d n) = dials n)"

lemma clock_lawsD:
  assumes "clock_laws N time dials"
  shows "net_connect N a n = (r, n') \<Longrightarrow> time n \<le> time n' \<and> dials n' = dials n @ [(a, is_ok r)]"
    and "net_now N n = (t, n') \<Longrightarrow> time n \<le> t \<and> t \<le> time n' \<and> dials n' = dials n"
    and "time n + d \<le> time (net_sleep N d n)" and "dials (net_sleep N d n) = dials n"
  using assms unfolding clock_laws_def is_ok_iff by (metis fst_conv snd_conv)+

lemma wait_loop_returns:
  fixes port :: u16
  defines "a \<equiv> (''127.0.0.1'', port)"
  assumes "clock_laws N time dials" and "deadline \<le> time n + k * 50000000"
  shows "\<exists>r n' j. wait_loop N port deadline n = Some (r, n') \<and> j \<le> k \<and>
    (r = Ok () \<and> dials n' = dials n @ replicate j (a, False) @ [(a, True)] \<or>
     r = Err (timed_out port) \<and> dials n' = dials n @ replicate (Suc j) (a, False) \<and> deadline \<le> time n')"
  using assms(3)
proof (induction k arbitrary: n)
  case (0 n)
  obtain r n1 where c: "net_connect N (''127.0.0.1'', port) n = (r, n1)" by force
  obtain t n2 where w: "net_now N n1 = (t, n2)" by force
  note laws = clock_lawsD(1)[OF assms(2) c] clock_lawsD(2)[OF assms(2) w]
  show ?case
  proof (cases r)
    case (Ok u)
    with c laws show ?thesis by (subst wait_loop.simps) (auto simp: a_def)
  next
    case (Err e)
    from laws 0 have "deadline \<le> t" "deadline \<le> time n2" by simp_all
    with c w Err laws show ?thesis by (subst wait_loop.simps) (auto simp: a_def)
  qed
next
  case (Suc k n)
  obtain r n1 where c: "net_connect N (''127.0.0.1'', port) n = (r, n1)" by force
  obtain t n2 where w: "net_now N n1 = (t, n2)" by force
  let ?n3 = "net_sleep N 50000000 n2"
  note laws = clock_lawsD(1)[OF assms(2) c] clock_lawsD(2)[OF assms(2) w]
  note slept = clock_lawsD(3,4)[OF assms(2), where d = 50000000 and n = n2]
  have "deadline \<le> time ?n3 + k * 50000000" using Suc.prems laws slept(1) by simp
  from Suc.IH[OF this] obtain r' n' j where again: "wait_loop N port deadline ?n3 = Some (r', n')" "j \<le> k"
    "r' = Ok () \<and> dials n' = dials ?n3 @ replicate j (a, False) @ [(a, True)] \<or>
     r' = Err (timed_out port) \<and> dials n' = dials ?n3 @ replicate (Suc j) (a, False) \<and> deadline \<le> time n'"
    by blast
  show ?case
  proof (cases "is_ok r")
    case True
    with c laws show ?thesis by (subst wait_loop.simps) (auto simp: is_ok_iff a_def intro: exI[of _ 0])
  next
    case fail: False
    show ?thesis
    proof (cases "deadline \<le> t")
      case True
      with c w fail laws show ?thesis by (subst wait_loop.simps) (auto simp: a_def intro: exI[of _ 0])
    next
      case False
      with c w fail have "wait_loop N port deadline n = Some (r', n')"
        using again(1) by (subst wait_loop.simps) simp
      moreover have "dials ?n3 = dials n @ [(a, False)]" using laws slept fail by (simp add: a_def)
      ultimately show ?thesis using again(2,3) by (intro exI[of _ r'] exI[of _ n'] exI[of _ "Suc j"]) auto
    qed
  qed
qed

text \<open>C33: \<open>wait_for_port\<close> always returns. Unless the deadline does not fit the clock, which panics
  before any attempt, it has made at most 201 attempts, all of them to the port on the local host.
  It returns successfully with the first attempt that makes a connection, all before it having
  failed; or it panics with the message about the port, after ten seconds at least in which every
  attempt, and at least one, has failed.\<close>

theorem wait_for_port_returns:
  assumes "clock_laws N time dials"
  shows "\<exists>r n'. wait_for_port N port n = Some (r, n') \<and>
    (if instant_add (fst (net_now N n)) 10 = None
     then r = Err ''overflow when adding duration to instant'' \<and> dials n' = dials n
     else \<exists>j \<le> 200.
       r = Ok () \<and>
         dials n' = dials n @ replicate j ((''127.0.0.1'', port), False) @ [((''127.0.0.1'', port), True)] \<or>
       r = Err (timed_out port) \<and> dials n' = dials n @ replicate (Suc j) ((''127.0.0.1'', port), False) \<and>
         time n + 10000000000 \<le> time n')"
proof -
  obtain t n1 where w: "net_now N n = (t, n1)" by force
  note law = clock_lawsD(2)[OF assms w]
  show ?thesis
  proof (cases "instant_add t 10")
    case None
    with w law show ?thesis by (simp add: wait_for_port_def)
  next
    case (Some deadline)
    then have d: "deadline = t + 10000000000" by (auto simp: instant_add_def Let_def split: if_splits)
    with law have "deadline \<le> time n1 + 200 * 50000000" by simp
    from wait_loop_returns[OF assms this, of port] obtain r n' j where
      "wait_loop N port deadline n1 = Some (r, n')" "j \<le> 200"
      "r = Ok () \<and> dials n' = dials n1 @ replicate j ((''127.0.0.1'', port), False) @ [((''127.0.0.1'', port), True)] \<or>
       r = Err (timed_out port) \<and> dials n' = dials n1 @ replicate (Suc j) ((''127.0.0.1'', port), False) \<and>
         deadline \<le> time n'" by blast
    with Some w law d show ?thesis
      by (intro exI[of _ r] exI[of _ n']) (auto simp: wait_for_port_def intro!: exI[of _ j])
  qed
qed

text \<open>A network on which the port is open after a tenth of a second, with a clock that only sleeping
  moves.\<close>

definition late_network :: "(nat \<times> ((string \<times> u16) \<times> bool) list) network" where
  "late_network =
     \<lparr>net_connect = (\<lambda>a (t, log).
        if 100000000 \<le> t then (Ok (), t, log @ [(a, True)]) else (Err ''connection refused'', t, log @ [(a, False)])),
      net_now = (\<lambda>(t, log). (t, t, log)), net_sleep = (\<lambda>d (t, log). (t + d, log))\<rparr>"

lemma late_network_laws: "clock_laws late_network fst snd"
  by (simp add: clock_laws_def late_network_def split: prod.split)

theorem wait_for_port_returns_witness:
  "\<exists>t j. wait_for_port late_network 8080 (5, []) =
     Some (Ok (), t, replicate j ((''127.0.0.1'', 8080), False) @ [((''127.0.0.1'', 8080), True)]) \<and> j \<le> 200"
proof -
  have w: "\<exists>n'. wait_for_port late_network 8080 (5, []) = Some (Ok (), n')"
    by (simp add: wait_for_port_def late_network_def instant_add_def wait_loop.simps)
  have "instant_add (fst (net_now late_network (5, []))) 10 \<noteq> None"
    by (simp add: late_network_def instant_add_def)
  with wait_for_port_returns[OF late_network_laws, of 8080 "(5, [])"] w show ?thesis by auto
qed

section \<open>Reading a request\<close>

lemma list_ex_windows: "list_ex (\<lambda>w. w = end_of_head) (windows 4 bs) \<longleftrightarrow> sublist end_of_head bs"
proof -
  have "length end_of_head = 4" "end_of_head \<noteq> []" by (simp_all add: end_of_head_def)
  with windows_iff_sublist[of end_of_head bs] show ?thesis by (simp add: list_ex_iff)
qed

lemma upt_0_Suc: "[0..<Suc k] = 0 # map Suc [0..<k]"
  by (simp add: upt_conv_Cons map_Suc_upt del: upt_Suc)

lemma read_request_from:
  assumes "\<forall>d \<in> set cs. d \<noteq> [] \<and> length d \<le> 1024"
  shows "read_request (map Ok cs @ rest) req =
    (case find (\<lambda>n. sublist end_of_head (req @ concat (take n cs))) (map Suc [0..<length cs]) of
       Some n \<Rightarrow> Some (Some (req @ concat (take n cs)))
     | None \<Rightarrow> read_request rest (req @ concat cs))"
  using assms
proof (induction cs arbitrary: req)
  case Nil
  then show ?case by simp
next
  case (Cons c cs)
  have fm: "find P (map g xs) = map_option g (find (P \<circ> g) xs)" for P xs and g :: "nat \<Rightarrow> nat"
    by (induction xs) auto
  from Cons.prems Cons.IH[of "req @ c"] show ?case
    by (auto simp: upt_0_Suc fm list_ex_windows comp_def split: option.splits simp del: upt_Suc)
qed

text \<open>C34: how a backend reads a request. However the bytes are cut into chunks, it reads chunk by chunk
  until what it has read contains an empty line, no matter whether the line end falls on a chunk
  boundary; then it stops, with exactly the chunks read so far. If no prefix of the chunks has an
  empty line it goes on with whatever is read next.\<close>

theorem read_request_stops_at_blank_line:
  assumes "\<forall>d \<in> set cs. d \<noteq> [] \<and> length d \<le> 1024"
  shows "read_request (map Ok cs @ rest) [] =
    (case find (\<lambda>n. sublist end_of_head (concat (take n cs))) [0..<Suc (length cs)] of
       Some n \<Rightarrow> Some (Some (concat (take n cs)))
     | None \<Rightarrow> read_request rest (concat cs))"
proof -
  have "\<not> sublist end_of_head []" by (simp add: end_of_head_def)
  then show ?thesis using read_request_from[OF assms, of rest "[]", unfolded append_Nil]
    by (simp add: upt_0_Suc del: upt_Suc)
qed

theorem read_request_stops_at_blank_line_witness:
  "read_request (map Ok [[71, 13, 10, 13], [10, 65], [66]] @ [Ok []]) [] = Some (Some [71, 13, 10, 13, 10, 65])"
proof -
  have "sublist end_of_head [71, 13, 10, 13, 10, 65]" "\<not> sublist end_of_head [71, 13, 10, 13]" "\<not> sublist end_of_head []"
    unfolding list_ex_windows[symmetric] by (simp_all add: windows_def end_of_head_def upt_rec)
  then show ?thesis
    using read_request_stops_at_blank_line[of "[[71, 13, 10, 13], [10, 65], [66]]" "[Ok []]"]
    by (simp add: upt_rec)
qed

text \<open>A head that ends the bytes is read in full, however it is cut.\<close>

lemma read_request_all:
  assumes "sublist end_of_head (concat cs)" and "\<not> sublist end_of_head (butlast (concat cs))"
    and "\<forall>d \<in> set cs. d \<noteq> [] \<and> length d \<le> 1024"
  shows "read_request (map Ok cs @ rest) [] = Some (Some (concat cs))"
proof -
  let ?P = "\<lambda>n. sublist end_of_head (concat (take n cs))"
  have all: "concat (take n cs) = concat cs" if "?P n" for n
  proof (cases "drop n cs")
    case Nil
    then show ?thesis by simp
  next
    case (Cons d ds)
    with assms(3) have "d \<noteq> []" by (metis in_set_dropD list.set_intros(1))
    have "concat cs = concat (take n cs) @ concat (drop n cs)" by (metis append_take_drop_id concat_append)
    with Cons \<open>d \<noteq> []\<close> have "butlast (concat cs) = concat (take n cs) @ butlast (concat (drop n cs))"
      by (simp add: butlast_append)
    with that assms(2) show ?thesis by (metis sublist_append)
  qed
  have "\<exists>n. find ?P (map Suc [0..<length cs]) = Some n \<and> ?P n"
  proof (cases "find ?P (map Suc [0..<length cs])")
    case None
    have "cs \<noteq> []" using assms(1) by (auto simp: end_of_head_def)
    then have "length cs \<in> set (map Suc [0..<length cs])" by (cases cs) auto
    with None assms(1) show ?thesis by (auto simp: find_None_iff)
  next
    case (Some n)
    then show ?thesis by (auto simp: find_Some_iff)
  qed
  with all read_request_from[OF assms(3), of rest "[]"] show ?thesis by auto
qed

section \<open>What a backend accepts\<close>

lemma ascii_lines [simp]: "ascii live_line" "ascii proxy_line"
  by (simp_all add: ascii_def live_line_def proxy_line_def)

text \<open>C35: the assertions of a backend about the decoded text are assertions about the bytes: decoding
  with replacement characters neither hides the request line or the header nor makes them up, even
  when the rest of the request is not valid UTF-8. With both in the bytes the backend counts the
  request and answers it, otherwise its thread panics and neither happens.\<close>

theorem backend_checks_bytes:
  assumes "bind_tcp (''127.0.0.1'', port) = Ok l" and "accept l = Ok (reads, out)"
    and "read_request reads [] = Some (Some req)"
  shows "spawn_backend bind_tcp accept write_all port seen =
    (if sublist (utf8 live_line) req \<and> sublist (utf8 proxy_line) req then answer write_all seen out
     else (Panicked, seen, Some out))"
  using assms by (simp add: spawn_backend_def text_contains_bytes)

definition live_head :: bytes where
  "live_head = utf8 live_line @ [0xFF] @ utf8 crlf @ utf8 proxy_line @ end_of_head"

theorem backend_checks_bytes_witness:
  "spawn_backend (\<lambda>_. Ok ()) (\<lambda>_. Ok ([Ok live_head], [])) (\<lambda>b out. (Ok (), out @ b)) 9000 4 =
     (Joined, 5, Some backend_response)"
proof -
  have "sublist end_of_head live_head" "sublist (utf8 live_line) live_head" "sublist (utf8 proxy_line) live_head"
    unfolding live_head_def sublist_def by (metis append.assoc append_Nil append_Nil2)+
  moreover have "length live_head \<le> 1024" "live_head \<noteq> []"
    by (simp_all add: live_head_def utf8_ascii live_line_def proxy_line_def end_of_head_def crlf_def utf8_def utf8_char_def)
  ultimately have "read_request [Ok live_head] [] = Some (Some live_head)"
    by (simp add: list_ex_windows)
  from backend_checks_bytes[where bind_tcp = "\<lambda>_. Ok ()" and accept = "\<lambda>_. Ok ([Ok live_head], [] :: bytes)", OF refl refl this]
    \<open>sublist (utf8 live_line) live_head\<close> \<open>sublist (utf8 proxy_line) live_head\<close>
  show ?thesis by (simp add: answer_def)
qed

lemma ascii_crlf: "ascii crlf" by (simp add: ascii_def crlf_def)

lemma live_request_codes: "live_request = map of_char (''GET /live HTTP/1.1'' @ crlf @ ''Host: example.test'' @ crlf @
     ''Connection: close'' @ crlf @ crlf)"
  unfolding live_request_def by (rule utf8_ascii) (simp add: ascii_def crlf_def)

lemma live_request_facts:
  "sublist end_of_head live_request" "\<not> sublist end_of_head (butlast live_request)"
  "sublist (utf8 live_line) live_request" "\<not> sublist (utf8 proxy_line) live_request" "length live_request \<le> 1024"
proof -
  have parts: "live_request = utf8 live_line @ map of_char (crlf @ ''Host: example.test'' @ crlf @ ''Connection: close'') @ end_of_head"
    unfolding live_request_codes by (simp add: utf8_ascii) (simp add: live_line_def crlf_def end_of_head_def)
  show "sublist end_of_head live_request" "sublist (utf8 live_line) live_request"
    unfolding parts sublist_def by (metis append.assoc append_Nil append_Nil2)+
  show "\<not> sublist end_of_head (butlast live_request)"
    by (simp add: live_request_codes crlf_def end_of_head_def sublist_Cons_right)
  have "of_char CHR ''V'' \<notin> set live_request"
    by (simp add: live_request_codes crlf_def)
  moreover have "of_char CHR ''V'' \<in> set (utf8 proxy_line)"
    by (simp add: utf8_ascii) (simp add: proxy_line_def)
  ultimately show "\<not> sublist (utf8 proxy_line) live_request"
    by (auto dest: set_mono_sublist)
  show "length live_request \<le> 1024" by (simp add: live_request_codes crlf_def)
qed

text \<open>C36: the client and the backends. The request the client sends reaches a backend whole, however the
  network cuts it into reads: the plain backend then counts it and answers, and the one that looks
  for the proxy's header panics without counting, as the request did not come through the proxy.\<close>

theorem direct_request_outcome:
  assumes "bind_tcp (''127.0.0.1'', port) = Ok l" and "accept l = Ok (map Ok cs @ rest, out)"
    and "concat cs = live_request" and "[] \<notin> set cs"
  shows "spawn_backend_plain bind_tcp accept write_all port seen = answer write_all seen out \<and>
    spawn_backend bind_tcp accept write_all port seen = (Panicked, seen, Some out)"
proof -
  have "length d \<le> 1024" if "d \<in> set cs" for d
  proof -
    from that obtain as bs where "cs = as @ d # bs" by (meson split_list)
    then have "length d \<le> length (concat cs)" by simp
    with live_request_facts(5) assms(3) show ?thesis by simp
  qed
  with assms(4) have "\<forall>d \<in> set cs. d \<noteq> [] \<and> length d \<le> 1024" by auto
  with live_request_facts(1,2) have "read_request (map Ok cs @ rest) [] = Some (Some live_request)"
    using read_request_all[of cs rest] assms(3) by simp
  with assms(1,2) live_request_facts(3,4) show ?thesis
    by (simp add: spawn_backend_plain_def spawn_backend_def text_contains_bytes)
qed

theorem direct_request_outcome_witness:
  "spawn_backend_plain (\<lambda>_. Ok ()) (\<lambda>_. Ok ([Ok (take 30 live_request), Ok (drop 30 live_request)], []))
     (\<lambda>b out. (Ok (), out @ b)) 9000 0 = (Joined, 1, Some backend_response)"
proof -
  have "30 < length live_request" unfolding live_request_codes by (simp add: crlf_def)
  then have "[] \<notin> set [take 30 live_request, drop 30 live_request]" by auto
  from direct_request_outcome[where bind_tcp = "\<lambda>_. Ok ()" and rest = "[]" and
      accept = "\<lambda>_. Ok (map Ok [take 30 live_request, drop 30 live_request] @ [], [] :: bytes)", OF refl refl _ this]
  show ?thesis by (simp add: answer_def)
qed

section \<open>The response\<close>

text \<open>The data of the reads that were not interrupted.\<close>

definition read_data :: "(bytes, io_error) result list \<Rightarrow> bytes" where
  "read_data reads = concat (List.map_filter result_ok reads)"

lemma read_to_end_data:
  assumes "\<forall>r \<in> set reads. r = Err Interrupted \<or> (\<exists>d. r = Ok d \<and> d \<noteq> [])"
  shows "read_to_end (reads @ [Ok []]) bs = Some (Ok (bs @ read_data reads))"
  using assms
  by (induction reads arbitrary: bs) (auto simp: read_data_def List.map_filter_simps)

text \<open>The client gets the text the server wrote. If the bytes that arrive are the UTF-8 encoding of a
  text, cut into reads in any way and with any reads interrupted in between, \<open>proxy_request\<close> returns
  that text once the stream ends.\<close>

lemma proxy_request_returns_text:
  assumes "net_connect_to (''127.0.0.1'', port) = Ok (reads @ [Ok []], out)" and "write_all live_request out = (Ok u, out')"
    and "\<forall>r \<in> set reads. r = Err Interrupted \<or> (\<exists>d. r = Ok d \<and> d \<noteq> [])" and "read_data reads = utf8 s"
  shows "proxy_request net_connect_to write_all port = Some (Some (map of_char s), out')"
  using assms
  by (simp add: proxy_request_def proxy_request_result_def read_to_string_def read_to_end_data from_utf8_utf8)

lemma proxy_request_returns_text_example:
  "proxy_request (\<lambda>_. Ok ([Ok (utf8 ''hello''), Err Interrupted, Ok (utf8 '' proxy'')] @ [Ok []], 0))
     (\<lambda>b n. (Ok (), n + length b)) 9000 = Some (Some (map of_char ''hello proxy''), length live_request)"
proof -
  have "read_data [Ok (utf8 ''hello''), Err Interrupted, Ok (utf8 '' proxy'')] = utf8 ''hello proxy''"
    by (simp add: read_data_def List.map_filter_simps utf8_def)
  moreover have "utf8 ''hello'' \<noteq> []" "utf8 '' proxy'' \<noteq> []" by (simp_all add: utf8_def utf8_char_def)
  ultimately show ?thesis
    using proxy_request_returns_text[where net_connect_to = "\<lambda>_. Ok ([Ok (utf8 ''hello''), Err Interrupted, Ok (utf8 '' proxy'')] @ [Ok []], 0)"
      and reads = "[Ok (utf8 ''hello''), Err Interrupted, Ok (utf8 '' proxy'')]" and out = "0::nat" and port = 9000
      and write_all = "\<lambda>b n. (Ok (), n + length b)" and out' = "length live_request"]
    by simp
qed

section \<open>The hooks that count\<close>

text \<open>A call of one of the hooks, as the proxy makes them.\<close>

datatype hook_call = CallRequestFilter | CallUpstreamPeer | CallUpstreamRequest request_header
  | CallResponse response_header | CallRequestBody "bytes option" bool | CallResponseBody "bytes option" bool

fun call_of ::
  "('a, 's, 'w, 'p, 'e) http_proxy_hooks \<Rightarrow> hook_call \<Rightarrow> ('a, 's, 'w) flow \<Rightarrow> ('a, 's, 'w) flow option" where
  "call_of H CallRequestFilter s = map_option snd (request_filter H s)"
| "call_of H CallUpstreamPeer s = map_option snd (upstream_peer H s)"
| "call_of H (CallUpstreamRequest up) s = map_option (snd \<circ> snd) (upstream_request_filter H up s)"
| "call_of H (CallResponse up) s = map_option (snd \<circ> snd) (response_filter H up s)"
| "call_of H (CallRequestBody body eos) s = map_option snd (request_body_filter H body eos s)"
| "call_of H (CallResponseBody body eos) s = map_option snd (response_body_filter H body eos s)"

text \<open>C37: what the tests read off the counters. Over any sequence of calls that does not panic, of any
  number of requests and through any clones, the counters grow by the number of request filters and
  of response filters, modulo 2 to the 64, and nothing else changes; and however often the hooks are
  asked for a peer, they refuse, whatever backend they were made with.\<close>

theorem recording_counts_calls:
  assumes "for_each (call_of (snd (attach_proxy_service s (recording_http_hooks X self)))) cs (ses, ctx, W) = Some (ses', ctx', W')"
  shows "ses' = ses \<and> ctx' = ctx \<and> calls W' = calls W \<and>
    request_filter_calls (plugins W') =
      request_filter_calls (plugins W) + of_nat (length (filter (\<lambda>c. c = CallRequestFilter) cs)) \<and>
    response_filter_calls (plugins W') =
      response_filter_calls (plugins W) + of_nat (length (filter (\<lambda>c. \<exists>up. c = CallResponse up) cs)) \<and>
    upstream_peer (snd (attach_proxy_service s (recording_http_hooks X self))) (ses', ctx', W') =
      Some (Err (HTTPStatus 500 ''no upstream selected''), ses', ctx', W')"
proof -
  have H: "snd (attach_proxy_service s (recording_http_hooks X self)) = recording_http_hooks X self"
    by (simp add: attach_proxy_service_def proxy_http_delegates)
  show ?thesis
    using assms unfolding H
  proof (induction cs arbitrary: W)
    case Nil
    then show ?case by (simp add: recording_http_hooks_def noop_proxy_hooks_def)
  next
    case (Cons c cs)
    from Cons.prems obtain V where "for_each (call_of (recording_http_hooks X self)) cs (ses, ctx, V) = Some (ses', ctx', W')"
      and "call_of (recording_http_hooks X self) c (ses, ctx, W) = Some (ses, ctx, V)"
      by (cases c) (auto simp: recording_defs noop_proxy_hooks_def split: Option.bind_splits)
    with Cons.IH[of V] show ?case
      by (cases c) (auto simp: recording_defs noop_proxy_hooks_def split: Option.bind_splits)
  qed
qed

theorem recording_counts_calls_witness:
  "\<exists>W'. for_each (call_of (snd (attach_proxy_service (proxy_settings_new ''127.0.0.1:9090'')
       (recording_http_hooks sample_pingora (fst (recording_hooks_new (''127.0.0.1'', 80, False)))))))
     [CallRequestFilter, CallUpstreamPeer, CallRequestFilter]
     (sample_session, sample_ctx, \<lparr>plugins = \<lparr>request_filter_calls = -1, response_filter_calls = 0\<rparr>, calls = []\<rparr>) =
     Some (sample_session, sample_ctx, W') \<and> request_filter_calls (plugins W') = 1 \<and>
   upstream_peer (snd (attach_proxy_service (proxy_settings_new ''127.0.0.1:9090'')
       (recording_http_hooks sample_pingora (fst (recording_hooks_new (''127.0.0.1'', 80, False))))))
     (sample_session, sample_ctx, W') = Some (Err (HTTPStatus 500 ''no upstream selected''), sample_session, sample_ctx, W')"
proof -
  let ?H = "snd (attach_proxy_service (proxy_settings_new ''127.0.0.1:9090'')
       (recording_http_hooks sample_pingora (fst (recording_hooks_new (''127.0.0.1'', 80, False)))))"
  let ?W = "\<lparr>plugins = \<lparr>request_filter_calls = -1, response_filter_calls = 0\<rparr>, calls = []\<rparr>"
  have "\<exists>W'. for_each (call_of ?H) [CallRequestFilter, CallUpstreamPeer, CallRequestFilter] (sample_session, sample_ctx, ?W) =
     Some (sample_session, sample_ctx, W')"
    by (simp add: attach_proxy_service_def proxy_http_delegates recording_defs noop_proxy_hooks_def)
  then obtain W' where c: "for_each (call_of ?H) [CallRequestFilter, CallUpstreamPeer, CallRequestFilter]
     (sample_session, sample_ctx, ?W) = Some (sample_session, sample_ctx, W')" by blast
  from recording_counts_calls[OF c] c show ?thesis by (intro exI[of _ W']) simp
qed

text \<open>The proxy listens on the port it was asked to.\<close>

lemma spawn_proxy_listens:
  "spawn_proxy (Ok ()) port h = Some (a, H) \<Longrightarrow> parse_socket_addr a = Some (socket_addr_new (V4 127 0 0 1) port) \<and> H = h"
proof -
  have "show_v4 127 0 0 1 = ''127.0.0.1''" by code_simp
  with parse_socket_addr_show[of 127 0 0 1 port]
  show "spawn_proxy (Ok ()) port h = Some (a, H) \<Longrightarrow> ?thesis"
    by (auto simp: spawn_proxy_def attach_proxy_service_def proxy_settings_new_def proxy_http_delegates
        show_socket_v4_def)
qed

end
