(* ===== verification/Vakil_Unit_Tests.thy ===== *)
theory Vakil_Unit_Tests
  imports Vakil_Runtime Rust_Std
begin

text \<open>
  The unit tests of the plugin interface, the plugin host and the runtime, run on the model: the
  \<open>tests\<close> modules of \<open>crates/vakil-plugin-api\<close>, \<open>crates/vakil-plugin-host\<close> and \<open>crates/vakil-runtime\<close>. A test
  is a value of type \<open>unit option\<close>, \<open>None\<close> if it panics; an assertion is \<open>check\<close>. A test that writes a
  file to a temporary path takes the path as argument.
\<close>

definition check :: "bool \<Rightarrow> unit option" where
  "check b = (if b then Some () else None)"

lemma check_simps [simp]: "check True = Some ()" "check False = None" "check b = Some u \<longleftrightarrow> b"
  by (simp_all add: check_def)

section \<open>The plugin interface\<close>

record test_counts =
  init_count :: usize
  shutdown_count :: usize

definition api_test_init :: "test_counts init_fn" where
  "api_test_init inst ctx w = Some (Ok (), w\<lparr>init_count := init_count w + 1\<rparr>)"

definition api_test_shutdown :: "test_counts shutdown_fn" where
  "api_test_shutdown inst w = Some (Ok (), w\<lparr>shutdown_count := shutdown_count w + 1\<rparr>)"

definition api_create_http :: "(test_counts plugin_http_module, test_counts) factory_fn" where
  "api_create_http w = Some (Ok http_module_default, w)"

definition assert_default_tcp :: "'w plugin_tcp_module \<Rightarrow> unit option" where
  "assert_default_tcp self = do {
     check (tcp_instance self = Null);
     check (tcp_priority self = 0);
     check (Option.is_none (tcp_on_route self));
     check (Option.is_none (on_connect self));
     check (Option.is_none (on_data self));
     check (Option.is_none (on_half_close self));
     check (Option.is_none (on_close self))
   }"

definition assert_default_udp :: "'w plugin_udp_module \<Rightarrow> unit option" where
  "assert_default_udp self = do {
     check (udp_instance self = Null);
     check (udp_priority self = 0);
     check (Option.is_none (udp_on_route self));
     check (Option.is_none (on_datagram self));
     check (Option.is_none (on_session_start self));
     check (Option.is_none (on_session_end self))
   }"

definition assert_default_http :: "'w plugin_http_module \<Rightarrow> unit option" where
  "assert_default_http self = do {
     check (http_instance self = Null);
     check (http_priority self = 0);
     check (Option.is_none (http_on_route self));
     check (Option.is_none (on_request_headers self));
     check (Option.is_none (on_request_body self));
     check (Option.is_none (on_response_headers self));
     check (Option.is_none (on_response_body self));
     check (Option.is_none (on_trailers self));
     check (Option.is_none (on_local_reply self))
   }"

definition default_modules_start_empty :: "unit option" where
  "default_modules_start_empty = do {
     assert_default_tcp (tcp_module_default :: test_counts plugin_tcp_module);
     assert_default_udp (udp_module_default :: test_counts plugin_udp_module);
     assert_default_http (http_module_default :: test_counts plugin_http_module)
   }"

definition module_trait_methods_invoke_callbacks :: "unit option" where
  "module_trait_methods_invoke_callbacks =
     (let W = \<lparr>plugins = \<lparr>init_count = 0, shutdown_count = 0\<rparr>, calls = []\<rparr>;
          tcp = \<lparr>tcp_instance = Null, tcp_priority = 1, tcp_init = api_test_init,
            tcp_shutdown = api_test_shutdown, tcp_on_route = None, on_connect = None, on_data = None,
            on_half_close = None, on_close = None\<rparr>;
          udp = \<lparr>udp_instance = Null, udp_priority = 2, udp_init = api_test_init,
            udp_shutdown = api_test_shutdown, udp_on_route = None, on_datagram = None,
            on_session_start = None, on_session_end = None\<rparr>;
          http = \<lparr>http_instance = Null, http_priority = 3, http_init = api_test_init,
            http_shutdown = api_test_shutdown, http_on_route = None, on_request_headers = None,
            on_request_body = None, on_response_headers = None, on_response_body = None,
            on_trailers = None, on_local_reply = None\<rparr>
      in do {
        (r, W) \<leftarrow> tcp_module_init tcp None W;
        check (is_ok r);
        (r, W) \<leftarrow> udp_module_init udp None W;
        check (is_ok r);
        (r, W) \<leftarrow> http_module_init http None W;
        check (is_ok r);
        (r, W) \<leftarrow> tcp_module_shutdown tcp W;
        check (is_ok r);
        (r, W) \<leftarrow> udp_module_shutdown udp W;
        check (is_ok r);
        (r, W) \<leftarrow> http_module_shutdown http W;
        check (is_ok r);
        check (init_count (plugins W) = 3);
        check (shutdown_count (plugins W) = 3);
        let rt = \<lparr>manifest = \<lparr>man_name = ''example'', man_version = \<lparr>major = 1, minor = 0, patch = 0\<rparr>\<rparr>,
          create_http = Some api_create_http, create_tcp = None, create_udp = None\<rparr>;
        check (man_name (manifest rt) = ''example'');
        check (\<not> Option.is_none (create_http rt));
        check (Option.is_none (create_tcp rt));
        check (Option.is_none (create_udp rt))
      })"

lemma api_unit_tests:
  "default_modules_start_empty = Some () \<and> module_trait_methods_invoke_callbacks = Some ()"
  by (simp add: default_modules_start_empty_def assert_default_tcp_def assert_default_udp_def assert_default_http_def
      default_simps module_trait_methods_invoke_callbacks_def module_trait_defs call_init_def call_shutdown_def
      api_test_init_def api_test_shutdown_def)

section \<open>The plugin host\<close>

text \<open>The two arrays of counters, by HTTP, TCP and UDP.\<close>

record host_counts =
  init_counts :: "usize list"
  shutdown_counts :: "usize list"

definition counters_new :: host_counts where
  "counters_new = \<lparr>init_counts = [0, 0, 0], shutdown_counts = [0, 0, 0]\<rparr>"

definition host_test_init :: "nat \<Rightarrow> host_counts init_fn" where
  "host_test_init i inst ctx w = Some (Ok (), w\<lparr>init_counts := (init_counts w)[i := init_counts w ! i + 1]\<rparr>)"

definition host_test_shutdown :: "nat \<Rightarrow> host_counts shutdown_fn" where
  "host_test_shutdown i inst w =
     Some (Ok (), w\<lparr>shutdown_counts := (shutdown_counts w)[i := shutdown_counts w ! i + 1]\<rparr>)"

definition test_route :: "('c, 'w) hook_fn" where
  "test_route inst ctx w = Some (ctx, Ok hook_outcome_default, w)"

definition test_hook :: "('c, 'w) hook_fn" where
  "test_hook inst ctx w = Some (ctx, Ok \<lparr>action = Continue\<rparr>, w)"

definition host_http_module :: "host_counts plugin_http_module" where
  "host_http_module = http_module_default
     \<lparr>http_init := host_test_init 0, http_on_route := Some test_route, on_request_headers := Some test_hook,
      on_request_body := Some test_hook, on_response_headers := Some test_hook,
      on_response_body := Some test_hook, on_trailers := Some test_hook, on_local_reply := Some test_hook,
      http_shutdown := host_test_shutdown 0\<rparr>"

definition host_tcp_module :: "host_counts plugin_tcp_module" where
  "host_tcp_module = tcp_module_default
     \<lparr>tcp_init := host_test_init 1, on_connect := Some test_hook, on_data := Some test_hook,
      on_half_close := Some test_hook, on_close := Some test_hook, tcp_shutdown := host_test_shutdown 1\<rparr>"

definition host_udp_module :: "host_counts plugin_udp_module" where
  "host_udp_module = udp_module_default
     \<lparr>udp_init := host_test_init 2, on_datagram := Some test_hook, on_session_start := Some test_hook,
      on_session_end := Some test_hook, udp_shutdown := host_test_shutdown 2\<rparr>"

definition valid_root :: "host_counts plugin_root_module" where
  "valid_root =
     \<lparr>manifest = \<lparr>man_name = ''test-plugin'', man_version = host_abi_version\<rparr>,
      create_http = Some (\<lambda>w. Some (Ok host_http_module, w)),
      create_tcp = Some (\<lambda>w. Some (Ok host_tcp_module, w)),
      create_udp = Some (\<lambda>w. Some (Ok host_udp_module, w))\<rparr>"

definition builds_init_context_with_metadata :: "unit option" where
  "builds_init_context_with_metadata = do {
     r \<leftarrow> build_init_context ''/tmp/plugins/example.so'' [(''A'', ''1''), (''B'', ''2'')];
     context \<leftarrow> result_ok r;
     check (library_path context = ''/tmp/plugins/example.so'');
     dir \<leftarrow> plugin_dir context;
     check (dir = ''/tmp/plugins'');
     check (length (entries (env context)) = 2);
     let version_str = show_nat (unat (major (host_version context))) @ ''.'' @
       show_nat (unat (minor (host_version context))) @ ''.'' @ show_nat (unat (patch (host_version context)));
     check (version_str = cargo_pkg_version)
   }"

definition builds_init_context_without_parent_directory :: "unit option" where
  "builds_init_context_without_parent_directory = do {
     r \<leftarrow> build_init_context ''/'' [];
     context \<leftarrow> result_ok r;
     check (library_path context = ''/'');
     check (plugin_dir context = None)
   }"

definition validates_manifest :: "unit option" where
  "validates_manifest = result_ok (validate_manifest (manifest valid_root))"

definition loads_and_shuts_down_all_protocol_modules :: "unit option" where
  "loads_and_shuts_down_all_protocol_modules = do {
     r \<leftarrow> build_init_context ''/tmp/plugins/example.so'' [];
     context \<leftarrow> result_ok r;
     let W = \<lparr>plugins = counters_new, calls = []\<rparr>;
     let init_before = init_counts (plugins W);
     let shutdown_before = shutdown_counts (plugins W);
     (r, W) \<leftarrow> load_modules valid_root context W;
     mods \<leftarrow> result_ok r;
     check (\<not> Option.is_none (http mods));
     check (\<not> Option.is_none (tcp mods));
     check (\<not> Option.is_none (udp mods));
     check (init_counts (plugins W) ! 0 - init_before ! 0 = 1);
     check (init_counts (plugins W) ! 1 - init_before ! 1 = 1);
     check (init_counts (plugins W) ! 2 - init_before ! 2 = 1);
     (mods, W) \<leftarrow> modules_shutdown mods W;
     check (shutdown_counts (plugins W) ! 0 - shutdown_before ! 0 = 1);
     check (shutdown_counts (plugins W) ! 1 - shutdown_before ! 1 = 1);
     check (shutdown_counts (plugins W) ! 2 - shutdown_before ! 2 = 1)
   }"

definition rejects_incompatible_manifest_versions :: "unit option" where
  "rejects_incompatible_manifest_versions =
     (case validate_manifest ((manifest valid_root)\<lparr>man_version := \<lparr>major = major host_abi_version + 1, minor = 0, patch = 0\<rparr>\<rparr>) of
        Ok _ \<Rightarrow> None
      | Err e \<Rightarrow> check (text_contains (map of_char e) ''incompatible''))"

definition collects_env_snapshot :: "unit option" where
  "collects_env_snapshot =
     (let snapshot = collect_env_snapshot [(''X'', ''y'')]
      in do {
        check (length (entries snapshot) = 1);
        check (kv_name (entries snapshot ! 0) = ''X'');
        check (kv_value (entries snapshot ! 0) = ''y'')
      })"

lemma host_context_tests:
  "builds_init_context_with_metadata = Some ()" "builds_init_context_without_parent_directory = Some ()"
  "validates_manifest = Some ()" "collects_env_snapshot = Some ()"
  by code_simp+

lemma host_modules_test: "loads_and_shuts_down_all_protocol_modules = Some ()"
  by code_simp

lemma host_reject_test: "rejects_incompatible_manifest_versions = Some ()"
  by code_simp

section \<open>The runtime\<close>

text \<open>The file the tests write at their temporary path: an empty line and then the settings, \<open>k = "v"\<close>
  each.\<close>

definition written :: "string \<Rightarrow> (string \<times> string) list \<Rightarrow> filesystem" where
  "written path kvs =
     \<lparr>read_to_string = (\<lambda>p. if p = path
        then Ok (CHR 0x0A # concat (map (\<lambda>(k, v). config_text k v @ [CHR 0x0A]) kvs)) else Err ''not found''),
      is_dir = (\<lambda>_. False), is_file = (\<lambda>p. p = path), read_dir = (\<lambda>_. Err ''not a directory'')\<rparr>"

definition parse_plugin_paths_splits_and_trims_entries :: "unit option" where
  "parse_plugin_paths_splits_and_trims_entries =
     check (parse_plugin_paths ''  /tmp/one ; ; /tmp/two  '' '';'' = [''/tmp/one'', ''/tmp/two''])"

definition parse_config_file_reads_listen_addr_and_plugins :: "string \<Rightarrow> unit option" where
  "parse_config_file_reads_listen_addr_and_plugins path = do {
     let fs = written path [(''http_listen_addr'', ''127.0.0.1:9090''), (''plugin_paths'', ''./one; ./two'')];
     config \<leftarrow> result_ok (parse_config_file fs path);
     check (o_http_listen_addr config = Some ''127.0.0.1:9090'');
     check (map_option length (o_plugin_paths config) = Some 2)
   }"

text \<open>\<open>expect_err\<close> and the assertion about the message.\<close>

definition expect_message :: "('a, string) result \<Rightarrow> string \<Rightarrow> unit option" where
  "expect_message r m = (case r of Ok _ \<Rightarrow> None | Err e \<Rightarrow> check (text_contains (map of_char e) m))"

definition parse_config_file_rejects_unknown_keys :: "string \<Rightarrow> unit option" where
  "parse_config_file_rejects_unknown_keys path =
     expect_message (parse_config_file (written path
       [(''http_listen_addr'', ''127.0.0.1:9090''), (''bogus'', ''nope'')]) path) ''unknown config key bogus''"

definition parse_config_file_rejects_duplicate_keys :: "string \<Rightarrow> unit option" where
  "parse_config_file_rejects_duplicate_keys path =
     expect_message (parse_config_file (written path
       [(''http_listen_addr'', ''127.0.0.1:9090''), (''http_listen_addr'', ''127.0.0.1:9091'')]) path)
       ''duplicate http_listen_addr''"

definition parse_config_file_rejects_invalid_listen_addr :: "string \<Rightarrow> unit option" where
  "parse_config_file_rejects_invalid_listen_addr path =
     expect_message (parse_config_file (written path [(''http_listen_addr'', ''not-an-addr'')]) path)
       ''invalid http_listen_addr value''"

definition parse_config_file_rejects_empty_plugin_path_segments :: "string \<Rightarrow> unit option" where
  "parse_config_file_rejects_empty_plugin_path_segments path =
     expect_message (parse_config_file (written path [(''plugin_paths'', ''./one;;./two'')]) path)
       ''invalid empty plugin path entry''"

definition build_accepts_empty_plugin_list ::
  "filesystem \<Rightarrow> (string \<Rightarrow> ('w dylib, string) result) \<Rightarrow> (string \<times> string) list \<Rightarrow> 'w world \<Rightarrow> unit option" where
  "build_accepts_empty_plugin_list fs dlopen vars W = do {
     (r, W) \<leftarrow> runtime_build fs dlopen vars
       \<lparr>http_listen_addr = ''127.0.0.1:0'', tcp_listen_addr = ''127.0.0.1:1'', udp_listen_addr = ''127.0.0.1:2'',
        plugin_paths = []\<rparr> W;
     result_ok r;
     Some ()
   }"

definition from_env_prefers_config_file_over_env_defaults :: "environment \<Rightarrow> string \<Rightarrow> unit option" where
  "from_env_prefers_config_file_over_env_defaults e path = do {
     let fs = written path [(''http_listen_addr'', ''127.0.0.1:9091''), (''plugin_paths'', ''./alpha;./beta'')];
     let e = e(''VAKIL_CONFIG'' \<mapsto> path, ''VAKIL_LISTEN_ADDR'' \<mapsto> ''127.0.0.1:9999'',
       ''VAKIL_PLUGIN_PATHS'' \<mapsto> ''./ignored'', ''VAKIL_PATH_SEP'' \<mapsto> '';'');
     config \<leftarrow> result_ok (config_from_env e fs);
     check (http_listen_addr config = ''127.0.0.1:9091'');
     check (plugin_paths config = [''./alpha'', ''./beta''])
   }"

lemma plugin_paths_test: "parse_plugin_paths_splits_and_trims_entries = Some ()"
  by code_simp

lemma written_lines:
  assumes "\<forall>(k, v) \<in> set kvs. CHR 0x0A \<notin> set k \<and> CHR 0x0A \<notin> set v"
  shows "parse_config_file (written path kvs) path =
    config_lines path (map (\<lambda>(k, v). config_text k v) kvs) no_overrides"
proof -
  have "str_lines (CHR 0x0A # s) = [] # str_lines s" for s
    by (simp add: str_lines_def strip_suffix_def strip_prefix_def)
  moreover have "config_line path [] ov = Ok ov" for ov
    by (simp add: config_line_def trim_def trim_start_def trim_end_def)
  ultimately show ?thesis
    by (simp add: parse_config_file_def written_def str_lines_config[OF assms])
qed

lemma test_addrs:
  "parse_socket_addr ''127.0.0.1:9090'' = Some (socket_addr_new (V4 127 0 0 1) 9090)"
  "parse_socket_addr ''127.0.0.1:9091'' = Some (socket_addr_new (V4 127 0 0 1) 9091)"
  "parse_socket_addr ''not-an-addr'' = None"
proof -
  have "show_socket_v4 127 0 0 1 9090 = ''127.0.0.1:9090''" "show_socket_v4 127 0 0 1 9091 = ''127.0.0.1:9091''"
    by (simp_all add: show_socket_v4_def show_v4_def show_nat.simps digit_char_def char_of_def bit_0)
  then show "parse_socket_addr ''127.0.0.1:9090'' = Some (socket_addr_new (V4 127 0 0 1) 9090)"
    "parse_socket_addr ''127.0.0.1:9091'' = Some (socket_addr_new (V4 127 0 0 1) 9091)"
    using parse_socket_addr_show[of 127 0 0 1 9090] parse_socket_addr_show[of 127 0 0 1 9091] by simp_all
  show "parse_socket_addr ''not-an-addr'' = None" by code_simp
qed

lemma test_paths:
  "parse_plugin_paths_strict ''./one; ./two'' = Ok [''./one'', ''./two'']"
  "parse_plugin_paths_strict ''./alpha;./beta'' = Ok [''./alpha'', ''./beta'']"
  "parse_plugin_paths_strict ''./one;;./two'' = Err ''invalid empty plugin path entry at position 2''"
  by code_simp+

lemma bogus_plain: "plain_key ''bogus''"
  by (simp add: plain_key_def trimmed_def is_whitespace_def)

lemmas test_lines = written_lines config_line_text plain_keys bogus_plain test_addrs test_paths no_overrides_def

lemma config_tests:
  "parse_config_file (written path [(''http_listen_addr'', ''127.0.0.1:9090''), (''plugin_paths'', ''./one; ./two'')]) path =
     Ok \<lparr>o_http_listen_addr = Some ''127.0.0.1:9090'', o_plugin_paths = Some [''./one'', ''./two'']\<rparr>"
  "parse_config_file (written path [(''http_listen_addr'', ''127.0.0.1:9091''), (''plugin_paths'', ''./alpha;./beta'')]) path =
     Ok \<lparr>o_http_listen_addr = Some ''127.0.0.1:9091'', o_plugin_paths = Some [''./alpha'', ''./beta'']\<rparr>"
  by (simp_all add: test_lines)

lemma config_error_tests:
  "parse_config_file (written path [(''http_listen_addr'', ''127.0.0.1:9090''), (''bogus'', ''nope'')]) path =
     Err (''unknown config key bogus in '' @ path)"
  "parse_config_file (written path [(''http_listen_addr'', ''127.0.0.1:9090''), (''http_listen_addr'', ''127.0.0.1:9091'')]) path =
     Err (''duplicate http_listen_addr in config file: '' @ path)"
  "parse_config_file (written path [(''http_listen_addr'', ''not-an-addr'')]) path =
     Err (''invalid http_listen_addr value in '' @ path)"
  "parse_config_file (written path [(''plugin_paths'', ''./one;;./two'')]) path =
     Err (''invalid empty plugin path entry at position 2'' @ [])"
  by (simp_all add: test_lines)

lemma expect_message_prefix:
  assumes "text_contains (map of_char a) m"
  shows "expect_message (Err (a @ b)) m = Some ()"
proof -
  from assms have "sublist (map of_char m) (map of_char a :: nat list)" by (simp add: text_contains_sublist)
  then have "sublist (map of_char m) (map of_char a @ map of_char b :: nat list)"
    by (rule sublist_order.order_trans) simp
  then show ?thesis by (simp add: expect_message_def text_contains_sublist)
qed

lemma messages_contain:
  "text_contains (map of_char ''unknown config key bogus in '') ''unknown config key bogus''"
  "text_contains (map of_char ''duplicate http_listen_addr in config file: '') ''duplicate http_listen_addr''"
  "text_contains (map of_char ''invalid http_listen_addr value in '') ''invalid http_listen_addr value''"
  "text_contains (map of_char ''invalid empty plugin path entry at position 2'') ''invalid empty plugin path entry''"
  by code_simp+

lemma runtime_unit_tests:
  "parse_plugin_paths_splits_and_trims_entries = Some () \<and>
   parse_config_file_reads_listen_addr_and_plugins path = Some () \<and>
   parse_config_file_rejects_unknown_keys path = Some () \<and>
   parse_config_file_rejects_duplicate_keys path = Some () \<and>
   parse_config_file_rejects_invalid_listen_addr path = Some () \<and>
   parse_config_file_rejects_empty_plugin_path_segments path = Some () \<and>
   build_accepts_empty_plugin_list fs dlopen vars W = Some () \<and>
   from_env_prefers_config_file_over_env_defaults e path = Some ()"
proof -
  have "parse_config_file_reads_listen_addr_and_plugins path = Some ()"
    by (simp add: parse_config_file_reads_listen_addr_and_plugins_def config_tests)
  moreover have "parse_config_file_rejects_unknown_keys path = Some ()"
    unfolding parse_config_file_rejects_unknown_keys_def config_error_tests by (rule expect_message_prefix) (rule messages_contain)
  moreover have "parse_config_file_rejects_duplicate_keys path = Some ()"
    unfolding parse_config_file_rejects_duplicate_keys_def config_error_tests by (rule expect_message_prefix) (rule messages_contain)
  moreover have "parse_config_file_rejects_invalid_listen_addr path = Some ()"
    unfolding parse_config_file_rejects_invalid_listen_addr_def config_error_tests by (rule expect_message_prefix) (rule messages_contain)
  moreover have "parse_config_file_rejects_empty_plugin_path_segments path = Some ()"
    unfolding parse_config_file_rejects_empty_plugin_path_segments_def config_error_tests by (rule expect_message_prefix) (rule messages_contain)
  moreover have "build_accepts_empty_plugin_list fs dlopen vars W = Some ()"
    by (simp add: build_accepts_empty_plugin_list_def runtime_build_def load_plugins_def)
  moreover have "from_env_prefers_config_file_over_env_defaults e path = Some ()"
    by (simp add: from_env_prefers_config_file_over_env_defaults_def config_from_env_def Let_def
        config_tests)
  ultimately show ?thesis by (simp add: plugin_paths_test)
qed

text \<open>The model passes the unit tests of the plugin interface, the plugin host and the runtime, whatever the
  temporary path a config file is written to, the rest of the environment, the loader and the state
  of the world: module defaults and the calls of the module trait; the init context with its version,
  directory and environment, the manifest check, one init and one shutdown per module of a plugin; and
  the parsers of plugin paths and config files accept and reject what the tests say, with the
  messages they look for, a runtime without plugins builds, and the config file wins over the
  environment.\<close>

lemma crate_unit_tests:
  "default_modules_start_empty = Some () \<and> module_trait_methods_invoke_callbacks = Some () \<and>
   builds_init_context_with_metadata = Some () \<and> builds_init_context_without_parent_directory = Some () \<and>
   validates_manifest = Some () \<and> loads_and_shuts_down_all_protocol_modules = Some () \<and>
   rejects_incompatible_manifest_versions = Some () \<and> collects_env_snapshot = Some () \<and>
   parse_plugin_paths_splits_and_trims_entries = Some () \<and>
   parse_config_file_reads_listen_addr_and_plugins path = Some () \<and>
   parse_config_file_rejects_unknown_keys path = Some () \<and>
   parse_config_file_rejects_duplicate_keys path = Some () \<and>
   parse_config_file_rejects_invalid_listen_addr path = Some () \<and>
   parse_config_file_rejects_empty_plugin_path_segments path = Some () \<and>
   build_accepts_empty_plugin_list fs dlopen vars W = Some () \<and>
   from_env_prefers_config_file_over_env_defaults e path = Some ()"
  by (simp add: api_unit_tests host_context_tests host_modules_test host_reject_test runtime_unit_tests)

end
