(* ===== verification/Plugin_Unit_Tests.thy ===== *)
theory Plugin_Unit_Tests
  imports Vakil_Unit_Tests Plugin_Noop Plugin_Http_Mw Plugin_Sticky
begin

text \<open>
  The unit tests of the three plugins, run on the model: the \<open>tests\<close> modules of \<open>plugins/example-http-mw\<close>,
  \<open>plugins/example-noop\<close> and \<open>plugins/example-l4-sticky\<close>. As in \<open>Vakil_Unit_Tests\<close> a test is a value of type
  \<open>unit option\<close>. The null pointer is \<open>None\<close>; a pointer to the test's own context is \<open>Some\<close> of it, and what
  the context is afterwards is the first component of the callback's result.
\<close>

section \<open>example-http-mw\<close>

definition mw_sample_init_context :: "kv_pair list \<Rightarrow> plugin_init_context" where
  "mw_sample_init_context es =
     \<lparr>library_path = ''/tmp/example-http-mw.so'', plugin_dir = Some ''/tmp'',
      host_version = \<lparr>major = 1, minor = 0, patch = 0\<rparr>, env = \<lparr>entries = es\<rparr>\<rparr>"

definition mw_sample_http_context :: "string \<Rightarrow> http_context" where
  "mw_sample_http_context path = http_context_default
     \<lparr>request := Some \<lparr>req_stream_id = ID 1, req_version = Http11, is_tls = False, req_method = ''GET'',
        authority = ''example.test'', req_path = path, req_headers = headers_new, req_body = bytes_new\<rparr>,
      response := None\<rparr>"

definition mw_start :: mw_state where
  "mw_start = \<lparr>request_counter = 0\<rparr>"

definition exports_http_only :: "u64 \<Rightarrow> unit option" where
  "exports_http_only handle =
     (let rt = mw_get_library handle
      in do {
        check (\<not> Option.is_none (create_http rt));
        check (Option.is_none (create_tcp rt));
        check (Option.is_none (create_udp rt));
        check (man_name (manifest rt) = ''example-http-mw'')
      })"

definition local_reply_is_set_for_local_reply_path :: "u64 \<Rightarrow> unit option" where
  "local_reply_is_set_for_local_reply_path handle = do {
     (r, w) \<leftarrow> mw_create_http handle mw_start;
     module \<leftarrow> result_ok r;
     (p, r, w) \<leftarrow> mw_on_request_headers (http_instance module) (Some (mw_sample_http_context ''/local-reply'')) w;
     outcome \<leftarrow> result_ok r;
     ctx \<leftarrow> p;
     check (hook_action_u8 (action outcome) = hook_action_u8 Replace);
     check (\<not> Option.is_none (response ctx))
   }"

definition init_loads_backend_from_env_and_routes_upstream :: "u64 \<Rightarrow> unit option" where
  "init_loads_backend_from_env_and_routes_upstream handle = do {
     (r, w) \<leftarrow> mw_create_http handle mw_start;
     module \<leftarrow> result_ok r;
     let init_context = mw_sample_init_context [\<lparr>kv_name = ''VAKIL_HTTP_MW_BACKEND'', kv_value = ''127.0.0.1:8089''\<rparr>];
     (r, w) \<leftarrow> mw_http_init (http_instance module) (Some init_context) w;
     result_ok r;
     (p, r, w) \<leftarrow> mw_on_route (http_instance module) (Some (mw_sample_http_context '''')) w;
     decision \<leftarrow> result_ok r;
     check (hook_action_u8 (action decision) = route_action_u8 ReplaceUpstream)
   }"

definition response_callbacks_are_callable :: "u64 \<Rightarrow> unit option" where
  "response_callbacks_are_callable handle = do {
     (r, w) \<leftarrow> mw_create_http handle mw_start;
     module \<leftarrow> result_ok r;
     let ctx = (mw_sample_http_context ''/live'')\<lparr>response := Some \<lparr>resp_stream_id = ID 1, resp_version = Http11,
       status = 200, resp_headers = headers_new, resp_body = utf8 ''hello''\<rparr>\<rparr>;
     (ctx, r, w) \<leftarrow> mw_on_response_headers (http_instance module) (Some ctx) w;
     result_ok r;
     (ctx, r, w) \<leftarrow> mw_on_response_body (http_instance module) ctx w;
     result_ok r;
     (ctx, r, w) \<leftarrow> mw_on_trailers (http_instance module) ctx w;
     result_ok r;
     (ctx, r, w) \<leftarrow> mw_on_local_reply (http_instance module) ctx w;
     result_ok r;
     (ctx, r, w) \<leftarrow> mw_on_request_body (http_instance module) ctx w;
     result_ok r;
     Some ()
   }"

lemma mw_unit_tests:
  "exports_http_only handle = Some ()" "local_reply_is_set_for_local_reply_path handle = Some ()"
  "response_callbacks_are_callable handle = Some ()"
  by (simp_all add: exports_http_only_def mw_get_library_def local_reply_is_set_for_local_reply_path_def
      response_callbacks_are_callable_def mw_create_http_def mw_http_module_def mw_sample_http_context_def default_simps
      mw_on_request_headers_def mw_on_response_headers_def mw_on_response_body_def mw_on_trailers_def
      mw_on_local_reply_def mw_on_request_body_def)

text \<open>The test of the route panics: its context has no transport metadata, so the hook cannot set the route.\<close>

lemma mw_route_test_panics: "init_loads_backend_from_env_and_routes_upstream handle = None"
  by (simp add: init_loads_backend_from_env_and_routes_upstream_def mw_create_http_def mw_http_module_def
      mw_http_init_def mw_on_route_def mw_sample_http_context_def default_simps set_route_def mw_start_def)

section \<open>example-noop\<close>

definition noop_sample_init_context :: plugin_init_context where
  "noop_sample_init_context =
     \<lparr>library_path = ''/tmp/example-noop.so'', plugin_dir = Some ''/tmp'',
      host_version = \<lparr>major = 1, minor = 0, patch = 0\<rparr>, env = \<lparr>entries = []\<rparr>\<rparr>"

definition noop_sample_http_context :: "string \<Rightarrow> http_context" where
  "noop_sample_http_context path = http_context_default
     \<lparr>request := Some \<lparr>req_stream_id = ID 1, req_version = Http11, is_tls = False, req_method = ''GET'',
        authority = ''example.com'', req_path = path, req_headers = headers_new, req_body = []\<rparr>,
      response := None\<rparr>"

definition noop_sample_connection :: "transport_protocol \<Rightarrow> transport_context" where
  "noop_sample_connection p =
     \<lparr>connection = \<lparr>conn_id = ID 1, local_addr = \<lparr>sa_host = ''127.0.0.1'', sa_port = 8080\<rparr>,
        peer_addr = Some \<lparr>sa_host = ''127.0.0.1'', sa_port = 54321\<rparr>, protocol = p\<rparr>,
      direction = None, route = route_decision_default\<rparr>"

definition noop_sample_tcp_context :: tcp_context where
  "noop_sample_tcp_context = \<lparr>chunk = Some [1, 2, 3, 4], tcp_meta = noop_sample_connection Tcp\<rparr>"

definition noop_sample_udp_context :: udp_context where
  "noop_sample_udp_context = \<lparr>datagram = Some [1, 2, 3, 4], udp_meta = noop_sample_connection Udp\<rparr>"

text \<open>One call of a hook that must give \<open>Continue\<close>.\<close>

definition expect_continue ::
  "('c, 'w) hook_fn \<Rightarrow> inst_ptr \<Rightarrow> 'c option \<Rightarrow> 'w \<Rightarrow> ('c option \<times> 'w) option" where
  "expect_continue hook inst ctx w = do {
     (ctx, r, w) \<leftarrow> hook inst ctx w;
     outcome \<leftarrow> result_ok r;
     check (hook_action_u8 (action outcome) = hook_action_u8 Continue);
     Some (ctx, w)
   }"

definition get_library_exports_all_protocol_modules :: "'w \<Rightarrow> unit option" where
  "get_library_exports_all_protocol_modules w = do {
     check (man_name (manifest (noop_get_library :: 'w plugin_root_module)) = ''example-noop'');
     (r, w) \<leftarrow> noop_create_http w;
     check (is_ok r);
     (r, w) \<leftarrow> noop_create_tcp w;
     check (is_ok r);
     (r, w) \<leftarrow> noop_create_udp w;
     check (is_ok r)
   }"

definition http_callbacks_are_callable_with_real_and_null_contexts :: "'w \<Rightarrow> unit option" where
  "http_callbacks_are_callable_with_real_and_null_contexts w =
     (let module = noop_http_module :: 'w plugin_http_module
      in do {
        (r, w) \<leftarrow> http_init module (http_instance module) (Some noop_sample_init_context) w;
        check (is_ok r);
        (r, w) \<leftarrow> http_init module (http_instance module) None w;
        check (is_ok r);
        (_, w) \<leftarrow> expect_continue example_on_http_event (http_instance module)
          (Some (noop_sample_http_context ''/health'')) w;
        (_, w) \<leftarrow> expect_continue example_on_http_event (http_instance module) None w;
        http_shutdown module (http_instance module) w;
        Some ()
      })"

definition http_request_can_short_circuit_with_local_reply :: "'w \<Rightarrow> unit option" where
  "http_request_can_short_circuit_with_local_reply w = do {
     (p, r, w) \<leftarrow> example_on_http_event (http_instance (noop_http_module :: 'w plugin_http_module))
       (Some (noop_sample_http_context ''/local-reply'')) w;
     outcome \<leftarrow> result_ok r;
     check (hook_action_u8 (action outcome) = hook_action_u8 Replace);
     ctx \<leftarrow> p;
     resp \<leftarrow> response ctx;
     check (status resp = 200);
     check (resp_body resp = utf8 ''hello from example-noop'')
   }"

definition tcp_callbacks_are_callable :: "'w \<Rightarrow> unit option" where
  "tcp_callbacks_are_callable w =
     (let module = noop_tcp_module :: 'w plugin_tcp_module
      in do {
        (r, w) \<leftarrow> tcp_init module (tcp_instance module) (Some noop_sample_init_context) w;
        check (is_ok r);
        (_, w) \<leftarrow> expect_continue example_on_tcp_event (tcp_instance module) (Some noop_sample_tcp_context) w;
        (_, w) \<leftarrow> expect_continue example_on_tcp_event (tcp_instance module) None w;
        tcp_shutdown module (tcp_instance module) w;
        Some ()
      })"

definition udp_callbacks_are_callable :: "'w \<Rightarrow> unit option" where
  "udp_callbacks_are_callable w =
     (let module = noop_udp_module :: 'w plugin_udp_module
      in do {
        (r, w) \<leftarrow> udp_init module (udp_instance module) (Some noop_sample_init_context) w;
        check (is_ok r);
        (_, w) \<leftarrow> expect_continue example_on_udp_event (udp_instance module) (Some noop_sample_udp_context) w;
        (_, w) \<leftarrow> expect_continue example_on_udp_event (udp_instance module) None w;
        udp_shutdown module (udp_instance module) w;
        Some ()
      })"

definition abi_decision_types_are_still_noop_shaped :: "unit option" where
  "abi_decision_types_are_still_noop_shaped =
     (let decision = route_decision_default\<lparr>upstream_to_set := None, route_action := Keep\<rparr>;
          hook = \<lparr>action = Continue\<rparr>
      in do {
        check (route_action_u8 (route_action decision) = route_action_u8 Keep);
        check (hook_action_u8 (action hook) = hook_action_u8 Continue)
      })"

lemmas noop_test_defs = get_library_exports_all_protocol_modules_def
  http_callbacks_are_callable_with_real_and_null_contexts_def http_request_can_short_circuit_with_local_reply_def
  tcp_callbacks_are_callable_def udp_callbacks_are_callable_def abi_decision_types_are_still_noop_shaped_def
  expect_continue_def noop_sample_http_context_def noop_sample_tcp_context_def noop_sample_udp_context_def

lemma noop_unit_tests:
  "get_library_exports_all_protocol_modules w = Some ()"
  "http_callbacks_are_callable_with_real_and_null_contexts w = Some ()"
  "http_request_can_short_circuit_with_local_reply w = Some ()"
  "tcp_callbacks_are_callable w = Some ()" "udp_callbacks_are_callable w = Some ()"
  "abi_decision_types_are_still_noop_shaped = Some ()"
  by (simp_all add: noop_test_defs noop_module_defs noop_http_event_simps example_on_http_event_def
      example_on_tcp_event_def example_on_udp_event_def default_simps noop_reply_def)

section \<open>example-l4-sticky\<close>

text \<open>
  \<open>init_context\<close> with the optional paths as strings. The file system of a test is the content of the one
  file it writes; the TOML parser and the hash are arguments, as in the plugin's model.
\<close>

definition sticky_init_context :: "string option \<Rightarrow> string option \<Rightarrow> plugin_init_context" where
  "sticky_init_context config_path dir =
     \<lparr>library_path = ''/tmp/libexample-l4-sticky.so'', plugin_dir = dir,
      host_version = \<lparr>major = 1, minor = 0, patch = 0\<rparr>,
      env = \<lparr>entries = (case config_path of
        Some path \<Rightarrow> [\<lparr>kv_name = config_env, kv_value = path\<rparr>] | None \<Rightarrow> [])\<rparr>\<rparr>"

definition only_file :: "string \<Rightarrow> string \<Rightarrow> reader" where
  "only_file path contents = (\<lambda>p. if p = path then Ok contents else Err ''No such file or directory (os error 2)'')"

definition manifest_exports_tcp_and_udp ::
  "reader \<Rightarrow> toml_parser \<Rightarrow> (u64 list \<Rightarrow> u64) \<Rightarrow> sticky_world \<Rightarrow> unit option" where
  "manifest_exports_tcp_and_udp read toml alloc w =
     (let lib = sticky_get_library read toml alloc
      in do {
        check (man_name (manifest lib) = ''example-l4-sticky'');
        create \<leftarrow> create_tcp lib;
        (r, w) \<leftarrow> create w;
        check (is_ok r);
        create \<leftarrow> create_udp lib;
        (r, w) \<leftarrow> create w;
        check (is_ok r)
      })"

definition parses_config_and_selects_shared_backend_for_tcp_and_udp :: "(bytes \<Rightarrow> u64) \<Rightarrow> unit option" where
  "parses_config_and_selects_shared_backend_for_tcp_and_udp xxh3 = do {
     config \<leftarrow> result_ok (try_from \<lparr>fc_ttl_secs = default_ttl_secs,
       fc_fallback_backends = [''127.0.0.1:9001'', ''127.0.0.1:9002''],
       fc_listeners = [\<lparr>lc_name = ''listener-a'', lc_backends = [''127.0.0.1:9101'', ''127.0.0.1:9102'']\<rparr>]\<rparr>);
     ip \<leftarrow> parse_client_ip ''192.0.2.10:54321'';
     tcp_backend \<leftarrow> choose_backend xxh3 ''listener-a'' ip (pool_for_listener config ''listener-a'');
     udp_backend \<leftarrow> choose_backend xxh3 ''listener-a'' ip (pool_for_listener config ''listener-a'');
     check (tcp_backend = udp_backend);
     check (tcp_backend \<in> set (pool_for_listener config ''listener-a''))
   }"

definition validate_backend_list_normalization :: "unit option" where
  "validate_backend_list_normalization = do {
     backends \<leftarrow> result_ok (normalize_backends ['' 127.0.0.1:9001 ''] ''test backends'');
     check (backends = [''127.0.0.1:9001''])
   }"

definition config_rejects_empty_backend_pool :: "unit option" where
  "config_rejects_empty_backend_pool =
     (case try_from \<lparr>fc_ttl_secs = default_ttl_secs, fc_fallback_backends = [], fc_listeners = []\<rparr> of
        Ok _ \<Rightarrow> None
      | Err e \<Rightarrow> check (text_contains (map of_char (plugin_error_message e)) ''must define at least one listener pool''))"

definition route_context_uses_client_ip_not_port :: "(bytes \<Rightarrow> u64) \<Rightarrow> unit option" where
  "route_context_uses_client_ip_not_port xxh3 = do {
     ip1 \<leftarrow> parse_client_ip ''192.0.2.10:10000'';
     ip2 \<leftarrow> parse_client_ip ''192.0.2.10:20000'';
     config \<leftarrow> result_ok (try_from \<lparr>fc_ttl_secs = default_ttl_secs,
       fc_fallback_backends = [''127.0.0.1:9001'', ''127.0.0.1:9002''], fc_listeners = []\<rparr>);
     let pool = pool_for_listener config ''missing-listener'';
     backend1 \<leftarrow> choose_backend xxh3 ''listener-a'' ip1 pool;
     backend2 \<leftarrow> choose_backend xxh3 ''listener-a'' ip2 pool;
     check (backend1 = backend2)
   }"

definition resolve_config_path_prefers_env_then_plugin_dir_then_default :: "string \<Rightarrow> unit option" where
  "resolve_config_path_prefers_env_then_plugin_dir_then_default tempdir =
     (let env_config = path_join tempdir ''env.toml'';
          dir = path_join tempdir ''plugin''
      in do {
        check (resolve_config_path (sticky_init_context (Some env_config) (Some dir)) = env_config);
        check (resolve_config_path (sticky_init_context None (Some dir)) = path_join dir ''sticky-l4.toml'');
        check (resolve_config_path (sticky_init_context None None) = ''sticky-l4.toml'')
      })"

text \<open>The text of the test's config file.\<close>

definition nl :: string where
  "nl = [CHR 0x0A]"

definition sticky_test_toml :: string where
  "sticky_test_toml = '''' @ nl @
     ''ttl_secs = 30'' @ nl @
     ''fallback_backends = ['' @ [quote] @ ''127.0.0.1:9001'' @ [quote] @ '', '' @ [quote] @ ''127.0.0.1:9002'' @ [quote] @ '']'' @ nl @
     '''' @ nl @
     ''['' @ ''[listeners]'' @ '']'' @ nl @
     ''name = '' @ [quote] @ ''listener-a'' @ [quote] @ nl @
     ''backends = ['' @ [quote] @ ''127.0.0.1:9101'' @ [quote] @ '', '' @ [quote] @ ''127.0.0.1:9102'' @ [quote] @ '']'' @ nl"

text \<open>What the parser is to find in the text of the test's config file.\<close>

definition sticky_test_raw :: raw_config where
  "sticky_test_raw = \<lparr>raw_ttl_secs = Some 30, raw_fallback_backends = Some [''127.0.0.1:9001'', ''127.0.0.1:9002''],
     raw_listeners = Some [\<lparr>lc_name = ''listener-a'', lc_backends = [''127.0.0.1:9101'', ''127.0.0.1:9102'']\<rparr>]\<rparr>"

definition load_state_and_entrypoints_cover_route_and_transport_hooks ::
  "string \<Rightarrow> toml_parser \<Rightarrow> (bytes \<Rightarrow> u64) \<Rightarrow> (u64 list \<Rightarrow> u64) \<Rightarrow> nat \<Rightarrow> nat \<Rightarrow> unit option" where
  "load_state_and_entrypoints_cover_route_and_transport_hooks tempdir toml xxh3 alloc now1 now2 = do {
     let config_path = path_join tempdir ''sticky-l4.toml'';
     let read = only_file config_path sticky_test_toml;
     let ctx = sticky_init_context (Some config_path) None;
     state \<leftarrow> result_ok (load_state read toml ctx);
     let ip = V4 192 0 2 10;
     (r, state) \<leftarrow> select_backend xxh3 state ''listener-a'' ip now1;
     backend \<leftarrow> result_ok r;
     check (backend = ''127.0.0.1:9101'' \<or> backend = ''127.0.0.1:9102'');
     (r, state) \<leftarrow> select_backend xxh3 state ''listener-a'' ip now2;
     cached_backend \<leftarrow> result_ok r;
     check (backend = cached_backend);
     let w = \<lparr>global_init = shared_init_default, handles = []\<rparr>;
     (r, w) \<leftarrow> sticky_init read toml Null (Some ctx) w;
     check (\<not> is_ok r);
     (r, w) \<leftarrow> sticky_create_tcp read toml alloc w;
     tcp_module \<leftarrow> result_ok r;
     (r, w) \<leftarrow> sticky_create_udp read toml alloc w;
     udp_module \<leftarrow> result_ok r;
     (r, w) \<leftarrow> tcp_init tcp_module (tcp_instance tcp_module) (Some ctx) w;
     check (is_ok r);
     (r, w) \<leftarrow> udp_init udp_module (udp_instance udp_module) (Some ctx) w;
     check (is_ok r);
     hook \<leftarrow> on_connect tcp_module;
     (_, w) \<leftarrow> expect_continue hook (tcp_instance tcp_module) None w;
     hook \<leftarrow> on_data tcp_module;
     (_, w) \<leftarrow> expect_continue hook (tcp_instance tcp_module) None w;
     hook \<leftarrow> on_half_close tcp_module;
     (_, w) \<leftarrow> expect_continue hook (tcp_instance tcp_module) None w;
     hook \<leftarrow> on_close tcp_module;
     (_, w) \<leftarrow> expect_continue hook (tcp_instance tcp_module) None w;
     hook \<leftarrow> on_datagram udp_module;
     (_, w) \<leftarrow> expect_continue hook (udp_instance udp_module) None w;
     hook \<leftarrow> on_session_start udp_module;
     (_, w) \<leftarrow> expect_continue hook (udp_instance udp_module) None w;
     hook \<leftarrow> on_session_end udp_module;
     (_, w) \<leftarrow> expect_continue hook (udp_instance udp_module) None w;
     (_, w) \<leftarrow> sticky_shutdown Null w;
     (_, w) \<leftarrow> sticky_shutdown (tcp_instance tcp_module) w;
     (_, w) \<leftarrow> sticky_shutdown (udp_instance udp_module) w;
     Some ()
   }"

definition ensure_state_caches_init_failures :: "string \<Rightarrow> toml_parser \<Rightarrow> unit option" where
  "ensure_state_caches_init_failures tempdir toml =
     (let read = (\<lambda>_. Err ''No such file or directory (os error 2)'');
          ctx = sticky_init_context (Some (path_join tempdir ''missing.toml'')) None;
          slot = shared_init_default;
          (first, slot) = ensure_state read toml slot ctx;
          (second, slot) = ensure_state read toml slot ctx
      in (case (first, second) of
            (Err e, Err e') \<Rightarrow> do {
              check (text_contains (map of_char (plugin_error_message e)) ''failed to read sticky config'');
              check (plugin_error_message e = plugin_error_message e')
            }
          | _ \<Rightarrow> None))"

lemma sticky_test_ips:
  "parse_client_ip ''192.0.2.10:54321'' = Some (V4 192 0 2 10)" "parse_client_ip ''192.0.2.10:10000'' = Some (V4 192 0 2 10)"
  "parse_client_ip ''192.0.2.10:20000'' = Some (V4 192 0 2 10)"
proof -
  have "show_socket_v4 192 0 2 10 54321 = ''192.0.2.10:54321''" "show_socket_v4 192 0 2 10 10000 = ''192.0.2.10:10000''"
    "show_socket_v4 192 0 2 10 20000 = ''192.0.2.10:20000''"
    by (simp_all add: show_socket_v4_def show_v4_def show_nat.simps digit_char_def char_of_def bit_0)
  then show "parse_client_ip ''192.0.2.10:54321'' = Some (V4 192 0 2 10)"
    "parse_client_ip ''192.0.2.10:10000'' = Some (V4 192 0 2 10)" "parse_client_ip ''192.0.2.10:20000'' = Some (V4 192 0 2 10)"
    using parse_socket_addr_show[of 192 0 2 10 54321] parse_socket_addr_show[of 192 0 2 10 10000]
      parse_socket_addr_show[of 192 0 2 10 20000]
    by (simp_all add: parse_client_ip_def socket_addr_new_def)
qed

lemmas sticky_config_defs = try_from_def normalize_value_def normalize_backends_def trim_def trim_start_def trim_end_def
  is_whitespace_def default_ttl_secs_def pool_for_listener_def

lemma sticky_choice_tests:
  "parses_config_and_selects_shared_backend_for_tcp_and_udp xxh3 = Some ()"
  "route_context_uses_client_ip_not_port xxh3 = Some ()"
  "validate_backend_list_normalization = Some ()"
  by (simp_all add: parses_config_and_selects_shared_backend_for_tcp_and_udp_def route_context_uses_client_ip_not_port_def
      validate_backend_list_normalization_def sticky_test_ips sticky_config_defs choose_backend_def nth_Cons')

lemma sticky_empty_test: "config_rejects_empty_backend_pool = Some ()"
  by code_simp

lemma sticky_path_tests:
  "resolve_config_path_prefers_env_then_plugin_dir_then_default tempdir = Some ()"
  "manifest_exports_tcp_and_udp read toml alloc w = Some ()"
  by (simp_all add: resolve_config_path_prefers_env_then_plugin_dir_then_default_def resolve_config_path_def
      sticky_init_context_def env_value_def manifest_exports_tcp_and_udp_def sticky_get_library_def
      sticky_create_tcp_def sticky_create_udp_def split: prod.split)

lemma sticky_cache_test:
  "ensure_state_caches_init_failures tempdir toml = Some ()"
proof -
  let ?e = "''failed to read sticky config '' @ path_join tempdir ''missing.toml'' @ '': No such file or directory (os error 2)''"
  have "text_contains (map of_char ''failed to read sticky config '') ''failed to read sticky config''"
    by code_simp
  from expect_message_prefix[OF this, of "path_join tempdir ''missing.toml'' @ '': No such file or directory (os error 2)''"]
  have "text_contains (map of_char ?e) ''failed to read sticky config''" by (simp add: expect_message_def)
  moreover have "resolve_config_path (sticky_init_context (Some p) None) = p" for p
    by (simp add: resolve_config_path_def sticky_init_context_def env_value_def)
  ultimately show ?thesis
    by (simp add: ensure_state_caches_init_failures_def ensure_state_def load_state_def shared_init_default_def
        make_plugin_error_def plugin_error_message_def)
qed

definition sticky_test_config :: loaded_config where
  "sticky_test_config = \<lparr>ttl_secs = 30, fallback_backends = [''127.0.0.1:9001'', ''127.0.0.1:9002''],
     listener_backends = [(''listener-a'', [''127.0.0.1:9101'', ''127.0.0.1:9102''])]\<rparr>"

lemma sticky_test_load:
  assumes "toml sticky_test_toml = Ok sticky_test_raw"
  shows "load_state (only_file p sticky_test_toml) toml (sticky_init_context (Some p) None) =
    Ok (shared_state_new sticky_test_config)"
proof -
  have "try_from (file_config_from sticky_test_raw) = Ok sticky_test_config"
    by (simp add: sticky_config_defs file_config_from_def sticky_test_raw_def sticky_test_config_def)
  moreover have "resolve_config_path (sticky_init_context (Some p) None) = p"
    by (simp add: resolve_config_path_def sticky_init_context_def env_value_def)
  ultimately show ?thesis using assms by (simp add: load_state_def only_file_def)
qed

lemma sticky_test_selects:
  assumes "instant_add now1 30 \<noteq> None" and "instant_add now2 30 \<noteq> None"
  obtains b st1 st2 where "b = ''127.0.0.1:9101'' \<or> b = ''127.0.0.1:9102''"
    and "select_backend xxh3 (shared_state_new sticky_test_config) ''listener-a'' ip now1 = Some (Ok b, st1)"
    and "select_backend xxh3 st1 ''listener-a'' ip now2 = Some (Ok b, st2)"
proof -
  let ?pool = "[''127.0.0.1:9101'', ''127.0.0.1:9102'']"
  from assms obtain t1 t2 where t: "instant_add now1 30 = Some t1" "instant_add now2 30 = Some t2" by blast
  have pool: "pool_for_listener sticky_test_config ''listener-a'' = ?pool" "ttl_secs sticky_test_config = 30"
    by (simp_all add: sticky_test_config_def pool_for_listener_def)
  obtain b where c: "choose_backend xxh3 ''listener-a'' ip ?pool = Some b"
    by (simp add: choose_backend_def)
  from choose_backend_in[OF c] have b: "b = ''127.0.0.1:9101'' \<or> b = ''127.0.0.1:9102''" by simp
  define k where "k = \<lparr>sk_listener = ''listener-a'', sk_client_ip = ip\<rparr>"
  define st1 where "st1 = \<lparr>st_config = sticky_test_config,
      st_assignments = [(k, \<lparr>se_backend = b, se_expires_at = t1\<rparr>)]\<rparr>"
  have 1: "select_backend xxh3 (shared_state_new sticky_test_config) ''listener-a'' ip now1 = Some (Ok b, st1)"
    by (simp add: select_backend_def shared_state_new_def Let_def pool c t st1_def k_def)
  have "\<exists>st2. select_backend xxh3 st1 ''listener-a'' ip now2 = Some (Ok b, st2)"
    using b by (auto simp: select_backend_def Let_def st1_def pool c t k_def)
  with 1 b that show ?thesis by blast
qed

lemma sticky_entrypoints_test:
  assumes "toml sticky_test_toml = Ok sticky_test_raw" and "instant_add now1 30 \<noteq> None" and "instant_add now2 30 \<noteq> None"
  shows "load_state_and_entrypoints_cover_route_and_transport_hooks tempdir toml xxh3 alloc now1 now2 = Some ()"
proof -
  obtain b st1 st2 where s: "b = ''127.0.0.1:9101'' \<or> b = ''127.0.0.1:9102''"
    "select_backend xxh3 (shared_state_new sticky_test_config) ''listener-a'' (V4 192 0 2 10) now1 = Some (Ok b, st1)"
    "select_backend xxh3 st1 ''listener-a'' (V4 192 0 2 10) now2 = Some (Ok b, st2)"
    by (rule sticky_test_selects[OF assms(2,3)])
  show ?thesis
    by (simp add: load_state_and_entrypoints_cover_route_and_transport_hooks_def sticky_test_load[where toml = toml, OF assms(1)] s
        sticky_init_def module_ref_def sticky_create_tcp_def sticky_create_udp_def module_instance_def
        sticky_tcp_module_def sticky_udp_module_def ensure_state_def shared_init_default_def Let_def
        expect_continue_def sticky_on_tcp_def sticky_on_udp_def continue_hook_def sticky_shutdown_def)
qed

text \<open>The model passes the unit tests of the plugins, for every temporary directory, every hash and
  allocator, every state of the no-op plugin's world, and at any instants at which the time to live
  fits the clock, provided the parser reads the config file of the test as what it says; all but
  one: the routing test of the HTTP middleware panics, as its context has no transport metadata.\<close>

lemma plugin_unit_tests:
  assumes "toml sticky_test_toml = Ok sticky_test_raw" and "instant_add now1 30 \<noteq> None" and "instant_add now2 30 \<noteq> None"
  shows "exports_http_only handle = Some () \<and> local_reply_is_set_for_local_reply_path handle = Some () \<and>
    init_loads_backend_from_env_and_routes_upstream handle = None \<and> response_callbacks_are_callable handle = Some () \<and>
    get_library_exports_all_protocol_modules w = Some () \<and>
    http_callbacks_are_callable_with_real_and_null_contexts w = Some () \<and>
    http_request_can_short_circuit_with_local_reply w = Some () \<and>
    tcp_callbacks_are_callable w = Some () \<and> udp_callbacks_are_callable w = Some () \<and>
    abi_decision_types_are_still_noop_shaped = Some () \<and>
    manifest_exports_tcp_and_udp read toml alloc v = Some () \<and>
    parses_config_and_selects_shared_backend_for_tcp_and_udp xxh3 = Some () \<and>
    validate_backend_list_normalization = Some () \<and> config_rejects_empty_backend_pool = Some () \<and>
    route_context_uses_client_ip_not_port xxh3 = Some () \<and>
    resolve_config_path_prefers_env_then_plugin_dir_then_default tempdir = Some () \<and>
    load_state_and_entrypoints_cover_route_and_transport_hooks tempdir toml xxh3 alloc now1 now2 = Some () \<and>
    ensure_state_caches_init_failures tempdir toml = Some ()"
  by (intro conjI mw_unit_tests mw_route_test_panics noop_unit_tests sticky_choice_tests sticky_empty_test
      sticky_path_tests sticky_cache_test sticky_entrypoints_test[where toml = toml, OF assms])

definition sample_toml :: toml_parser where
  "sample_toml s = (if s = sticky_test_toml then Ok sticky_test_raw else Err ''expected a table'')"

lemma plugin_unit_tests_example:
  "load_state_and_entrypoints_cover_route_and_transport_hooks ''/tmp/t'' sample_toml sample_xxh3 (\<lambda>_. 4096) 0 60000000000 = Some () \<and>
   tcp_callbacks_are_callable () = Some ()"
proof -
  have "sample_toml sticky_test_toml = Ok sticky_test_raw" "instant_add 0 30 \<noteq> None" "instant_add 60000000000 30 \<noteq> None"
    by (simp_all add: sample_toml_def instant_add_def)
  from plugin_unit_tests[where toml = sample_toml and w = "()" and tempdir = "''/tmp/t''" and
      alloc = "\<lambda>_. 4096" and ?xxh3.0 = sample_xxh3, OF this] show ?thesis by blast
qed

end
