(* ===== verification/Spec2Isabelle.thy ===== *)
theory Spec2Isabelle
  imports Vakil_Server Vakil_L4_Progress Vakil_Http Plugin_Noop Plugin_Http_Mw Plugin_Sticky Vakil_Tests_Common
    Plugin_Unit_Tests
begin

text \<open>
  A verification library for Vakil, a reverse proxy in Rust whose behaviour is decided by plugins:
  dynamic libraries that export modules for HTTP, TCP and UDP. The program consists of the host
  (crates \<open>vakil-cli\<close>, \<open>vakil-runtime\<close>, \<open>vakil-plugin-host\<close>), the protocol servers (\<open>vakil-http\<close> over
  pingora, \<open>vakil-l4\<close> over rama and tokio), the plugin interface (\<open>vakil-plugin-sys\<close>,
  \<open>vakil-plugin-api\<close>) and three plugins. \<open>main\<close> reads the config, loads the plugins, sorts their
  modules into one chain per protocol and starts three services; each service runs the hooks of its
  chain at every phase of a request, connection or session.

  How the model is written. Every function of the source is a HOL function of the same name, and
  every loop body that is more than one call has a definition of its own. A panic is the value
  \<open>None\<close> of the function; an error is a value \<open>Err\<close> of \<open>result\<close>; early returns are branches. What is
  mutable is threaded: the \<open>world\<close> (\<open>Vakil_Api\<close>) holds the state of all plugins, of a type that is a
  parameter, and the log of every call the host makes across the plugin boundary (libraries opened
  and closed, factories, inits, hooks with module and phase, shutdowns), so the order of calls is
  something theorems can state. A callback is a function from instance, context and plugin state to
  context, result and plugin state, and a pointer to a context is an option, null being \<open>None\<close>.
  Machine integers are words; strings are lists of characters, and byte strings lists of 8-bit words.

  The theories, and the code each one models:
  \<^item> \<open>Vakil_Prelude\<close>: results, the early-exit and the plain \<open>for\<close> loop, and their laws.
  \<^item> \<open>Rust_Str\<close>, \<open>Rust_Net\<close>, \<open>Rust_Net_Text\<close>, \<open>Rust_Path\<close>, \<open>Rust_Std\<close>: what the sources use of the standard
    library: trimming, splitting, numbers, UTF-8; IP addresses, their text forms and parsers; parents
    and joins of paths; instants, windows of slices and the decoding of bytes. Their lemmas are round
    trips of printing and parsing (\<open>Rust_Net_Text\<close> for every IPv4 and IPv6 address, shortened zeros
    included), laws of split and join, and what decoding with replacement characters keeps.
  \<^item> \<open>Vakil_Sys\<close> and \<open>Vakil_Api\<close>: \<open>crates/vakil-plugin-sys\<close> and \<open>crates/vakil-plugin-api\<close>: all data of
    the plugin ABI with its conversions, and the callback types and module tables.
  \<^item> \<open>Vakil_Host\<close>: \<open>crates/vakil-plugin-host\<close>: \<open>LoadedPlugin\<close>. Its lemmas give the exact sequence of
    calls of a load and of a drop. The locale \<open>plugin_module\<close> is the contract of \<open>PluginModuleTrait\<close>,
    \<open>module_slot\<close> adds the slot of \<open>LoadedPluginModules\<close>; both are interpreted for the three protocols.
  \<^item> \<open>Vakil_Runtime\<close>: \<open>crates/vakil-runtime/src/lib.rs\<close>: config, plugin loading, chains, what \<open>run\<close>
    starts. Lemmas: accepted config files, libraries open and closed, and that a successful load has
    loaded exactly the files the configured paths name (\<open>library_files\<close>), in order (\<open>loads\<close>).
  \<^item> \<open>Vakil_Http\<close>: \<open>crates/vakil-http\<close> and \<open>crates/vakil-runtime/src/http.rs\<close>: every phase of an HTTP
    request. The locale \<open>http_hooks\<close> states what every implementation of the hooks keeps, and is
    interpreted for the no-op hooks and the plugins' hooks. \<open>consulted\<close> and \<open>passed\<close> relate the
    states before and after modules that chose no upstream and left no reply, and give exact
    descriptions of what the routing and request filters do; \<open>looks\<close> is a hook that leaves its context
    alone and whose effect on the plugins' state tells which contexts it was shown.
  \<^item> \<open>Vakil_L4\<close>: \<open>crates/vakil-l4\<close> and \<open>crates/vakil-runtime/src/l4.rs\<close>. \<open>tcp_transfer\<close> is the loop as
    written; \<open>transfer_step\<close> is the same loop between two await points, and \<open>join_step\<close> the relation in
    which \<open>try_join!\<close> lets either direction go on; \<open>try_join\<close> runs a given schedule. The locales
    \<open>l4_hooks\<close>, \<open>tcp_hooks\<close> and \<open>udp_hooks\<close> are the contracts of the hooks, interpreted for both
    implementations. \<open>Vakil_L4_Progress\<close> adds liveness: a schedule is \<open>fair\<close> when it polls both directions
    again and again, and then the join ends and everything has been delivered.
  \<^item> \<open>Vakil_Cli\<close>: \<open>crates/vakil-cli\<close>: \<open>main\<close>.
  \<^item> \<open>Vakil_Server\<close>: the composition: \<open>serving\<close> is the step relation of a running server, one phase of one
    HTTP request, TCP connection or UDP session at a time, in any order; \<open>tcp_serve\<close> and \<open>udp_serve\<close> are
    runs of it. \<open>bracketed\<close> reads the log of calls as a bracket language of inits and shutdowns.
  \<^item> \<open>Plugin_Noop\<close>, \<open>Plugin_Http_Mw\<close>, \<open>Plugin_Sticky\<close>: the three plugins under \<open>plugins/\<close>. For the sticky
    plugin the abstract specification of the assignment cache is the hash of listener and client
    (\<open>sticky_answer\<close>), and the cache refines it; \<open>init_all\<close> runs any sequence of initialisations.
  \<^item> \<open>Vakil_Tests_Common\<close>: \<open>crates/vakil-tests-common\<close>, the helpers of the integration tests: the loop that
    waits for a port, two backends and the loop in which they read a request, the client, and hooks
    that count their calls, a third interpretation of \<open>http_hooks\<close>. What is proved of waiting is stated
    over a log of the connection attempts and their outcomes.
  \<^item> \<open>Vakil_Unit_Tests\<close>, \<open>Plugin_Unit_Tests\<close>: the \<open>tests\<close> modules of the crates and the plugins, translated
    test by test and run on the model as a check of its definitions, for every value of what the
    tests leave to the environment; one of them fails on the code as it is (\<open>mw_route_test_panics\<close>).
  \<^item> This theory: a property across all of them, from the command line to a request.

  Parameters, that is, code that is not in the repository: pingora (a record of the functions the
  hooks call on it, \<open>pingora\<close>), the dynamic loader (\<open>dlopen\<close>), the file system and the environment,
  clap's result, random numbers, the sockets (streams of read results, a function for writes and one
  for connects), the TOML parser, the xxh3 hash, the clock and the allocator of the sticky plugin.

  Bounds. There is no fuel in the model: loops over lists are structural, the transfer between two
  await points is a step, and a run of \<open>try_join\<close> is as long as the schedule it is given;
  \<open>transfer_steps_refine\<close> says how many steps a transfer of given reads takes. The one loop that need not
  end, \<open>wait_loop\<close>, is a partial function, and \<open>wait_for_port_returns\<close> proves that it does.

  Not modelled: log output (but the panics of what is evaluated for it), the \<open>Debug\<close> instances, the
  wait for the servers at the end of \<open>run\<close>, and the integration tests under \<open>tests/\<close>, which start
  processes and cargo builds. pingora's order of the phases of a request is not part of the
  repository, so \<open>serving\<close> allows every order. Two phases never overlap in the model: a hook runs to
  its end before the next one starts. A listening socket that cannot be opened is an error the server
  task logs; the model of \<open>run\<close> stops at what is started.
\<close>

section \<open>From the command line to a routed request\<close>

lemma mw_hooks: "http_modules (hooks_from_loaded [mw_plugin handle]) = [mw_http_module handle]"
  by (simp add: hooks_from_loaded_def mw_plugin_def modules_default_def List.map_filter_def)

text \<open>C1: the program does what its configuration says, from the command line to a request. Started with a
  config file that gives an HTTP address and the library of the HTTP middleware plugin, it serves HTTP
  on that address with that plugin's hooks, whatever the environment says about either; and every
  request with its metadata that is then proxied goes to the plugin's next upstream, whatever
  requests were served before.\<close>

theorem configured_plugin_routes:
  assumes "cli_config args = Some conf" and "CHR 0x00 \<notin> set conf"
    and "parse_socket_addr addr \<noteq> None" and "CHR 0x0A \<notin> set addr"
    and "p \<noteq> []" and "trimmed p" and "CHR '';'' \<notin> set p" and "CHR 0x0A \<notin> set p"
  shows "\<exists>hooks rest W1.
    cli_main
      (text_fs (config_text ''http_listen_addr'' addr @ [CHR 0x0A] @ config_text ''plugin_paths'' p @ [CHR 0x0A]))
      (\<lambda>_. Ok (mw_dylib handle)) (Ok ()) vars args (mw_world 0 []) =
      Some (Ok (HttpService addr hooks # rest), W1) \<and>
    W1 = mw_world 0 [OpenLibrary p, GetLibrary, Factory HttpProto, Init HttpProto (Ptr handle)] \<and>
    (\<forall>X uri peer ses ctx n cs.
       request ctx \<noteq> None \<longrightarrow> transport ctx \<noteq> None \<longrightarrow>
       build_uri X (snd (mw_target n)) = Some uri \<longrightarrow>
       http_peer_new X (mw_hosts ! (unat n mod 3), 80) False (mw_hosts ! (unat n mod 3)) = Some (peer :: 'peer) \<longrightarrow>
       plugin_upstream_peer X (http_modules hooks) (ses, ctx, mw_world n cs) =
         Some (Ok peer, set_uri uri ses, snd (set_route ctx (mw_route n)),
           mw_world (n + 1) (cs @ [Hook HttpProto OnRoute (Ptr handle)])))"
proof -
  define fs where "fs = text_fs (config_text ''http_listen_addr'' addr @ [CHR 0x0A] @ config_text ''plugin_paths'' p @ [CHR 0x0A])"
  let ?W = "mw_world 0 [OpenLibrary p, GetLibrary, Factory HttpProto, Init HttpProto (Ptr handle)]"
  have parsed: "parse_config_file fs path = Ok \<lparr>o_http_listen_addr = Some addr, o_plugin_paths = Some [p]\<rparr>" for path
    using config_file_text[of addr "[p]" path] assms(3-8) by (simp add: fs_def)
  have load: "load_plugins fs (\<lambda>_. Ok (mw_dylib handle)) vs [p] (mw_world 0 []) = Some (Ok [mw_plugin handle], ?W)" for vs
    by (simp add: load_plugins_def load_path_def fs_def text_fs_def load_push_def mw_loads)
  have "\<exists>rest. cli_main fs (\<lambda>_. Ok (mw_dylib handle)) (Ok ()) vars args (mw_world 0 []) =
      Some (Ok (HttpService addr (hooks_from_loaded [mw_plugin handle]) # rest), ?W)"
    using assms(1,2)
    by (simp add: cli_main_def set_var_def update_conv' config_from_env_def parsed Let_def runtime_build_def load
        runtime_run_def split: commands.splits)
  then show ?thesis unfolding fs_def
    by (auto intro!: exI[of _ "hooks_from_loaded [mw_plugin handle]"]
        simp: mw_hooks plugin_upstream_peer_def mw_route_module)
qed

theorem configured_plugin_routes_witness:
  "\<exists>hooks rest W1.
    cli_main
      (text_fs (config_text ''http_listen_addr'' (show_socket_v4 127 0 0 1 9090) @ [CHR 0x0A] @
        config_text ''plugin_paths'' ''/opt/mw.so'' @ [CHR 0x0A]))
      (\<lambda>_. Ok (mw_dylib 1)) (Ok ()) [(''VAKIL_PLUGIN_PATHS'', ''/none.so'')]
      \<lparr>cli_config = Some ''v.conf'', cli_verbose = 0, cli_command = Some Run\<rparr> (mw_world 0 []) =
      Some (Ok (HttpService (show_socket_v4 127 0 0 1 9090) hooks # rest), W1)"
  using configured_plugin_routes[of "\<lparr>cli_config = Some ''v.conf'', cli_verbose = 0, cli_command = Some Run\<rparr>"
      "''v.conf''" "show_socket_v4 127 0 0 1 9090" "''/opt/mw.so''" 1 "[(''VAKIL_PLUGIN_PATHS'', ''/none.so'')]"]
  by (auto simp: parse_socket_addr_show sample_addr_newline trimmed_def is_whitespace_def)

end
